(* ===== verification/Veri_Prelude.thy ===== *)
theory Veri_Prelude
  imports Main "HOL-Library.Word" "HOL-Library.Sublist"
begin

text \<open>
  Shared vocabulary of the development: the machine types of the Rust code, results as
  sums (\<open>Inl\<close> is \<open>Err\<close>, \<open>Inr\<close> is \<open>Ok\<close>), the \<open>?\<close> operator and the generic lemmas
  the components share.  The collection \<open>result_simps\<close> holds the equations of the
  operators on results, \<open>wf_intros\<close> the introduction rules of the well-formedness
  predicates.
\<close>

named_theorems result_simps
named_theorems wf_intros

section \<open>Machine types\<close>

text \<open>
  A byte is an 8-bit word, \<open>u32\<close>, \<open>u64\<close> and \<open>i64\<close> are words of their width; an
  \<open>i64\<close> is read with \<^const>\<open>sint\<close>.  A Rust \<open>String\<close> is its UTF-8 bytes, as a list of
  \<^typ>\<open>char\<close>.  A fixed array \<open>[u8; n]\<close> is a byte list whose length is stated where it
  matters.  A \<open>SystemTime\<close> is the signed number of nanoseconds since the Unix epoch.
\<close>

type_synonym u8 = "8 word"
type_synonym u32 = "32 word"
type_synonym u64 = "64 word"
type_synonym i64 = "64 word"
type_synonym bytes = "8 word list"
type_synonym str = "char list"
type_synonym system_time = int

definition as_bytes :: "str \<Rightarrow> bytes" where
  "as_bytes s = map of_char s"

lemma length_as_bytes [simp]: "length (as_bytes s) = length s"
  by (simp add: as_bytes_def)

text \<open>The string with given bytes, once they are known to be UTF-8.\<close>

definition str_of_bytes :: "bytes \<Rightarrow> str" where
  "str_of_bytes b = map (\<lambda>w. char_of (unat w)) b"

lemma as_bytes_str_of_bytes [simp]: "as_bytes (str_of_bytes b) = b"
proof -
  have "(of_char (char_of (unat w)) :: u8) = w" for w :: u8
  proof -
    have "(of_char (char_of (unat w)) :: u8) = of_nat (of_char (char_of (unat w)))"
      by (simp only: of_nat_of_char)
    also have "(of_char (char_of (unat w)) :: nat) = unat w"
      using unsigned_less [of w, where ?'a = nat] by (simp add: take_bit_eq_mod)
    finally show ?thesis by simp
  qed
  then show ?thesis by (simp add: as_bytes_def str_of_bytes_def o_def)
qed

lemma str_of_bytes_as_bytes [simp]: "str_of_bytes (as_bytes s) = s"
proof -
  have "char_of (unat (of_char c :: u8)) = c" for c
  proof -
    have lt: "(of_char c :: nat) < 256" by simp
    have "unat (of_char c :: u8) = unat (of_nat (of_char c) :: u8)"
      by (simp only: of_nat_of_char)
    also have "\<dots> = of_char c"
      using lt by (simp add: unat_of_nat take_bit_eq_mod)
    finally show ?thesis by simp
  qed
  then show ?thesis by (simp add: as_bytes_def str_of_bytes_def o_def map_idI)
qed

section \<open>Results\<close>

type_synonym ('e, 'a) result = "'e + 'a"

abbreviation Err :: "'e \<Rightarrow> ('e, 'a) result" where
  "Err \<equiv> Inl"

abbreviation Ok :: "'a \<Rightarrow> ('e, 'a) result" where
  "Ok \<equiv> Inr"

text \<open>The \<open>?\<close> operator, \<open>map_err\<close>, \<open>ok_or\<close> and \<open>is_ok\<close>.\<close>

fun and_then :: "('e, 'a) result \<Rightarrow> ('a \<Rightarrow> ('e, 'b) result) \<Rightarrow> ('e, 'b) result" where
  and_then_Err: "and_then (Inl e) f = Inl e"
| and_then_Ok: "and_then (Inr x) f = f x"

fun map_err :: "('e \<Rightarrow> 'f) \<Rightarrow> ('e, 'a) result \<Rightarrow> ('f, 'a) result" where
  map_err_Err: "map_err f (Inl e) = Inl (f e)"
| map_err_Ok: "map_err f (Inr x) = Inr x"

fun ok_or :: "'e \<Rightarrow> 'a option \<Rightarrow> ('e, 'a) result" where
  ok_or_None: "ok_or e None = Inl e"
| ok_or_Some: "ok_or e (Some x) = Inr x"

fun is_ok :: "('e, 'a) result \<Rightarrow> bool" where
  is_ok_Err: "is_ok (Inl e) = False"
| is_ok_Ok: "is_ok (Inr x) = True"

text \<open>An early return guarded by a condition: \<open>if c { return Err(e) }\<close>.\<close>

definition reject_if :: "bool \<Rightarrow> 'e \<Rightarrow> ('e, unit) result" where
  "reject_if c e = (if c then Inl e else Inr ())"

lemma and_then_eq_Ok [result_simps]:
  "and_then r f = Inr y \<longleftrightarrow> (\<exists>x. r = Inr x \<and> f x = Inr y)"
  by (cases r) auto

lemma map_err_eq_Ok [result_simps]: "map_err f r = Inr y \<longleftrightarrow> r = Inr y"
  by (cases r) auto

lemma map_err_eq_Err [result_simps]:
  "map_err f r = Inl e \<longleftrightarrow> (\<exists>e'. r = Inl e' \<and> e = f e')"
  by (cases r) auto

lemma ok_or_eq_Ok [result_simps]: "ok_or e x = Inr y \<longleftrightarrow> x = Some y"
  by (cases x) auto

lemma reject_if_eq_Ok [result_simps]: "reject_if c e = Inr u \<longleftrightarrow> \<not> c"
  by (simp add: reject_if_def)

lemma reject_if_simps [simp]:
  "reject_if True e = Inl e" "reject_if False e = Inr ()"
  by (simp_all add: reject_if_def)

lemma is_ok_iff [result_simps]: "is_ok r \<longleftrightarrow> (\<exists>x. r = Inr x)"
  by (cases r) auto

lemma and_then_eq_Err [result_simps]:
  "and_then r f = Inl e \<longleftrightarrow> r = Inl e \<or> (\<exists>x. r = Inr x \<and> f x = Inl e)"
  by (cases r) auto

lemma and_then_cong [fundef_cong]:
  "r = r' \<Longrightarrow> (\<And>x. r' = Inr x \<Longrightarrow> f x = g x) \<Longrightarrow> and_then r f = and_then r' g"
  by (cases r') auto

section \<open>Integers\<close>

text \<open>\<open>i64::checked_sub\<close>, \<open>i64::abs\<close> (which wraps at the minimum in a release build)
  and \<open>u64::checked_add\<close>.\<close>

definition i64_in_range :: "int \<Rightarrow> bool" where
  "i64_in_range d \<longleftrightarrow> - (2 ^ 63) \<le> d \<and> d < 2 ^ 63"

definition checked_sub_i64 :: "i64 \<Rightarrow> i64 \<Rightarrow> i64 option" where
  "checked_sub_i64 a b =
     (let d = sint a - sint b in if i64_in_range d then Some (word_of_int d) else None)"

definition abs_i64 :: "i64 \<Rightarrow> i64" where
  "abs_i64 x = (if sint x < 0 then - x else x)"

definition checked_add_u64 :: "u64 \<Rightarrow> u64 \<Rightarrow> u64 option" where
  "checked_add_u64 a b = (if unat a + unat b < 2 ^ 64 then Some (a + b) else None)"

lemma sint_word_of_int_i64: "i64_in_range d \<Longrightarrow> sint (word_of_int d :: i64) = d"
  unfolding i64_in_range_def
  by (simp add: signed_of_int signed_take_bit_int_eq_self)

lemma i64_in_range_sint [simp]: "i64_in_range (sint (x :: i64))"
  using sint_ge [of x] sint_lt [of x] by (simp add: i64_in_range_def)

lemma i64_eqI: "sint (a :: i64) = sint b \<Longrightarrow> a = b"
  by (metis of_int_sint scast_id)

lemma sint_sub_i64:
  "i64_in_range (sint a - sint b) \<Longrightarrow> sint ((a :: i64) - b) = sint a - sint b"
  using sint_word_of_int_i64 [of "sint a - sint b"] by simp

lemma checked_sub_i64_Some:
  "checked_sub_i64 a b = Some d \<longleftrightarrow>
     i64_in_range (sint a - sint b) \<and> sint d = sint a - sint b"
  by (auto simp: checked_sub_i64_def Let_def sint_sub_i64 intro: i64_eqI)

lemma checked_sub_i64_None:
  "checked_sub_i64 a b = None \<longleftrightarrow> \<not> i64_in_range (sint a - sint b)"
  by (simp add: checked_sub_i64_def Let_def)

lemma sint_abs_i64:
  assumes "sint x \<noteq> - (2 ^ 63)"
  shows "sint (abs_i64 x) = \<bar>sint x\<bar>"
proof (cases "sint x < 0")
  case True
  have "i64_in_range (- sint x)"
    using assms sint_ge [of x] sint_lt [of x] by (simp add: i64_in_range_def)
  moreover have "- x = word_of_int (- sint x)"
    by simp
  ultimately show ?thesis
    using True by (simp only: abs_i64_def if_True sint_word_of_int_i64 abs_of_neg)
qed (simp add: abs_i64_def)

lemma checked_add_u64_Some:
  "checked_add_u64 a b = Some c \<longleftrightarrow> unat a + unat b < 2 ^ 64 \<and> unat c = unat a + unat b"
  by (auto simp: checked_add_u64_def unat_word_ariths word_unat_eq_iff)

lemma sint_word_of_int_small:
  "0 \<le> k \<Longrightarrow> k < 2 ^ 63 \<Longrightarrow> sint (word_of_int k :: i64) = k"
  by (rule sint_word_of_int_i64) (simp add: i64_in_range_def)

section \<open>Lists\<close>

lemma append_eq_same_length:
  "length a = length c \<Longrightarrow> a @ b = c @ d \<longleftrightarrow> a = c \<and> b = d"
  by simp

end
