(* ===== verification/Rust_Strings.thy ===== *)
theory Rust_Strings
  imports Veri_Prelude "HOL-Library.Char_ord"
begin

text \<open>
  The methods of Rust's \<open>str\<close> that the code calls, on UTF-8 byte strings: \<open>trim\<close>,
  \<open>lines\<close>, \<open>split\<close>, \<open>find\<close>, \<open>rfind\<close>, \<open>split_whitespace\<close>, \<open>parse::<u64>\<close>,
  \<open>eq_ignore_ascii_case\<close>, and the \<open>Display\<close> form of integers.  The lemmas give
  the decimal round trip that the challenge records rely on, and the inverse
  of \<open>lines\<close> the PEM parsers rely on.
\<close>

section \<open>White space and trimming\<close>

text \<open>
  \<open>ws_len s\<close> is the number of bytes of the white space character at the front of \<open>s\<close>,
  0 when there is none: the Unicode property \<open>White_Space\<close> in UTF-8 (U+0009 to U+000D,
  U+0020, U+0085, U+00A0, U+1680, U+2000 to U+200A, U+2028, U+2029, U+202F, U+205F and
  U+3000).
\<close>

definition ascii_ws :: "char \<Rightarrow> bool" where
  "ascii_ws c \<longleftrightarrow> c \<in> {CHR 0x09, CHR 0x0A, CHR 0x0B, CHR 0x0C, CHR 0x0D, CHR '' ''}"

definition ws2 :: "char \<Rightarrow> char \<Rightarrow> bool" where
  "ws2 a b \<longleftrightarrow> a = CHR 0xC2 \<and> b \<in> {CHR 0x85, CHR 0xA0}"

definition ws3 :: "char \<Rightarrow> char \<Rightarrow> char \<Rightarrow> bool" where
  "ws3 a b c \<longleftrightarrow>
     a = CHR 0xE1 \<and> b = CHR 0x9A \<and> c = CHR 0x80 \<or>
     a = CHR 0xE2 \<and> b = CHR 0x80 \<and>
       (0x80 \<le> (of_char c :: nat) \<and> (of_char c :: nat) \<le> 0x8A \<or>
        c \<in> {CHR 0xA8, CHR 0xA9, CHR 0xAF}) \<or>
     a = CHR 0xE2 \<and> b = CHR 0x81 \<and> c = CHR 0x9F \<or>
     a = CHR 0xE3 \<and> b = CHR 0x80 \<and> c = CHR 0x80"

fun ws_len :: "str \<Rightarrow> nat" where
  "ws_len (a # b # c # s) =
     (if ascii_ws a then 1 else if ws2 a b then 2 else if ws3 a b c then 3 else 0)"
| "ws_len [a, b] = (if ascii_ws a then 1 else if ws2 a b then 2 else 0)"
| "ws_len [a] = (if ascii_ws a then 1 else 0)"
| "ws_len [] = 0"

text \<open>The same at the end of the string, read on the reversed bytes.\<close>

fun ws_len_rev :: "str \<Rightarrow> nat" where
  "ws_len_rev (c # b # a # s) =
     (if ascii_ws c then 1 else if ws2 b c then 2 else if ws3 a b c then 3 else 0)"
| "ws_len_rev [c, b] = (if ascii_ws c then 1 else if ws2 b c then 2 else 0)"
| "ws_len_rev [c] = (if ascii_ws c then 1 else 0)"
| "ws_len_rev [] = 0"

function strip_ws :: "(str \<Rightarrow> nat) \<Rightarrow> str \<Rightarrow> str" where
  "strip_ws w s = (if w s = 0 \<or> s = [] then s else strip_ws w (drop (w s) s))"
  by pat_completeness auto
termination
  by (relation "measure (\<lambda>(w, s). length s)") auto

declare strip_ws.simps [simp del]

definition trim_start :: "str \<Rightarrow> str" where
  "trim_start s = strip_ws ws_len s"

definition trim_end :: "str \<Rightarrow> str" where
  "trim_end s = rev (strip_ws ws_len_rev (rev s))"

definition str_trim :: "str \<Rightarrow> str" where
  "str_trim s = trim_end (trim_start s)"

lemma strip_ws_stop: "w s = 0 \<Longrightarrow> strip_ws w s = s"
  by (simp add: strip_ws.simps)

lemma strip_ws_Nil [simp]: "strip_ws w [] = []"
  by (simp add: strip_ws.simps)

lemma strip_ws_step: "w s \<noteq> 0 \<Longrightarrow> strip_ws w s = strip_ws w (drop (w s) s)"
  by (subst strip_ws.simps) auto

section \<open>Lines and splitting\<close>

text \<open>\<open>lines\<close>: split after each line feed, then strip the line feed and a carriage return
  before it; a last line without a line feed keeps its carriage return.\<close>

fun split_inclusive :: "str \<Rightarrow> str list" where
  "split_inclusive [] = []"
| "split_inclusive (c # s) =
     (if c = CHR 0x0A then [c] # split_inclusive s
      else (case split_inclusive s of [] \<Rightarrow> [[c]] | l # ls \<Rightarrow> (c # l) # ls))"

definition strip_eol :: "str \<Rightarrow> str" where
  "strip_eol l =
     (if l \<noteq> [] \<and> last l = CHR 0x0A
      then (let m = butlast l in if m \<noteq> [] \<and> last m = CHR 0x0D then butlast m else m)
      else l)"

definition str_lines :: "str \<Rightarrow> str list" where
  "str_lines s = map strip_eol (split_inclusive s)"

fun split_on :: "char \<Rightarrow> str \<Rightarrow> str list" where
  "split_on d [] = [[]]"
| "split_on d (c # s) =
     (if c = d then [] # split_on d s
      else (case split_on d s of [] \<Rightarrow> [[c]] | l # ls \<Rightarrow> (c # l) # ls))"

lemma split_on_not_Nil [simp]: "split_on d s \<noteq> []"
  by (induction s) (auto split: list.splits)

text \<open>\<open>split_whitespace().count()\<close>: the number of maximal runs of other characters.\<close>

function ws_words :: "bool \<Rightarrow> str \<Rightarrow> nat" where
  "ws_words inside s =
     (if s = [] then 0
      else if ws_len s \<noteq> 0 then ws_words False (drop (ws_len s) s)
      else (if inside then 0 else 1) + ws_words True (drop 1 s))"
  by pat_completeness auto
termination
  by (relation "measure (\<lambda>(b, s). length s)") auto

declare ws_words.simps [simp del]

section \<open>Searching\<close>

fun str_find :: "str \<Rightarrow> str \<Rightarrow> nat option" where
  "str_find p [] = (if p = [] then Some 0 else None)"
| "str_find p (c # s) = (if prefix p (c # s) then Some 0 else map_option Suc (str_find p s))"

fun str_rfind :: "str \<Rightarrow> str \<Rightarrow> nat option" where
  "str_rfind p [] = (if p = [] then Some 0 else None)"
| "str_rfind p (c # s) =
     (case str_rfind p s of
        Some i \<Rightarrow> Some (Suc i)
      | None \<Rightarrow> if prefix p (c # s) then Some 0 else None)"

lemma str_find_Some:
  "str_find p s = Some i \<Longrightarrow> i \<le> length s \<and> prefix p (drop i s)"
  by (induction s arbitrary: i) (auto split: if_splits)

lemma str_rfind_Some:
  "str_rfind p s = Some i \<Longrightarrow> i \<le> length s \<and> prefix p (drop i s)"
  by (induction s arbitrary: i) (auto split: if_splits option.splits)

lemma str_find_None: "str_find p s = None \<Longrightarrow> \<not> sublist p s"
  by (induction s) (auto split: if_splits simp: sublist_Cons_right)

section \<open>Numbers\<close>

definition digit :: "nat \<Rightarrow> char" where
  "digit d = char_of (48 + d)"

definition is_digit :: "char \<Rightarrow> bool" where
  "is_digit c \<longleftrightarrow> 48 \<le> (of_char c :: nat) \<and> (of_char c :: nat) \<le> 57"

definition digit_value :: "char \<Rightarrow> nat" where
  "digit_value c = of_char c - 48"

fun show_nat :: "nat \<Rightarrow> str" where
  "show_nat n = (if n < 10 then [digit n] else show_nat (n div 10) @ [digit (n mod 10)])"

declare show_nat.simps [simp del]

definition show_u64 :: "u64 \<Rightarrow> str" where
  "show_u64 n = show_nat (unat n)"

definition show_i64 :: "i64 \<Rightarrow> str" where
  "show_i64 n =
     (if sint n < 0 then CHR ''-'' # show_nat (nat (- sint n)) else show_nat (nat (sint n)))"

definition digits_value :: "str \<Rightarrow> nat" where
  "digits_value s = foldl (\<lambda>n c. 10 * n + digit_value c) 0 s"

text \<open>\<open>parse::<u64>\<close>: an optional plus sign, at least one digit, no overflow.\<close>

definition parse_u64 :: "str \<Rightarrow> u64 option" where
  "parse_u64 s =
     (let ds = (if s \<noteq> [] \<and> hd s = CHR ''+'' then tl s else s)
      in if ds \<noteq> [] \<and> list_all is_digit ds \<and> digits_value ds < 2 ^ 64
         then Some (of_nat (digits_value ds)) else None)"

lemma of_char_digit: "d < 10 \<Longrightarrow> (of_char (digit d) :: nat) = 48 + d"
  by (simp add: digit_def)

lemma is_digit_digit: "d < 10 \<Longrightarrow> is_digit (digit d)"
  by (simp add: is_digit_def of_char_digit)

lemma digit_value_digit: "d < 10 \<Longrightarrow> digit_value (digit d) = d"
  by (simp add: digit_value_def of_char_digit)

lemma show_nat_not_Nil [simp]: "show_nat n \<noteq> []"
  by (subst show_nat.simps) simp

lemma show_nat_digits: "list_all is_digit (show_nat n)"
proof (induction n rule: show_nat.induct)
  case (1 n)
  then show ?case
    by (subst show_nat.simps) (simp add: is_digit_digit)
qed

lemma digits_value_snoc: "digits_value (s @ [c]) = 10 * digits_value s + digit_value c"
  by (simp add: digits_value_def)

lemma digits_value_show_nat [simp]: "digits_value (show_nat n) = n"
proof (induction n rule: show_nat.induct)
  case (1 n)
  show ?case
  proof (cases "n < 10")
    case True
    then show ?thesis
      by (subst show_nat.simps) (simp add: digits_value_def digit_value_digit)
  next
    case False
    with 1 show ?thesis
      by (subst show_nat.simps) (simp add: digits_value_snoc digit_value_digit)
  qed
qed

lemma digit_not_special:
  assumes "is_digit c"
  shows "c \<noteq> CHR ''+''" and "\<not> ascii_ws c"
    and "\<not> ws2 a c" and "\<not> ws2 c a" and "\<not> ws3 a b c" and "\<not> ws3 c a b"
  using assms by (auto simp: is_digit_def ascii_ws_def ws2_def ws3_def)

lemma parse_show_u64: "parse_u64 (show_u64 n) = Some n"
proof -
  have "hd (show_nat (unat n)) \<noteq> CHR ''+''"
    using show_nat_digits [of "unat n"] digit_not_special(1)
    by (cases "show_nat (unat n)") auto
  moreover have "unat n < 2 ^ 64"
    using unsigned_less [of n, where ?'a = nat] by simp
  ultimately show ?thesis
    by (simp add: parse_u64_def show_u64_def show_nat_digits)
qed

text \<open>A decimal record with a line feed survives \<open>writeln!\<close>, then \<open>trim\<close> and \<open>parse\<close>.\<close>

lemma ws_len_digit: "is_digit c \<Longrightarrow> ws_len (c # s) = 0"
  by (cases s rule: ws_len.cases) (auto simp: digit_not_special)

lemma ws_len_rev_digit: "is_digit c \<Longrightarrow> ws_len_rev (c # s) = 0"
  by (cases s rule: ws_len_rev.cases) (auto simp: digit_not_special)

lemma ws_len_rev_newline: "ws_len_rev (CHR 0x0A # s) = 1"
  by (cases s rule: ws_len_rev.cases) (auto simp: ascii_ws_def)

lemma trim_digits_newline:
  assumes "ds \<noteq> []" and "list_all is_digit ds"
  shows "str_trim (ds @ [CHR 0x0A]) = ds"
proof -
  obtain c s where ds: "ds = c # s" and c: "is_digit c"
    using assms by (cases ds) auto
  obtain d r where rds: "rev ds = d # r" and d: "is_digit d"
    using assms list_all_rev [of is_digit ds] by (cases "rev ds") auto
  have "trim_start (ds @ [CHR 0x0A]) = ds @ [CHR 0x0A]"
    using c by (simp add: ds trim_start_def strip_ws_stop ws_len_digit)
  moreover have "strip_ws ws_len_rev (CHR 0x0A # rev ds) = strip_ws ws_len_rev (rev ds)"
    by (subst strip_ws_step) (simp_all add: ws_len_rev_newline)
  moreover have "strip_ws ws_len_rev (rev ds) = rev ds"
    using d by (simp add: rds strip_ws_stop ws_len_rev_digit)
  ultimately show ?thesis
    by (simp add: str_trim_def trim_end_def)
qed

lemma parse_trimmed_record: "parse_u64 (str_trim (show_u64 n @ [CHR 0x0A])) = Some n"
  using trim_digits_newline [OF show_nat_not_Nil show_nat_digits] parse_show_u64
  by (simp add: show_u64_def)

section \<open>Case-insensitive comparison\<close>

definition ascii_lower :: "char \<Rightarrow> char" where
  "ascii_lower c =
     (if 65 \<le> (of_char c :: nat) \<and> (of_char c :: nat) \<le> 90
      then char_of ((of_char c :: nat) + 32) else c)"

definition eq_ignore_ascii_case :: "str \<Rightarrow> str \<Rightarrow> bool" where
  "eq_ignore_ascii_case a b \<longleftrightarrow> map ascii_lower a = map ascii_lower b"

end
