(* ===== verification/Veri_Types.thy ===== *)
theory Veri_Types
  imports Rust_Strings
begin

text \<open>
  The crate \<open>veriai-types\<close>: the attestation document, the claim set with its hand-written
  serde visitor and serializer (\<open>lib.rs\<close>), the error enums with their \<open>Display\<close> texts
  (\<open>error.rs\<close>) and the verification result.  A value on the wire is known only
  through what \<open>next_value::<T>()\<close> returns for the types \<open>T\<close> the visitor asks for, so no
  CBOR encoding is made up here.
\<close>

section \<open>Errors\<close>

text \<open>An error of a third-party crate, known by its \<open>Display\<close> and \<open>Debug\<close> texts.\<close>

datatype ext_error = ExtError (err_display: str) (err_debug: str)

datatype attestation_error =
    HardwareUnavailable str
  | InvalidAttestationDoc str
  | ValidationError str

fun show_attestation_error :: "attestation_error \<Rightarrow> str" where
  "show_attestation_error (HardwareUnavailable m) =
     ''NSM driver hardware unavailable: '' @ m"
| "show_attestation_error (InvalidAttestationDoc m) =
     ''Invalid attestation report signature or structure: '' @ m"
| "show_attestation_error (ValidationError m) =
     ''Attestation document validation failed: '' @ m"

datatype verify_error =
    InvalidCoseSignature
  | InvalidAttestationDocument str
  | AttestationDocTimestampMismatch
  | PcrMismatch
  | PubkeyBindingMismatch
  | ReportDataMismatch
  | TimestampSkewExceeded
  | ModelHashMismatch
  | InputHashMismatch
  | OutputHashMismatch
  | NonceMismatch
  | SequenceNumberExhausted
  | SequenceNumberOutOfOrder
  | EnclaveIdentityChanged
  | MalformedReceipt
  | ReceiptTooLarge
  | ExpiredReceipt
  | UnsupportedAlgorithm
  | UnsupportedAttestationType
  | InvalidProtectedHeader
  | InvalidContentType
  | AlgorithmInUnprotectedHeader
  | InvalidTimestamp
  | InvalidPcrLength
  | ReplayStateUnavailable
  | Attestation str

fun show_verify_error :: "verify_error \<Rightarrow> str" where
  "show_verify_error InvalidCoseSignature = ''Invalid COSE signature''"
| "show_verify_error (InvalidAttestationDocument m) = ''Invalid attestation document: '' @ m"
| "show_verify_error AttestationDocTimestampMismatch =
     ''Attestation document timestamp mismatch with payload timestamp''"
| "show_verify_error PcrMismatch = ''PCR0 value does not match expected value''"
| "show_verify_error PubkeyBindingMismatch =
     ''Enclave ephemeral public key does not match claim 6012''"
| "show_verify_error ReportDataMismatch =
     ''REPORTDATA (user_data) does not match SHA-512 binding hash of public key''"
| "show_verify_error TimestampSkewExceeded =
     ''Timestamp skew exceeds 5-minute skew tolerance''"
| "show_verify_error ModelHashMismatch = ''Model hash does not match expected value''"
| "show_verify_error InputHashMismatch = ''Input hash does not match expected value''"
| "show_verify_error OutputHashMismatch = ''Output hash does not match expected value''"
| "show_verify_error NonceMismatch = ''Client nonce does not match Nitro document nonce''"
| "show_verify_error SequenceNumberExhausted = ''Receipt sequence number is exhausted''"
| "show_verify_error SequenceNumberOutOfOrder =
     ''Sequence number is out of order (not monotonic)''"
| "show_verify_error EnclaveIdentityChanged =
     ''Enclave identity fingerprint changed on stateful verifier''"
| "show_verify_error MalformedReceipt = ''Malformed receipt structure''"
| "show_verify_error ReceiptTooLarge = ''Receipt payload size exceeds limits''"
| "show_verify_error ExpiredReceipt = ''Receipt signature has expired''"
| "show_verify_error UnsupportedAlgorithm =
     ''COSE protected header specifies an unsupported signature algorithm''"
| "show_verify_error UnsupportedAttestationType = ''Unsupported attestation type''"
| "show_verify_error InvalidProtectedHeader =
     ''COSE protected header is missing or invalid''"
| "show_verify_error InvalidContentType =
     ''COSE content type must be application/cwt when present and must be protected''"
| "show_verify_error AlgorithmInUnprotectedHeader =
     ''Security violation: signature algorithm declared in unprotected header''"
| "show_verify_error InvalidTimestamp = ''Timestamp calculation underflow or overflow''"
| "show_verify_error InvalidPcrLength = ''Expected PCR0 must be exactly 48 bytes''"
| "show_verify_error ReplayStateUnavailable = ''Replay state is unavailable''"
| "show_verify_error (Attestation m) = ''Attestation error: '' @ m"

section \<open>Data\<close>

record attestation_doc =
  ad_module_id :: str
  ad_timestamp :: u64
  ad_digest :: str
  ad_pcrs :: "u32 \<rightharpoonup> bytes"
  ad_certificate :: bytes
  ad_cabundle :: "bytes list"
  ad_public_key :: "bytes option"
  ad_user_data :: "bytes option"
  ad_nonce :: "bytes option"

record veri_claims =
  vc_model_hash :: bytes
  vc_input_hash :: bytes
  vc_output_hash :: bytes
  vc_client_nonce :: bytes
  vc_sequence_num :: u64
  vc_attestation_report :: bytes
  vc_attestation_type :: u64
  vc_attestation_timestamp :: i64
  vc_sdk_version :: str
  vc_enclave_pubkey :: bytes

text \<open>The arrays of the claim set are 32 bytes long by their Rust type.\<close>

definition wf_claims :: "veri_claims \<Rightarrow> bool" where
  "wf_claims c \<longleftrightarrow>
     length (vc_model_hash c) = 32 \<and> length (vc_input_hash c) = 32 \<and>
     length (vc_output_hash c) = 32 \<and> length (vc_client_nonce c) = 32 \<and>
     length (vc_enclave_pubkey c) = 32"

record verification_check =
  ck_name :: str
  ck_status :: str
  ck_details :: "str option"

record receipt_info =
  ri_version :: str
  ri_model_hash :: str
  ri_input_hash :: str
  ri_output_hash :: str
  ri_sequence_num :: u64
  ri_timestamp :: i64

record verification_result =
  vr_valid :: bool
  vr_receipt :: "receipt_info option"
  vr_checks :: "verification_check list"
  vr_attestation_provider :: str
  vr_verified_hardware :: bool
  vr_error :: "str option"

section \<open>Claim keys\<close>

definition CLAIM_MODEL_HASH :: i64 where "CLAIM_MODEL_HASH = 6000"
definition CLAIM_INPUT_HASH :: i64 where "CLAIM_INPUT_HASH = 6001"
definition CLAIM_OUTPUT_HASH :: i64 where "CLAIM_OUTPUT_HASH = 6002"
definition CLAIM_CLIENT_NONCE :: i64 where "CLAIM_CLIENT_NONCE = 6003"
definition CLAIM_SEQUENCE_NUM :: i64 where "CLAIM_SEQUENCE_NUM = 6004"
definition CLAIM_ATTESTATION_REPORT :: i64 where "CLAIM_ATTESTATION_REPORT = 6005"
definition CLAIM_ATTESTATION_TYPE :: i64 where "CLAIM_ATTESTATION_TYPE = 6006"
definition CLAIM_ATTESTATION_TIMESTAMP :: i64 where "CLAIM_ATTESTATION_TIMESTAMP = 6007"
definition CLAIM_SDK_VERSION :: i64 where "CLAIM_SDK_VERSION = 6011"
definition CLAIM_ENCLAVE_PUBKEY :: i64 where "CLAIM_ENCLAVE_PUBKEY = 6012"

lemmas claim_keys =
  CLAIM_MODEL_HASH_def CLAIM_INPUT_HASH_def CLAIM_OUTPUT_HASH_def CLAIM_CLIENT_NONCE_def
  CLAIM_SEQUENCE_NUM_def CLAIM_ATTESTATION_REPORT_def CLAIM_ATTESTATION_TYPE_def
  CLAIM_ATTESTATION_TIMESTAMP_def CLAIM_SDK_VERSION_def CLAIM_ENCLAVE_PUBKEY_def

section \<open>Serialization\<close>

text \<open>
  The serializer calls of the code: a \<open>&[u8]\<close> or \<open>&Vec<u8>\<close> goes out as a serde
  sequence of \<open>u8\<close> (serde does not treat it as a byte string), \<open>u64\<close>, \<open>i64\<close> and
  \<open>String\<close> as themselves.
\<close>

datatype ser_value = SerSeqU8 bytes | SerU64 u64 | SerI64 i64 | SerStr str

definition serialize_claims :: "veri_claims \<Rightarrow> (i64 \<times> ser_value) list" where
  "serialize_claims c =
     [(CLAIM_MODEL_HASH, SerSeqU8 (vc_model_hash c)),
      (CLAIM_INPUT_HASH, SerSeqU8 (vc_input_hash c)),
      (CLAIM_OUTPUT_HASH, SerSeqU8 (vc_output_hash c)),
      (CLAIM_CLIENT_NONCE, SerSeqU8 (vc_client_nonce c)),
      (CLAIM_SEQUENCE_NUM, SerU64 (vc_sequence_num c)),
      (CLAIM_ATTESTATION_REPORT, SerSeqU8 (vc_attestation_report c)),
      (CLAIM_ATTESTATION_TYPE, SerU64 (vc_attestation_type c)),
      (CLAIM_ATTESTATION_TIMESTAMP, SerI64 (vc_attestation_timestamp c)),
      (CLAIM_SDK_VERSION, SerStr (vc_sdk_version c)),
      (CLAIM_ENCLAVE_PUBKEY, SerSeqU8 (vc_enclave_pubkey c))]"

end
