(* ===== verification/Claims_Codec.thy ===== *)
theory Claims_Codec
  imports Veri_Types
begin

text \<open>
  The hand-written \<open>Deserialize\<close> implementation of \<open>VeriClaims\<close>
  (\<open>crates/veriai-types/src/lib.rs\<close>): a visitor that reads a stream of map entries, keeps
  one optional slot per claim, refuses reserved keys and arrays of the wrong length, and
  demands every claim at the end.  The lemmas characterise its accepted streams
  completely: every entry must decode, and each claim is the value of the last entry
  with its key.
\<close>

section \<open>The wire\<close>

text \<open>
  What \<open>next_value\<close> returns for one value, per requested type.  A stream of entries
  (serde's \<open>MapAccess\<close>) is a list; an \<open>Err\<close> item is a failing \<open>next_key::<i64>()\<close>.
\<close>

record wire_value =
  wv_byte_vec :: "(ext_error, bytes) result"
  wv_u64 :: "(ext_error, u64) result"
  wv_i64 :: "(ext_error, i64) result"
  wv_string :: "(ext_error, str) result"
  wv_ignored :: "(ext_error, unit) result"

type_synonym map_access = "(ext_error, i64 \<times> wire_value) result list"

datatype de_error = DeLibrary ext_error | DeCustom str | DeMissingField str

section \<open>The visitor\<close>

record claim_slots =
  sl_model_hash :: "bytes option"
  sl_input_hash :: "bytes option"
  sl_output_hash :: "bytes option"
  sl_client_nonce :: "bytes option"
  sl_sequence_num :: "u64 option"
  sl_attestation_report :: "bytes option"
  sl_attestation_type :: "u64 option"
  sl_attestation_timestamp :: "i64 option"
  sl_sdk_version :: "str option"
  sl_enclave_pubkey :: "bytes option"

definition empty_slots :: claim_slots where
  "empty_slots =
     \<lparr>sl_model_hash = None, sl_input_hash = None, sl_output_hash = None,
      sl_client_nonce = None, sl_sequence_num = None, sl_attestation_report = None,
      sl_attestation_type = None, sl_attestation_timestamp = None, sl_sdk_version = None,
      sl_enclave_pubkey = None\<rparr>"

definition read_array32 :: "str \<Rightarrow> wire_value \<Rightarrow> (de_error, bytes) result" where
  "read_array32 msg v =
     and_then (map_err DeLibrary (wv_byte_vec v))
       (\<lambda>val. if length val = 32 then Ok val else Err (DeCustom msg))"

text \<open>One turn of the \<open>while let Some(key) = map.next_key()?\<close> loop: the \<open>match key\<close>.\<close>

definition visit_entry ::
  "i64 \<Rightarrow> wire_value \<Rightarrow> claim_slots \<Rightarrow> (de_error, claim_slots) result" where
  "visit_entry key v s =
     (if key = CLAIM_MODEL_HASH then
        and_then (read_array32 ''invalid model-hash length'' v)
          (\<lambda>arr. Ok (s\<lparr>sl_model_hash := Some arr\<rparr>))
      else if key = CLAIM_INPUT_HASH then
        and_then (read_array32 ''invalid input-hash length'' v)
          (\<lambda>arr. Ok (s\<lparr>sl_input_hash := Some arr\<rparr>))
      else if key = CLAIM_OUTPUT_HASH then
        and_then (read_array32 ''invalid output-hash length'' v)
          (\<lambda>arr. Ok (s\<lparr>sl_output_hash := Some arr\<rparr>))
      else if key = CLAIM_CLIENT_NONCE then
        and_then (read_array32 ''invalid client-nonce length'' v)
          (\<lambda>arr. Ok (s\<lparr>sl_client_nonce := Some arr\<rparr>))
      else if key = CLAIM_SEQUENCE_NUM then
        and_then (map_err DeLibrary (wv_u64 v)) (\<lambda>n. Ok (s\<lparr>sl_sequence_num := Some n\<rparr>))
      else if key = CLAIM_ATTESTATION_REPORT then
        and_then (map_err DeLibrary (wv_byte_vec v))
          (\<lambda>b. Ok (s\<lparr>sl_attestation_report := Some b\<rparr>))
      else if key = CLAIM_ATTESTATION_TYPE then
        and_then (map_err DeLibrary (wv_u64 v)) (\<lambda>n. Ok (s\<lparr>sl_attestation_type := Some n\<rparr>))
      else if key = CLAIM_ATTESTATION_TIMESTAMP then
        and_then (map_err DeLibrary (wv_i64 v))
          (\<lambda>n. Ok (s\<lparr>sl_attestation_timestamp := Some n\<rparr>))
      else if key = CLAIM_SDK_VERSION then
        and_then (map_err DeLibrary (wv_string v)) (\<lambda>t. Ok (s\<lparr>sl_sdk_version := Some t\<rparr>))
      else if key = CLAIM_ENCLAVE_PUBKEY then
        and_then (read_array32 ''invalid enclave-pubkey length'' v)
          (\<lambda>arr. Ok (s\<lparr>sl_enclave_pubkey := Some arr\<rparr>))
      else if 6008 \<le> sint key \<and> sint key \<le> 6010 then
        Err (DeCustom (''claim key '' @ show_i64 key @ '' is reserved''))
      else and_then (map_err DeLibrary (wv_ignored v)) (\<lambda>_. Ok s))"

fun visit_entries :: "map_access \<Rightarrow> claim_slots \<Rightarrow> (de_error, claim_slots) result" where
  "visit_entries [] s = Ok s"
| "visit_entries (Inl e # es) s = Err (DeLibrary e)"
| "visit_entries (Inr (key, v) # es) s =
     and_then (visit_entry key v s) (\<lambda>s'. visit_entries es s')"

definition require_slots :: "claim_slots \<Rightarrow> (de_error, veri_claims) result" where
  "require_slots s =
     and_then (ok_or (DeMissingField ''model_hash'') (sl_model_hash s)) (\<lambda>model_hash.
     and_then (ok_or (DeMissingField ''input_hash'') (sl_input_hash s)) (\<lambda>input_hash.
     and_then (ok_or (DeMissingField ''output_hash'') (sl_output_hash s)) (\<lambda>output_hash.
     and_then (ok_or (DeMissingField ''client_nonce'') (sl_client_nonce s)) (\<lambda>client_nonce.
     and_then (ok_or (DeMissingField ''sequence_num'') (sl_sequence_num s)) (\<lambda>sequence_num.
     and_then (ok_or (DeMissingField ''attestation_report'') (sl_attestation_report s))
       (\<lambda>attestation_report.
     and_then (ok_or (DeMissingField ''attestation_type'') (sl_attestation_type s))
       (\<lambda>attestation_type.
     and_then (ok_or (DeMissingField ''attestation_timestamp'') (sl_attestation_timestamp s))
       (\<lambda>attestation_timestamp.
     and_then (ok_or (DeMissingField ''sdk_version'') (sl_sdk_version s)) (\<lambda>sdk_version.
     and_then (ok_or (DeMissingField ''enclave_pubkey'') (sl_enclave_pubkey s))
       (\<lambda>enclave_pubkey.
       Ok \<lparr>vc_model_hash = model_hash, vc_input_hash = input_hash,
           vc_output_hash = output_hash, vc_client_nonce = client_nonce,
           vc_sequence_num = sequence_num, vc_attestation_report = attestation_report,
           vc_attestation_type = attestation_type,
           vc_attestation_timestamp = attestation_timestamp,
           vc_sdk_version = sdk_version, vc_enclave_pubkey = enclave_pubkey\<rparr>))))))))))"

definition visit_map :: "map_access \<Rightarrow> (de_error, veri_claims) result" where
  "visit_map es = and_then (visit_entries es empty_slots) require_slots"

section \<open>What a stream denotes\<close>

text \<open>The payload of a successful read, and the requirement each key puts on its value.\<close>

definition ok_value :: "('e, 'a) result \<Rightarrow> 'a" where
  "ok_value r = (case r of Inr x \<Rightarrow> x | Inl _ \<Rightarrow> undefined)"

lemma ok_value_Ok [simp]: "ok_value (Inr x) = x"
  by (simp add: ok_value_def)

definition array_keys :: "i64 set" where
  "array_keys =
     {CLAIM_MODEL_HASH, CLAIM_INPUT_HASH, CLAIM_OUTPUT_HASH, CLAIM_CLIENT_NONCE,
      CLAIM_ENCLAVE_PUBKEY}"

definition reserved_key :: "i64 \<Rightarrow> bool" where
  "reserved_key k \<longleftrightarrow> k \<in> {6008, 6009, 6010}"

definition entry_ok :: "i64 \<Rightarrow> wire_value \<Rightarrow> bool" where
  "entry_ok k v \<longleftrightarrow> \<not> reserved_key k \<and>
     (if k \<in> array_keys then is_ok (wv_byte_vec v) \<and> length (ok_value (wv_byte_vec v)) = 32
      else if k = CLAIM_ATTESTATION_REPORT then is_ok (wv_byte_vec v)
      else if k = CLAIM_SEQUENCE_NUM \<or> k = CLAIM_ATTESTATION_TYPE then is_ok (wv_u64 v)
      else if k = CLAIM_ATTESTATION_TIMESTAMP then is_ok (wv_i64 v)
      else if k = CLAIM_SDK_VERSION then is_ok (wv_string v)
      else is_ok (wv_ignored v))"

definition store_entry :: "i64 \<Rightarrow> wire_value \<Rightarrow> claim_slots \<Rightarrow> claim_slots" where
  "store_entry k v s =
     (if k = CLAIM_MODEL_HASH then s\<lparr>sl_model_hash := Some (ok_value (wv_byte_vec v))\<rparr>
      else if k = CLAIM_INPUT_HASH then s\<lparr>sl_input_hash := Some (ok_value (wv_byte_vec v))\<rparr>
      else if k = CLAIM_OUTPUT_HASH then s\<lparr>sl_output_hash := Some (ok_value (wv_byte_vec v))\<rparr>
      else if k = CLAIM_CLIENT_NONCE then s\<lparr>sl_client_nonce := Some (ok_value (wv_byte_vec v))\<rparr>
      else if k = CLAIM_SEQUENCE_NUM then s\<lparr>sl_sequence_num := Some (ok_value (wv_u64 v))\<rparr>
      else if k = CLAIM_ATTESTATION_REPORT then
        s\<lparr>sl_attestation_report := Some (ok_value (wv_byte_vec v))\<rparr>
      else if k = CLAIM_ATTESTATION_TYPE then s\<lparr>sl_attestation_type := Some (ok_value (wv_u64 v))\<rparr>
      else if k = CLAIM_ATTESTATION_TIMESTAMP then
        s\<lparr>sl_attestation_timestamp := Some (ok_value (wv_i64 v))\<rparr>
      else if k = CLAIM_SDK_VERSION then s\<lparr>sl_sdk_version := Some (ok_value (wv_string v))\<rparr>
      else if k = CLAIM_ENCLAVE_PUBKEY then
        s\<lparr>sl_enclave_pubkey := Some (ok_value (wv_byte_vec v))\<rparr>
      else s)"

lemma reserved_key_range:
  "(6008 \<le> sint k \<and> sint k \<le> 6010) \<longleftrightarrow> reserved_key (k :: i64)"
proof -
  have "6008 \<le> sint k \<Longrightarrow> sint k \<le> 6010 \<Longrightarrow> k = 6008 \<or> k = 6009 \<or> k = 6010"
  proof -
    assume "6008 \<le> sint k" "sint k \<le> 6010"
    then have "sint k = sint (6008 :: i64) \<or> sint k = sint (6009 :: i64) \<or>
        sint k = sint (6010 :: i64)"
      by (simp, linarith)
    then show ?thesis using i64_eqI by blast
  qed
  then show ?thesis
    by (auto simp: reserved_key_def)
qed

lemma read_array32_Ok:
  "read_array32 m v = Ok x \<longleftrightarrow> wv_byte_vec v = Ok x \<and> length x = 32"
  by (auto simp: read_array32_def result_simps split: if_splits)

lemma key_cases:
  obtains (array) "k \<in> array_keys" | (report) "k = CLAIM_ATTESTATION_REPORT"
  | (seq) "k = CLAIM_SEQUENCE_NUM" | (type) "k = CLAIM_ATTESTATION_TYPE"
  | (time) "k = CLAIM_ATTESTATION_TIMESTAMP" | (sdk) "k = CLAIM_SDK_VERSION"
  | (reserved) "reserved_key k"
  | (other) "k \<notin> array_keys" "k \<noteq> CLAIM_ATTESTATION_REPORT" "k \<noteq> CLAIM_SEQUENCE_NUM"
      "k \<noteq> CLAIM_ATTESTATION_TYPE" "k \<noteq> CLAIM_ATTESTATION_TIMESTAMP"
      "k \<noteq> CLAIM_SDK_VERSION" "\<not> reserved_key k"
  by blast

lemma visit_entry_Ok:
  "visit_entry k v s = Ok s' \<longleftrightarrow> entry_ok k v \<and> s' = store_entry k v s"
proof (cases k rule: key_cases)
  case array
  then have "k = 6000 \<or> k = 6001 \<or> k = 6002 \<or> k = 6003 \<or> k = 6012"
    by (simp add: array_keys_def claim_keys)
  then show ?thesis
    by (elim disjE)
      (auto simp: visit_entry_def entry_ok_def store_entry_def claim_keys array_keys_def
        reserved_key_def result_simps read_array32_Ok)
next
  case other
  then show ?thesis
    by (auto simp: visit_entry_def entry_ok_def store_entry_def array_keys_def
        reserved_key_range result_simps)
qed (auto simp: visit_entry_def entry_ok_def store_entry_def claim_keys array_keys_def
    reserved_key_def result_simps)

lemma visit_entries_Ok:
  "visit_entries es s = Ok s' \<longleftrightarrow>
     (\<exists>kvs. es = map Inr kvs \<and> (\<forall>(k, v) \<in> set kvs. entry_ok k v) \<and>
            s' = fold (\<lambda>(k, v). store_entry k v) kvs s)"
proof (induction es s rule: visit_entries.induct)
  case (1 s)
  then show ?case by auto
next
  case (2 e es s)
  then show ?case by auto
next
  case (3 key v es s)
  have "visit_entries (Inr (key, v) # es) s = Ok s' \<longleftrightarrow>
      entry_ok key v \<and> visit_entries es (store_entry key v s) = Ok s'"
    by (auto simp: result_simps visit_entry_Ok)
  also have "\<dots> \<longleftrightarrow> entry_ok key v \<and>
     (\<exists>kvs. es = map Inr kvs \<and> (\<forall>(k, v) \<in> set kvs. entry_ok k v) \<and>
            s' = fold (\<lambda>(k, v). store_entry k v) kvs (store_entry key v s))"
    using 3 by (auto simp: visit_entry_Ok)
  also have "\<dots> \<longleftrightarrow>
     (\<exists>kvs. Inr (key, v) # es = map Inr kvs \<and> (\<forall>(k, v) \<in> set kvs. entry_ok k v) \<and>
            s' = fold (\<lambda>(k, v). store_entry k v) kvs s)"
    (is "?l \<longleftrightarrow> ?r")
  proof
    assume ?l
    then obtain kvs where "es = map Inr kvs" "\<forall>(k, v) \<in> set kvs. entry_ok k v" "entry_ok key v"
      "s' = fold (\<lambda>(k, v). store_entry k v) kvs (store_entry key v s)" by blast
    then show ?r by (intro exI [of _ "(key, v) # kvs"]) auto
  next
    assume ?r
    then show ?l by (auto simp: Cons_eq_map_conv)
  qed
  finally show ?case .
qed

text \<open>Each slot ends with the last value stored under its key.\<close>

lemma fold_last_write:
  assumes "\<And>k v s. sel (st k v s) = (if k = K then Some (d v) else sel s)"
  shows "sel (fold (\<lambda>(k, v). st k v) kvs s) =
    (case map_of (rev kvs) K of None \<Rightarrow> sel s | Some v \<Rightarrow> Some (d v))"
  by (induction kvs arbitrary: s) (auto simp: assms map_add_def split: option.splits)

lemma slots_store_entry:
  "sl_model_hash (store_entry k v s) =
     (if k = CLAIM_MODEL_HASH then Some (ok_value (wv_byte_vec v)) else sl_model_hash s)"
  "sl_input_hash (store_entry k v s) =
     (if k = CLAIM_INPUT_HASH then Some (ok_value (wv_byte_vec v)) else sl_input_hash s)"
  "sl_output_hash (store_entry k v s) =
     (if k = CLAIM_OUTPUT_HASH then Some (ok_value (wv_byte_vec v)) else sl_output_hash s)"
  "sl_client_nonce (store_entry k v s) =
     (if k = CLAIM_CLIENT_NONCE then Some (ok_value (wv_byte_vec v)) else sl_client_nonce s)"
  "sl_sequence_num (store_entry k v s) =
     (if k = CLAIM_SEQUENCE_NUM then Some (ok_value (wv_u64 v)) else sl_sequence_num s)"
  "sl_attestation_report (store_entry k v s) =
     (if k = CLAIM_ATTESTATION_REPORT then Some (ok_value (wv_byte_vec v))
      else sl_attestation_report s)"
  "sl_attestation_type (store_entry k v s) =
     (if k = CLAIM_ATTESTATION_TYPE then Some (ok_value (wv_u64 v)) else sl_attestation_type s)"
  "sl_attestation_timestamp (store_entry k v s) =
     (if k = CLAIM_ATTESTATION_TIMESTAMP then Some (ok_value (wv_i64 v))
      else sl_attestation_timestamp s)"
  "sl_sdk_version (store_entry k v s) =
     (if k = CLAIM_SDK_VERSION then Some (ok_value (wv_string v)) else sl_sdk_version s)"
  "sl_enclave_pubkey (store_entry k v s) =
     (if k = CLAIM_ENCLAVE_PUBKEY then Some (ok_value (wv_byte_vec v))
      else sl_enclave_pubkey s)"
  by (simp_all add: store_entry_def claim_keys)

lemma slots_empty:
  "sl_model_hash empty_slots = None" "sl_input_hash empty_slots = None"
  "sl_output_hash empty_slots = None" "sl_client_nonce empty_slots = None"
  "sl_sequence_num empty_slots = None" "sl_attestation_report empty_slots = None"
  "sl_attestation_type empty_slots = None" "sl_attestation_timestamp empty_slots = None"
  "sl_sdk_version empty_slots = None" "sl_enclave_pubkey empty_slots = None"
  by (simp_all add: empty_slots_def)

lemmas slots_fold = slots_store_entry [THEN fold_last_write]

text \<open>The claim set denoted by a finite map from keys to wire values.\<close>

definition denotes :: "(i64 \<rightharpoonup> wire_value) \<Rightarrow> veri_claims \<Rightarrow> bool" where
  "denotes m c \<longleftrightarrow>
     map_option (ok_value \<circ> wv_byte_vec) (m CLAIM_MODEL_HASH) = Some (vc_model_hash c) \<and>
     map_option (ok_value \<circ> wv_byte_vec) (m CLAIM_INPUT_HASH) = Some (vc_input_hash c) \<and>
     map_option (ok_value \<circ> wv_byte_vec) (m CLAIM_OUTPUT_HASH) = Some (vc_output_hash c) \<and>
     map_option (ok_value \<circ> wv_byte_vec) (m CLAIM_CLIENT_NONCE) = Some (vc_client_nonce c) \<and>
     map_option (ok_value \<circ> wv_u64) (m CLAIM_SEQUENCE_NUM) = Some (vc_sequence_num c) \<and>
     map_option (ok_value \<circ> wv_byte_vec) (m CLAIM_ATTESTATION_REPORT) =
       Some (vc_attestation_report c) \<and>
     map_option (ok_value \<circ> wv_u64) (m CLAIM_ATTESTATION_TYPE) =
       Some (vc_attestation_type c) \<and>
     map_option (ok_value \<circ> wv_i64) (m CLAIM_ATTESTATION_TIMESTAMP) =
       Some (vc_attestation_timestamp c) \<and>
     map_option (ok_value \<circ> wv_string) (m CLAIM_SDK_VERSION) = Some (vc_sdk_version c) \<and>
     map_option (ok_value \<circ> wv_byte_vec) (m CLAIM_ENCLAVE_PUBKEY) =
       Some (vc_enclave_pubkey c)"

lemma slot_of_map:
  "(case x of None \<Rightarrow> None | Some v \<Rightarrow> Some (d v)) = map_option d x"
  by (cases x) auto

lemma require_slots_Ok:
  "require_slots s = Ok c \<longleftrightarrow>
     sl_model_hash s = Some (vc_model_hash c) \<and> sl_input_hash s = Some (vc_input_hash c) \<and>
     sl_output_hash s = Some (vc_output_hash c) \<and>
     sl_client_nonce s = Some (vc_client_nonce c) \<and>
     sl_sequence_num s = Some (vc_sequence_num c) \<and>
     sl_attestation_report s = Some (vc_attestation_report c) \<and>
     sl_attestation_type s = Some (vc_attestation_type c) \<and>
     sl_attestation_timestamp s = Some (vc_attestation_timestamp c) \<and>
     sl_sdk_version s = Some (vc_sdk_version c) \<and>
     sl_enclave_pubkey s = Some (vc_enclave_pubkey c)"
  unfolding require_slots_def result_simps by auto

lemma visit_map_characterised:
  "visit_map es = Ok c \<longleftrightarrow>
     (\<exists>kvs. es = map Inr kvs \<and> (\<forall>(k, v) \<in> set kvs. entry_ok k v) \<and>
            denotes (map_of (rev kvs)) c)"
proof -
  have "require_slots (fold (\<lambda>(k, v). store_entry k v) kvs empty_slots) = Ok c \<longleftrightarrow>
      denotes (map_of (rev kvs)) c" for kvs
    unfolding require_slots_Ok slots_fold slots_empty slot_of_map denotes_def comp_def ..
  then show ?thesis
    by (auto simp: visit_map_def result_simps visit_entries_Ok)
qed

lemma denotes_wf:
  assumes "denotes (map_of (rev kvs)) c" and "\<forall>(k, v) \<in> set kvs. entry_ok k v"
  shows "wf_claims c"
proof -
  have array: "length x = 32"
    if m: "map_option (ok_value \<circ> wv_byte_vec) (map_of (rev kvs) k) = Some x"
      and k: "k \<in> array_keys" for k x
  proof -
    obtain v where v: "map_of (rev kvs) k = Some v" and x: "x = ok_value (wv_byte_vec v)"
      using m by auto
    from v have "(k, v) \<in> set kvs" by (auto dest: map_of_SomeD)
    with assms(2) k x show ?thesis by (auto simp: entry_ok_def)
  qed
  have "\<forall>k \<in> array_keys. \<forall>x.
      map_option (ok_value \<circ> wv_byte_vec) (map_of (rev kvs) k) = Some x \<longrightarrow> length x = 32"
    using array by blast
  then show ?thesis
    using assms(1) unfolding denotes_def wf_claims_def array_keys_def ball_simps by blast
qed

lemma visit_map_wf: "visit_map es = Ok c \<Longrightarrow> wf_claims c"
  by (auto simp: visit_map_characterised intro: denotes_wf)

lemma visit_map_refuses_reserved:
  "Inr (k, v) \<in> set es \<Longrightarrow> reserved_key k \<Longrightarrow> \<not> is_ok (visit_map es)"
  by (fastforce simp: is_ok_iff visit_map_characterised entry_ok_def)

section \<open>Round trip\<close>

text \<open>
  \<open>reads_back sv wv\<close>: the wire value reads back, at the type the visitor asks for, as
  the value that was serialized.  This is the documented behaviour of serde and
  ciborium on sequences of bytes, integers and strings.
\<close>

fun reads_back :: "ser_value \<Rightarrow> wire_value \<Rightarrow> bool" where
  "reads_back (SerSeqU8 b) w \<longleftrightarrow> wv_byte_vec w = Ok b"
| "reads_back (SerU64 n) w \<longleftrightarrow> wv_u64 w = Ok n"
| "reads_back (SerI64 n) w \<longleftrightarrow> wv_i64 w = Ok n"
| "reads_back (SerStr t) w \<longleftrightarrow> wv_string w = Ok t"

definition delivers :: "(i64 \<times> ser_value) list \<Rightarrow> map_access \<Rightarrow> bool" where
  "delivers kvs es \<longleftrightarrow>
     list_all2 (\<lambda>(k, sv) r. \<exists>w. r = Inr (k, w) \<and> reads_back sv w) kvs es"

lemma visit_map_serialized:
  assumes "wf_claims c" and "delivers (serialize_claims c) es"
  shows "visit_map es = Ok c"
  using assms
  by (auto simp: delivers_def serialize_claims_def list_all2_Cons1 visit_map_def
      visit_entry_def read_array32_def wf_claims_def claim_keys require_slots_def
      empty_slots_def)

end
