(* ===== verification/External_Libs.thy ===== *)
theory External_Libs
  imports Claims_Codec
begin

text \<open>
  The interface to code that is not in the repository: the crates \<open>sha2\<close>, \<open>hex\<close>,
  \<open>base64ct\<close>, \<open>coset\<close>, \<open>ciborium\<close>, \<open>ed25519-dalek\<close>, \<open>p384\<close> and
  \<open>x509-cert\<close>.  Their functions are the fields of one record, \<open>lib\<close>, which every
  definition that calls them takes as an argument; nothing is assumed of them here.
  The predicates at the end name the documented behaviour that some theorems rely on.
\<close>

section \<open>Data of the crates that the code inspects\<close>

datatype iana_algorithm = EdDSA | ES384 | OtherAlgorithm int

datatype cose_algorithm = AlgPrivateUse i64 | AlgAssigned iana_algorithm | AlgText str

datatype cose_content_type = ContentAssigned nat | ContentText str

datatype cose_label = LabelAssigned int | LabelText str

text \<open>A COSE header: the parameters the code reads, and the rest as opaque bytes.\<close>

record cose_header =
  ch_alg :: "cose_algorithm option"
  ch_crit :: "cose_label list"
  ch_content_type :: "cose_content_type option"
  ch_others :: bytes

record cose_sign1 =
  cs_protected_original :: "bytes option"
  cs_protected :: cose_header
  cs_unprotected :: cose_header
  cs_payload :: "bytes option"
  cs_signature :: bytes

record x509_extension =
  ext_id :: str
  ext_critical :: bool
  ext_value :: bytes

text \<open>
  A parsed certificate, as the results of the accessors the code calls; \<open>cert_tbs_der\<close>
  and \<open>cert_der\<close> are what \<open>to_der\<close> returns on its two parts.
\<close>

record certificate =
  cert_not_before :: system_time
  cert_not_after :: system_time
  cert_extensions :: "x509_extension list option"
  cert_issuer :: bytes
  cert_subject :: bytes
  cert_public_key :: bytes
  cert_signature :: bytes
  cert_tbs_der :: "(ext_error, bytes) result"
  cert_der :: "(ext_error, bytes) result"

record basic_constraints =
  bc_ca :: bool
  bc_path_len :: "u8 option"

record key_usage =
  ku_digital_signature :: bool
  ku_key_cert_sign :: bool

section \<open>The functions of the crates\<close>

text \<open>
  Keys and signatures of \<open>p384\<close> and \<open>ed25519-dalek\<close> are represented by their encodings.
  \<open>cbor_read_map\<close> is \<open>ciborium::from_reader\<close> up to the point where it hands the visitor
  its entries; \<open>cbor_write_map\<close> takes the entries the serializer emits.
\<close>

record lib =
  sha256 :: "bytes \<Rightarrow> bytes"
  sha512 :: "bytes \<Rightarrow> bytes"
  hex_encode :: "bytes \<Rightarrow> str"
  hex_decode :: "str \<Rightarrow> (ext_error, bytes) result"
  base64_encode :: "bytes \<Rightarrow> str"
  base64_decode :: "str \<Rightarrow> (ext_error, bytes) result"
  cose_from_slice :: "bytes \<Rightarrow> (ext_error, cose_sign1) result"
  cose_to_vec :: "cose_sign1 \<Rightarrow> (ext_error, bytes) result"
  cose_tbs_data :: "cose_sign1 \<Rightarrow> bytes \<Rightarrow> bytes"
  cose_header_is_empty :: "cose_header \<Rightarrow> bool"
  cose_header_build :: "iana_algorithm \<Rightarrow> str option \<Rightarrow> cose_header"
  cose_sign1_build :: "cose_header \<Rightarrow> bytes \<Rightarrow> cose_sign1"
  cbor_read_map :: "bytes \<Rightarrow> (ext_error, map_access) result"
  cbor_write_map :: "(i64 \<times> ser_value) list \<Rightarrow> (ext_error, bytes) result"
  show_de_error :: "de_error \<Rightarrow> str"
  debug_de_error :: "de_error \<Rightarrow> str"
  doc_from_cbor :: "bytes \<Rightarrow> (ext_error, attestation_doc) result"
  doc_to_cbor :: "attestation_doc \<Rightarrow> (ext_error, bytes) result"
  ed25519_public_key :: "bytes \<Rightarrow> bytes"
  ed25519_key_valid :: "bytes \<Rightarrow> bool"
  ed25519_sign :: "bytes \<Rightarrow> bytes \<Rightarrow> bytes"
  ed25519_verify :: "bytes \<Rightarrow> bytes \<Rightarrow> bytes \<Rightarrow> bool"
  p384_key_from_sec1 :: "bytes \<Rightarrow> (ext_error, bytes) result"
  p384_signature_from_slice :: "bytes \<Rightarrow> (ext_error, bytes) result"
  p384_signature_from_der :: "bytes \<Rightarrow> (ext_error, bytes) result"
  p384_verify :: "bytes \<Rightarrow> bytes \<Rightarrow> bytes \<Rightarrow> (ext_error, unit) result"
  p384_signing_key_from_pem :: "str \<Rightarrow> (ext_error, bytes) result"
  p384_sign :: "bytes \<Rightarrow> bytes \<Rightarrow> bytes"
  cert_from_der :: "bytes \<Rightarrow> (ext_error, certificate) result"
  basic_constraints_from_der :: "bytes \<Rightarrow> (ext_error, basic_constraints) result"
  key_usage_from_der :: "bytes \<Rightarrow> (ext_error, key_usage) result"

section \<open>Codecs built on the crates\<close>

text \<open>\<open>VeriClaims::from_binary\<close>, \<open>to_binary\<close> and those of \<open>AttestationDoc\<close> (derived serde).\<close>

definition claims_from_binary :: "lib \<Rightarrow> bytes \<Rightarrow> (de_error, veri_claims) result" where
  "claims_from_binary L b = and_then (map_err DeLibrary (cbor_read_map L b)) visit_map"

definition claims_to_binary :: "lib \<Rightarrow> veri_claims \<Rightarrow> (ext_error, bytes) result" where
  "claims_to_binary L c = cbor_write_map L (serialize_claims c)"

definition doc_from_binary :: "lib \<Rightarrow> bytes \<Rightarrow> (ext_error, attestation_doc) result" where
  "doc_from_binary L b = doc_from_cbor L b"

definition doc_to_binary :: "lib \<Rightarrow> attestation_doc \<Rightarrow> (ext_error, bytes) result" where
  "doc_to_binary L d = doc_to_cbor L d"

section \<open>The clock\<close>

text \<open>
  \<open>SystemTime::now().duration_since(UNIX_EPOCH)\<close>, then \<open>as_secs\<close> or \<open>as_millis\<close>.
\<close>

definition since_epoch :: "system_time \<Rightarrow> (str, nat) result" where
  "since_epoch t =
     (if t < 0 then Err ''second time provided was later than self'' else Ok (nat t))"

definition as_secs :: "nat \<Rightarrow> u64" where
  "as_secs d = of_nat (d div 10 ^ 9)"

definition as_millis_u64 :: "nat \<Rightarrow> u64" where
  "as_millis_u64 d = of_nat (d div 10 ^ 6)"

section \<open>Documented behaviour relied on\<close>

text \<open>
  \<open>coset\<close>: the builders set exactly the parameters they are given; serializing and
  parsing keeps the parameters, the payload, the signature and the data to be signed.
\<close>

definition same_cose :: "lib \<Rightarrow> cose_sign1 \<Rightarrow> cose_sign1 \<Rightarrow> bool" where
  "same_cose L c d \<longleftrightarrow>
     cs_protected c = cs_protected d \<and> cs_unprotected c = cs_unprotected d \<and>
     cs_payload c = cs_payload d \<and> cs_signature c = cs_signature d \<and>
     (\<forall>a. cose_tbs_data L c a = cose_tbs_data L d a)"

definition cose_roundtrips :: "lib \<Rightarrow> bool" where
  "cose_roundtrips L \<longleftrightarrow>
     (\<forall>c b. cose_to_vec L c = Ok b \<longrightarrow> (\<exists>d. cose_from_slice L b = Ok d \<and> same_cose L c d))"

definition cose_builds :: "lib \<Rightarrow> bool" where
  "cose_builds L \<longleftrightarrow>
     (\<forall>a t. ch_alg (cose_header_build L a t) = Some (AlgAssigned a) \<and>
        ch_crit (cose_header_build L a t) = [] \<and>
        ch_content_type (cose_header_build L a t) = map_option ContentText t) \<and>
     (\<forall>h p. cs_protected (cose_sign1_build L h p) = h \<and>
        ch_alg (cs_unprotected (cose_sign1_build L h p)) = None \<and>
        ch_crit (cs_unprotected (cose_sign1_build L h p)) = [] \<and>
        ch_content_type (cs_unprotected (cose_sign1_build L h p)) = None \<and>
        cose_header_is_empty L (cs_unprotected (cose_sign1_build L h p)) \<and>
        cs_payload (cose_sign1_build L h p) = Some p) \<and>
     (\<forall>c s a. cose_tbs_data L (c\<lparr>cs_signature := s\<rparr>) a = cose_tbs_data L c a)"

text \<open>\<open>Header::is_empty\<close> holds only of headers without any parameter.\<close>

definition cose_empty_headers :: "lib \<Rightarrow> bool" where
  "cose_empty_headers L \<longleftrightarrow>
     (\<forall>h. cose_header_is_empty L h \<longrightarrow>
        ch_alg h = None \<and> ch_crit h = [] \<and> ch_content_type h = None)"

text \<open>\<open>ciborium\<close>: what was written is read back, for claim sets and for documents.\<close>

definition cbor_roundtrips :: "lib \<Rightarrow> bool" where
  "cbor_roundtrips L \<longleftrightarrow>
     (\<forall>kvs b. cbor_write_map L kvs = Ok b \<longrightarrow>
        (\<exists>es. cbor_read_map L b = Ok es \<and> delivers kvs es)) \<and>
     (\<forall>d b. doc_to_cbor L d = Ok b \<longrightarrow> doc_from_cbor L b = Ok d)"

text \<open>\<open>hex\<close>: decoding inverts encoding.\<close>

definition hex_roundtrips :: "lib \<Rightarrow> bool" where
  "hex_roundtrips L \<longleftrightarrow> (\<forall>b. hex_decode L (hex_encode L b) = Ok b)"

text \<open>\<open>ed25519-dalek\<close>: a signature has 64 bytes and verifies under the signer's key.\<close>

definition ed25519_correct :: "lib \<Rightarrow> bool" where
  "ed25519_correct L \<longleftrightarrow>
     (\<forall>k m. length (ed25519_public_key L k) = 32 \<and>
        ed25519_key_valid L (ed25519_public_key L k) \<and>
        length (ed25519_sign L k m) = 64 \<and>
        ed25519_verify L (ed25519_public_key L k) m (ed25519_sign L k m))"

text \<open>\<open>sha2\<close>: the lengths of digests.\<close>

definition sha_lengths :: "lib \<Rightarrow> bool" where
  "sha_lengths L \<longleftrightarrow> (\<forall>b. length (sha256 L b) = 32) \<and> (\<forall>b. length (sha512 L b) = 64)"

section \<open>Facts about the codecs\<close>

lemma claims_from_binary_wf: "claims_from_binary L b = Ok c \<Longrightarrow> wf_claims c"
  by (auto simp: claims_from_binary_def result_simps intro: visit_map_wf)

lemma claims_roundtrip:
  assumes "cbor_roundtrips L" and "wf_claims c" and "claims_to_binary L c = Ok b"
  shows "claims_from_binary L b = Ok c"
proof -
  obtain es where "cbor_read_map L b = Ok es" and "delivers (serialize_claims c) es"
    using assms(1,3) unfolding cbor_roundtrips_def claims_to_binary_def by blast
  with assms(2) show ?thesis
    by (simp add: claims_from_binary_def visit_map_serialized)
qed

lemma since_epoch_Ok: "since_epoch t = Ok n \<longleftrightarrow> 0 \<le> t \<and> n = nat t"
  by (auto simp: since_epoch_def)

end
