(* ===== verification/Attestation.thy ===== *)
theory Attestation
  imports External_Libs
begin

text \<open>
  \<open>crates/veriai-attestation/src/lib.rs\<close>: the pinned AWS root fingerprints, the check of
  a root PEM bundle against an allowlist, the validation of one certificate, and the
  verification of an attestation document with its certificate chain.  Certificates of
  the chain, signatures and encodings are those of the crates in \<open>lib\<close>.
\<close>

section \<open>Pinned roots\<close>

definition AWS_NITRO_ROOT_FINGERPRINTS :: "bytes list" where
  "AWS_NITRO_ROOT_FINGERPRINTS =
     [[0x64, 0x1a, 0x03, 0x21, 0xa3, 0xe2, 0x44, 0xef, 0xe4, 0x56, 0x46, 0x31, 0x95, 0xd6,
       0x06, 0x31, 0x7e, 0xd7, 0xcd, 0xcc, 0x3c, 0x17, 0x56, 0xe0, 0x98, 0x93, 0xf3, 0xc6,
       0x8f, 0x79, 0xbb, 0x5b]]"

abbreviation BEGIN_CERTIFICATE :: str where
  "BEGIN_CERTIFICATE \<equiv> ''-----BEGIN CERTIFICATE-----''"

abbreviation END_CERTIFICATE :: str where
  "END_CERTIFICATE \<equiv> ''-----END CERTIFICATE-----''"

text \<open>The loop over the lines, with its variables \<open>encoded\<close>, \<open>in_cert\<close> and \<open>count\<close>.\<close>

fun scan_root_lines ::
  "lib \<Rightarrow> bytes list \<Rightarrow> str list \<Rightarrow> str \<Rightarrow> bool \<Rightarrow> nat \<Rightarrow> (str, bool \<times> nat) result" where
  "scan_root_lines L allowlist [] encoded in_cert count = Ok (in_cert, count)"
| "scan_root_lines L allowlist (line # rest) encoded in_cert count =
     (if line = BEGIN_CERTIFICATE \<and> \<not> in_cert then
        scan_root_lines L allowlist rest [] True count
      else if line = END_CERTIFICATE \<and> in_cert then
        and_then (map_err (\<lambda>e. ''invalid trusted root PEM: '' @ err_display e)
                    (base64_decode L encoded)) (\<lambda>der.
        and_then (reject_if (sha256 L der \<notin> set allowlist)
                    (''trusted root fingerprint is not allowlisted: '' @
                     hex_encode L (sha256 L der))) (\<lambda>_.
          scan_root_lines L allowlist rest encoded False (count + 1)))
      else if in_cert \<and> \<not> prefix ''-----'' line then
        scan_root_lines L allowlist rest (encoded @ line) in_cert count
      else Err ''malformed or unexpected data in trusted root PEM'')"

definition validate_root_pem_with_allowlist ::
  "lib \<Rightarrow> str \<Rightarrow> bytes list \<Rightarrow> (str, unit) result" where
  "validate_root_pem_with_allowlist L pem allowlist =
     and_then
       (scan_root_lines L allowlist (filter (\<lambda>l. l \<noteq> []) (map str_trim (str_lines pem)))
          [] False 0)
       (\<lambda>(in_cert, count).
          if in_cert \<or> count = 0
          then Err ''trusted root PEM contains no complete certificates'' else Ok ())"

definition validate_aws_nitro_root_pem :: "lib \<Rightarrow> str \<Rightarrow> (str, unit) result" where
  "validate_aws_nitro_root_pem L pem =
     validate_root_pem_with_allowlist L pem AWS_NITRO_ROOT_FINGERPRINTS"

section \<open>One certificate\<close>

definition BASIC_CONSTRAINTS_OID :: str where
  "BASIC_CONSTRAINTS_OID = ''2.5.29.19''"

definition KEY_USAGE_OID :: str where
  "KEY_USAGE_OID = ''2.5.29.15''"

text \<open>The loop over the extensions; a later extension with the same OID replaces an
  earlier one.\<close>

fun scan_extensions ::
  "lib \<Rightarrow> x509_extension list \<Rightarrow> basic_constraints option \<times> key_usage option \<Rightarrow>
   (attestation_error, basic_constraints option \<times> key_usage option) result" where
  "scan_extensions L [] (bc, ku) = Ok (bc, ku)"
| "scan_extensions L (x # xs) (bc, ku) =
     (if ext_id x = BASIC_CONSTRAINTS_OID then
        and_then (map_err (\<lambda>_. ValidationError ''Invalid basicConstraints extension'')
                    (basic_constraints_from_der L (ext_value x)))
          (\<lambda>b. scan_extensions L xs (Some b, ku))
      else if ext_id x = KEY_USAGE_OID then
        and_then (map_err (\<lambda>_. ValidationError ''Invalid keyUsage extension'')
                    (key_usage_from_der L (ext_value x)))
          (\<lambda>k. scan_extensions L xs (bc, Some k))
      else if ext_critical x then
        Err (ValidationError ''Certificate has an unsupported critical extension'')
      else scan_extensions L xs (bc, ku))"

definition validate_leaf ::
  "basic_constraints option \<Rightarrow> key_usage option \<Rightarrow> (attestation_error, unit) result" where
  "validate_leaf bc ku =
     (if (case bc of Some b \<Rightarrow> bc_ca b | None \<Rightarrow> False) then
        Err (ValidationError ''Attestation leaf certificate must not be a CA'')
      else if (case ku of Some u \<Rightarrow> \<not> ku_digital_signature u | None \<Rightarrow> False) then
        Err (ValidationError ''Attestation leaf keyUsage lacks digitalSignature'')
      else Ok ())"

definition validate_ca ::
  "basic_constraints option \<Rightarrow> key_usage option \<Rightarrow> nat \<Rightarrow> (attestation_error, unit) result" where
  "validate_ca bc ku subordinate_ca_count =
     and_then (ok_or (ValidationError ''Non-leaf certificate lacks CA:true constraint'') bc)
       (\<lambda>constraints.
         if \<not> bc_ca constraints then
           Err (ValidationError ''Non-leaf certificate lacks CA:true constraint'')
         else if (case ku of Some u \<Rightarrow> \<not> ku_key_cert_sign u | None \<Rightarrow> False) then
           Err (ValidationError ''CA certificate keyUsage lacks keyCertSign'')
         else (case bc_path_len constraints of
                 Some limit \<Rightarrow>
                   if unat limit < subordinate_ca_count then
                     Err (ValidationError ''CA certificate pathLenConstraint exceeded'')
                   else Ok ()
               | None \<Rightarrow> Ok ()))"

definition validate_cert ::
  "lib \<Rightarrow> certificate \<Rightarrow> bool \<Rightarrow> nat \<Rightarrow> system_time \<Rightarrow> (attestation_error, unit) result" where
  "validate_cert L cert is_leaf subordinate_ca_count now =
     (if now < cert_not_before cert \<or> cert_not_after cert < now then
        Err (ValidationError ''Certificate is outside its validity period'')
      else
        and_then
          (case cert_extensions cert of
             Some extensions \<Rightarrow> scan_extensions L extensions (None, None)
           | None \<Rightarrow> Ok (None, None))
          (\<lambda>(bc, ku).
             if is_leaf then validate_leaf bc ku
             else validate_ca bc ku subordinate_ca_count))"

section \<open>The chain\<close>

text \<open>The checks between a certificate and its parent, up to the parent's re-encoding.\<close>

definition check_link ::
  "lib \<Rightarrow> certificate \<Rightarrow> certificate \<Rightarrow> (attestation_error, unit) result" where
  "check_link L current_cert parent_cert =
     and_then (reject_if (cert_issuer current_cert \<noteq> cert_subject parent_cert)
                 (ValidationError ''Certificate issuer does not match parent subject'')) (\<lambda>_.
     and_then (map_err (\<lambda>e. InvalidAttestationDoc (''Invalid parent public key: '' @ err_display e))
                 (p384_key_from_sec1 L (cert_public_key parent_cert))) (\<lambda>parent_key.
     and_then (map_err (\<lambda>e. InvalidAttestationDoc (''Failed to encode TBS: '' @ err_display e))
                 (cert_tbs_der current_cert)) (\<lambda>current_tbs.
     and_then (map_err (\<lambda>e. InvalidAttestationDoc (''Invalid signature DER: '' @ err_display e))
                 (p384_signature_from_der L (cert_signature current_cert))) (\<lambda>current_sig.
       map_err (\<lambda>e. InvalidAttestationDoc
                      (''Chain signature validation failed: '' @ err_display e))
         (p384_verify L parent_key current_tbs current_sig)))))"

text \<open>The loop over the reversed bundle: whether the root was reached, and the variable
  \<open>current_cert\<close> at the end.\<close>

fun walk_chain ::
  "lib \<Rightarrow> bytes \<Rightarrow> system_time \<Rightarrow> nat \<Rightarrow> certificate \<Rightarrow> bytes list \<Rightarrow>
   (attestation_error, bool \<times> certificate) result" where
  "walk_chain L expected_root now n current_cert [] = Ok (False, current_cert)"
| "walk_chain L expected_root now n current_cert (cert_bytes # rest) =
     and_then (map_err (\<lambda>e. InvalidAttestationDoc (''Invalid parent cert: '' @ err_display e))
                 (cert_from_der L cert_bytes)) (\<lambda>parent_cert.
     and_then (validate_cert L parent_cert False n now) (\<lambda>_.
     and_then (check_link L current_cert parent_cert) (\<lambda>_.
     and_then (map_err (\<lambda>e. InvalidAttestationDoc (err_display e)) (cert_der parent_cert))
       (\<lambda>parent_der.
         if parent_der = expected_root then Ok (True, current_cert)
         else walk_chain L expected_root now (n + 1) parent_cert rest))))"

text \<open>The checks on the COSE headers of the document.\<close>

definition check_attestation_headers ::
  "lib \<Rightarrow> cose_sign1 \<Rightarrow> (attestation_error, unit) result" where
  "check_attestation_headers L cose =
     (if ch_alg (cs_protected cose) \<noteq> Some (AlgAssigned ES384) then
        Err (InvalidAttestationDoc ''Attestation COSE protected header must declare ES384'')
      else if ch_alg (cs_unprotected cose) \<noteq> None then
        Err (InvalidAttestationDoc
               ''Attestation COSE algorithm must not be in the unprotected header'')
      else if ch_crit (cs_protected cose) \<noteq> [] \<or>
              \<not> cose_header_is_empty L (cs_unprotected cose) then
        Err (InvalidAttestationDoc
               ''Attestation COSE has unsupported critical or unprotected headers'')
      else Ok ())"

text \<open>The signature of the document under the key of its leaf certificate.\<close>

definition check_leaf_signature ::
  "lib \<Rightarrow> cose_sign1 \<Rightarrow> certificate \<Rightarrow> (attestation_error, unit) result" where
  "check_leaf_signature L cose leaf_cert =
     and_then (map_err (\<lambda>e. InvalidAttestationDoc (''Invalid public key: '' @ err_display e))
                 (p384_key_from_sec1 L (cert_public_key leaf_cert))) (\<lambda>leaf_key.
     and_then (map_err (\<lambda>e. InvalidAttestationDoc (''Invalid signature bytes: '' @ err_display e))
                 (p384_signature_from_slice L (cs_signature cose))) (\<lambda>sig.
       map_err (\<lambda>e. InvalidAttestationDoc (''Signature validation failed: '' @ err_display e))
         (p384_verify L leaf_key (cose_tbs_data L cose []) sig)))"

text \<open>The end: without a root in the bundle, the last certificate itself may be the root.\<close>

fun conclude_chain ::
  "bytes \<Rightarrow> attestation_doc \<Rightarrow> bool \<times> certificate \<Rightarrow> (attestation_error, attestation_doc) result"
where
  "conclude_chain expected_root doc (verified, current_cert) =
     and_then
       (if verified then Ok True
        else and_then (map_err (\<lambda>e. InvalidAttestationDoc (err_display e)) (cert_der current_cert))
               (\<lambda>current_der. Ok (current_der = expected_root)))
       (\<lambda>verified.
          if \<not> verified then
            Err (ValidationError ''Certificate chain does not lead to a trusted root'')
          else Ok doc)"

definition verify_attestation_doc ::
  "lib \<Rightarrow> bytes \<Rightarrow> bytes \<Rightarrow> system_time \<Rightarrow> (attestation_error, attestation_doc) result" where
  "verify_attestation_doc L doc_bytes expected_root now =
     and_then (map_err (\<lambda>e. InvalidAttestationDoc (err_display e)) (cose_from_slice L doc_bytes))
       (\<lambda>cose.
     and_then (check_attestation_headers L cose) (\<lambda>_.
     and_then (ok_or (InvalidAttestationDoc ''Missing payload'') (cs_payload cose)) (\<lambda>payload.
     and_then (map_err (\<lambda>e. InvalidAttestationDoc (err_display e)) (doc_from_binary L payload))
       (\<lambda>doc.
     and_then (map_err (\<lambda>e. InvalidAttestationDoc
                          (''Failed to parse leaf certificate: '' @ err_display e))
                 (cert_from_der L (ad_certificate doc))) (\<lambda>leaf_cert.
     and_then (validate_cert L leaf_cert True 0 now) (\<lambda>_.
     and_then (check_leaf_signature L cose leaf_cert) (\<lambda>_.
     and_then (walk_chain L expected_root now 0 leaf_cert (rev (ad_cabundle doc)))
       (conclude_chain expected_root doc))))))))"

section \<open>What the checks establish\<close>

text \<open>The value of the last extension with an OID, the only one that counts.\<close>

definition last_extension :: "str \<Rightarrow> x509_extension list \<Rightarrow> x509_extension option" where
  "last_extension oid xs = List.find (\<lambda>x. ext_id x = oid) (rev xs)"

definition extension_ok :: "lib \<Rightarrow> x509_extension \<Rightarrow> bool" where
  "extension_ok L x \<longleftrightarrow>
     (if ext_id x = BASIC_CONSTRAINTS_OID then is_ok (basic_constraints_from_der L (ext_value x))
      else if ext_id x = KEY_USAGE_OID then is_ok (key_usage_from_der L (ext_value x))
      else \<not> ext_critical x)"

definition read_bc :: "lib \<Rightarrow> x509_extension \<Rightarrow> basic_constraints option" where
  "read_bc L x = (case basic_constraints_from_der L (ext_value x) of Inr b \<Rightarrow> Some b | Inl _ \<Rightarrow> None)"

definition read_ku :: "lib \<Rightarrow> x509_extension \<Rightarrow> key_usage option" where
  "read_ku L x = (case key_usage_from_der L (ext_value x) of Inr b \<Rightarrow> Some b | Inl _ \<Rightarrow> None)"

lemma find_append: "List.find P (xs @ ys) =
    (case List.find P xs of None \<Rightarrow> List.find P ys | Some x \<Rightarrow> Some x)"
  by (induction xs) auto

lemma last_extension_Cons:
  "last_extension oid (x # xs) =
     (case last_extension oid xs of
        None \<Rightarrow> if ext_id x = oid then Some x else None | Some y \<Rightarrow> Some y)"
  by (simp add: last_extension_def find_append split: option.splits)

lemma last_extension_Nil [simp]: "last_extension oid [] = None"
  by (simp add: last_extension_def)

definition pick :: "(x509_extension \<Rightarrow> 'a option) \<Rightarrow> x509_extension option \<Rightarrow> 'a option \<Rightarrow> 'a option" where
  "pick rd x old = (case x of None \<Rightarrow> old | Some y \<Rightarrow> rd y)"

lemma pick_None [simp]: "pick rd None old = old"
  by (simp add: pick_def)

lemma BC_neq_KU [simp]: "BASIC_CONSTRAINTS_OID \<noteq> KEY_USAGE_OID" "KEY_USAGE_OID \<noteq> BASIC_CONSTRAINTS_OID"
  by (simp_all add: BASIC_CONSTRAINTS_OID_def KEY_USAGE_OID_def)

lemma scan_extensions_Ok:
  "scan_extensions L xs (bc, ku) = Ok (bc', ku') \<longleftrightarrow>
     list_all (extension_ok L) xs \<and>
     bc' = pick (read_bc L) (last_extension BASIC_CONSTRAINTS_OID xs) bc \<and>
     ku' = pick (read_ku L) (last_extension KEY_USAGE_OID xs) ku"
proof (induction xs arbitrary: bc ku)
  case (Cons x xs)
  show ?case
    by (auto simp: result_simps Cons.IH extension_ok_def last_extension_Cons pick_def read_bc_def
        read_ku_def split: option.splits if_splits)
qed auto

definition cert_constraints :: "lib \<Rightarrow> certificate \<Rightarrow> basic_constraints option" where
  "cert_constraints L cert =
     (case cert_extensions cert of None \<Rightarrow> None
      | Some xs \<Rightarrow> Option.bind (last_extension BASIC_CONSTRAINTS_OID xs) (read_bc L))"

definition cert_key_usage :: "lib \<Rightarrow> certificate \<Rightarrow> key_usage option" where
  "cert_key_usage L cert =
     (case cert_extensions cert of None \<Rightarrow> None
      | Some xs \<Rightarrow> Option.bind (last_extension KEY_USAGE_OID xs) (read_ku L))"

definition cert_current :: "lib \<Rightarrow> certificate \<Rightarrow> system_time \<Rightarrow> bool" where
  "cert_current L cert now \<longleftrightarrow>
     cert_not_before cert \<le> now \<and> now \<le> cert_not_after cert \<and>
     list_all (extension_ok L) (case cert_extensions cert of None \<Rightarrow> [] | Some xs \<Rightarrow> xs)"

definition acceptable_leaf :: "lib \<Rightarrow> certificate \<Rightarrow> system_time \<Rightarrow> bool" where
  "acceptable_leaf L cert now \<longleftrightarrow>
     cert_current L cert now \<and>
     (\<forall>b. cert_constraints L cert = Some b \<longrightarrow> \<not> bc_ca b) \<and>
     (\<forall>u. cert_key_usage L cert = Some u \<longrightarrow> ku_digital_signature u)"

definition acceptable_ca :: "lib \<Rightarrow> certificate \<Rightarrow> nat \<Rightarrow> system_time \<Rightarrow> bool" where
  "acceptable_ca L cert n now \<longleftrightarrow>
     cert_current L cert now \<and>
     (\<exists>b. cert_constraints L cert = Some b \<and> bc_ca b \<and>
          (\<forall>limit. bc_path_len b = Some limit \<longrightarrow> n \<le> unat limit)) \<and>
     (\<forall>u. cert_key_usage L cert = Some u \<longrightarrow> ku_key_cert_sign u)"

lemma validate_leaf_Ok:
  "validate_leaf bc ku = Ok () \<longleftrightarrow>
     (\<forall>b. bc = Some b \<longrightarrow> \<not> bc_ca b) \<and> (\<forall>u. ku = Some u \<longrightarrow> ku_digital_signature u)"
  by (auto simp: validate_leaf_def split: option.splits)

lemma validate_ca_Ok:
  "validate_ca bc ku n = Ok () \<longleftrightarrow>
     (\<exists>b. bc = Some b \<and> bc_ca b \<and> (\<forall>limit. bc_path_len b = Some limit \<longrightarrow> n \<le> unat limit)) \<and>
     (\<forall>u. ku = Some u \<longrightarrow> ku_key_cert_sign u)"
  by (cases bc; cases ku; cases "bc_path_len (the bc)") (auto simp: validate_ca_def not_less)

lemma validate_cert_Ok:
  "validate_cert L cert is_leaf n now = Ok () \<longleftrightarrow>
     cert_current L cert now \<and>
     (if is_leaf then validate_leaf (cert_constraints L cert) (cert_key_usage L cert) = Ok ()
      else validate_ca (cert_constraints L cert) (cert_key_usage L cert) n = Ok ())"
proof (cases "cert_extensions cert")
  case None
  then show ?thesis
    by (auto simp: validate_cert_def cert_current_def cert_constraints_def cert_key_usage_def)
next
  case (Some xs)
  have b: "pick rd x None = Option.bind x rd" for rd :: "x509_extension \<Rightarrow> 'b option" and x
    by (cases x) (simp_all add: pick_def)
  show ?thesis
    by (auto simp: validate_cert_def cert_current_def cert_constraints_def cert_key_usage_def
        Some result_simps scan_extensions_Ok b)
qed

lemma validate_cert_leaf: "validate_cert L cert True n now = Ok () \<longleftrightarrow> acceptable_leaf L cert now"
  by (simp add: validate_cert_Ok validate_leaf_Ok acceptable_leaf_def)

lemma validate_cert_ca: "validate_cert L cert False n now = Ok () \<longleftrightarrow> acceptable_ca L cert n now"
  by (simp add: validate_cert_Ok validate_ca_Ok acceptable_ca_def)

section \<open>Trusted paths\<close>

definition signed_by :: "lib \<Rightarrow> certificate \<Rightarrow> certificate \<Rightarrow> bool" where
  "signed_by L cert parent \<longleftrightarrow>
     (\<exists>key tbs sig. p384_key_from_sec1 L (cert_public_key parent) = Ok key \<and>
        cert_tbs_der cert = Ok tbs \<and>
        p384_signature_from_der L (cert_signature cert) = Ok sig \<and>
        p384_verify L key tbs sig = Ok ())"

definition issued_by :: "lib \<Rightarrow> system_time \<Rightarrow> nat \<Rightarrow> certificate \<Rightarrow> certificate \<Rightarrow> bool" where
  "issued_by L now n cert parent \<longleftrightarrow>
     acceptable_ca L parent n now \<and> cert_issuer cert = cert_subject parent \<and>
     signed_by L cert parent"

text \<open>
  \<open>trusted_path L root now n cert bundle\<close>: the bundle, read from the leaf's side, holds a
  path of issuers from \<open>cert\<close> to a certificate whose encoding is \<open>root\<close>, with \<open>n\<close>
  intermediate authorities already below it.
\<close>

inductive trusted_path ::
  "lib \<Rightarrow> bytes \<Rightarrow> system_time \<Rightarrow> nat \<Rightarrow> certificate \<Rightarrow> bytes list \<Rightarrow> bool"
  for L root now where
  reached: "cert_from_der L b = Ok p \<Longrightarrow> issued_by L now n cert p \<Longrightarrow> cert_der p = Ok root \<Longrightarrow>
    trusted_path L root now n cert (b # bs)"
| extend: "cert_from_der L b = Ok p \<Longrightarrow> issued_by L now n cert p \<Longrightarrow> cert_der p = Ok d \<Longrightarrow>
    trusted_path L root now (Suc n) p bs \<Longrightarrow> trusted_path L root now n cert (b # bs)"

inductive_simps trusted_path_Nil [simp]: "trusted_path L root now n cert []"
inductive_simps trusted_path_Cons: "trusted_path L root now n cert (b # bs)"

lemma check_link_Ok:
  "check_link L cert p = Ok () \<longleftrightarrow> cert_issuer cert = cert_subject p \<and> signed_by L cert p"
  by (auto simp: check_link_def signed_by_def result_simps)

lemma walk_chain_reaches:
  "(\<exists>c. walk_chain L root now n cert bs = Ok (True, c)) \<longleftrightarrow> trusted_path L root now n cert bs"
proof (induction bs arbitrary: n cert)
  case (Cons b bs)
  have "(\<exists>c. walk_chain L root now n cert (b # bs) = Ok (True, c)) \<longleftrightarrow>
    (\<exists>p d. cert_from_der L b = Ok p \<and> issued_by L now n cert p \<and> cert_der p = Ok d \<and>
       (d = root \<or> (\<exists>c. walk_chain L root now (Suc n) p bs = Ok (True, c))))"
    by (auto simp: result_simps validate_cert_ca check_link_Ok issued_by_def) metis
  also have "\<dots> \<longleftrightarrow> trusted_path L root now n cert (b # bs)"
    using Cons.IH by (auto simp: trusted_path_Cons)
  finally show ?case .
qed simp

text \<open>When the root is not reached, the last certificate is not the root either, unless
  the bundle is empty.\<close>

lemma walk_chain_misses:
  "walk_chain L root now n cert bs = Ok (False, c) \<Longrightarrow>
     (if bs = [] then c = cert else cert_der c \<noteq> Ok root)"
proof (induction bs arbitrary: n cert)
  case (Cons b bs)
  then obtain p d where "walk_chain L root now (Suc n) p bs = Ok (False, c)"
    and "cert_der p = Ok d" "d \<noteq> root"
    by (auto simp: result_simps split: if_splits)
  with Cons.IH [of "Suc n" p] show ?case by (cases "bs = []") auto
qed simp

text \<open>The whole verification, as one predicate on the document and its bytes.\<close>

definition headers_acceptable :: "lib \<Rightarrow> cose_sign1 \<Rightarrow> bool" where
  "headers_acceptable L cose \<longleftrightarrow>
     ch_alg (cs_protected cose) = Some (AlgAssigned ES384) \<and>
     ch_alg (cs_unprotected cose) = None \<and> ch_crit (cs_protected cose) = [] \<and>
     cose_header_is_empty L (cs_unprotected cose)"

definition document_signed_by :: "lib \<Rightarrow> cose_sign1 \<Rightarrow> certificate \<Rightarrow> bool" where
  "document_signed_by L cose leaf \<longleftrightarrow>
     (\<exists>key sig. p384_key_from_sec1 L (cert_public_key leaf) = Ok key \<and>
        p384_signature_from_slice L (cs_signature cose) = Ok sig \<and>
        p384_verify L key (cose_tbs_data L cose []) sig = Ok ())"

definition trusted_document :: "lib \<Rightarrow> bytes \<Rightarrow> bytes \<Rightarrow> system_time \<Rightarrow> attestation_doc \<Rightarrow> bool" where
  "trusted_document L doc_bytes root now doc \<longleftrightarrow>
     (\<exists>cose payload leaf.
        cose_from_slice L doc_bytes = Ok cose \<and> headers_acceptable L cose \<and>
        cs_payload cose = Some payload \<and> doc_from_binary L payload = Ok doc \<and>
        cert_from_der L (ad_certificate doc) = Ok leaf \<and> acceptable_leaf L leaf now \<and>
        document_signed_by L cose leaf \<and>
        (trusted_path L root now 0 leaf (rev (ad_cabundle doc)) \<or>
         ad_cabundle doc = [] \<and> cert_der leaf = Ok root))"

lemma check_attestation_headers_Ok:
  "check_attestation_headers L cose = Ok () \<longleftrightarrow> headers_acceptable L cose"
  by (auto simp: check_attestation_headers_def headers_acceptable_def)

lemma check_leaf_signature_Ok:
  "check_leaf_signature L cose leaf = Ok () \<longleftrightarrow> document_signed_by L cose leaf"
  by (auto simp: check_leaf_signature_def document_signed_by_def result_simps)

lemma walk_and_compare:
  "(\<exists>v c. walk_chain L root now 0 leaf (rev bs) = Ok (v, c) \<and> (v \<or> cert_der c = Ok root)) \<longleftrightarrow>
     trusted_path L root now 0 leaf (rev bs) \<or> bs = [] \<and> cert_der leaf = Ok root"
  (is "?l \<longleftrightarrow> ?r")
proof
  assume ?l
  then obtain v c where w: "walk_chain L root now 0 leaf (rev bs) = Ok (v, c)"
    and v: "v \<or> cert_der c = Ok root" by blast
  show ?r
  proof (cases v)
    case True
    with w have "\<exists>c. walk_chain L root now 0 leaf (rev bs) = Ok (True, c)" by auto
    then show ?thesis by (simp add: walk_chain_reaches)
  next
    case False
    with w v walk_chain_misses [of L root now 0 leaf "rev bs" c] show ?thesis
      by (auto split: if_splits)
  qed
next
  assume ?r
  then show ?l
  proof
    assume "trusted_path L root now 0 leaf (rev bs)"
    then show ?l using walk_chain_reaches by blast
  qed auto
qed

lemma verify_attestation_doc_Ok:
  "verify_attestation_doc L b root now = Ok doc \<longleftrightarrow> trusted_document L b root now doc"
proof -
  have conclude: "conclude_chain root d r = Ok doc \<longleftrightarrow>
      doc = d \<and> (\<exists>v c. r = (v, c) \<and> (v \<or> cert_der c = Ok root))" for d r
    by (cases r) (auto simp: result_simps)
  show ?thesis
    unfolding verify_attestation_doc_def trusted_document_def walk_and_compare [symmetric]
    by (auto simp: result_simps check_attestation_headers_Ok validate_cert_leaf
        check_leaf_signature_Ok conclude simp del: conclude_chain.simps)
qed

end
