(* ===== verification/Providers.thy ===== *)
theory Providers
  imports Attestation
begin

text \<open>
  The trait \<open>AttestationProvider\<close> as a record of its four methods, and its three
  implementations: the mock (\<open>mock.rs\<close>), the Nitro device (\<open>nitro.rs\<close>) and the offline
  verifier of the WASM crate.  The locale \<open>attestation_verifier\<close> is the contract the
  receipt verifier relies on; each implementation interprets it.
\<close>

section \<open>The trait\<close>

text \<open>\<open>p_generate\<close> and \<open>p_verify\<close> read the clock themselves: the first argument is what it shows.\<close>

record provider =
  p_name :: str
  p_hardware :: bool
  p_generate :: "system_time \<Rightarrow> bytes option \<Rightarrow> bytes option \<Rightarrow> bytes option \<Rightarrow>
    (attestation_error, bytes) result"
  p_verify :: "system_time \<Rightarrow> bytes \<Rightarrow> bytes \<Rightarrow> (attestation_error, bool) result"

text \<open>The default methods of the trait.\<close>

definition default_name :: str where
  "default_name = ''custom''"

definition default_is_hardware_backed :: bool where
  "default_is_hardware_backed = False"

section \<open>The contract\<close>

locale attestation_verifier =
  fixes L :: lib and P :: provider
  assumes verify_decides:
    "p_verify P now doc root = Ok (is_ok (verify_attestation_doc L doc root now))"
begin

lemma verify_accepts:
  "p_verify P now doc root = Ok True \<longleftrightarrow> (\<exists>d. trusted_document L doc root now d)"
  by (auto simp: verify_decides is_ok_iff verify_attestation_doc_Ok)

lemma verify_never_errs: "p_verify P now doc root \<noteq> Err e"
  by (simp add: verify_decides)

end

text \<open>A provider whose successful verification stands for real hardware, as it says itself.\<close>

locale hardware_verifier = attestation_verifier +
  assumes hardware: "p_hardware P"
begin

lemma hardware_evidence:
  "p_verify P now doc root = Ok True \<Longrightarrow> p_hardware P \<and> (\<exists>d. trusted_document L doc root now d)"
  using hardware verify_accepts by blast

end

section \<open>The mock provider\<close>

text \<open>
  \<open>pem_to_der\<close>; \<open>None\<close> is the panic of \<open>expect\<close>.  The fixtures of the repository are
  compiled into the provider, so their decoded form is its parameter.
\<close>

definition pem_to_der :: "lib \<Rightarrow> str \<Rightarrow> bytes option" where
  "pem_to_der L pem =
     (case base64_decode L
             (concat (map str_trim (filter (\<lambda>l. \<not> prefix ''-----'' l) (str_lines pem)))) of
        Inr der \<Rightarrow> Some der
      | Inl _ \<Rightarrow> None)"

record mock_pki =
  mock_root_der :: bytes
  mock_intermediate_der :: bytes
  mock_leaf_der :: bytes
  mock_leaf_key_pem :: str

definition mock_pki_of :: "lib \<Rightarrow> str \<Rightarrow> str \<Rightarrow> str \<Rightarrow> str \<Rightarrow> mock_pki option" where
  "mock_pki_of L root_pem intermediate_pem leaf_pem key_pem =
     Option.bind (pem_to_der L leaf_pem) (\<lambda>leaf_der.
     Option.bind (pem_to_der L intermediate_pem) (\<lambda>intermediate_der.
     Option.bind (pem_to_der L root_pem) (\<lambda>root_der.
       Some \<lparr>mock_root_der = root_der, mock_intermediate_der = intermediate_der,
             mock_leaf_der = leaf_der, mock_leaf_key_pem = key_pem\<rparr>)))"

definition mock_document ::
  "mock_pki \<Rightarrow> u64 \<Rightarrow> bytes option \<Rightarrow> bytes option \<Rightarrow> bytes option \<Rightarrow> attestation_doc" where
  "mock_document pki now_ms user_data nonce public_key =
     \<lparr>ad_module_id = ''Mock-Hypervisor-Module'',
      ad_timestamp = now_ms,
      ad_digest = ''SHA384'',
      ad_pcrs = [0 \<mapsto> replicate 48 0, 3 \<mapsto> replicate 48 0, 4 \<mapsto> replicate 48 0],
      ad_certificate = mock_leaf_der pki,
      ad_cabundle = [mock_root_der pki, mock_intermediate_der pki],
      ad_public_key = public_key,
      ad_user_data = user_data,
      ad_nonce = nonce\<rparr>"

definition mock_generate ::
  "lib \<Rightarrow> mock_pki \<Rightarrow> system_time \<Rightarrow> bytes option \<Rightarrow> bytes option \<Rightarrow> bytes option \<Rightarrow>
   (attestation_error, bytes) result" where
  "mock_generate L pki now user_data nonce public_key =
     and_then (map_err ValidationError (since_epoch now)) (\<lambda>elapsed.
     and_then (map_err (\<lambda>e. ValidationError (err_display e))
                 (doc_to_binary L
                    (mock_document pki (as_millis_u64 elapsed) user_data nonce public_key)))
       (\<lambda>payload.
       let cose = cose_sign1_build L (cose_header_build L ES384 None) payload in
       and_then (map_err (\<lambda>e. ValidationError (''Failed to parse signing key: '' @ err_display e))
                   (p384_signing_key_from_pem L (mock_leaf_key_pem pki))) (\<lambda>key.
         let tbs = cose_tbs_data L cose [];
             signed = cose\<lparr>cs_signature := p384_sign L key tbs\<rparr>
         in map_err (\<lambda>e. ValidationError (''Failed to serialize COSE_Sign1: '' @ err_display e))
              (cose_to_vec L signed))))"

definition mock_verify ::
  "lib \<Rightarrow> system_time \<Rightarrow> bytes \<Rightarrow> bytes \<Rightarrow> (attestation_error, bool) result" where
  "mock_verify L now doc_bytes expected_root =
     (case verify_attestation_doc L doc_bytes expected_root now of
        Inr _ \<Rightarrow> Ok True
      | Inl _ \<Rightarrow> Ok False)"

definition mock_provider :: "lib \<Rightarrow> mock_pki \<Rightarrow> provider" where
  "mock_provider L pki =
     \<lparr>p_name = ''mock-nitro'', p_hardware = False,
      p_generate = mock_generate L pki, p_verify = mock_verify L\<rparr>"

interpretation mock: attestation_verifier L "mock_provider L pki" for L pki
  by unfold_locales (simp add: mock_provider_def mock_verify_def split: sum.split)

section \<open>The Nitro provider\<close>

text \<open>The NSM device, behind the driver crate: its file descriptor and its answers.\<close>

datatype nsm_request =
  NsmAttestationRequest (nsm_nonce: "bytes option") (nsm_public_key: "bytes option")
    (nsm_user_data: "bytes option")

datatype nsm_response = NsmDocument bytes | NsmError str | NsmOther

record nsm_device =
  nsm_fd :: int
  nsm_process_request :: "nsm_request \<Rightarrow> nsm_response"

definition nitro_generate ::
  "nsm_device \<Rightarrow> system_time \<Rightarrow> bytes option \<Rightarrow> bytes option \<Rightarrow> bytes option \<Rightarrow>
   (attestation_error, bytes) result" where
  "nitro_generate dev now user_data nonce public_key =
     (if nsm_fd dev < 0 then Err (HardwareUnavailable ''Failed to open /dev/nsm driver'')
      else
        (case nsm_process_request dev (NsmAttestationRequest nonce public_key user_data) of
           NsmDocument document \<Rightarrow> Ok document
         | NsmError err \<Rightarrow> Err (ValidationError (''NSM process request failed: '' @ err))
         | NsmOther \<Rightarrow> Err (ValidationError ''Unexpected response type from NSM'')))"

definition nitro_verify ::
  "lib \<Rightarrow> system_time \<Rightarrow> bytes \<Rightarrow> bytes \<Rightarrow> (attestation_error, bool) result" where
  "nitro_verify L now doc_bytes expected_root =
     (case verify_attestation_doc L doc_bytes expected_root now of
        Inr _ \<Rightarrow> Ok True
      | Inl _ \<Rightarrow> Ok False)"

definition nitro_provider :: "lib \<Rightarrow> nsm_device \<Rightarrow> provider" where
  "nitro_provider L dev =
     \<lparr>p_name = ''aws-nitro'', p_hardware = True,
      p_generate = nitro_generate dev, p_verify = nitro_verify L\<rparr>"

interpretation nitro: hardware_verifier L "nitro_provider L dev" for L dev
  by unfold_locales (simp_all add: nitro_provider_def nitro_verify_def split: sum.split)

section \<open>The offline provider of the WASM crate\<close>

definition offline_generate ::
  "system_time \<Rightarrow> bytes option \<Rightarrow> bytes option \<Rightarrow> bytes option \<Rightarrow>
   (attestation_error, bytes) result" where
  "offline_generate now user_data nonce public_key =
     Err (HardwareUnavailable ''the WASM verifier cannot generate attestations'')"

definition offline_verify ::
  "lib \<Rightarrow> system_time \<Rightarrow> bytes \<Rightarrow> bytes \<Rightarrow> (attestation_error, bool) result" where
  "offline_verify L now doc expected_root =
     Ok (is_ok (verify_attestation_doc L doc expected_root now))"

definition offline_provider :: "lib \<Rightarrow> provider" where
  "offline_provider L =
     \<lparr>p_name = ''offline-nitro'', p_hardware = True,
      p_generate = offline_generate, p_verify = offline_verify L\<rparr>"

interpretation offline: hardware_verifier L "offline_provider L" for L
  by unfold_locales (simp_all add: offline_provider_def offline_verify_def)

lemma providers_verify_alike:
  "p_verify (mock_provider L pki) t b root = p_verify (offline_provider L) t b root"
  "p_verify (nitro_provider L dev) t b root = p_verify (offline_provider L) t b root"
  using mock.verify_decides nitro.verify_decides offline.verify_decides by simp_all

section \<open>The mock document\<close>

text \<open>What a mock attestation carries, once it is generated.\<close>

lemma mock_generate_Ok:
  "mock_generate L pki now ud nn pk = Ok b \<longleftrightarrow>
     0 \<le> now \<and>
     (\<exists>payload key.
        doc_to_cbor L (mock_document pki (as_millis_u64 (nat now)) ud nn pk) = Ok payload \<and>
        p384_signing_key_from_pem L (mock_leaf_key_pem pki) = Ok key \<and>
        (let cose = cose_sign1_build L (cose_header_build L ES384 None) payload
         in cose_to_vec L (cose\<lparr>cs_signature := p384_sign L key (cose_tbs_data L cose [])\<rparr>) = Ok b))"
  unfolding mock_generate_def result_simps since_epoch_Ok doc_to_binary_def Let_def by blast

lemma mock_generate_parses:
  assumes "cose_roundtrips L" "cose_builds L" "cbor_roundtrips L"
    and "mock_generate L pki now ud nn pk = Ok b"
  shows "\<exists>cose payload. cose_from_slice L b = Ok cose \<and> cs_payload cose = Some payload \<and>
    doc_from_binary L payload = Ok (mock_document pki (as_millis_u64 (nat now)) ud nn pk)"
proof -
  let ?doc = "mock_document pki (as_millis_u64 (nat now)) ud nn pk"
  let ?c = "\<lambda>payload key. let cose = cose_sign1_build L (cose_header_build L ES384 None) payload
    in cose\<lparr>cs_signature := p384_sign L key (cose_tbs_data L cose [])\<rparr>"
  obtain payload key where p: "doc_to_cbor L ?doc = Ok payload"
    and v: "cose_to_vec L (?c payload key) = Ok b"
    using assms(4) unfolding mock_generate_Ok Let_def by blast
  have c: "cs_payload (?c payload key) = Some payload"
    using assms(2) by (simp add: cose_builds_def Let_def)
  obtain d where "cose_from_slice L b = Ok d" "same_cose L (?c payload key) d"
    using assms(1) v unfolding cose_roundtrips_def by blast
  moreover have "doc_from_binary L payload = Ok ?doc"
    using assms(3) p by (simp add: cbor_roundtrips_def doc_from_binary_def)
  ultimately show ?thesis
    using c unfolding same_cose_def by metis
qed

end
