(* ===== verification/Monotone_Register.thy ===== *)
theory Monotone_Register
  imports Veri_Prelude
begin

text \<open>
  The contract of a monotone register, which the receipt generator, the receipt verifier
  and the verifier service share: a call either hands out (or accepts) a number for a key,
  larger than every number of that key before it, or hands out nothing and lowers no mark.
  The client of the contract is the log of a whole sequence of calls.
\<close>

type_synonym ('c, 's, 'k) register_step = "'c \<Rightarrow> 's \<Rightarrow> ('k \<times> nat) option \<times> 's"

text \<open>The numbers handed out by a sequence of calls, and the state after it.\<close>

fun run_log :: "('c, 's, 'k) register_step \<Rightarrow> 'c list \<Rightarrow> 's \<Rightarrow> ('k \<times> nat) list" where
  "run_log step [] s = []"
| "run_log step (c # cs) s =
     (case step c s of
        (Some e, s') \<Rightarrow> e # run_log step cs s'
      | (None, s') \<Rightarrow> run_log step cs s')"

definition run_state :: "('c, 's, 'k) register_step \<Rightarrow> 'c list \<Rightarrow> 's \<Rightarrow> 's" where
  "run_state step cs s = fold (\<lambda>c s. snd (step c s)) cs s"

definition mark_le :: "('k \<rightharpoonup> nat) \<Rightarrow> ('k \<rightharpoonup> nat) \<Rightarrow> bool" where
  "mark_le m m' \<longleftrightarrow> (\<forall>k n. m k = Some n \<longrightarrow> (\<exists>n'. m' k = Some n' \<and> n \<le> n'))"

lemma mark_le_refl [simp]: "mark_le m m"
  by (simp add: mark_le_def)

lemma mark_le_trans: "mark_le a b \<Longrightarrow> mark_le b c \<Longrightarrow> mark_le a c"
  unfolding mark_le_def by (meson order_trans)

lemma mark_le_upd: "(\<And>n'. m k = Some n' \<Longrightarrow> n' \<le> n) \<Longrightarrow> mark_le m (m(k \<mapsto> n))"
  by (auto simp: mark_le_def)

definition increasing_log :: "('k \<times> nat) list \<Rightarrow> bool" where
  "increasing_log es \<longleftrightarrow> sorted_wrt (\<lambda>a b. fst a = fst b \<longrightarrow> snd a < snd b) es"

locale monotone_register =
  fixes step :: "('c, 's, 'k) register_step" and mark :: "'s \<Rightarrow> 'k \<rightharpoonup> nat" and inv :: "'s \<Rightarrow> bool"
  assumes hands_out: "inv s \<Longrightarrow> step c s = (Some (k, n), s') \<Longrightarrow>
      (\<forall>m. mark s k = Some m \<longrightarrow> m < n) \<and> mark s' k = Some n \<and> mark_le (mark s) (mark s')"
    and keeps: "inv s \<Longrightarrow> step c s = (None, s') \<Longrightarrow> mark_le (mark s) (mark s')"
    and inv_step: "inv s \<Longrightarrow> inv (snd (step c s))"
begin

lemma step_mark_le: "inv s \<Longrightarrow> mark_le (mark s) (mark (snd (step c s)))"
  by (cases "step c s"; cases "fst (step c s)") (auto dest: hands_out keeps)

lemma run_inv: "inv s \<Longrightarrow> inv (run_state step cs s)"
  by (induction cs arbitrary: s) (simp_all add: run_state_def inv_step)

lemma run_mark_le: "inv s \<Longrightarrow> mark_le (mark s) (mark (run_state step cs s))"
proof (induction cs arbitrary: s)
  case (Cons c cs)
  then show ?case
    using step_mark_le [of s c] by (auto simp: run_state_def inv_step intro: mark_le_trans)
qed (simp add: run_state_def)

lemma log_above:
  "inv s \<Longrightarrow> (k, n) \<in> set (run_log step cs s) \<Longrightarrow> mark s k = Some m \<Longrightarrow> m < n"
proof (induction cs arbitrary: s m)
  case (Cons c cs)
  obtain e s' where st: "step c s = (e, s')" by fastforce
  then obtain m' where m': "mark s' k = Some m'" "m \<le> m'"
    using Cons.prems step_mark_le [of s c] unfolding mark_le_def by (metis snd_conv)
  have inv': "inv s'"
    using inv_step [OF Cons.prems(1), of c] st by simp
  show ?case
  proof (cases e)
    case None
    with st Cons m' inv' show ?thesis by fastforce
  next
    case (Some kn)
    with st Cons.prems Cons.IH [OF inv' _ m'(1)] m'(2) hands_out [of s c] show ?thesis
      by (cases kn) (fastforce split: prod.splits)
  qed
qed simp

lemma log_increasing: "inv s \<Longrightarrow> increasing_log (run_log step cs s)"
  unfolding increasing_log_def
proof (induction cs arbitrary: s)
  case (Cons c cs)
  obtain e s' where st: "step c s = (e, s')" by fastforce
  have inv': "inv s'"
    using inv_step [OF Cons.prems, of c] st by simp
  show ?case
  proof (cases e)
    case None
    with st Cons inv' show ?thesis by simp
  next
    case (Some kn)
    obtain k n where kn: "kn = (k, n)" by fastforce
    have "mark s' k = Some n"
      using st Some kn Cons.prems by (auto dest: hands_out)
    then show ?thesis
      using st Some kn Cons inv' log_above [of s' k _ cs n] by auto
  qed
qed simp

lemma log_distinct: "inv s \<Longrightarrow> distinct (run_log step cs s)"
proof -
  assume "inv s"
  have "sorted_wrt (\<lambda>a b. fst a = fst b \<longrightarrow> snd a < snd b) es \<Longrightarrow> distinct es"
    for es :: "('k \<times> nat) list"
    by (induction es) auto
  then show ?thesis
    using log_increasing [OF \<open>inv s\<close>] unfolding increasing_log_def by blast
qed

end

end
