(* ===== verification/Receipt_Generator.thy ===== *)
theory Receipt_Generator
  imports Providers Monotone_Register
begin

text \<open>
  \<open>crates/veriai-core/src/receipt.rs\<close>: the generator of signed receipts.  Its state is the
  ephemeral signing key and the atomic sequence counter; \<open>generation_lock\<close> is held
  for a whole call, so a call is one atomic step from state to state and concurrent
  callers are a sequence of such steps.
\<close>

section \<open>The generator\<close>

record generator =
  rg_provider :: provider
  rg_signing_key :: bytes
  rg_sequence_num :: u64

text \<open>\<open>new\<close> draws the key from the operating system; here the drawn key is the argument.\<close>

definition generator_with_key :: "provider \<Rightarrow> bytes \<Rightarrow> generator" where
  "generator_with_key P key = \<lparr>rg_provider = P, rg_signing_key = key, rg_sequence_num = 0\<rparr>"

definition generator_new :: "provider \<Rightarrow> bytes \<Rightarrow> generator" where
  "generator_new P drawn_key =
     \<lparr>rg_provider = P, rg_signing_key = drawn_key, rg_sequence_num = 0\<rparr>"

definition public_key_bytes :: "lib \<Rightarrow> generator \<Rightarrow> bytes" where
  "public_key_bytes L g = ed25519_public_key L (rg_signing_key g)"

definition compute_report_data :: "lib \<Rightarrow> generator \<Rightarrow> bytes" where
  "compute_report_data L g =
     sha512 L ([0x01] @ as_bytes ''VeriAI-KeyBind-v1'' @ public_key_bytes L g)"

definition CARGO_PKG_VERSION :: str where
  "CARGO_PKG_VERSION = ''0.1.0''"

text \<open>\<open>fetch_update\<close> with \<open>checked_add(1)\<close>: the previous value and the counter after.\<close>

definition next_sequence :: "u64 \<Rightarrow> (verify_error, u64) result \<times> u64" where
  "next_sequence n =
     (case checked_add_u64 n 1 of
        Some n' \<Rightarrow> (Ok n, n')
      | None \<Rightarrow> (Err SequenceNumberExhausted, n))"

text \<open>Wrapping the claims in a signed \<open>COSE_Sign1\<close> structure.\<close>

definition sign_claims :: "lib \<Rightarrow> generator \<Rightarrow> veri_claims \<Rightarrow> (verify_error, bytes) result" where
  "sign_claims L g claims =
     and_then (map_err (\<lambda>_. MalformedReceipt) (claims_to_binary L claims)) (\<lambda>payload.
       let protected = cose_header_build L EdDSA (Some ''application/cwt'');
           cose = cose_sign1_build L protected payload;
           tbs = cose_tbs_data L cose [];
           signed = cose\<lparr>cs_signature := ed25519_sign L (rg_signing_key g) tbs\<rparr>
       in map_err (\<lambda>_. MalformedReceipt) (cose_to_vec L signed))"

text \<open>
  \<open>generate_receipt\<close>: \<open>t_provider\<close> is the clock of the provider, \<open>now\<close> the one read for the
  claims.  The result and the generator after the call.
\<close>

definition generate_receipt ::
  "lib \<Rightarrow> system_time \<Rightarrow> system_time \<Rightarrow> bytes \<Rightarrow> bytes \<Rightarrow> bytes \<Rightarrow> bytes \<Rightarrow> generator \<Rightarrow>
   (verify_error, bytes) result \<times> generator" where
  "generate_receipt L t_provider now model_hash input_hash output_hash client_nonce g =
     (let pubkey_bytes = public_key_bytes L g;
          report_data = compute_report_data L g
      in case p_generate (rg_provider g) t_provider (Some report_data) (Some client_nonce)
                (Some pubkey_bytes) of
           Inl e \<Rightarrow> (Err (Attestation (show_attestation_error e)), g)
         | Inr attestation_report \<Rightarrow>
             (case next_sequence (rg_sequence_num g) of
                (Inl e, _) \<Rightarrow> (Err e, g)
              | (Inr sequence_num, counter) \<Rightarrow>
                  (and_then (map_err InvalidAttestationDocument (since_epoch now)) (\<lambda>elapsed.
                     sign_claims L g
                       \<lparr>vc_model_hash = model_hash, vc_input_hash = input_hash,
                        vc_output_hash = output_hash, vc_client_nonce = client_nonce,
                        vc_sequence_num = sequence_num,
                        vc_attestation_report = attestation_report,
                        vc_attestation_type = 3,
                        vc_attestation_timestamp = as_secs elapsed,
                        vc_sdk_version = CARGO_PKG_VERSION,
                        vc_enclave_pubkey = pubkey_bytes\<rparr>),
                   g\<lparr>rg_sequence_num := counter\<rparr>)))"

section \<open>The sequence counter\<close>

lemma next_sequence_Ok:
  "next_sequence n = (Ok m, n') \<longleftrightarrow> m = n \<and> unat n + 1 < 2 ^ 64 \<and> unat n' = unat n + 1"
  by (auto simp: next_sequence_def checked_add_u64_def unat_word_ariths word_unat_eq_iff)

lemma next_sequence_Err:
  "next_sequence n = (Err e, n') \<longleftrightarrow> e = SequenceNumberExhausted \<and> n' = n \<and> unat n + 1 = 2 ^ 64"
proof -
  have "unat n < 2 ^ 64" using unsigned_less [of n, where ?'a = nat] by simp
  then show ?thesis
    by (auto simp: next_sequence_def checked_add_u64_def)
qed

lemma generate_receipt_frame:
  "rg_provider (snd (generate_receipt L tp now mh ih oh nn g)) = rg_provider g"
  "rg_signing_key (snd (generate_receipt L tp now mh ih oh nn g)) = rg_signing_key g"
  by (auto simp: generate_receipt_def Let_def split: sum.splits prod.splits)

text \<open>A successful call returns the serialized, signed claims with the counter's value,
  and advances the counter by one.\<close>

definition issued_claims ::
  "lib \<Rightarrow> system_time \<Rightarrow> bytes \<Rightarrow> bytes \<Rightarrow> bytes \<Rightarrow> bytes \<Rightarrow> bytes \<Rightarrow> generator \<Rightarrow> veri_claims"
where
  "issued_claims L now mh ih oh nn report g =
     \<lparr>vc_model_hash = mh, vc_input_hash = ih, vc_output_hash = oh, vc_client_nonce = nn,
      vc_sequence_num = rg_sequence_num g, vc_attestation_report = report,
      vc_attestation_type = 3, vc_attestation_timestamp = as_secs (nat now),
      vc_sdk_version = CARGO_PKG_VERSION, vc_enclave_pubkey = public_key_bytes L g\<rparr>"

lemma generate_receipt_Ok:
  "generate_receipt L tp now mh ih oh nn g = (Ok b, g') \<longleftrightarrow>
     (\<exists>report. p_generate (rg_provider g) tp (Some (compute_report_data L g)) (Some nn)
        (Some (public_key_bytes L g)) = Ok report \<and>
      unat (rg_sequence_num g) + 1 < 2 ^ 64 \<and> 0 \<le> now \<and>
      sign_claims L g (issued_claims L now mh ih oh nn report g) = Ok b \<and>
      g' = g\<lparr>rg_sequence_num := rg_sequence_num g + 1\<rparr>)"
proof (cases "p_generate (rg_provider g) tp (Some (compute_report_data L g)) (Some nn)
    (Some (public_key_bytes L g))")
  case (Inl e)
  then show ?thesis by (simp add: generate_receipt_def Let_def)
next
  case (Inr report)
  show ?thesis
  proof (cases "unat (rg_sequence_num g) + 1 < 2 ^ 64")
    case True
    then have "next_sequence (rg_sequence_num g) = (Ok (rg_sequence_num g), rg_sequence_num g + 1)"
      by (simp add: next_sequence_def checked_add_u64_def)
    with Inr True show ?thesis
      by (auto simp: generate_receipt_def Let_def result_simps since_epoch_Ok issued_claims_def)
  next
    case False
    then have "next_sequence (rg_sequence_num g) = (Err SequenceNumberExhausted, rg_sequence_num g)"
      by (simp add: next_sequence_def checked_add_u64_def)
    with Inr False show ?thesis
      by (simp add: generate_receipt_def Let_def)
  qed
qed

lemma generate_receipt_counter:
  "unat (rg_sequence_num g) \<le>
     unat (rg_sequence_num (snd (generate_receipt L tp now mh ih oh nn g)))"
proof (cases "next_sequence (rg_sequence_num g)")
  case (Pair r n')
  have "unat (rg_sequence_num g) \<le> unat n'"
    using Pair by (cases r) (auto simp: next_sequence_Ok next_sequence_Err)
  with Pair show ?thesis
    by (cases r) (auto simp: generate_receipt_def Let_def split: sum.splits)
qed

section \<open>Sequences of calls\<close>

text \<open>One call by any caller; the lock makes the calls of all callers one sequence.\<close>

record receipt_call =
  rc_provider_time :: system_time
  rc_now :: system_time
  rc_model_hash :: bytes
  rc_input_hash :: bytes
  rc_output_hash :: bytes
  rc_nonce :: bytes

definition call_generator ::
  "lib \<Rightarrow> receipt_call \<Rightarrow> generator \<Rightarrow> (verify_error, bytes) result \<times> generator" where
  "call_generator L c g =
     generate_receipt L (rc_provider_time c) (rc_now c) (rc_model_hash c) (rc_input_hash c)
       (rc_output_hash c) (rc_nonce c) g"

section \<open>The receipt read back\<close>

text \<open>A signed claim set parses to the protected headers the verifier demands, a
  valid signature, and the claims themselves.\<close>

lemma sign_claims_parses:
  assumes "cose_roundtrips L" "cose_builds L" "cbor_roundtrips L" "ed25519_correct L"
    and "wf_claims c" and "sign_claims L g c = Ok b"
  shows "\<exists>cose payload. cose_from_slice L b = Ok cose \<and>
    ch_alg (cs_protected cose) = Some (AlgAssigned EdDSA) \<and>
    ch_crit (cs_protected cose) = [] \<and>
    ch_content_type (cs_protected cose) = Some (ContentText ''application/cwt'') \<and>
    ch_alg (cs_unprotected cose) = None \<and> ch_crit (cs_unprotected cose) = [] \<and>
    ch_content_type (cs_unprotected cose) = None \<and>
    cose_header_is_empty L (cs_unprotected cose) \<and>
    cs_payload cose = Some payload \<and> claims_from_binary L payload = Ok c \<and>
    length (cs_signature cose) = 64 \<and>
    ed25519_verify L (public_key_bytes L g) (cose_tbs_data L cose []) (cs_signature cose)"
proof -
  obtain payload where p: "claims_to_binary L c = Ok payload"
    and v: "(let cose = cose_sign1_build L (cose_header_build L EdDSA (Some ''application/cwt''))
               payload;
             signed = cose\<lparr>cs_signature :=
               ed25519_sign L (rg_signing_key g) (cose_tbs_data L cose [])\<rparr>
         in cose_to_vec L signed) = Ok b"
    using assms(6) unfolding sign_claims_def result_simps Let_def by blast
  define cose where "cose = cose_sign1_build L
    (cose_header_build L EdDSA (Some ''application/cwt'')) payload"
  define signed where "signed = cose\<lparr>cs_signature :=
    ed25519_sign L (rg_signing_key g) (cose_tbs_data L cose [])\<rparr>"
  have "cose_to_vec L signed = Ok b"
    using v by (simp add: signed_def cose_def Let_def)
  then obtain d where d: "cose_from_slice L b = Ok d" "same_cose L signed d"
    using assms(1) unfolding cose_roundtrips_def by blast
  have built: "cs_protected cose = cose_header_build L EdDSA (Some ''application/cwt'')"
    "cs_payload cose = Some payload" "ch_alg (cs_unprotected cose) = None"
    "ch_crit (cs_unprotected cose) = []" "ch_content_type (cs_unprotected cose) = None"
    "cose_header_is_empty L (cs_unprotected cose)"
    "ch_alg (cs_protected cose) = Some (AlgAssigned EdDSA)" "ch_crit (cs_protected cose) = []"
    "ch_content_type (cs_protected cose) = Some (ContentText ''application/cwt'')"
    "\<And>a. cose_tbs_data L signed a = cose_tbs_data L cose a"
    using assms(2) unfolding cose_def signed_def cose_builds_def by simp_all
  have "cs_protected d = cs_protected cose" "cs_unprotected d = cs_unprotected cose"
    "cs_payload d = Some payload"
    "cs_signature d = ed25519_sign L (rg_signing_key g) (cose_tbs_data L cose [])"
    "cose_tbs_data L d [] = cose_tbs_data L cose []"
    using d(2) built by (auto simp: same_cose_def signed_def)
  moreover have "claims_from_binary L payload = Ok c"
    using claims_roundtrip [OF assms(3,5) p] .
  ultimately show ?thesis
    using d(1) built assms(4) by (simp add: ed25519_correct_def public_key_bytes_def)
qed

end
