(* ===== verification/Receipt_Verifier.thy ===== *)
theory Receipt_Verifier
  imports Receipt_Generator
begin

text \<open>
  \<open>crates/veriai-core/src/verify.rs\<close>: the verifier, its construction from PEM roots, the
  chain of checks, and the replay state.  The body of \<open>verify\<close> is a sequence of stages;
  a stage either ends the call, with an error or with a failing result, or goes on with
  the list of checks extended.  Only the last stage touches the replay state, under its
  mutex, so a call is one step on that state wherever the awaits in between fall.
\<close>

section \<open>The verifier\<close>

record verifier_config =
  cfg_max_receipt_size :: nat
  cfg_max_clock_skew :: i64
  cfg_max_receipt_age :: i64

definition default_config :: verifier_config where
  "default_config =
     \<lparr>cfg_max_receipt_size = 64 * 1024, cfg_max_clock_skew = 300, cfg_max_receipt_age = 300\<rparr>"

text \<open>A mutex, poisoned when a holder panicked; \<open>lock()\<close> fails on a poisoned one.\<close>

datatype 'a mutex = Healthy 'a | Poisoned 'a

fun lock :: "'a mutex \<Rightarrow> (unit, 'a) result" where
  "lock (Healthy x) = Ok x"
| "lock (Poisoned x) = Err ()"

type_synonym replay_state = "bytes \<rightharpoonup> u64"

record verifier =
  vf_provider :: provider
  vf_trusted_roots :: "bytes list"
  vf_state :: "replay_state mutex option"
  vf_config :: verifier_config

definition new_with_config ::
  "provider \<Rightarrow> bytes list \<Rightarrow> bool \<Rightarrow> verifier_config \<Rightarrow> verifier" where
  "new_with_config P roots stateful cfg =
     \<lparr>vf_provider = P, vf_trusted_roots = roots,
      vf_state = (if stateful then Some (Healthy Map.empty) else None), vf_config = cfg\<rparr>"

definition verifier_new :: "provider \<Rightarrow> bytes list \<Rightarrow> bool \<Rightarrow> verifier" where
  "verifier_new P roots stateful = new_with_config P roots stateful default_config"

text \<open>The loop of \<open>from_pem_with_config\<close>, with \<open>base64_str\<close>, \<open>in_cert\<close> and \<open>trusted_roots\<close>.\<close>

fun collect_roots ::
  "lib \<Rightarrow> str list \<Rightarrow> str \<Rightarrow> bool \<Rightarrow> bytes list \<Rightarrow> (str, bytes list) result" where
  "collect_roots L [] base64_str in_cert roots = Ok roots"
| "collect_roots L (l # rest) base64_str in_cert roots =
     (let line = str_trim l in
      if line = BEGIN_CERTIFICATE then collect_roots L rest [] True roots
      else if line = END_CERTIFICATE then
        (if in_cert then
           and_then (map_err (\<lambda>e. ''Failed to decode base64 certificate: '' @ err_display e)
                       (base64_decode L base64_str))
             (\<lambda>der. collect_roots L rest base64_str False (roots @ [der]))
         else collect_roots L rest base64_str in_cert roots)
      else if in_cert then collect_roots L rest (base64_str @ line) in_cert roots
      else collect_roots L rest base64_str in_cert roots)"

definition from_pem_with_config ::
  "lib \<Rightarrow> provider \<Rightarrow> str \<Rightarrow> bool \<Rightarrow> verifier_config \<Rightarrow> (str, verifier) result" where
  "from_pem_with_config L P pem stateful cfg =
     and_then (collect_roots L (str_lines pem) [] False []) (\<lambda>roots.
     and_then (reject_if (roots = []) ''No certificates found in PEM'') (\<lambda>_.
       Ok (new_with_config P roots stateful cfg)))"

definition from_pem :: "lib \<Rightarrow> provider \<Rightarrow> str \<Rightarrow> bool \<Rightarrow> (str, verifier) result" where
  "from_pem L P pem stateful = from_pem_with_config L P pem stateful default_config"

section \<open>Stages\<close>

datatype 'a stage =
    Stop "(verify_error, verification_result) result"
  | Go "verification_check list" 'a

fun stage_bind :: "'a stage \<Rightarrow> (verification_check list \<Rightarrow> 'a \<Rightarrow> 'b stage) \<Rightarrow> 'b stage" where
  "stage_bind (Stop r) k = Stop r"
| "stage_bind (Go cs a) k = k cs a"

definition passed :: "str \<Rightarrow> verification_check" where
  "passed name = \<lparr>ck_name = name, ck_status = ''passed'', ck_details = None\<rparr>"

definition failed :: "str \<Rightarrow> str \<Rightarrow> verification_check" where
  "failed name details = \<lparr>ck_name = name, ck_status = ''failed'', ck_details = Some details\<rparr>"

definition fail_result ::
  "verifier \<Rightarrow> receipt_info option \<Rightarrow> verify_error \<Rightarrow> verification_check list \<Rightarrow>
   verification_result" where
  "fail_result v info err checks =
     \<lparr>vr_valid = False, vr_receipt = info, vr_checks = checks,
      vr_attestation_provider = p_name (vf_provider v), vr_verified_hardware = False,
      vr_error = Some (show_verify_error err)\<rparr>"

text \<open>\<open>add_check!(name, "failed", details); return Ok(fail_result!(err, checks))\<close>\<close>

definition stop_with ::
  "verifier \<Rightarrow> receipt_info option \<Rightarrow> str \<Rightarrow> str \<Rightarrow> verify_error \<Rightarrow> verification_check list \<Rightarrow>
   'a stage" where
  "stop_with v info name details err checks =
     Stop (Ok (fail_result v info err (checks @ [failed name details])))"

text \<open>A check of one condition that either passes or ends the call.\<close>

definition require ::
  "verifier \<Rightarrow> receipt_info option \<Rightarrow> bool \<Rightarrow> str \<Rightarrow> str \<Rightarrow> verify_error \<Rightarrow>
   verification_check list \<Rightarrow> unit stage" where
  "require v info ok name details err checks =
     (if ok then Go (checks @ [passed name]) () else stop_with v info name details err checks)"

definition check_limits ::
  "verifier \<Rightarrow> bytes \<Rightarrow> bytes \<Rightarrow> verification_check list \<Rightarrow> unit stage" where
  "check_limits v receipt_bytes expected_pcr0 checks =
     (if cfg_max_receipt_size (vf_config v) < length receipt_bytes then Stop (Err ReceiptTooLarge)
      else if length expected_pcr0 \<noteq> 48 then Stop (Err InvalidPcrLength)
      else Go checks ())"

definition parse_receipt ::
  "lib \<Rightarrow> verifier \<Rightarrow> bytes \<Rightarrow> verification_check list \<Rightarrow> cose_sign1 stage" where
  "parse_receipt L v receipt_bytes checks =
     (case cose_from_slice L receipt_bytes of
        Inr c \<Rightarrow>
          (case ch_alg (cs_protected c) of
             None \<Rightarrow> Stop (Err InvalidProtectedHeader)
           | Some protected_alg \<Rightarrow>
               if protected_alg \<noteq> AlgAssigned EdDSA then Stop (Err UnsupportedAlgorithm)
               else if ch_alg (cs_unprotected c) \<noteq> None then
                 Stop (Err AlgorithmInUnprotectedHeader)
               else if ch_crit (cs_protected c) \<noteq> [] \<or> ch_crit (cs_unprotected c) \<noteq> [] then
                 Stop (Err InvalidProtectedHeader)
               else if \<not> cose_header_is_empty L (cs_unprotected c) then
                 Stop (Err InvalidProtectedHeader)
               else if ch_content_type (cs_protected c) = Some (ContentText ''application/cwt'') \<and>
                       ch_content_type (cs_unprotected c) = None
               then Go (checks @ [passed ''Receipt Format'']) c
               else Stop (Err InvalidContentType))
      | Inl e \<Rightarrow> stop_with v None ''Receipt Format'' (err_display e) MalformedReceipt checks)"

definition claims_version_str :: "str \<Rightarrow> str" where
  "claims_version_str sdk_version =
     (if CHR ''/'' \<in> set sdk_version then last (split_on CHR ''/'' sdk_version) else ''1'')"

definition receipt_info_of :: "lib \<Rightarrow> veri_claims \<Rightarrow> receipt_info" where
  "receipt_info_of L c =
     \<lparr>ri_version = claims_version_str (vc_sdk_version c),
      ri_model_hash = hex_encode L (vc_model_hash c),
      ri_input_hash = hex_encode L (vc_input_hash c),
      ri_output_hash = hex_encode L (vc_output_hash c),
      ri_sequence_num = vc_sequence_num c,
      ri_timestamp = vc_attestation_timestamp c\<rparr>"

definition parse_claims ::
  "lib \<Rightarrow> verifier \<Rightarrow> cose_sign1 \<Rightarrow> verification_check list \<Rightarrow> veri_claims stage" where
  "parse_claims L v cose_receipt checks =
     (case cs_payload cose_receipt of
        None \<Rightarrow> stop_with v None ''Receipt Payload'' ''Missing payload'' MalformedReceipt checks
      | Some payload \<Rightarrow>
          (case claims_from_binary L payload of
             Inr c \<Rightarrow> Go (checks @ [passed ''Claims Parsing'']) c
           | Inl e \<Rightarrow>
               stop_with v None ''Claims Parsing'' (show_de_error L e) MalformedReceipt checks))"

definition check_attestation_type ::
  "lib \<Rightarrow> verifier \<Rightarrow> veri_claims \<Rightarrow> verification_check list \<Rightarrow> unit stage" where
  "check_attestation_type L v claims checks =
     require v (Some (receipt_info_of L claims)) (vc_attestation_type claims = 3)
       ''Attestation Type''
       (''Expected Nitro attestation type 3, got '' @ show_u64 (vc_attestation_type claims))
       UnsupportedAttestationType checks"

definition receipt_signature_ok :: "lib \<Rightarrow> cose_sign1 \<Rightarrow> veri_claims \<Rightarrow> bool" where
  "receipt_signature_ok L cose_receipt claims =
     (if ed25519_key_valid L (vc_enclave_pubkey claims) then
        (if length (cs_signature cose_receipt) = 64 then
           ed25519_verify L (vc_enclave_pubkey claims) (cose_tbs_data L cose_receipt [])
             (cs_signature cose_receipt)
         else False)
      else False)"

definition check_receipt_signature ::
  "lib \<Rightarrow> verifier \<Rightarrow> cose_sign1 \<Rightarrow> veri_claims \<Rightarrow> verification_check list \<Rightarrow> unit stage" where
  "check_receipt_signature L v cose_receipt claims checks =
     require v (Some (receipt_info_of L claims)) (receipt_signature_ok L cose_receipt claims)
       ''Receipt Signature'' ''Ed25519 validation failed'' InvalidCoseSignature checks"

definition parse_attestation ::
  "lib \<Rightarrow> verifier \<Rightarrow> veri_claims \<Rightarrow> verification_check list \<Rightarrow> attestation_doc stage" where
  "parse_attestation L v claims checks =
     (let info = Some (receipt_info_of L claims) in
      case cose_from_slice L (vc_attestation_report claims) of
        Inl e \<Rightarrow> stop_with v info ''Attestation Format'' (err_display e)
                   (InvalidAttestationDocument (err_display e)) checks
      | Inr attestation_cose \<Rightarrow>
          (case cs_payload attestation_cose of
             None \<Rightarrow> stop_with v info ''Attestation Payload'' ''Missing payload''
                       (InvalidAttestationDocument ''Missing payload'') checks
           | Some payload \<Rightarrow>
               (case doc_from_binary L payload of
                  Inl e \<Rightarrow> stop_with v info ''Attestation Doc Parsing'' (err_display e)
                             (InvalidAttestationDocument (err_display e)) checks
                | Inr doc \<Rightarrow> Go checks doc)))"

text \<open>The loop over the trusted roots; \<open>clock i\<close> is what the provider reads on its \<open>i\<close>-th call.\<close>

fun chain_verified ::
  "provider \<Rightarrow> (nat \<Rightarrow> system_time) \<Rightarrow> nat \<Rightarrow> bytes \<Rightarrow> bytes list \<Rightarrow> bool" where
  "chain_verified P clock i report [] = False"
| "chain_verified P clock i report (root # roots) =
     (if p_verify P (clock i) report root = Ok True then True
      else chain_verified P clock (Suc i) report roots)"

definition check_chain ::
  "lib \<Rightarrow> verifier \<Rightarrow> (nat \<Rightarrow> system_time) \<Rightarrow> veri_claims \<Rightarrow> verification_check list \<Rightarrow>
   unit stage" where
  "check_chain L v clock claims checks =
     require v (Some (receipt_info_of L claims))
       (chain_verified (vf_provider v) clock 0 (vc_attestation_report claims) (vf_trusted_roots v))
       ''Attestation Signature & Chain'' ''Signature or chain verification failed''
       (InvalidAttestationDocument ''Verification failed'') checks"

text \<open>The three timestamp checks on \<open>now_sec\<close>, \<open>doc_sec\<close> and the claimed time.\<close>

definition check_skew ::
  "lib \<Rightarrow> verifier \<Rightarrow> veri_claims \<Rightarrow> i64 \<Rightarrow> i64 \<Rightarrow> verification_check list \<Rightarrow> unit stage" where
  "check_skew L v claims now_sec doc_sec checks =
     (case checked_sub_i64 now_sec doc_sec of
        None \<Rightarrow> Stop (Err InvalidTimestamp)
      | Some skew \<Rightarrow>
          if sint (cfg_max_clock_skew (vf_config v)) < sint (abs_i64 skew) then
            stop_with v (Some (receipt_info_of L claims)) ''Attestation Timestamp Skew''
              (''Skew is '' @ show_i64 (abs_i64 skew) @ ''s'') TimestampSkewExceeded checks
          else Go (checks @ [passed ''Attestation Timestamp Skew'']) ())"

definition check_age ::
  "verifier \<Rightarrow> veri_claims \<Rightarrow> i64 \<Rightarrow> verification_check list \<Rightarrow> unit stage" where
  "check_age v claims now_sec checks =
     (case checked_sub_i64 now_sec (vc_attestation_timestamp claims) of
        None \<Rightarrow> Stop (Err InvalidTimestamp)
      | Some receipt_age \<Rightarrow>
          if sint receipt_age < 0 \<or> sint (cfg_max_receipt_age (vf_config v)) < sint receipt_age
          then Stop (Err ExpiredReceipt)
          else Go (checks @ [passed ''Receipt Timestamp Skew'']) ())"

definition check_alignment ::
  "lib \<Rightarrow> verifier \<Rightarrow> veri_claims \<Rightarrow> i64 \<Rightarrow> verification_check list \<Rightarrow> unit stage" where
  "check_alignment L v claims doc_sec checks =
     (case checked_sub_i64 doc_sec (vc_attestation_timestamp claims) of
        None \<Rightarrow> Stop (Err InvalidTimestamp)
      | Some alignment \<Rightarrow>
          if 5 < sint (abs_i64 alignment) then
            stop_with v (Some (receipt_info_of L claims)) ''Timestamp Alignment''
              (''Mismatch between doc and claims is '' @ show_i64 (abs_i64 alignment) @ ''s'')
              AttestationDocTimestampMismatch checks
          else Go (checks @ [passed ''Timestamp Alignment'']) ())"

definition check_timestamps ::
  "lib \<Rightarrow> verifier \<Rightarrow> system_time \<Rightarrow> veri_claims \<Rightarrow> attestation_doc \<Rightarrow> verification_check list \<Rightarrow>
   unit stage" where
  "check_timestamps L v now claims doc checks =
     (case since_epoch now of
        Inl _ \<Rightarrow> Stop (Err (InvalidAttestationDocument ''Clock error''))
      | Inr elapsed \<Rightarrow>
          (let now_sec = as_secs elapsed; doc_sec = ad_timestamp doc div 1000 in
           stage_bind (check_skew L v claims now_sec doc_sec checks) (\<lambda>checks _.
           stage_bind (check_age v claims now_sec checks) (\<lambda>checks _.
             check_alignment L v claims doc_sec checks))))"

definition check_pcr0 ::
  "lib \<Rightarrow> verifier \<Rightarrow> bytes \<Rightarrow> veri_claims \<Rightarrow> attestation_doc \<Rightarrow> verification_check list \<Rightarrow>
   unit stage" where
  "check_pcr0 L v expected_pcr0 claims doc checks =
     (case ad_pcrs doc 0 of
        None \<Rightarrow> stop_with v (Some (receipt_info_of L claims)) ''PCR0 Check''
                  ''PCR0 missing in document'' PcrMismatch checks
      | Some doc_pcr0 \<Rightarrow>
          require v (Some (receipt_info_of L claims)) (doc_pcr0 = expected_pcr0) ''PCR0 Check''
            (''Expected: '' @ hex_encode L expected_pcr0 @ '', Got: '' @ hex_encode L doc_pcr0)
            PcrMismatch checks)"

definition check_pubkey ::
  "lib \<Rightarrow> verifier \<Rightarrow> veri_claims \<Rightarrow> attestation_doc \<Rightarrow> verification_check list \<Rightarrow> unit stage" where
  "check_pubkey L v claims doc checks =
     (case ad_public_key doc of
        None \<Rightarrow> stop_with v (Some (receipt_info_of L claims)) ''Pubkey Binding''
                  ''Public key missing in document'' PubkeyBindingMismatch checks
      | Some doc_pubkey \<Rightarrow>
          require v (Some (receipt_info_of L claims)) (doc_pubkey = vc_enclave_pubkey claims)
            ''Pubkey Binding'' ''Public key mismatch'' PubkeyBindingMismatch checks)"

definition check_report_data ::
  "lib \<Rightarrow> verifier \<Rightarrow> veri_claims \<Rightarrow> attestation_doc \<Rightarrow> verification_check list \<Rightarrow> unit stage" where
  "check_report_data L v claims doc checks =
     (case ad_user_data doc of
        None \<Rightarrow> stop_with v (Some (receipt_info_of L claims)) ''REPORTDATA Binding''
                  ''User data missing in document'' ReportDataMismatch checks
      | Some doc_user_data \<Rightarrow>
          (let expected_report_data =
             sha512 L ([0x01] @ as_bytes ''VeriAI-KeyBind-v1'' @ vc_enclave_pubkey claims)
           in require v (Some (receipt_info_of L claims)) (doc_user_data = expected_report_data)
                ''REPORTDATA Binding'' ''REPORTDATA hash mismatch'' ReportDataMismatch checks))"

definition check_payload ::
  "lib \<Rightarrow> verifier \<Rightarrow> bytes \<Rightarrow> bytes \<Rightarrow> bytes \<Rightarrow> bytes \<Rightarrow> veri_claims \<Rightarrow> attestation_doc \<Rightarrow>
   verification_check list \<Rightarrow> unit stage" where
  "check_payload L v model_hash input_hash output_hash nonce claims doc checks =
     (let info = Some (receipt_info_of L claims) in
      stage_bind (require v info (ad_nonce doc = Some nonce \<and> vc_client_nonce claims = nonce)
                    ''Nonce Matching'' ''Nonce mismatch'' NonceMismatch checks) (\<lambda>checks _.
      stage_bind (require v info (vc_model_hash claims = model_hash)
                    ''Model Hash'' ''Model Merkle root mismatch'' ModelHashMismatch checks)
        (\<lambda>checks _.
      stage_bind (require v info (vc_input_hash claims = input_hash)
                    ''Input Hash'' ''Input hash mismatch'' InputHashMismatch checks) (\<lambda>checks _.
        require v info (vc_output_hash claims = output_hash)
          ''Output Hash'' ''Output hash mismatch'' OutputHashMismatch checks))))"

section \<open>The call\<close>

text \<open>What the caller expects of a receipt.\<close>

record expectation =
  ex_model_hash :: bytes
  ex_input_hash :: bytes
  ex_output_hash :: bytes
  ex_nonce :: bytes
  ex_pcr0 :: bytes

text \<open>All checks before the replay state.\<close>

definition verify_checks ::
  "lib \<Rightarrow> verifier \<Rightarrow> (nat \<Rightarrow> system_time) \<Rightarrow> system_time \<Rightarrow> bytes \<Rightarrow> expectation \<Rightarrow>
   verification_check list \<Rightarrow> (veri_claims \<times> attestation_doc) stage" where
  "verify_checks L v clock now receipt_bytes ex checks =
     stage_bind (check_limits v receipt_bytes (ex_pcr0 ex) checks) (\<lambda>checks _.
     stage_bind (parse_receipt L v receipt_bytes checks) (\<lambda>checks cose_receipt.
     stage_bind (parse_claims L v cose_receipt checks) (\<lambda>checks claims.
     stage_bind (check_attestation_type L v claims checks) (\<lambda>checks _.
     stage_bind (check_receipt_signature L v cose_receipt claims checks) (\<lambda>checks _.
     stage_bind (parse_attestation L v claims checks) (\<lambda>checks doc.
     stage_bind (check_chain L v clock claims checks) (\<lambda>checks _.
     stage_bind (check_timestamps L v now claims doc checks) (\<lambda>checks _.
     stage_bind (check_pcr0 L v (ex_pcr0 ex) claims doc checks) (\<lambda>checks _.
     stage_bind (check_pubkey L v claims doc checks) (\<lambda>checks _.
     stage_bind (check_report_data L v claims doc checks) (\<lambda>checks _.
     stage_bind (check_payload L v (ex_model_hash ex) (ex_input_hash ex) (ex_output_hash ex)
                   (ex_nonce ex) claims doc checks) (\<lambda>checks _.
       Go checks (claims, doc)))))))))))))"

definition compute_identity_fingerprint :: "lib \<Rightarrow> attestation_doc \<Rightarrow> bytes" where
  "compute_identity_fingerprint L doc =
     (let cert_fingerprint = sha256 L (ad_certificate doc @ concat (ad_cabundle doc));
          pcr = (\<lambda>i. case ad_pcrs doc i of Some p \<Rightarrow> p | None \<Rightarrow> [])
      in sha256 L (pcr 0 @ pcr 3 @ pcr 4 @ as_bytes (ad_module_id doc) @ cert_fingerprint))"

definition accept_result ::
  "verifier \<Rightarrow> receipt_info \<Rightarrow> verification_check list \<Rightarrow> verification_result" where
  "accept_result v info checks =
     \<lparr>vr_valid = True, vr_receipt = Some info, vr_checks = checks,
      vr_attestation_provider = p_name (vf_provider v),
      vr_verified_hardware = p_hardware (vf_provider v), vr_error = None\<rparr>"

text \<open>The critical section on the replay state, and the final result.\<close>

definition check_sequence ::
  "lib \<Rightarrow> verifier \<Rightarrow> veri_claims \<Rightarrow> attestation_doc \<Rightarrow> verification_check list \<Rightarrow>
   (verify_error, verification_result) result \<times> verifier" where
  "check_sequence L v claims doc checks =
     (let info = receipt_info_of L claims in
      case vf_state v of
        None \<Rightarrow> (Ok (accept_result v info checks), v)
      | Some state_mutex \<Rightarrow>
          (case lock state_mutex of
             Inl _ \<Rightarrow> (Err ReplayStateUnavailable, v)
           | Inr state \<Rightarrow>
               (let fingerprint = compute_identity_fingerprint L doc;
                    seq = vc_sequence_num claims in
                case Option.bind (state fingerprint)
                       (\<lambda>last. if seq \<le> last then Some last else None) of
                  Some last_seq \<Rightarrow>
                    (Ok (fail_result v (Some info) SequenceNumberOutOfOrder
                       (checks @ [failed ''Sequence Check''
                          (''Sequence '' @ show_u64 seq @ '' is out of order (last was '' @
                           show_u64 last_seq @ '')'')])), v)
                | None \<Rightarrow>
                    (Ok (accept_result v info (checks @ [passed ''Sequence Check''])),
                     v\<lparr>vf_state := Some (Healthy (state(fingerprint \<mapsto> seq)))\<rparr>))))"

definition verify ::
  "lib \<Rightarrow> (nat \<Rightarrow> system_time) \<Rightarrow> system_time \<Rightarrow> bytes \<Rightarrow> expectation \<Rightarrow> verifier \<Rightarrow>
   (verify_error, verification_result) result \<times> verifier" where
  "verify L clock now receipt_bytes ex v =
     (case verify_checks L v clock now receipt_bytes ex [] of
        Stop r \<Rightarrow> (r, v)
      | Go checks (claims, doc) \<Rightarrow> check_sequence L v claims doc checks)"

definition get_state :: "verifier \<Rightarrow> (verify_error, replay_state option) result" where
  "get_state v =
     (case vf_state v of
        None \<Rightarrow> Ok None
      | Some m \<Rightarrow> map_err (\<lambda>_. ReplayStateUnavailable) (and_then (lock m) (\<lambda>s. Ok (Some s))))"

definition set_state :: "replay_state \<Rightarrow> verifier \<Rightarrow> (verify_error, unit) result \<times> verifier" where
  "set_state new_state v =
     (case vf_state v of
        None \<Rightarrow> (Ok (), v)
      | Some m \<Rightarrow>
          (case lock m of
             Inl _ \<Rightarrow> (Err ReplayStateUnavailable, v)
           | Inr _ \<Rightarrow> (Ok (), v\<lparr>vf_state := Some (Healthy new_state)\<rparr>)))"

end
