(* ===== verification/Verifier_Stages.thy ===== *)
theory Verifier_Stages
  imports Receipt_Verifier
begin

text \<open>
  The contract of one stage of \<open>verify\<close>: when it goes on it has appended its passed
  checks, in their order, and when it ends the call with a result that result is a
  refusal that lists the checks passed so far and one failed check.  The contract is
  proved of every stage, composed over the whole call, and interpreted on it.
\<close>

section \<open>Refusals\<close>

definition refusal :: "verifier \<Rightarrow> verification_check list \<Rightarrow> str list \<Rightarrow> verification_result \<Rightarrow> bool" where
  "refusal v cs names r \<longleftrightarrow>
     \<not> vr_valid r \<and> \<not> vr_verified_hardware r \<and> vr_error r \<noteq> None \<and>
     vr_attestation_provider r = p_name (vf_provider v) \<and>
     (\<exists>k name details. k \<le> length names \<and>
        vr_checks r = cs @ map passed (take k names) @ [failed name details])"

locale check_stage =
  fixes v :: verifier and stage :: "verification_check list \<Rightarrow> 'a stage" and names :: "str list"
  assumes goes: "stage cs = Go cs' a \<Longrightarrow> cs' = cs @ map passed names"
    and stops: "stage cs = Stop (Ok r) \<Longrightarrow> refusal v cs names r"
begin

lemma only_refuses: "stage cs = Stop (Ok r) \<Longrightarrow> \<not> vr_valid r"
  by (drule stops) (simp add: refusal_def)

lemma refused_check:
  assumes "stage [] = Stop (Ok r)"
  shows "\<exists>passes name details. vr_checks r = map passed passes @ [failed name details] \<and>
    prefix passes names"
proof -
  obtain k name details where "vr_checks r = map passed (take k names) @ [failed name details]"
    using stops [OF assms] by (auto simp: refusal_def)
  then show ?thesis
    by (intro exI [of _ "take k names"] exI) (simp add: take_is_prefix)
qed

end

lemma refusal_append:
  "refusal v (cs @ map passed n1) n2 r \<Longrightarrow> refusal v cs (n1 @ n2) r"
proof -
  assume r: "refusal v (cs @ map passed n1) n2 r"
  then obtain k name details where k: "k \<le> length n2"
    "vr_checks r = cs @ map passed n1 @ map passed (take k n2) @ [failed name details]"
    by (auto simp: refusal_def)
  then have "length n1 + k \<le> length (n1 @ n2) \<and>
      vr_checks r = cs @ map passed (take (length n1 + k) (n1 @ n2)) @ [failed name details]"
    by simp
  with r show ?thesis unfolding refusal_def by blast
qed

lemma refusal_more: "refusal v cs n1 r \<Longrightarrow> refusal v cs (n1 @ n2) r"
proof -
  assume r: "refusal v cs n1 r"
  then obtain k name details where k: "k \<le> length n1"
    "vr_checks r = cs @ map passed (take k n1) @ [failed name details]"
    by (auto simp: refusal_def)
  then have "k \<le> length (n1 @ n2) \<and>
      vr_checks r = cs @ map passed (take k (n1 @ n2)) @ [failed name details]"
    by simp
  with r show ?thesis unfolding refusal_def by blast
qed

section \<open>Composition\<close>

locale check_pipeline = check_stage v stage names
  for v :: verifier and stage :: "verification_check list \<Rightarrow> 'a stage" and names :: "str list" +
  fixes next_stage :: "verification_check list \<Rightarrow> 'a \<Rightarrow> 'b stage" and next_names :: "str list"
  assumes next_is_stage: "check_stage v (\<lambda>cs. next_stage cs a) next_names"

sublocale check_pipeline \<subseteq>
  piped: check_stage v "\<lambda>cs. stage_bind (stage cs) next_stage" "names @ next_names"
proof unfold_locales
  fix cs cs' b
  assume "stage_bind (stage cs) next_stage = Go cs' b"
  then obtain mid a where "stage cs = Go mid a" "next_stage mid a = Go cs' b"
    by (cases "stage cs") auto
  with goes check_stage.goes [OF next_is_stage] show "cs' = cs @ map passed (names @ next_names)"
    by fastforce
next
  fix cs r
  assume b: "stage_bind (stage cs) next_stage = Stop (Ok r)"
  show "refusal v cs (names @ next_names) r"
  proof (cases "stage cs")
    case (Stop r')
    with b stops show ?thesis by (simp add: refusal_more)
  next
    case (Go mid a)
    with b goes check_stage.stops [OF next_is_stage] show ?thesis
      by (metis refusal_append stage_bind.simps(2))
  qed
qed

context check_pipeline begin

lemma pipeline_is_stage:
  "check_stage v (\<lambda>cs. stage_bind (stage cs) next_stage) (names @ next_names)"
  by (rule piped.check_stage_axioms)

end

lemma check_stage_bind:
  assumes "check_stage v s n1" and "\<And>a. check_stage v (\<lambda>cs. k cs a) n2"
  shows "check_stage v (\<lambda>cs. stage_bind (s cs) k) (n1 @ n2)"
proof -
  have "check_pipeline v s n1 k n2"
    using assms by (simp add: check_pipeline_def check_pipeline_axioms_def)
  then show ?thesis by (rule check_pipeline.pipeline_is_stage)
qed

section \<open>The stages of the call\<close>

lemma fail_result_refusal:
  "vr_checks r = cs @ [failed name details] \<Longrightarrow> r = fail_result v info err (cs @ [failed name details]) \<Longrightarrow>
   refusal v cs names r"
  unfolding refusal_def fail_result_def
  by (auto intro!: exI [of _ 0])

lemma stop_with_stage [simp]:
  "stop_with v info name details err cs \<noteq> Go cs' a"
  "stop_with v info name details err cs = Stop (Ok r) \<Longrightarrow> refusal v cs names r"
  by (auto simp: stop_with_def intro!: fail_result_refusal) (simp add: fail_result_def)

lemma require_Go:
  "require v info ok name details err cs = Go cs' u \<longleftrightarrow> ok \<and> cs' = cs @ [passed name]"
  by (auto simp: require_def)

lemma require_Stop:
  "require v info ok name details err cs = Stop (Ok r) \<Longrightarrow> refusal v cs names r"
  by (auto simp: require_def split: if_splits)

lemma require_stage: "check_stage v (require v info ok name details err) [name]"
  by unfold_locales (auto simp: require_Go require_Stop)

named_theorems stage_intros

declare require_stage [stage_intros] check_stage_bind [stage_intros]

lemma check_limits_stage [stage_intros]: "check_stage v (check_limits v rb pcr0) []"
  by unfold_locales (auto simp: check_limits_def split: if_splits)

lemma parse_receipt_stage [stage_intros]:
  "check_stage v (parse_receipt L v rb) [''Receipt Format'']"
  by unfold_locales (auto simp: parse_receipt_def split: sum.splits option.splits if_splits)

lemma parse_claims_stage [stage_intros]:
  "check_stage v (parse_claims L v cose) [''Claims Parsing'']"
  by unfold_locales (auto simp: parse_claims_def split: sum.splits option.splits)

lemma check_attestation_type_stage [stage_intros]:
  "check_stage v (check_attestation_type L v claims) [''Attestation Type'']"
  unfolding check_attestation_type_def by (rule require_stage)

lemma check_receipt_signature_stage [stage_intros]:
  "check_stage v (check_receipt_signature L v cose claims) [''Receipt Signature'']"
  unfolding check_receipt_signature_def by (rule require_stage)

lemma parse_attestation_stage [stage_intros]: "check_stage v (parse_attestation L v claims) []"
  by unfold_locales (auto simp: parse_attestation_def Let_def split: sum.splits option.splits)

lemma check_chain_stage [stage_intros]:
  "check_stage v (check_chain L v clock claims) [''Attestation Signature & Chain'']"
  unfolding check_chain_def by (rule require_stage)

lemma check_skew_stage [stage_intros]:
  "check_stage v (check_skew L v claims now_sec doc_sec) [''Attestation Timestamp Skew'']"
  by unfold_locales (auto simp: check_skew_def split: option.splits if_splits)

lemma check_age_stage [stage_intros]:
  "check_stage v (check_age v claims now_sec) [''Receipt Timestamp Skew'']"
  by unfold_locales (auto simp: check_age_def split: option.splits if_splits)

lemma check_alignment_stage [stage_intros]:
  "check_stage v (check_alignment L v claims doc_sec) [''Timestamp Alignment'']"
  by unfold_locales (auto simp: check_alignment_def split: option.splits if_splits)

definition timestamp_names :: "str list" where
  "timestamp_names =
     [''Attestation Timestamp Skew'', ''Receipt Timestamp Skew'', ''Timestamp Alignment'']"

lemma check_timestamps_stage [stage_intros]:
  "check_stage v (check_timestamps L v now claims doc) timestamp_names"
proof (cases "since_epoch now")
  case (Inl e)
  then show ?thesis by unfold_locales (simp_all add: check_timestamps_def)
next
  case (Inr elapsed)
  let ?n = "as_secs elapsed" and ?d = "ad_timestamp doc div 1000"
  have "check_stage v (\<lambda>cs. stage_bind (check_skew L v claims ?n ?d cs) (\<lambda>cs _.
      stage_bind (check_age v claims ?n cs) (\<lambda>cs _. check_alignment L v claims ?d cs)))
    ([''Attestation Timestamp Skew''] @ [''Receipt Timestamp Skew''] @ [''Timestamp Alignment''])"
    by (intro stage_intros)
  then show ?thesis
    by (simp add: check_timestamps_def [abs_def] Inr Let_def timestamp_names_def)
qed

lemma check_pcr0_stage [stage_intros]:
  "check_stage v (check_pcr0 L v pcr0 claims doc) [''PCR0 Check'']"
  by unfold_locales (auto simp: check_pcr0_def require_Go require_Stop split: option.splits)

lemma check_pubkey_stage [stage_intros]:
  "check_stage v (check_pubkey L v claims doc) [''Pubkey Binding'']"
  by unfold_locales (auto simp: check_pubkey_def require_Go require_Stop split: option.splits)

lemma check_report_data_stage [stage_intros]:
  "check_stage v (check_report_data L v claims doc) [''REPORTDATA Binding'']"
  by unfold_locales
    (auto simp: check_report_data_def Let_def require_Go require_Stop split: option.splits)

definition payload_names :: "str list" where
  "payload_names = [''Nonce Matching'', ''Model Hash'', ''Input Hash'', ''Output Hash'']"

lemma check_payload_stage [stage_intros]:
  "check_stage v (check_payload L v mh ih oh nn claims doc) payload_names"
proof -
  have names: "payload_names = [''Nonce Matching''] @ [''Model Hash''] @ [''Input Hash''] @ [''Output Hash'']"
    by (simp add: payload_names_def)
  show ?thesis
    unfolding check_payload_def Let_def names by (intro stage_intros)
qed

section \<open>The whole call\<close>

text \<open>The names of the checks of an accepted receipt, before the replay state.\<close>

definition check_names :: "str list" where
  "check_names =
     [''Receipt Format'', ''Claims Parsing'', ''Attestation Type'', ''Receipt Signature'',
      ''Attestation Signature & Chain''] @ timestamp_names @
     [''PCR0 Check'', ''Pubkey Binding'', ''REPORTDATA Binding''] @ payload_names"

lemma done_stage [stage_intros]: "check_stage v (\<lambda>cs. Go cs a) []"
  by unfold_locales simp_all

interpretation call: check_stage v "verify_checks L v clock now receipt_bytes ex" check_names
  for L v clock now receipt_bytes ex
proof -
  have names: "check_names = [] @ [''Receipt Format''] @ [''Claims Parsing''] @ [''Attestation Type''] @
      [''Receipt Signature''] @ [] @ [''Attestation Signature & Chain''] @ timestamp_names @
      [''PCR0 Check''] @ [''Pubkey Binding''] @ [''REPORTDATA Binding''] @ payload_names @ []"
    by (simp add: check_names_def)
  show "check_stage v (verify_checks L v clock now receipt_bytes ex) check_names"
    unfolding verify_checks_def [abs_def] names by (intro stage_intros)
qed

end
