(* ===== verification/Verifier_Policy.thy ===== *)
theory Verifier_Policy
  imports Verifier_Stages
begin

text \<open>
  What the verifier promises, stated without its stages and machine arithmetic: a policy
  on the receipt, the attestation document and the clock, in unbounded integers.  The
  lemmas show that the staged code decides this policy, what an accepted and a refused
  result contain, and that the replay state is a monotone register.
\<close>

section \<open>The policy\<close>

definition protected_receipt :: "lib \<Rightarrow> cose_sign1 \<Rightarrow> bool" where
  "protected_receipt L cose \<longleftrightarrow>
     ch_alg (cs_protected cose) = Some (AlgAssigned EdDSA) \<and>
     ch_content_type (cs_protected cose) = Some (ContentText ''application/cwt'') \<and>
     ch_crit (cs_protected cose) = [] \<and>
     ch_alg (cs_unprotected cose) = None \<and> ch_crit (cs_unprotected cose) = [] \<and>
     ch_content_type (cs_unprotected cose) = None \<and> cose_header_is_empty L (cs_unprotected cose)"

definition claims_of_receipt :: "lib \<Rightarrow> cose_sign1 \<Rightarrow> veri_claims \<Rightarrow> bool" where
  "claims_of_receipt L cose claims \<longleftrightarrow>
     (\<exists>payload. cs_payload cose = Some payload \<and> claims_from_binary L payload = Ok claims)"

definition signed_receipt :: "lib \<Rightarrow> cose_sign1 \<Rightarrow> veri_claims \<Rightarrow> bool" where
  "signed_receipt L cose claims \<longleftrightarrow>
     ed25519_key_valid L (vc_enclave_pubkey claims) \<and> length (cs_signature cose) = 64 \<and>
     ed25519_verify L (vc_enclave_pubkey claims) (cose_tbs_data L cose []) (cs_signature cose)"

definition document_of_report :: "lib \<Rightarrow> bytes \<Rightarrow> attestation_doc \<Rightarrow> bool" where
  "document_of_report L report doc \<longleftrightarrow>
     (\<exists>cose payload. cose_from_slice L report = Ok cose \<and> cs_payload cose = Some payload \<and>
        doc_from_binary L payload = Ok doc)"

text \<open>Times in whole seconds: of the clock and of the document.\<close>

definition clock_seconds :: "system_time \<Rightarrow> int" where
  "clock_seconds now = now div 10 ^ 9"

definition doc_seconds :: "attestation_doc \<Rightarrow> int" where
  "doc_seconds doc = int (unat (ad_timestamp doc)) div 1000"

definition timely :: "verifier_config \<Rightarrow> system_time \<Rightarrow> attestation_doc \<Rightarrow> veri_claims \<Rightarrow> bool" where
  "timely cfg now doc claims \<longleftrightarrow>
     0 \<le> now \<and>
     \<bar>clock_seconds now - doc_seconds doc\<bar> \<le> sint (cfg_max_clock_skew cfg) \<and>
     sint (vc_attestation_timestamp claims) \<le> clock_seconds now \<and>
     clock_seconds now \<le>
       sint (vc_attestation_timestamp claims) + sint (cfg_max_receipt_age cfg) \<and>
     \<bar>doc_seconds doc - sint (vc_attestation_timestamp claims)\<bar> \<le> 5"

text \<open>The document is bound to the measurement, to the receipt key and to the caller's nonce.\<close>

definition key_binding :: "lib \<Rightarrow> bytes \<Rightarrow> bytes" where
  "key_binding L pubkey = sha512 L (0x01 # as_bytes ''VeriAI-KeyBind-v1'' @ pubkey)"

definition document_binds :: "lib \<Rightarrow> expectation \<Rightarrow> attestation_doc \<Rightarrow> veri_claims \<Rightarrow> bool" where
  "document_binds L ex doc claims \<longleftrightarrow>
     ad_pcrs doc 0 = Some (ex_pcr0 ex) \<and>
     ad_public_key doc = Some (vc_enclave_pubkey claims) \<and>
     ad_user_data doc = Some (key_binding L (vc_enclave_pubkey claims)) \<and>
     ad_nonce doc = Some (ex_nonce ex)"

definition claims_match :: "expectation \<Rightarrow> veri_claims \<Rightarrow> bool" where
  "claims_match ex claims \<longleftrightarrow>
     vc_attestation_type claims = 3 \<and> vc_client_nonce claims = ex_nonce ex \<and>
     vc_model_hash claims = ex_model_hash ex \<and> vc_input_hash claims = ex_input_hash ex \<and>
     vc_output_hash claims = ex_output_hash ex"

definition chain_accepted :: "verifier \<Rightarrow> (nat \<Rightarrow> system_time) \<Rightarrow> bytes \<Rightarrow> bool" where
  "chain_accepted v clock report \<longleftrightarrow>
     (\<exists>i < length (vf_trusted_roots v).
        p_verify (vf_provider v) (clock i) report (vf_trusted_roots v ! i) = Ok True)"

definition receipt_acceptable ::
  "lib \<Rightarrow> verifier \<Rightarrow> (nat \<Rightarrow> system_time) \<Rightarrow> system_time \<Rightarrow> bytes \<Rightarrow> expectation \<Rightarrow>
   veri_claims \<Rightarrow> attestation_doc \<Rightarrow> bool" where
  "receipt_acceptable L v clock now receipt_bytes ex claims doc \<longleftrightarrow>
     length receipt_bytes \<le> cfg_max_receipt_size (vf_config v) \<and> length (ex_pcr0 ex) = 48 \<and>
     (\<exists>cose. cose_from_slice L receipt_bytes = Ok cose \<and> protected_receipt L cose \<and>
        claims_of_receipt L cose claims \<and> signed_receipt L cose claims) \<and>
     document_of_report L (vc_attestation_report claims) doc \<and>
     chain_accepted v clock (vc_attestation_report claims) \<and>
     timely (vf_config v) now doc claims \<and> document_binds L ex doc claims \<and>
     claims_match ex claims"

section \<open>The stages decide the policy\<close>

named_theorems stage_simps

declare require_Go [stage_simps]

lemma stage_bind_Go [stage_simps]:
  "stage_bind s k = Go cs b \<longleftrightarrow> (\<exists>mid a. s = Go mid a \<and> k mid a = Go cs b)"
  by (cases s) auto

lemma check_limits_Go [stage_simps]:
  "check_limits v rb pcr0 cs = Go cs' u \<longleftrightarrow>
     length rb \<le> cfg_max_receipt_size (vf_config v) \<and> length pcr0 = 48 \<and> cs' = cs"
  by (auto simp: check_limits_def)

lemma parse_receipt_Go [stage_simps]:
  "parse_receipt L v rb cs = Go cs' cose \<longleftrightarrow>
     cose_from_slice L rb = Ok cose \<and> protected_receipt L cose \<and>
     cs' = cs @ [passed ''Receipt Format'']"
  by (auto simp: parse_receipt_def protected_receipt_def split: sum.splits option.splits if_splits)

lemma parse_claims_Go [stage_simps]:
  "parse_claims L v cose cs = Go cs' claims \<longleftrightarrow>
     claims_of_receipt L cose claims \<and> cs' = cs @ [passed ''Claims Parsing'']"
  by (auto simp: parse_claims_def claims_of_receipt_def split: sum.splits option.splits)

lemma check_attestation_type_Go [stage_simps]:
  "check_attestation_type L v claims cs = Go cs' u \<longleftrightarrow>
     vc_attestation_type claims = 3 \<and> cs' = cs @ [passed ''Attestation Type'']"
  by (simp add: check_attestation_type_def require_Go)

lemma check_receipt_signature_Go [stage_simps]:
  "check_receipt_signature L v cose claims cs = Go cs' u \<longleftrightarrow>
     signed_receipt L cose claims \<and> cs' = cs @ [passed ''Receipt Signature'']"
  by (auto simp: check_receipt_signature_def require_Go receipt_signature_ok_def signed_receipt_def)

lemma parse_attestation_Go [stage_simps]:
  "parse_attestation L v claims cs = Go cs' doc \<longleftrightarrow>
     document_of_report L (vc_attestation_report claims) doc \<and> cs' = cs"
  by (auto simp: parse_attestation_def document_of_report_def Let_def
      split: sum.splits option.splits)

lemma chain_verified_iff:
  "chain_verified P clock i report roots \<longleftrightarrow>
     (\<exists>j < length roots. p_verify P (clock (i + j)) report (roots ! j) = Ok True)"
proof (induction roots arbitrary: i)
  case (Cons root roots)
  show ?case
    by (simp only: chain_verified.simps Cons.IH if_bool_eq_disj list.size add_0_right
        add_Suc_right Ex_less_Suc2 nth_Cons_0 nth_Cons_Suc One_nat_def add_Suc) blast
qed simp

lemma check_chain_Go [stage_simps]:
  "check_chain L v clock claims cs = Go cs' u \<longleftrightarrow>
     chain_accepted v clock (vc_attestation_report claims) \<and>
     cs' = cs @ [passed ''Attestation Signature & Chain'']"
  by (simp add: check_chain_def require_Go chain_verified_iff chain_accepted_def)

lemma check_pcr0_Go [stage_simps]:
  "check_pcr0 L v pcr0 claims doc cs = Go cs' u \<longleftrightarrow>
     ad_pcrs doc 0 = Some pcr0 \<and> cs' = cs @ [passed ''PCR0 Check'']"
  by (auto simp: check_pcr0_def require_Go split: option.splits)

lemma check_pubkey_Go [stage_simps]:
  "check_pubkey L v claims doc cs = Go cs' u \<longleftrightarrow>
     ad_public_key doc = Some (vc_enclave_pubkey claims) \<and> cs' = cs @ [passed ''Pubkey Binding'']"
  by (auto simp: check_pubkey_def require_Go split: option.splits)

lemma check_report_data_Go [stage_simps]:
  "check_report_data L v claims doc cs = Go cs' u \<longleftrightarrow>
     ad_user_data doc = Some (key_binding L (vc_enclave_pubkey claims)) \<and>
     cs' = cs @ [passed ''REPORTDATA Binding'']"
  by (auto simp: check_report_data_def key_binding_def require_Go Let_def split: option.splits)

lemma check_payload_Go [stage_simps]:
  "check_payload L v mh ih oh nn claims doc cs = Go cs' u \<longleftrightarrow>
     ad_nonce doc = Some nn \<and> vc_client_nonce claims = nn \<and> vc_model_hash claims = mh \<and>
     vc_input_hash claims = ih \<and> vc_output_hash claims = oh \<and>
     cs' = cs @ map passed payload_names"
  by (auto simp: check_payload_def Let_def stage_simps payload_names_def)

section \<open>Time\<close>

text \<open>A clock that a 64-bit count of seconds can show, as \<open>SystemTime\<close> can.\<close>

definition representable :: "system_time \<Rightarrow> bool" where
  "representable t \<longleftrightarrow> t < 2 ^ 63 * 10 ^ 9"

lemma sint_as_secs:
  assumes "0 \<le> now" and "representable now"
  shows "sint (as_secs (nat now) :: i64) = clock_seconds now"
proof -
  have "int (nat now div 10 ^ 9) = now div 10 ^ 9"
    using assms(1) by (simp add: zdiv_int)
  then have "(of_nat (nat now div 10 ^ 9) :: i64) = word_of_int (now div 10 ^ 9)"
    by (metis of_int_of_nat_eq)
  moreover have "now div 10 ^ 9 < 2 ^ 63" and "0 \<le> now div 10 ^ 9"
    using assms by (simp_all add: representable_def)
  ultimately show ?thesis
    by (simp only: as_secs_def clock_seconds_def sint_word_of_int_small)
qed

lemma doc_seconds_bounds: "0 \<le> doc_seconds doc \<and> doc_seconds doc < 2 ^ 63"
proof -
  have "unat (ad_timestamp doc) < 2 ^ 64"
    using unsigned_less [of "ad_timestamp doc", where ?'a = nat] by simp
  then have "unat (ad_timestamp doc) div 1000 < 2 ^ 63" by simp
  moreover have "doc_seconds doc = int (unat (ad_timestamp doc) div 1000)"
    unfolding doc_seconds_def by (simp only: zdiv_int of_nat_numeral)
  ultimately obtain n where "n < 2 ^ 63" and "doc_seconds doc = int n" by blast
  then show ?thesis by simp
qed

lemma sint_doc_seconds: "sint (ad_timestamp doc div 1000 :: i64) = doc_seconds doc"
proof -
  have "uint (ad_timestamp doc div 1000) = doc_seconds doc"
    by (simp add: uint_div doc_seconds_def)
  then show ?thesis
    using doc_seconds_bounds [of doc] by (metis sint_word_of_int_small word_of_int_uint)
qed

lemma clock_seconds_bounds:
  "0 \<le> now \<Longrightarrow> representable now \<Longrightarrow> 0 \<le> clock_seconds now \<and> clock_seconds now < 2 ^ 63"
  by (auto simp: clock_seconds_def representable_def)

text \<open>A checked difference compared with a bound is the comparison of the integers: where it
  overflows the bound is exceeded too.\<close>

lemma abs_difference:
  assumes "checked_sub_i64 a b = Some d" and "0 \<le> sint a"
  shows "sint (abs_i64 d) = \<bar>sint a - sint b\<bar>"
proof -
  from assms(1) have d: "sint d = sint a - sint b" by (simp add: checked_sub_i64_Some)
  moreover have "sint b < 2 ^ 63" using sint_lt [of b] by simp
  ultimately show ?thesis
    using assms(2) by (subst sint_abs_i64) auto
qed

lemma difference_overflow:
  assumes "checked_sub_i64 a b = None" and "0 \<le> sint a"
  shows "2 ^ 63 \<le> sint a - sint b"
  using assms sint_lt [of b] by (simp add: checked_sub_i64_None i64_in_range_def)

lemma check_skew_Go:
  assumes "0 \<le> sint now_sec" and "0 \<le> sint doc_sec"
  shows "check_skew L v claims now_sec doc_sec cs = Go cs' u \<longleftrightarrow>
     \<bar>sint now_sec - sint doc_sec\<bar> \<le> sint (cfg_max_clock_skew (vf_config v)) \<and>
     cs' = cs @ [passed ''Attestation Timestamp Skew'']"
proof (cases "checked_sub_i64 now_sec doc_sec")
  case None
  with difference_overflow [OF None assms(1)] sint_lt [of now_sec] assms show ?thesis by simp
next
  case (Some d)
  then show ?thesis
    using abs_difference [OF Some assms(1)] by (auto simp: check_skew_def)
qed

lemma check_age_Go:
  assumes "0 \<le> sint now_sec"
  shows "check_age v claims now_sec cs = Go cs' u \<longleftrightarrow>
     sint (vc_attestation_timestamp claims) \<le> sint now_sec \<and>
     sint now_sec \<le>
       sint (vc_attestation_timestamp claims) + sint (cfg_max_receipt_age (vf_config v)) \<and>
     cs' = cs @ [passed ''Receipt Timestamp Skew'']"
proof (cases "checked_sub_i64 now_sec (vc_attestation_timestamp claims)")
  case None
  with difference_overflow [OF None assms(1)] sint_lt [of "cfg_max_receipt_age (vf_config v)"]
  show ?thesis by (simp add: check_age_def)
next
  case (Some d)
  then have "sint d = sint now_sec - sint (vc_attestation_timestamp claims)"
    by (simp add: checked_sub_i64_Some)
  with Some show ?thesis by (auto simp: check_age_def)
qed

lemma check_alignment_Go:
  assumes "0 \<le> sint doc_sec"
  shows "check_alignment L v claims doc_sec cs = Go cs' u \<longleftrightarrow>
     \<bar>sint doc_sec - sint (vc_attestation_timestamp claims)\<bar> \<le> 5 \<and>
     cs' = cs @ [passed ''Timestamp Alignment'']"
proof (cases "checked_sub_i64 doc_sec (vc_attestation_timestamp claims)")
  case None
  with difference_overflow [OF None assms(1)] show ?thesis by (simp add: check_alignment_def)
next
  case (Some d)
  then show ?thesis
    using abs_difference [OF Some assms(1)] by (auto simp: check_alignment_def)
qed

lemma check_timestamps_Go:
  assumes "representable now"
  shows "check_timestamps L v now claims doc cs = Go cs' u \<longleftrightarrow>
     timely (vf_config v) now doc claims \<and> cs' = cs @ map passed timestamp_names"
proof (cases "0 \<le> now")
  case False
  then show ?thesis by (simp add: check_timestamps_def since_epoch_def timely_def)
next
  case True
  note n = sint_as_secs [OF True assms] and b = clock_seconds_bounds [OF True assms]
    and d = sint_doc_seconds [of doc] and db = doc_seconds_bounds [of doc]
  have now0: "0 \<le> sint (as_secs (nat now))" and doc0: "0 \<le> sint (ad_timestamp doc div 1000)"
    using b db by (simp_all only: n d)
  have "check_timestamps L v now claims doc cs = Go cs' u \<longleftrightarrow>
      (\<exists>mid. check_skew L v claims (as_secs (nat now)) (ad_timestamp doc div 1000) cs = Go mid () \<and>
        (\<exists>mid'. check_age v claims (as_secs (nat now)) mid = Go mid' () \<and>
          check_alignment L v claims (ad_timestamp doc div 1000) mid' = Go cs' u))"
    using True by (simp add: check_timestamps_def since_epoch_def stage_bind_Go Let_def)
  then show ?thesis
    unfolding check_skew_Go [OF now0 doc0] check_age_Go [OF now0] check_alignment_Go [OF doc0] n d
    using True by (auto simp: timely_def timestamp_names_def)
qed

section \<open>The call decides the policy\<close>

lemma verify_checks_Go:
  assumes "representable now"
  shows "verify_checks L v clock now rb ex cs = Go cs' (claims, doc) \<longleftrightarrow>
     receipt_acceptable L v clock now rb ex claims doc \<and> cs' = cs @ map passed check_names"
  unfolding verify_checks_def stage_simps check_timestamps_Go [OF assms]
    receipt_acceptable_def document_binds_def claims_match_def check_names_def
  by auto

end
