(* ===== verification/Verifier_Results.thy ===== *)
theory Verifier_Results
  imports Verifier_Policy
begin

text \<open>
  What a call of \<open>verify\<close> returns and what it leaves in the replay state.  The replay
  state is a monotone register; the theorems at the end are about sequences of calls.
\<close>

section \<open>One call\<close>

text \<open>The replay state admits the receipt: its number is above the last one recorded.\<close>

definition admits :: "lib \<Rightarrow> verifier \<Rightarrow> veri_claims \<Rightarrow> attestation_doc \<Rightarrow> bool" where
  "admits L v claims doc \<longleftrightarrow>
     (case vf_state v of
        None \<Rightarrow> True
      | Some (Poisoned _) \<Rightarrow> False
      | Some (Healthy m) \<Rightarrow>
          (case m (compute_identity_fingerprint L doc) of
             None \<Rightarrow> True
           | Some last_seq \<Rightarrow> last_seq < vc_sequence_num claims))"

definition recorded :: "lib \<Rightarrow> verifier \<Rightarrow> veri_claims \<Rightarrow> attestation_doc \<Rightarrow> verifier" where
  "recorded L v claims doc =
     (case vf_state v of
        Some (Healthy m) \<Rightarrow>
          v\<lparr>vf_state := Some (Healthy
              (m(compute_identity_fingerprint L doc \<mapsto> vc_sequence_num claims)))\<rparr>
      | _ \<Rightarrow> v)"

definition all_names :: "verifier \<Rightarrow> str list" where
  "all_names v = check_names @ (if vf_state v = None then [] else [''Sequence Check''])"

lemma accept_result_simps [simp]:
  "vr_valid (accept_result v info cs)"
  "vr_error (accept_result v info cs) = None"
  "vr_checks (accept_result v info cs) = cs"
  "vr_receipt (accept_result v info cs) = Some info"
  "vr_attestation_provider (accept_result v info cs) = p_name (vf_provider v)"
  "vr_verified_hardware (accept_result v info cs) = p_hardware (vf_provider v)"
  by (simp_all add: accept_result_def)

lemma check_sequence_accepts:
  "check_sequence L v claims doc cs = (Ok r, v') \<and> vr_valid r \<longleftrightarrow>
     admits L v claims doc \<and>
     r = accept_result v (receipt_info_of L claims)
           (cs @ (if vf_state v = None then [] else [passed ''Sequence Check''])) \<and>
     v' = recorded L v claims doc"
  by (cases "vf_state v"; cases "the (vf_state v)")
    (auto simp: check_sequence_def admits_def recorded_def fail_result_def Let_def not_le
      split: option.splits if_splits)

lemma check_sequence_refuses:
  "check_sequence L v claims doc cs = (Ok r, v') \<Longrightarrow> \<not> vr_valid r \<Longrightarrow>
     v' = v \<and> refusal v cs [''Sequence Check''] r"
  by (cases "vf_state v"; cases "the (vf_state v)")
    (auto simp: check_sequence_def Let_def split: option.splits
      intro!: fail_result_refusal, auto simp: fail_result_def)

lemma check_sequence_errs:
  "check_sequence L v claims doc cs = (Err e, v') \<Longrightarrow>
     v' = v \<and> e = ReplayStateUnavailable \<and> (\<exists>m. vf_state v = Some (Poisoned m))"
  by (cases "vf_state v"; cases "the (vf_state v)")
    (auto simp: check_sequence_def Let_def split: option.splits)

lemma verify_accept_iff:
  assumes "representable now"
  shows "verify L clock now rb ex v = (Ok r, v') \<and> vr_valid r \<longleftrightarrow>
     (\<exists>claims doc. receipt_acceptable L v clock now rb ex claims doc \<and> admits L v claims doc \<and>
        r = accept_result v (receipt_info_of L claims) (map passed (all_names v)) \<and>
        v' = recorded L v claims doc)"
proof (cases "verify_checks L v clock now rb ex []")
  case (Stop res)
  have none: "\<not> receipt_acceptable L v clock now rb ex claims doc" for claims doc
    using verify_checks_Go [OF assms, of L v clock rb ex "[]" "map passed check_names" claims doc] Stop by simp
  have "\<not> vr_valid r" if "res = Ok r"
    using call.only_refuses [OF Stop [unfolded that]] .
  with none Stop show ?thesis by (auto simp: verify_def)
next
  case (Go cs p)
  obtain claims doc where p: "p = (claims, doc)" by fastforce
  have acc: "receipt_acceptable L v clock now rb ex c d \<longleftrightarrow> c = claims \<and> d = doc" for c d
    using verify_checks_Go [OF assms, of L v clock rb ex "[]" cs c d] verify_checks_Go [OF assms, of L v clock rb ex "[]" cs claims doc] Go p by auto
  have cs: "cs = map passed check_names"
    using verify_checks_Go [OF assms, of L v clock rb ex "[]" cs claims doc] Go p by simp
  have "verify L clock now rb ex v = check_sequence L v claims doc (map passed check_names)"
    using Go p cs by (simp add: verify_def)
  then show ?thesis
    by (simp add: check_sequence_accepts acc all_names_def)
qed

lemma verify_complete:
  assumes "representable now" and "receipt_acceptable L v clock now rb ex claims doc"
    and "admits L v claims doc"
  shows "verify L clock now rb ex v =
    (Ok (accept_result v (receipt_info_of L claims) (map passed (all_names v))),
     recorded L v claims doc)"
  using assms(2,3) verify_accept_iff [OF assms(1)] by blast

lemma verify_refuses:
  assumes "verify L clock now rb ex v = (Ok r, v')" and "\<not> vr_valid r"
  shows "v' = v \<and> refusal v [] (check_names @ [''Sequence Check'']) r"
proof (cases "verify_checks L v clock now rb ex []")
  case (Stop res)
  with assms have "verify_checks L v clock now rb ex [] = Stop (Ok r)" and v': "v' = v"
    by (auto simp: verify_def)
  from refusal_more [OF call.stops [OF this(1)]] v' show ?thesis by blast
next
  case (Go cs p)
  obtain claims doc where p: "p = (claims, doc)" by fastforce
  from assms Go p have "check_sequence L v claims doc cs = (Ok r, v')"
    by (simp add: verify_def)
  from check_sequence_refuses [OF this assms(2)] call.goes [OF Go] refusal_append
  show ?thesis by fastforce
qed

lemma verify_errs: "verify L clock now rb ex v = (Err e, v') \<Longrightarrow> v' = v"
  by (auto simp: verify_def split: stage.splits prod.splits dest: check_sequence_errs)

lemma verify_unchanged:
  "verify L clock now rb ex v = (r, v') \<Longrightarrow>
     v' = v \<or> (\<exists>res. r = Ok res \<and> vr_valid res)"
  by (cases r) (auto dest: verify_errs verify_refuses)

text \<open>\<open>valid\<close> and \<open>error\<close> always agree, and only a valid result claims hardware.\<close>

lemma verify_coherent:
  assumes "verify L clock now rb ex v = (Ok r, v')"
  shows "(vr_valid r \<longleftrightarrow> vr_error r = None) \<and>
    (vr_verified_hardware r \<longleftrightarrow> vr_valid r \<and> p_hardware (vf_provider v)) \<and>
    (vr_valid r \<longrightarrow> vr_receipt r \<noteq> None) \<and>
    vr_attestation_provider r = p_name (vf_provider v)"
proof (cases "vr_valid r")
  case False
  with verify_refuses [OF assms] show ?thesis by (simp add: refusal_def)
next
  case True
  from assms True obtain cs claims doc where
    "check_sequence L v claims doc cs = (Ok r, v') \<and> vr_valid r"
    by (auto simp: verify_def split: stage.splits prod.splits dest: call.only_refuses)
  then show ?thesis by (auto simp: check_sequence_accepts)
qed

section \<open>Only genuine documents\<close>

lemma document_functional:
  "document_of_report L b d \<Longrightarrow> document_of_report L b d' \<Longrightarrow> d = d'"
  by (auto simp: document_of_report_def)

lemma trusted_document_report: "trusted_document L b root now d \<Longrightarrow> document_of_report L b d"
  by (auto simp: trusted_document_def document_of_report_def)

context attestation_verifier begin

lemma chain_accepted_trusted:
  assumes "vf_provider v = P" and "document_of_report L report doc"
  shows "chain_accepted v clock report \<longleftrightarrow>
    (\<exists>i < length (vf_trusted_roots v).
       trusted_document L report (vf_trusted_roots v ! i) (clock i) doc)"
  using assms verify_accepts document_functional trusted_document_report
  unfolding chain_accepted_def by metis

lemma valid_receipt_is_trusted:
  assumes "representable now" and "vf_provider v = P"
    and "verify L clock now rb ex v = (Ok r, v')" and "vr_valid r"
  shows "\<exists>claims doc i. receipt_acceptable L v clock now rb ex claims doc \<and>
    i < length (vf_trusted_roots v) \<and>
    trusted_document L (vc_attestation_report claims) (vf_trusted_roots v ! i) (clock i) doc"
proof -
  obtain claims doc where acc: "receipt_acceptable L v clock now rb ex claims doc"
    using assms verify_accept_iff by blast
  then have "document_of_report L (vc_attestation_report claims) doc"
    and "chain_accepted v clock (vc_attestation_report claims)"
    by (auto simp: receipt_acceptable_def)
  with acc chain_accepted_trusted [OF assms(2)] show ?thesis by blast
qed

end

section \<open>The replay state\<close>

text \<open>A call with its clocks, its receipt and its expectations.\<close>

record verify_call =
  vk_clock :: "nat \<Rightarrow> system_time"
  vk_now :: system_time
  vk_receipt :: bytes
  vk_expected :: expectation

definition call_verifier ::
  "lib \<Rightarrow> verify_call \<Rightarrow> verifier \<Rightarrow> (verify_error, verification_result) result \<times> verifier" where
  "call_verifier L c v = verify L (vk_clock c) (vk_now c) (vk_receipt c) (vk_expected c) v"

text \<open>The identity and the number a receipt carries, whether it is acceptable or not.\<close>

definition parsed_report :: "lib \<Rightarrow> bytes \<Rightarrow> attestation_doc option" where
  "parsed_report L report =
     (case cose_from_slice L report of
        Inl _ \<Rightarrow> None
      | Inr cose \<Rightarrow> Option.bind (cs_payload cose) (\<lambda>payload.
          case doc_from_binary L payload of Inl _ \<Rightarrow> None | Inr doc \<Rightarrow> Some doc))"

definition parsed_claims :: "lib \<Rightarrow> bytes \<Rightarrow> veri_claims option" where
  "parsed_claims L receipt =
     (case cose_from_slice L receipt of
        Inl _ \<Rightarrow> None
      | Inr cose \<Rightarrow> Option.bind (cs_payload cose) (\<lambda>payload.
          case claims_from_binary L payload of Inl _ \<Rightarrow> None | Inr claims \<Rightarrow> Some claims))"

definition receipt_number :: "lib \<Rightarrow> bytes \<Rightarrow> (bytes \<times> nat) option" where
  "receipt_number L receipt =
     Option.bind (parsed_claims L receipt) (\<lambda>claims.
     Option.bind (parsed_report L (vc_attestation_report claims)) (\<lambda>doc.
       Some (compute_identity_fingerprint L doc, unat (vc_sequence_num claims))))"

lemma verify_checks_number:
  assumes "verify_checks L v clock now rb ex cs = Go cs' (claims, doc)"
  shows "receipt_number L rb =
    Some (compute_identity_fingerprint L doc, unat (vc_sequence_num claims))"
proof -
  obtain cose where "cose_from_slice L rb = Ok cose" "claims_of_receipt L cose claims"
    "document_of_report L (vc_attestation_report claims) doc"
    using assms unfolding verify_checks_def stage_simps by blast
  then show ?thesis
    by (auto simp: receipt_number_def parsed_claims_def parsed_report_def claims_of_receipt_def
        document_of_report_def)
qed

definition call_valid :: "lib \<Rightarrow> verify_call \<Rightarrow> verifier \<Rightarrow> bool" where
  "call_valid L c v = (case fst (call_verifier L c v) of Inr r \<Rightarrow> vr_valid r | Inl _ \<Rightarrow> False)"

definition admit :: "lib \<Rightarrow> (verify_call, verifier, bytes) register_step" where
  "admit L c v =
     (if call_valid L c v \<and> vf_state v \<noteq> None then receipt_number L (vk_receipt c) else None,
      snd (call_verifier L c v))"

definition replay_mark :: "verifier \<Rightarrow> bytes \<rightharpoonup> nat" where
  "replay_mark v k =
     (case vf_state v of
        Some (Healthy m) \<Rightarrow> map_option unat (m k)
      | _ \<Rightarrow> None)"

lemma call_valid_Go:
  assumes "call_valid L c v"
  obtains cs claims doc where
    "verify_checks L v (vk_clock c) (vk_now c) (vk_receipt c) (vk_expected c) [] =
       Go cs (claims, doc)"
    "admits L v claims doc" "snd (call_verifier L c v) = recorded L v claims doc"
    "receipt_number L (vk_receipt c) = Some (compute_identity_fingerprint L doc, unat (vc_sequence_num claims))"
proof (cases "verify_checks L v (vk_clock c) (vk_now c) (vk_receipt c) (vk_expected c) []")
  case (Stop r)
  with assms show ?thesis
    by (cases r) (auto simp: call_valid_def call_verifier_def verify_def dest: call.only_refuses)
next
  case (Go cs p)
  obtain claims doc where p: "p = (claims, doc)" by fastforce
  obtain r v' where cv: "call_verifier L c v = (Ok r, v')" "vr_valid r"
    using assms by (cases "call_verifier L c v") (auto simp: call_valid_def split: sum.splits)
  then have "check_sequence L v claims doc cs = (Ok r, v') \<and> vr_valid r"
    using Go p by (simp add: call_verifier_def verify_def)
  then have "admits L v claims doc" "v' = recorded L v claims doc"
    unfolding check_sequence_accepts by auto
  with that [of cs claims doc] Go p cv verify_checks_number [OF Go [unfolded p]]
  show ?thesis by simp
qed

lemma replay_mark_recorded:
  assumes "vf_state v \<noteq> None" and "admits L v claims doc"
  shows "replay_mark (recorded L v claims doc) =
      (replay_mark v)(compute_identity_fingerprint L doc \<mapsto> unat (vc_sequence_num claims))"
    and "\<forall>m. replay_mark v (compute_identity_fingerprint L doc) = Some m \<longrightarrow>
      m < unat (vc_sequence_num claims)"
  using assms
  by (cases "the (vf_state v)";
      auto simp: admits_def recorded_def replay_mark_def fun_eq_iff word_less_nat_alt
        split: option.splits)+

interpretation replay: monotone_register "admit L" replay_mark "\<lambda>v. True" for L
proof unfold_locales
  fix c v k n v'
  assume "admit L c v = (Some (k, n), v')"
  then have valid: "call_valid L c v" and st: "vf_state v \<noteq> None"
    and n: "receipt_number L (vk_receipt c) = Some (k, n)" and v': "v' = snd (call_verifier L c v)"
    by (auto simp: admit_def split: if_splits)
  from valid obtain cs claims doc where "admits L v claims doc" "v' = recorded L v claims doc"
    "k = compute_identity_fingerprint L doc" "n = unat (vc_sequence_num claims)"
    using n v' by (auto elim!: call_valid_Go)
  with replay_mark_recorded [OF st, of L claims doc]
  show "(\<forall>m. replay_mark v k = Some m \<longrightarrow> m < n) \<and> replay_mark v' k = Some n \<and>
      mark_le (replay_mark v) (replay_mark v')"
    by (auto intro: mark_le_upd less_imp_le)
next
  fix c v v'
  assume a: "admit L c v = (None, v')"
  then have "v' = snd (call_verifier L c v)" by (simp add: admit_def)
  show "mark_le (replay_mark v) (replay_mark v')"
  proof (cases "call_valid L c v")
    case True
    then have "vf_state v = None"
      using a by (auto simp: admit_def elim!: call_valid_Go split: if_splits)
    then show ?thesis by (simp add: mark_le_def replay_mark_def)
  next
    case False
    moreover obtain r where "call_verifier L c v = (r, v')"
      using a by (cases "call_verifier L c v") (simp add: admit_def)
    ultimately have "v' = v"
      using verify_unchanged [of L "vk_clock c" "vk_now c" "vk_receipt c" "vk_expected c" v r v']
      by (auto simp: call_valid_def call_verifier_def)
    then show ?thesis by simp
  qed
qed simp

section \<open>No receipt twice\<close>

lemma call_state_kept: "vf_state (snd (call_verifier L c v)) = None \<longleftrightarrow> vf_state v = None"
proof (cases "call_valid L c v")
  case True
  then show ?thesis
    by (auto elim!: call_valid_Go simp: recorded_def split: option.splits mutex.splits)
next
  case False
  moreover obtain r v' where "call_verifier L c v = (r, v')" by fastforce
  ultimately have "v' = v"
    using verify_unchanged [of L "vk_clock c" "vk_now c" "vk_receipt c" "vk_expected c" v r v']
    by (auto simp: call_valid_def call_verifier_def)
  with \<open>call_verifier L c v = (r, v')\<close> show ?thesis by simp
qed

lemma run_state_kept: "vf_state (run_state (admit L) cs v) = None \<longleftrightarrow> vf_state v = None"
  by (induction cs arbitrary: v) (simp_all add: run_state_def admit_def call_state_kept)

lemma accepted_mark:
  assumes "call_valid L c v" and "vf_state v \<noteq> None"
  obtains k n where "receipt_number L (vk_receipt c) = Some (k, n)"
    and "replay_mark (snd (call_verifier L c v)) k = Some n"
    and "\<forall>m. replay_mark v k = Some m \<longrightarrow> m < n"
proof -
  from assms(1) obtain cs claims doc where "admits L v claims doc"
    "snd (call_verifier L c v) = recorded L v claims doc"
    "receipt_number L (vk_receipt c) = Some (compute_identity_fingerprint L doc, unat (vc_sequence_num claims))"
    by (auto elim!: call_valid_Go)
  with replay_mark_recorded [OF assms(2), of L claims doc] that show ?thesis by simp
qed

lemma accepted_once:
  assumes valid: "call_valid L c v" and st: "vf_state v \<noteq> None"
    and later: "w = run_state (admit L) cs (snd (call_verifier L c v))"
    and same: "vk_receipt d = vk_receipt c"
  shows "\<not> call_valid L d w"
proof
  assume again: "call_valid L d w"
  obtain k n where kn: "receipt_number L (vk_receipt c) = Some (k, n)"
    and m: "replay_mark (snd (call_verifier L c v)) k = Some n"
    using accepted_mark [OF valid st] by blast
  have "vf_state w \<noteq> None"
    using st by (simp add: later run_state_kept call_state_kept)
  then obtain k' n' where kn': "receipt_number L (vk_receipt d) = Some (k', n')"
    and fresh: "\<forall>m. replay_mark w k' = Some m \<longrightarrow> m < n'"
    using accepted_mark [OF again] by blast
  have "(k', n') = (k, n)"
    using same kn kn' by simp
  moreover obtain n'' where "replay_mark w k = Some n''" "n \<le> n''"
    using replay.run_mark_le [OF TrueI, of "snd (call_verifier L c v)" L cs] m
    unfolding later mark_le_def by blast
  ultimately show False using fresh by auto
qed

section \<open>Saving and restoring the state\<close>

lemma set_get_state:
  assumes "vf_state v \<noteq> None" and "set_state m v = (Ok (), v')"
  shows "get_state v' = Ok (Some m)"
  using assms by (cases "the (vf_state v)") (auto simp: set_state_def get_state_def)

lemma get_set_state:
  assumes "get_state v = Ok (Some m)"
  shows "set_state m v = (Ok (), v)"
  using assms
  by (cases "vf_state v"; cases "the (vf_state v)") (auto simp: set_state_def get_state_def)

lemma restored_mark:
  assumes "get_state v = Ok (Some m)" and "set_state m w = (Ok (), w')" and "vf_state w \<noteq> None"
  shows "replay_mark w' = replay_mark v"
  using assms
  by (cases "vf_state v"; cases "the (vf_state v)"; cases "the (vf_state w)")
    (auto simp: set_state_def get_state_def replay_mark_def fun_eq_iff)

section \<open>The two outcomes of a call with replay state\<close>

definition with_state :: "verifier \<Rightarrow> replay_state \<Rightarrow> verifier" where
  "with_state v m = v\<lparr>vf_state := Some (Healthy m)\<rparr>"

lemma with_state_simps [simp]:
  "vf_state (with_state v m) = Some (Healthy m)"
  "with_state (with_state v m) m' = with_state v m'"
  "vf_provider (with_state v m) = vf_provider v"
  by (simp_all add: with_state_def)

lemma with_state_id [simp]: "vf_state v = Some (Healthy m) \<Longrightarrow> with_state v m = v"
  by (cases v) (simp add: with_state_def)

lemma verify_cases:
  assumes "verify L clock now rb ex v = (r, v')" and "vf_state v = Some (Healthy m)"
  obtains (accepted) res k n where "r = Ok res" "vr_valid res" "receipt_number L rb = Some (k, unat n)"
      "\<forall>last_seq. m k = Some last_seq \<longrightarrow> last_seq < n" "v' = with_state v (m(k \<mapsto> n))"
    | (refused) "v' = v" "\<forall>res. r = Ok res \<longrightarrow> \<not> vr_valid res"
proof (cases "\<exists>res. r = Ok res \<and> vr_valid res")
  case False
  with assms(1) verify_unchanged refused show ?thesis by blast
next
  case True
  then obtain res where r: "r = Ok res" "vr_valid res" by blast
  then obtain cs claims doc where go: "verify_checks L v clock now rb ex [] = Go cs (claims, doc)"
    and "check_sequence L v claims doc cs = (Ok res, v') \<and> vr_valid res"
    using assms(1) by (auto simp: verify_def split: stage.splits prod.splits dest: call.only_refuses)
  then have "admits L v claims doc" "v' = recorded L v claims doc"
    unfolding check_sequence_accepts by auto
  with r assms(2) verify_checks_number [OF go] accepted
    [of res "compute_identity_fingerprint L doc" "vc_sequence_num claims"]
  show ?thesis by (auto simp: admits_def recorded_def with_state_def split: option.splits)
qed

text \<open>A receipt that is accepted in one replay state is judged in any other by its number.\<close>

lemma acceptable_number:
  "receipt_acceptable L v clock now rb ex claims doc \<Longrightarrow>
     receipt_number L rb = Some (compute_identity_fingerprint L doc, unat (vc_sequence_num claims))"
  by (auto simp: receipt_acceptable_def receipt_number_def parsed_claims_def parsed_report_def
      claims_of_receipt_def document_of_report_def)

lemma receipt_acceptable_state:
  "receipt_acceptable L (with_state v m) clock now rb ex claims doc \<longleftrightarrow>
     receipt_acceptable L v clock now rb ex claims doc"
  by (simp add: receipt_acceptable_def with_state_def chain_accepted_def)

lemma verify_other_state:
  assumes rep: "representable now" and run: "verify L clock now rb ex v = (Ok r, v')" "vr_valid r"
    and st: "vf_state v = Some (Healthy m0)" and num: "receipt_number L rb = Some (k, n)"
  shows "\<exists>r' m'. verify L clock now rb ex (with_state v m) = (Ok r', with_state v m') \<and>
    (vr_valid r' \<longleftrightarrow> (\<forall>last_seq. m k = Some last_seq \<longrightarrow> unat last_seq < n)) \<and>
    (vr_valid r' \<longrightarrow> (\<exists>sq. unat sq = n \<and> m' = m(k \<mapsto> sq)))"
proof -
  let ?w = "with_state v m"
  obtain claims doc where "receipt_acceptable L v clock now rb ex claims doc"
    using verify_accept_iff [OF rep] run by blast
  then have acc: "receipt_acceptable L ?w clock now rb ex claims doc"
    by (simp add: receipt_acceptable_state)
  have kn: "k = compute_identity_fingerprint L doc" "n = unat (vc_sequence_num claims)"
    using acceptable_number [OF acc] num by simp_all
  have adm: "admits L ?w claims doc \<longleftrightarrow> (\<forall>last_seq. m k = Some last_seq \<longrightarrow> unat last_seq < n)"
    by (simp add: admits_def kn word_less_nat_alt split: option.splits)
  show ?thesis
  proof (cases "admits L ?w claims doc")
    case True
    have "recorded L ?w claims doc = with_state v (m(k \<mapsto> vc_sequence_num claims))"
      by (simp add: recorded_def kn with_state_def)
    with verify_complete [OF rep acc True] adm True kn(2) show ?thesis
      by (auto intro!: exI [of _ "m(k \<mapsto> vc_sequence_num claims)"])
  next
    case False
    obtain cs where "verify_checks L ?w clock now rb ex [] = Go cs (claims, doc)"
      using verify_checks_Go [OF rep, of L ?w clock rb ex "[]" "map passed check_names" claims doc] acc
      by auto
    then have v: "verify L clock now rb ex ?w = check_sequence L ?w claims doc cs"
      by (simp add: verify_def)
    obtain r' w' where c: "check_sequence L ?w claims doc cs = (r', w')" by fastforce
    then obtain r'' where r': "r' = Ok r''"
      using check_sequence_errs [of L ?w claims doc cs _ w'] by (cases r') auto
    then have "\<not> vr_valid r''"
      using False c check_sequence_accepts by blast
    with c r' v adm False check_sequence_refuses [of L ?w claims doc cs r'' w'] show ?thesis
      by auto
  qed
qed

lemma receipt_number_length:
  "sha_lengths L \<Longrightarrow> receipt_number L rb = Some (k, n) \<Longrightarrow> length k = 32"
  by (auto simp: receipt_number_def compute_identity_fingerprint_def sha_lengths_def Let_def
      split: bind_splits)

end
