(* ===== verification/Trusted_Roots.thy ===== *)
theory Trusted_Roots
  imports Verifier_Results
begin

text \<open>
  A root bundle is read twice, by different parsers: the allowlist check of
  \<open>veriai-attestation\<close> and \<open>Verifier::from_pem\<close>.  The lemmas show that the lax
  second parser loads, from a bundle that the strict first one has passed, exactly
  certificates of the allowlist.
\<close>

definition pinned :: "lib \<Rightarrow> bytes list \<Rightarrow> bytes \<Rightarrow> bool" where
  "pinned L allowlist der \<longleftrightarrow> sha256 L der \<in> set allowlist"

lemma scan_then_collect:
  assumes "scan_root_lines L allowlist (filter (\<lambda>l. l \<noteq> []) (map str_trim ls)) enc in_cert n =
      Ok (in_cert', n')"
    and "in_cert \<longrightarrow> enc' = enc"
  shows "\<exists>ders. collect_roots L ls enc' in_cert roots = Ok (roots @ ders) \<and>
    n' = n + length ders \<and> list_all (pinned L allowlist) ders"
  using assms
proof (induction ls arbitrary: enc enc' in_cert n roots)
  case (Cons l ls)
  let ?t = "str_trim l"
  consider (begins) "?t = BEGIN_CERTIFICATE" "\<not> in_cert"
    | (ends) "?t = END_CERTIFICATE" in_cert
    | (body) "?t \<noteq> BEGIN_CERTIFICATE" "?t \<noteq> END_CERTIFICATE" in_cert
    | (blank) "?t = []" "\<not> in_cert"
    using Cons.prems(1)
    by (cases "?t = BEGIN_CERTIFICATE"; cases "?t = END_CERTIFICATE"; cases in_cert)
      (auto split: if_splits)
  then show ?case
  proof cases
    case begins
    with Cons.prems Cons.IH [of "[]" True n "[]" roots] show ?thesis by simp
  next
    case ends
    with Cons.prems obtain der where "base64_decode L enc = Ok der" "pinned L allowlist der"
      and "scan_root_lines L allowlist (filter (\<lambda>l. l \<noteq> []) (map str_trim ls)) enc False (n + 1) =
        Ok (in_cert', n')"
      by (auto simp: result_simps pinned_def)
    with ends Cons.prems(2) Cons.IH [of enc False "n + 1" enc' "roots @ [der]"]
    show ?thesis by (auto simp: Cons.prems(2))
  next
    case body
    with Cons.prems Cons.IH [of "enc @ ?t" True n "enc' @ ?t" roots] show ?thesis
      by (auto split: if_splits)
  next
    case blank
    with Cons.prems Cons.IH [of enc False n enc' roots] show ?thesis by simp
  qed
qed simp

lemma validated_pem_loads:
  assumes "validate_root_pem_with_allowlist L pem allowlist = Ok ()"
  shows "\<exists>v. from_pem_with_config L P pem stateful cfg = Ok v \<and>
    vf_trusted_roots v \<noteq> [] \<and> list_all (pinned L allowlist) (vf_trusted_roots v) \<and>
    vf_provider v = P \<and> vf_config v = cfg \<and> (vf_state v \<noteq> None \<longleftrightarrow> stateful)"
proof -
  obtain n' where "scan_root_lines L allowlist
      (filter (\<lambda>l. l \<noteq> []) (map str_trim (str_lines pem))) [] False 0 = Ok (False, n')" "n' \<noteq> 0"
    using assms
    by (auto simp: validate_root_pem_with_allowlist_def result_simps split: if_splits)
  from scan_then_collect [OF this(1), of "[]" "[]"] this(2) show ?thesis
    by (auto simp: from_pem_with_config_def result_simps new_with_config_def)
qed

end
