(* ===== verification/Receipt_Exchange.thy ===== *)
theory Receipt_Exchange
  imports Trusted_Roots
begin

text \<open>
  Generator and verifier together: a receipt issued by the generator over a mock
  provider is accepted by a verifier that trusts the provider's root, as long as it
  arrives in time, and a generated receipt carries what the verifier reads from it.
\<close>

section \<open>The mock provider's document is trusted\<close>

text \<open>The fixtures form a chain to \<open>root\<close>, and the leaf's key pair signs.\<close>

definition mock_chain :: "lib \<Rightarrow> mock_pki \<Rightarrow> bytes \<Rightarrow> system_time \<Rightarrow> bool" where
  "mock_chain L pki root now \<longleftrightarrow>
     (\<exists>leaf key. cert_from_der L (mock_leaf_der pki) = Ok leaf \<and> acceptable_leaf L leaf now \<and>
        p384_key_from_sec1 L (cert_public_key leaf) = Ok key \<and>
        (\<forall>sk m. p384_signing_key_from_pem L (mock_leaf_key_pem pki) = Ok sk \<longrightarrow>
           (\<exists>sig. p384_signature_from_slice L (p384_sign L sk m) = Ok sig \<and>
              p384_verify L key m sig = Ok ())) \<and>
        trusted_path L root now 0 leaf [mock_intermediate_der pki, mock_root_der pki])"

lemma mock_report_trusted:
  assumes laws: "cose_roundtrips L" "cose_builds L" "cbor_roundtrips L"
    and gen: "mock_generate L pki t ud nn pk = Ok report"
    and chain: "mock_chain L pki root now"
  shows "trusted_document L report root now (mock_document pki (as_millis_u64 (nat t)) ud nn pk)"
proof -
  let ?doc = "mock_document pki (as_millis_u64 (nat t)) ud nn pk"
  obtain payload sk where p: "doc_to_cbor L ?doc = Ok payload"
    and sk: "p384_signing_key_from_pem L (mock_leaf_key_pem pki) = Ok sk"
    and v: "cose_to_vec L ((cose_sign1_build L (cose_header_build L ES384 None) payload)\<lparr>cs_signature
        := p384_sign L sk (cose_tbs_data L
             (cose_sign1_build L (cose_header_build L ES384 None) payload) [])\<rparr>) = Ok report"
    using gen by (auto simp: mock_generate_Ok Let_def)
  define cose where "cose = cose_sign1_build L (cose_header_build L ES384 None) payload"
  define signed where "signed = cose\<lparr>cs_signature := p384_sign L sk (cose_tbs_data L cose [])\<rparr>"
  obtain d where d: "cose_from_slice L report = Ok d" "same_cose L signed d"
    using laws(1) v unfolding cose_roundtrips_def signed_def cose_def Let_def by blast
  have built: "headers_acceptable L cose" "cs_payload cose = Some payload"
    "\<And>a. cose_tbs_data L signed a = cose_tbs_data L cose a"
    using laws(2) unfolding cose_def signed_def cose_builds_def headers_acceptable_def by simp_all
  then have parsed: "headers_acceptable L d" "cs_payload d = Some payload"
    "cs_signature d = p384_sign L sk (cose_tbs_data L cose [])"
    "cose_tbs_data L d [] = cose_tbs_data L cose []"
    using d(2) by (auto simp: same_cose_def signed_def headers_acceptable_def)
  have doc: "doc_from_binary L payload = Ok ?doc"
    using laws(3) p by (simp add: cbor_roundtrips_def doc_from_binary_def)
  obtain leaf where leaf: "cert_from_der L (mock_leaf_der pki) = Ok leaf"
    "acceptable_leaf L leaf now" "document_signed_by L d leaf"
    "trusted_path L root now 0 leaf [mock_intermediate_der pki, mock_root_der pki]"
    using chain sk parsed(3,4) unfolding mock_chain_def document_signed_by_def by metis
  have "ad_certificate ?doc = mock_leaf_der pki"
    "rev (ad_cabundle ?doc) = [mock_intermediate_der pki, mock_root_der pki]"
    by (simp_all add: mock_document_def)
  with d(1) parsed doc leaf show ?thesis
    unfolding trusted_document_def by metis
qed

section \<open>Contents of a generated receipt\<close>

lemma report_data_is_binding: "compute_report_data L g = key_binding L (public_key_bytes L g)"
  by (simp add: compute_report_data_def key_binding_def)

lemma issued_claims_wf [wf_intros]:
  "ed25519_correct L \<Longrightarrow> length mh = 32 \<Longrightarrow> length ih = 32 \<Longrightarrow> length oh = 32 \<Longrightarrow>
     length nn = 32 \<Longrightarrow> wf_claims (issued_claims L now mh ih oh nn report g)"
  by (simp add: wf_claims_def issued_claims_def ed25519_correct_def public_key_bytes_def)

lemma generated_receipt_parses:
  assumes laws: "cose_roundtrips L" "cose_builds L" "cbor_roundtrips L" "ed25519_correct L"
    and len: "length mh = 32" "length ih = 32" "length oh = 32" "length nn = 32"
    and gen: "generate_receipt L tp now mh ih oh nn g = (Ok b, g')"
  obtains report cose where
    "p_generate (rg_provider g) tp (Some (compute_report_data L g)) (Some nn)
       (Some (public_key_bytes L g)) = Ok report"
    "cose_from_slice L b = Ok cose" "protected_receipt L cose"
    "claims_of_receipt L cose (issued_claims L now mh ih oh nn report g)"
    "signed_receipt L cose (issued_claims L now mh ih oh nn report g)" "0 \<le> now"
proof -
  obtain report where r: "p_generate (rg_provider g) tp (Some (compute_report_data L g)) (Some nn)
      (Some (public_key_bytes L g)) = Ok report" "0 \<le> now"
    "sign_claims L g (issued_claims L now mh ih oh nn report g) = Ok b"
    using gen unfolding generate_receipt_Ok by blast
  have wf: "wf_claims (issued_claims L now mh ih oh nn report g)"
    using laws(4) len by (rule issued_claims_wf)
  have key: "vc_enclave_pubkey (issued_claims L now mh ih oh nn report g) = public_key_bytes L g"
    by (simp add: issued_claims_def)
  have "ed25519_key_valid L (public_key_bytes L g)"
    using laws(4) by (simp add: ed25519_correct_def public_key_bytes_def)
  moreover obtain cose payload where c: "cose_from_slice L b = Ok cose"
    "cs_payload cose = Some payload"
    "claims_from_binary L payload = Ok (issued_claims L now mh ih oh nn report g)"
    "protected_receipt L cose" "length (cs_signature cose) = 64"
    "ed25519_verify L (public_key_bytes L g) (cose_tbs_data L cose []) (cs_signature cose)"
    using sign_claims_parses [OF laws wf r(3)] unfolding protected_receipt_def by blast
  ultimately have "signed_receipt L cose (issued_claims L now mh ih oh nn report g)"
    by (simp add: signed_receipt_def key)
  moreover have "claims_of_receipt L cose (issued_claims L now mh ih oh nn report g)"
    using c(2,3) by (simp add: claims_of_receipt_def)
  ultimately show ?thesis using that r(1,2) c(1,4) by blast
qed

section \<open>Acceptance\<close>

lemma mock_doc_seconds:
  assumes "0 \<le> t" "t < 2 ^ 64 * 10 ^ 6"
  shows "doc_seconds (mock_document pki (as_millis_u64 (nat t)) ud nn pk) = clock_seconds t"
proof -
  have "nat t div 10 ^ 6 < 2 ^ 64"
    using assms by (simp add: nat_less_iff div_less_iff_less_mult less_mult_imp_div_less)
  then have "unat (as_millis_u64 (nat t)) = nat t div 10 ^ 6"
    by (simp add: as_millis_u64_def unat_of_nat take_bit_eq_mod)
  moreover have "int (nat t div 10 ^ 6) = t div 10 ^ 6"
    using assms(1) by (simp add: zdiv_int)
  ultimately show ?thesis
    by (simp add: doc_seconds_def clock_seconds_def mock_document_def
        zdiv_zmult2_eq [symmetric])
qed

text \<open>The times at which a receipt made at \<open>t_doc\<close> and \<open>t_claims\<close> is fresh at \<open>now\<close>.\<close>

definition in_time :: "verifier_config \<Rightarrow> system_time \<Rightarrow> system_time \<Rightarrow> system_time \<Rightarrow> bool" where
  "in_time cfg t_doc t_claims now \<longleftrightarrow>
     0 \<le> t_doc \<and> t_doc < 2 ^ 64 * 10 ^ 6 \<and> 0 \<le> t_claims \<and> representable t_claims \<and>
     0 \<le> now \<and> representable now \<and>
     \<bar>clock_seconds now - clock_seconds t_doc\<bar> \<le> sint (cfg_max_clock_skew cfg) \<and>
     clock_seconds t_claims \<le> clock_seconds now \<and>
     clock_seconds now \<le> clock_seconds t_claims + sint (cfg_max_receipt_age cfg) \<and>
     \<bar>clock_seconds t_doc - clock_seconds t_claims\<bar> \<le> 5"

definition mock_expectation :: "bytes \<Rightarrow> bytes \<Rightarrow> bytes \<Rightarrow> bytes \<Rightarrow> expectation" where
  "mock_expectation mh ih oh nn =
     \<lparr>ex_model_hash = mh, ex_input_hash = ih, ex_output_hash = oh, ex_nonce = nn,
      ex_pcr0 = replicate 48 0\<rparr>"

lemma mock_receipt_acceptable:
  assumes laws: "cose_roundtrips L" "cose_builds L" "cbor_roundtrips L" "ed25519_correct L"
    and len: "length mh = 32" "length ih = 32" "length oh = 32" "length nn = 32"
    and gen: "generate_receipt L tp t mh ih oh nn g = (Ok b, g')"
    and provs: "rg_provider g = mock_provider L pki" "vf_provider v = mock_provider L pki'"
    and root: "i < length (vf_trusted_roots v)" "mock_chain L pki (vf_trusted_roots v ! i) (clock i)"
    and size: "length b \<le> cfg_max_receipt_size (vf_config v)"
    and time: "in_time (vf_config v) tp t now"
  shows "\<exists>claims doc. receipt_acceptable L v clock now b (mock_expectation mh ih oh nn) claims doc \<and>
    vc_sequence_num claims = rg_sequence_num g \<and>
    doc = mock_document pki (as_millis_u64 (nat tp)) (Some (compute_report_data L g)) (Some nn)
      (Some (public_key_bytes L g))"
proof -
  obtain report cose where gr: "p_generate (rg_provider g) tp (Some (compute_report_data L g))
      (Some nn) (Some (public_key_bytes L g)) = Ok report"
    and c: "cose_from_slice L b = Ok cose" "protected_receipt L cose"
      "claims_of_receipt L cose (issued_claims L t mh ih oh nn report g)"
      "signed_receipt L cose (issued_claims L t mh ih oh nn report g)" and t: "0 \<le> t"
    using generated_receipt_parses [OF laws len gen] .
  let ?claims = "issued_claims L t mh ih oh nn report g"
  let ?doc = "mock_document pki (as_millis_u64 (nat tp)) (Some (compute_report_data L g)) (Some nn)
      (Some (public_key_bytes L g))"
  have "mock_generate L pki tp (Some (compute_report_data L g)) (Some nn)
      (Some (public_key_bytes L g)) = Ok report"
    using gr provs(1) by (simp add: mock_provider_def)
  from mock_report_trusted [OF laws(1-3) this root(2)]
  have trusted: "trusted_document L report (vf_trusted_roots v ! i) (clock i) ?doc" .
  note doc = trusted_document_report [OF trusted]
  have chain: "chain_accepted v clock report"
    using trusted root(1) mock.chain_accepted_trusted [OF provs(2) doc] by blast
  have secs: "sint (vc_attestation_timestamp ?claims) = clock_seconds t"
    using time by (simp add: issued_claims_def in_time_def sint_as_secs)
  have "timely (vf_config v) now ?doc ?claims"
    unfolding timely_def secs using time by (simp add: in_time_def mock_doc_seconds)
  moreover have "document_binds L (mock_expectation mh ih oh nn) ?doc ?claims"
    by (simp add: document_binds_def mock_document_def mock_expectation_def issued_claims_def
        report_data_is_binding)
  moreover have "claims_match (mock_expectation mh ih oh nn) ?claims"
    by (simp add: claims_match_def mock_expectation_def issued_claims_def)
  moreover have "vc_attestation_report ?claims = report" "vc_sequence_num ?claims = rg_sequence_num g"
    by (simp_all add: issued_claims_def)
  ultimately have "receipt_acceptable L v clock now b (mock_expectation mh ih oh nn) ?claims ?doc"
    using c size doc chain by (auto simp: receipt_acceptable_def mock_expectation_def)
  with \<open>vc_sequence_num ?claims = rg_sequence_num g\<close> show ?thesis by blast
qed

lemma mock_receipt_verifies:
  assumes laws: "cose_roundtrips L" "cose_builds L" "cbor_roundtrips L" "ed25519_correct L"
    and len: "length mh = 32" "length ih = 32" "length oh = 32" "length nn = 32"
    and gen: "generate_receipt L tp t mh ih oh nn g = (Ok b, g')"
    and provs: "rg_provider g = mock_provider L pki" "vf_provider v = mock_provider L pki'"
    and root: "i < length (vf_trusted_roots v)" "mock_chain L pki (vf_trusted_roots v ! i) (clock i)"
    and size: "length b \<le> cfg_max_receipt_size (vf_config v)"
    and time: "in_time (vf_config v) tp t now"
    and fresh: "vf_state v = None \<or> vf_state v = Some (Healthy Map.empty)"
  shows "\<exists>r v'. verify L clock now b (mock_expectation mh ih oh nn) v = (Ok r, v') \<and> vr_valid r \<and>
    \<not> vr_verified_hardware r"
proof -
  obtain claims doc where
    "receipt_acceptable L v clock now b (mock_expectation mh ih oh nn) claims doc"
    using mock_receipt_acceptable
        [of L mh ih oh nn tp t g b g' pki v pki' i clock now, OF assms(1-15)] by blast
  moreover have "admits L v claims doc" using fresh by (auto simp: admits_def)
  moreover have "representable now" using time by (simp add: in_time_def)
  ultimately have "verify L clock now b (mock_expectation mh ih oh nn) v =
      (Ok (accept_result v (receipt_info_of L claims) (map passed (all_names v))),
       recorded L v claims doc)"
    by (intro verify_complete)
  then show ?thesis using provs(2) by (simp add: mock_provider_def)
qed

end
