(* ===== verification/Issued_Numbers.thy ===== *)
theory Issued_Numbers
  imports Receipt_Exchange
begin

text \<open>
  The sequence numbers of issued receipts, as anyone can read them: the number and the
  enclave key are taken from the bytes of the receipt, with the parser the verifier uses,
  not from the generator.  A generator is a monotone register of these numbers.
\<close>

definition issued_number :: "lib \<Rightarrow> bytes \<Rightarrow> (bytes \<times> nat) option" where
  "issued_number L receipt =
     map_option (\<lambda>claims. (vc_enclave_pubkey claims, unat (vc_sequence_num claims)))
       (parsed_claims L receipt)"

text \<open>The arguments of a call are arrays of 32 bytes, as their types say.\<close>

definition wf_call :: "receipt_call \<Rightarrow> bool" where
  "wf_call c \<longleftrightarrow> length (rc_model_hash c) = 32 \<and> length (rc_input_hash c) = 32 \<and>
     length (rc_output_hash c) = 32 \<and> length (rc_nonce c) = 32"

definition issue :: "lib \<Rightarrow> (receipt_call, generator, bytes) register_step" where
  "issue L c g =
     (if wf_call c then
        (case call_generator L c g of
           (Inr b, g') \<Rightarrow> (issued_number L b, g')
         | (Inl e, g') \<Rightarrow> (None, g'))
      else (None, g))"

definition codecs_ok :: "lib \<Rightarrow> bool" where
  "codecs_ok L \<longleftrightarrow> cose_roundtrips L \<and> cose_builds L \<and> cbor_roundtrips L \<and> ed25519_correct L"

lemma issued_receipt_number:
  assumes "codecs_ok L" and "wf_call c" and "call_generator L c g = (Ok b, g')"
  shows "issued_number L b = Some (public_key_bytes L g, unat (rg_sequence_num g))"
proof -
  obtain report cose where "cose_from_slice L b = Ok cose"
    "claims_of_receipt L cose (issued_claims L (rc_now c) (rc_model_hash c) (rc_input_hash c)
       (rc_output_hash c) (rc_nonce c) report g)"
    using generated_receipt_parses [of L "rc_model_hash c" "rc_input_hash c" "rc_output_hash c"
        "rc_nonce c" "rc_provider_time c" "rc_now c" g b g'] assms
    unfolding codecs_ok_def wf_call_def call_generator_def by metis
  then show ?thesis
    by (auto simp: issued_number_def parsed_claims_def claims_of_receipt_def issued_claims_def)
qed

text \<open>The mark is the last number the counter has passed, under the generator's key.\<close>

definition passed_number :: "lib \<Rightarrow> generator \<Rightarrow> bytes \<rightharpoonup> nat" where
  "passed_number L g k =
     (if rg_sequence_num g = 0 \<or> k \<noteq> public_key_bytes L g then None
      else Some (unat (rg_sequence_num g) - 1))"

lemma generate_receipt_key:
  "public_key_bytes L (snd (generate_receipt L tp now mh ih oh nn g)) = public_key_bytes L g"
  by (auto simp: generate_receipt_def public_key_bytes_def Let_def split: sum.splits prod.splits)

lemma mark_le_passed_number:
  "unat (rg_sequence_num g) \<le> unat (rg_sequence_num g') \<Longrightarrow>
     public_key_bytes L g' = public_key_bytes L g \<Longrightarrow>
     mark_le (passed_number L g) (passed_number L g')"
  by (auto simp: mark_le_def passed_number_def word_unat_eq_iff split: if_splits)

interpretation numbering: monotone_register "issue L" "passed_number L" "\<lambda>g. codecs_ok L" for L
proof unfold_locales
  fix g c k n g'
  assume laws: "codecs_ok L" and i: "issue L c g = (Some (k, n), g')"
  then obtain b where wf: "wf_call c" and call: "call_generator L c g = (Ok b, g')"
    and "issued_number L b = Some (k, n)"
    by (auto simp: issue_def split: prod.splits sum.splits if_splits)
  with issued_receipt_number [OF laws wf call]
  have kn: "k = public_key_bytes L g" "n = unat (rg_sequence_num g)" by simp_all
  have up: "unat (rg_sequence_num g') = Suc (unat (rg_sequence_num g))"
    using call by (auto simp: call_generator_def generate_receipt_Ok unat_word_ariths)
  have key: "public_key_bytes L g' = public_key_bytes L g"
    using call generate_receipt_key by (metis call_generator_def snd_conv)
  have "passed_number L g' k = Some n"
    using up key kn by (auto simp: passed_number_def)
  then show "(\<forall>m. passed_number L g k = Some m \<longrightarrow> m < n) \<and> passed_number L g' k = Some n \<and>
      mark_le (passed_number L g) (passed_number L g')"
    using up key kn mark_le_passed_number [of g g' L]
    by (auto simp: passed_number_def word_unat_eq_iff split: if_splits)
next
  fix g c g'
  assume "issue L c g = (None, g')"
  then have "g' = g \<or> g' = snd (call_generator L c g)"
    by (auto simp: issue_def split: prod.splits sum.splits if_splits)
  then show "mark_le (passed_number L g) (passed_number L g')"
    using generate_receipt_counter generate_receipt_key
    by (auto simp: call_generator_def intro!: mark_le_passed_number)
qed simp

end
