(* ===== verification/Sample_Instance.thy ===== *)
theory Sample_Instance
  imports Issued_Numbers
begin

text \<open>
  A concrete instance of the third-party interface, with the first two receipts
  made by the generator over the mock provider.  Its hash and signature functions are constants, so
  it has no security; it has every documented law that the theorems assume, and the
  witnesses run the model on it.
\<close>

section \<open>Values\<close>

definition sample_pki :: mock_pki where
  "sample_pki = \<lparr>mock_root_der = [32], mock_intermediate_der = [31], mock_leaf_der = [30],
     mock_leaf_key_pem = ''key''\<rparr>"

definition sample_header :: "iana_algorithm \<Rightarrow> str option \<Rightarrow> cose_header" where
  "sample_header a t = \<lparr>ch_alg = Some (AlgAssigned a), ch_crit = [],
     ch_content_type = map_option ContentText t, ch_others = []\<rparr>"

definition sample_build :: "cose_header \<Rightarrow> bytes \<Rightarrow> cose_sign1" where
  "sample_build h p = \<lparr>cs_protected_original = None, cs_protected = h,
     cs_unprotected = \<lparr>ch_alg = None, ch_crit = [], ch_content_type = None, ch_others = []\<rparr>,
     cs_payload = Some p, cs_signature = []\<rparr>"

definition sample_nonce :: bytes where "sample_nonce = replicate 32 4"
definition sample_pubkey :: bytes where "sample_pubkey = replicate 32 3"
definition sample_binding :: bytes where "sample_binding = replicate 64 9"

definition sample_doc :: attestation_doc where
  "sample_doc = mock_document sample_pki 1000000 (Some sample_binding) (Some sample_nonce)
     (Some sample_pubkey)"

definition sample_claims :: veri_claims where
  "sample_claims = \<lparr>vc_model_hash = replicate 32 1, vc_input_hash = replicate 32 1,
     vc_output_hash = replicate 32 1, vc_client_nonce = sample_nonce, vc_sequence_num = 0,
     vc_attestation_report = [2], vc_attestation_type = 3, vc_attestation_timestamp = 1000,
     vc_sdk_version = CARGO_PKG_VERSION, vc_enclave_pubkey = sample_pubkey\<rparr>"

text \<open>The claims of the next receipt.\<close>

definition sample_later_claims :: veri_claims where
  "sample_later_claims = sample_claims\<lparr>vc_sequence_num := 1\<rparr>"

definition sample_report_cose :: cose_sign1 where
  "sample_report_cose = (sample_build (sample_header ES384 None) [20])\<lparr>cs_signature := [8]\<rparr>"

definition sample_receipt_cose :: cose_sign1 where
  "sample_receipt_cose =
     (sample_build (sample_header EdDSA (Some ''application/cwt'')) [10])
       \<lparr>cs_signature := replicate 64 5\<rparr>"

definition sample_later_cose :: cose_sign1 where
  "sample_later_cose =
     (sample_build (sample_header EdDSA (Some ''application/cwt'')) [11])
       \<lparr>cs_signature := replicate 64 5\<rparr>"

definition sample_error :: ext_error where
  "sample_error = ExtError ''error'' ''Error''"

definition sample_wire :: "ser_value \<Rightarrow> wire_value" where
  "sample_wire sv =
     \<lparr>wv_byte_vec = (case sv of SerSeqU8 b \<Rightarrow> Ok b | _ \<Rightarrow> Err sample_error),
      wv_u64 = (case sv of SerU64 n \<Rightarrow> Ok n | _ \<Rightarrow> Err sample_error),
      wv_i64 = (case sv of SerI64 n \<Rightarrow> Ok n | _ \<Rightarrow> Err sample_error),
      wv_string = (case sv of SerStr t \<Rightarrow> Ok t | _ \<Rightarrow> Err sample_error),
      wv_ignored = Ok ()\<rparr>"

definition sample_stream :: "veri_claims \<Rightarrow> map_access" where
  "sample_stream c = map (\<lambda>(k, sv). Inr (k, sample_wire sv)) (serialize_claims c)"

definition sample_cert :: "u8 \<Rightarrow> bytes \<Rightarrow> bool \<Rightarrow> certificate" where
  "sample_cert n issuer ca = \<lparr>cert_not_before = 0, cert_not_after = 10 ^ 18,
     cert_extensions = (if ca then Some [\<lparr>ext_id = BASIC_CONSTRAINTS_OID, ext_critical = True,
        ext_value = [1]\<rparr>] else None),
     cert_issuer = issuer, cert_subject = [n], cert_public_key = [n], cert_signature = [],
     cert_tbs_der = Ok [n], cert_der = Ok [n]\<rparr>"

section \<open>The instance\<close>

definition sample_lib :: lib where
  "sample_lib =
     \<lparr>sha256 = (\<lambda>_. replicate 32 1), sha512 = (\<lambda>_. sample_binding),
      hex_encode = str_of_bytes, hex_decode = (\<lambda>s. Ok (as_bytes s)),
      base64_encode = (\<lambda>b. CHR ''b'' # str_of_bytes b),
      base64_decode = (\<lambda>s. case s of [] \<Rightarrow> Ok [32] | c # t \<Rightarrow>
         if c = CHR ''b'' then Ok (as_bytes t) else Ok [32]),
      cose_from_slice = (\<lambda>b. if b = [1] then Ok sample_receipt_cose
         else if b = [2] then Ok sample_report_cose
         else if b = [3] then Ok sample_later_cose else Err sample_error),
      cose_to_vec = (\<lambda>c. if c = sample_receipt_cose then Ok [1]
         else if c = sample_report_cose then Ok [2]
         else if c = sample_later_cose then Ok [3] else Err sample_error),
      cose_tbs_data = (\<lambda>c a. []),
      cose_header_is_empty = (\<lambda>h. ch_alg h = None \<and> ch_crit h = [] \<and>
         ch_content_type h = None \<and> ch_others h = []),
      cose_header_build = sample_header, cose_sign1_build = sample_build,
      cbor_read_map = (\<lambda>b. if b = [10] then Ok (sample_stream sample_claims)
         else if b = [11] then Ok (sample_stream sample_later_claims) else Err sample_error),
      cbor_write_map = (\<lambda>kvs. if kvs = serialize_claims sample_claims then Ok [10]
         else if kvs = serialize_claims sample_later_claims then Ok [11] else Err sample_error),
      show_de_error = (\<lambda>_. ''error''), debug_de_error = (\<lambda>_. ''Error''),
      doc_from_cbor = (\<lambda>b. if b = [20] then Ok sample_doc else Err sample_error),
      doc_to_cbor = (\<lambda>d. if d = sample_doc then Ok [20] else Err sample_error),
      ed25519_public_key = (\<lambda>_. sample_pubkey), ed25519_key_valid = (\<lambda>_. True),
      ed25519_sign = (\<lambda>_ _. replicate 64 5), ed25519_verify = (\<lambda>_ _ _. True),
      p384_key_from_sec1 = Ok, p384_signature_from_slice = Ok, p384_signature_from_der = Ok,
      p384_verify = (\<lambda>_ _ _. Ok ()), p384_signing_key_from_pem = (\<lambda>_. Ok []),
      p384_sign = (\<lambda>_ _. [8]),
      cert_from_der = (\<lambda>b. if b = [30] then Ok (sample_cert 30 [31] False)
         else if b = [31] then Ok (sample_cert 31 [32] True)
         else if b = [32] then Ok (sample_cert 32 [32] True) else Err sample_error),
      basic_constraints_from_der = (\<lambda>_. Ok \<lparr>bc_ca = True, bc_path_len = None\<rparr>),
      key_usage_from_der = (\<lambda>_. Err sample_error)\<rparr>"

text \<open>The laws.\<close>

lemma sample_laws:
  "cose_roundtrips sample_lib" "cose_builds sample_lib" "cose_empty_headers sample_lib"
  "ed25519_correct sample_lib" "hex_roundtrips sample_lib"
  "sha_lengths sample_lib"
proof -
  show "cose_roundtrips sample_lib"
    by (auto simp: cose_roundtrips_def sample_lib_def same_cose_def sample_receipt_cose_def
        sample_report_cose_def sample_later_cose_def split: if_splits)
  show "cose_builds sample_lib"
    by (simp add: cose_builds_def sample_lib_def sample_header_def sample_build_def)
  show "cose_empty_headers sample_lib"
    by (simp add: cose_empty_headers_def sample_lib_def)
  show "ed25519_correct sample_lib"
    by (simp add: ed25519_correct_def sample_lib_def sample_pubkey_def)
  show "sha_lengths sample_lib"
    by (simp add: sha_lengths_def sample_lib_def sample_binding_def)
  show "hex_roundtrips sample_lib"
    by (simp add: hex_roundtrips_def sample_lib_def)
qed

lemma sample_cbor: "cbor_roundtrips sample_lib"
proof -
  have "delivers (serialize_claims c) (sample_stream c)" for c
    by (simp add: delivers_def sample_stream_def serialize_claims_def sample_wire_def)
  then show ?thesis
    by (auto simp: cbor_roundtrips_def sample_lib_def split: if_splits)
qed

section \<open>One receipt\<close>

definition sample_generator :: generator where
  "sample_generator = generator_with_key (mock_provider sample_lib sample_pki) [7]"

definition sample_verifier :: "bool \<Rightarrow> verifier" where
  "sample_verifier stateful = verifier_new (mock_provider sample_lib sample_pki) [[32]] stateful"

definition sample_time :: system_time where
  "sample_time = 1000 * 10 ^ 9"

definition sample_expectation :: expectation where
  "sample_expectation =
     mock_expectation (replicate 32 1) (replicate 32 1) (replicate 32 1) sample_nonce"

lemma sample_report:
  "mock_generate sample_lib sample_pki sample_time (Some sample_binding) (Some sample_nonce)
     (Some sample_pubkey) = Ok [2]"
  by (simp add: mock_generate_def since_epoch_def sample_time_def as_millis_u64_def
      doc_to_binary_def sample_lib_def sample_doc_def [symmetric] sample_report_cose_def
      sample_receipt_cose_def sample_build_def sample_header_def)

lemma sample_receipt:
  "generate_receipt sample_lib sample_time sample_time (replicate 32 1) (replicate 32 1)
     (replicate 32 1) sample_nonce sample_generator =
   (Ok [1], sample_generator\<lparr>rg_sequence_num := 1\<rparr>)"
proof -
  have data: "compute_report_data sample_lib g = sample_binding"
    "public_key_bytes sample_lib g = sample_pubkey" for g
    by (simp_all add: compute_report_data_def public_key_bytes_def sample_lib_def)
  have "issued_claims sample_lib sample_time (replicate 32 1) (replicate 32 1) (replicate 32 1)
      sample_nonce [2] sample_generator = sample_claims"
    by (simp add: issued_claims_def data sample_claims_def sample_generator_def
        generator_with_key_def as_secs_def sample_time_def)
  moreover have "sign_claims sample_lib sample_generator sample_claims = Ok [1]"
    by (simp add: sign_claims_def claims_to_binary_def sample_lib_def sample_receipt_cose_def)
  ultimately show ?thesis
    using sample_report
    by (simp add: generate_receipt_Ok data sample_generator_def generator_with_key_def
        mock_provider_def sample_time_def)
qed

lemma sample_chain: "mock_chain sample_lib sample_pki [32] sample_time"
proof -
  have "trusted_path sample_lib [32] sample_time 0 (sample_cert 30 [31] False) [[31], [32]]"
    by (simp add: trusted_path_Cons issued_by_def acceptable_ca_def cert_current_def
        cert_constraints_def cert_key_usage_def signed_by_def sample_cert_def sample_lib_def
        sample_time_def last_extension_Cons read_bc_def extension_ok_def)
  then show ?thesis
    by (simp add: mock_chain_def acceptable_leaf_def cert_current_def cert_constraints_def
        cert_key_usage_def sample_pki_def sample_cert_def sample_lib_def sample_time_def)
qed

lemma sample_in_time: "in_time default_config sample_time sample_time sample_time"
  by (simp add: in_time_def default_config_def sample_time_def representable_def
      clock_seconds_def)

text \<open>The receipt is acceptable to a verifier that trusts the sample root.\<close>

lemma sample_verifier_simps [simp]:
  "vf_provider (sample_verifier st) = mock_provider sample_lib sample_pki"
  "vf_trusted_roots (sample_verifier st) = [[32]]"
  "vf_config (sample_verifier st) = default_config"
  "vf_state (sample_verifier st) = (if st then Some (Healthy Map.empty) else None)"
  by (simp_all add: sample_verifier_def verifier_new_def new_with_config_def)

lemma sample_acceptable:
  "\<exists>doc. receipt_acceptable sample_lib (sample_verifier st) (\<lambda>_. sample_time) sample_time [1]
     sample_expectation sample_claims doc"
proof -
  have laws: "cose_roundtrips sample_lib" "cose_builds sample_lib" "cbor_roundtrips sample_lib"
    "ed25519_correct sample_lib"
    using sample_laws sample_cbor by blast+
  have n: "length sample_nonce = 32" by (simp add: sample_nonce_def)
  obtain claims doc where acc: "receipt_acceptable sample_lib (sample_verifier st)
      (\<lambda>_. sample_time) sample_time [1] sample_expectation claims doc"
    using mock_receipt_acceptable [OF laws _ _ _ n sample_receipt, of sample_pki
        "sample_verifier st" sample_pki 0 "\<lambda>_. sample_time" sample_time] sample_chain
      sample_in_time
    by (auto simp: sample_expectation_def sample_generator_def generator_with_key_def
        default_config_def)
  moreover have "claims = sample_claims"
    using acc claims_roundtrip [of sample_lib sample_claims "[10]"] laws(3)
    by (auto simp: receipt_acceptable_def claims_of_receipt_def sample_lib_def
        sample_receipt_cose_def sample_build_def claims_to_binary_def wf_claims_def
        sample_claims_def sample_nonce_def sample_pubkey_def)
  ultimately show ?thesis by blast
qed

text \<open>The next receipt.\<close>

lemma sample_later_receipt:
  "generate_receipt sample_lib sample_time sample_time (replicate 32 1) (replicate 32 1)
     (replicate 32 1) sample_nonce (sample_generator\<lparr>rg_sequence_num := 1\<rparr>) =
   (Ok [3], sample_generator\<lparr>rg_sequence_num := 2\<rparr>)"
proof -
  have data: "compute_report_data sample_lib g = sample_binding"
    "public_key_bytes sample_lib g = sample_pubkey" for g
    by (simp_all add: compute_report_data_def public_key_bytes_def sample_lib_def)
  have "issued_claims sample_lib sample_time (replicate 32 1) (replicate 32 1) (replicate 32 1)
      sample_nonce [2] (sample_generator\<lparr>rg_sequence_num := 1\<rparr>) = sample_later_claims"
    by (simp add: issued_claims_def data sample_claims_def sample_later_claims_def as_secs_def
        sample_time_def)
  moreover have "serialize_claims sample_later_claims \<noteq> serialize_claims sample_claims"
    by (simp add: serialize_claims_def sample_later_claims_def sample_claims_def)
  then have "sign_claims sample_lib (sample_generator\<lparr>rg_sequence_num := 1\<rparr>) sample_later_claims = Ok [3]"
    by (simp add: sign_claims_def claims_to_binary_def sample_lib_def sample_later_cose_def
        sample_receipt_cose_def sample_report_cose_def sample_build_def sample_header_def)
  ultimately show ?thesis
    using sample_report
    by (simp add: generate_receipt_Ok data sample_generator_def generator_with_key_def
        mock_provider_def sample_time_def)
qed

lemma sample_later_acceptable:
  "\<exists>doc. receipt_acceptable sample_lib (sample_verifier st) (\<lambda>_. sample_time) sample_time [3]
     sample_expectation sample_later_claims doc"
proof -
  have laws: "cose_roundtrips sample_lib" "cose_builds sample_lib" "cbor_roundtrips sample_lib"
    "ed25519_correct sample_lib"
    using sample_laws sample_cbor by blast+
  have n: "length sample_nonce = 32" by (simp add: sample_nonce_def)
  obtain claims doc where acc: "receipt_acceptable sample_lib (sample_verifier st)
      (\<lambda>_. sample_time) sample_time [3] sample_expectation claims doc"
    using mock_receipt_acceptable [OF laws _ _ _ n sample_later_receipt, of sample_pki
        "sample_verifier st" sample_pki 0 "\<lambda>_. sample_time" sample_time] sample_chain
      sample_in_time
    by (auto simp: sample_expectation_def sample_generator_def generator_with_key_def
        default_config_def)
  moreover have "serialize_claims sample_later_claims \<noteq> serialize_claims sample_claims"
    by (simp add: serialize_claims_def sample_later_claims_def sample_claims_def)
  then have "claims = sample_later_claims"
    using acc claims_roundtrip [of sample_lib sample_later_claims "[11]"] laws(3)
    by (auto simp: receipt_acceptable_def claims_of_receipt_def sample_lib_def
        sample_later_cose_def sample_build_def claims_to_binary_def wf_claims_def
        sample_claims_def sample_later_claims_def sample_nonce_def sample_pubkey_def)
  ultimately show ?thesis by blast
qed

definition sample_call :: verify_call where
  "sample_call = \<lparr>vk_clock = (\<lambda>_. sample_time), vk_now = sample_time, vk_receipt = [1],
     vk_expected = sample_expectation\<rparr>"

lemma sample_representable: "representable sample_time"
  by (simp add: representable_def sample_time_def)

lemma sample_call_valid: "call_valid sample_lib sample_call (sample_verifier st)"
proof -
  obtain doc where acc: "receipt_acceptable sample_lib (sample_verifier st) (\<lambda>_. sample_time)
      sample_time [1] sample_expectation sample_claims doc"
    using sample_acceptable by blast
  moreover have "admits sample_lib (sample_verifier st) sample_claims doc"
    by (simp add: admits_def)
  ultimately show ?thesis
    using verify_complete [OF sample_representable]
    by (simp add: call_valid_def call_verifier_def sample_call_def)
qed

section \<open>A root bundle\<close>

definition sample_pem :: str where
  "sample_pem = BEGIN_CERTIFICATE @ [CHR 0x0A] @ ''AA'' @ [CHR 0x0A] @ END_CERTIFICATE"

lemma sample_pem_lines:
  "filter (\<lambda>l. l \<noteq> []) (map str_trim (str_lines sample_pem)) =
     [BEGIN_CERTIFICATE, ''AA'', END_CERTIFICATE]"
  by code_simp

end
