(* ===== verification/Os_Model.thy ===== *)
theory Os_Model
  imports Receipt_Verifier
begin

text \<open>
  The part of the operating system and of the standard library that the services use:
  paths, files under paths, and file operations that may fail.  Every operation first
  takes the next entry of a list of faults, so a theorem over all lists covers every
  pattern of failures; a failing write may leave any part of its data behind.
\<close>

section \<open>Paths\<close>

text \<open>A \<open>Path\<close> as its components; a name that is not UTF-8 has no \<open>str\<close> form.\<close>

datatype path_component = RootDir | CurDir | ParentDir | Normal str | NonUtf8 bytes

type_synonym path = "path_component list"

text \<open>\<open>path.file_name().and_then(|name| name.to_str())\<close>\<close>

definition file_name_str :: "path \<Rightarrow> str option" where
  "file_name_str p = (case rev p of Normal n # _ \<Rightarrow> Some n | _ \<Rightarrow> None)"

definition path_parent :: "path \<Rightarrow> path option" where
  "path_parent p =
     (case rev p of [] \<Rightarrow> None | RootDir # _ \<Rightarrow> None | _ # ps \<Rightarrow> Some (rev ps))"

definition path_join :: "path \<Rightarrow> str \<Rightarrow> path" where
  "path_join p n = p @ [Normal n]"

definition parent_or_here :: "path \<Rightarrow> path" where
  "parent_or_here p = (case path_parent p of Some d \<Rightarrow> d | None \<Rightarrow> [CurDir])"

section \<open>Text\<close>

text \<open>The byte sequences that \<open>String::from_utf8\<close> accepts.\<close>

definition cont_byte :: "u8 \<Rightarrow> bool" where
  "cont_byte b \<longleftrightarrow> 0x80 \<le> b \<and> b \<le> 0xBF"

fun utf8_valid :: "bytes \<Rightarrow> bool" where
  "utf8_valid [] = True"
| "utf8_valid (a # bs) =
     (if a < 0x80 then utf8_valid bs
      else case bs of
        [] \<Rightarrow> False
      | b # cs \<Rightarrow>
          if 0xC2 \<le> a \<and> a \<le> 0xDF then cont_byte b \<and> utf8_valid cs
          else case cs of
            [] \<Rightarrow> False
          | c # ds \<Rightarrow>
              if 0xE0 \<le> a \<and> a \<le> 0xEF then
                cont_byte b \<and> cont_byte c \<and> (a = 0xE0 \<longrightarrow> 0xA0 \<le> b) \<and>
                (a = 0xED \<longrightarrow> b \<le> 0x9F) \<and> utf8_valid ds
              else case ds of
                [] \<Rightarrow> False
              | d # es \<Rightarrow>
                  0xF0 \<le> a \<and> a \<le> 0xF4 \<and> cont_byte b \<and> cont_byte c \<and> cont_byte d \<and>
                  (a = 0xF0 \<longrightarrow> 0x90 \<le> b) \<and> (a = 0xF4 \<longrightarrow> b \<le> 0x8F) \<and> utf8_valid es)"

lemma utf8_valid_ascii: "list_all (\<lambda>b. b < 0x80) bs \<Longrightarrow> utf8_valid bs"
  by (induction bs) auto

section \<open>Files\<close>

datatype io_error = IoError (io_exists: bool) (io_text: str)

text \<open>A fault: its text, and for a write the number of bytes written before it.\<close>

datatype io_fault = IoFault (fault_text: str) (fault_written: nat)

record world =
  w_files :: "path \<rightharpoonup> bytes"
  w_faults :: "io_fault option list"
  w_stat_fails :: bool

type_synonym ('s, 'e, 'a) io = "'s \<Rightarrow> ('e, 'a) result \<times> 's"

fun io_then :: "('s, 'e, 'a) io \<Rightarrow> ('a \<Rightarrow> ('s, 'e, 'b) io) \<Rightarrow> ('s, 'e, 'b) io" where
  "io_then m k w = (case m w of (Inl e, w') \<Rightarrow> (Err e, w') | (Inr x, w') \<Rightarrow> k x w')"

fun io_lift :: "('e, 'a) result \<Rightarrow> ('s, 'e, 'a) io" where
  "io_lift r w = (r, w)"

fun io_map_err :: "('e \<Rightarrow> 'f) \<Rightarrow> ('s, 'e, 'a) io \<Rightarrow> ('s, 'f, 'a) io" where
  "io_map_err f m w = (case m w of (r, w') \<Rightarrow> (map_err f r, w'))"

definition take_fault :: "'z world_scheme \<Rightarrow> io_fault option \<times> 'z world_scheme" where
  "take_fault w =
     (case w_faults w of [] \<Rightarrow> (None, w) | f # fs \<Rightarrow> (f, w\<lparr>w_faults := fs\<rparr>))"

text \<open>An operation that works unless it meets a fault.\<close>

definition io_op :: "('z world_scheme, io_error, 'a) io \<Rightarrow> ('z world_scheme, io_error, 'a) io" where
  "io_op m w =
     (case take_fault w of
        (Some f, w') \<Rightarrow> (Err (IoError False (fault_text f)), w')
      | (None, w') \<Rightarrow> m w')"

definition not_found :: io_error where
  "not_found = IoError False ''No such file or directory (os error 2)''"

definition fs_read :: "path \<Rightarrow> ('z world_scheme, io_error, bytes) io" where
  "fs_read p = io_op (\<lambda>w.
     (case w_files w p of Some b \<Rightarrow> Ok b | None \<Rightarrow> Err not_found, w))"

definition fs_read_to_string :: "path \<Rightarrow> ('z world_scheme, io_error, str) io" where
  "fs_read_to_string p = io_then (fs_read p) (\<lambda>b.
     io_lift (if utf8_valid b then Ok (str_of_bytes b)
              else Err (IoError False ''stream did not contain valid UTF-8'')))"

text \<open>\<open>Path::exists\<close>: a failing \<open>stat\<close> reads as absence.\<close>

definition fs_exists :: "path \<Rightarrow> 'z world_scheme \<Rightarrow> bool" where
  "fs_exists p w \<longleftrightarrow> \<not> w_stat_fails w \<and> w_files w p \<noteq> None"

definition fs_rename :: "path \<Rightarrow> path \<Rightarrow> ('z world_scheme, io_error, unit) io" where
  "fs_rename p q = io_op (\<lambda>w.
     (case w_files w p of
        Some b \<Rightarrow> (Ok (), w\<lparr>w_files := (w_files w)(p := None, q \<mapsto> b)\<rparr>)
      | None \<Rightarrow> (Err not_found, w)))"

definition fs_remove :: "path \<Rightarrow> ('z world_scheme, io_error, unit) io" where
  "fs_remove p = io_op (\<lambda>w.
     (if w_files w p = None then (Err not_found, w)
      else (Ok (), w\<lparr>w_files := (w_files w)(p := None)\<rparr>)))"

text \<open>\<open>create_new(true)\<close>, and \<open>create(true).truncate(false)\<close>.\<close>

definition fs_create_new :: "path \<Rightarrow> ('z world_scheme, io_error, unit) io" where
  "fs_create_new p = io_op (\<lambda>w.
     (if w_files w p = None then (Ok (), w\<lparr>w_files := (w_files w)(p \<mapsto> [])\<rparr>)
      else (Err (IoError True ''File exists (os error 17)''), w)))"

definition fs_open_create :: "path \<Rightarrow> ('z world_scheme, io_error, unit) io" where
  "fs_open_create p = io_op (\<lambda>w.
     (Ok (), if w_files w p = None then w\<lparr>w_files := (w_files w)(p \<mapsto> [])\<rparr> else w))"

text \<open>Writing through a handle of the file that is now at \<open>p\<close>.\<close>

definition append_to :: "path \<Rightarrow> bytes \<Rightarrow> 'z world_scheme \<Rightarrow> 'z world_scheme" where
  "append_to p b w =
     w\<lparr>w_files := (w_files w)(p \<mapsto> (case w_files w p of Some c \<Rightarrow> c | None \<Rightarrow> []) @ b)\<rparr>"

definition fs_write_all :: "path \<Rightarrow> bytes \<Rightarrow> ('z world_scheme, io_error, unit) io" where
  "fs_write_all p b w =
     (case take_fault w of
        (Some f, w') \<Rightarrow>
          (Err (IoError False (fault_text f)), append_to p (take (fault_written f) b) w')
      | (None, w') \<Rightarrow> (Ok (), append_to p b w'))"

text \<open>Operations without an effect on names and contents: syncing, permissions, locking,
  making directories.\<close>

definition fs_effectless :: "('z world_scheme, io_error, unit) io" where
  "fs_effectless = io_op (\<lambda>w. (Ok (), w))"

text \<open>\<open>File::open\<close> of a directory; the empty path, which is the parent of a bare file name,
  names nothing.\<close>

definition fs_open_dir :: "path \<Rightarrow> ('z world_scheme, io_error, unit) io" where
  "fs_open_dir d = io_op (\<lambda>w. (if d = [] then Err not_found else Ok (), w))"

section \<open>Facts\<close>

named_theorems io_simps

lemma io_then_Ok [io_simps]:
  "io_then m k w = (Inr y, w') \<longleftrightarrow> (\<exists>x w1. m w = (Inr x, w1) \<and> k x w1 = (Inr y, w'))"
  by (cases "m w"; cases "fst (m w)") auto

lemma io_then_Err [io_simps]:
  "io_then m k w = (Inl e, w') \<longleftrightarrow>
     m w = (Inl e, w') \<or> (\<exists>x w1. m w = (Inr x, w1) \<and> k x w1 = (Inl e, w'))"
  by (cases "m w"; cases "fst (m w)") auto

lemma io_map_err_Ok [io_simps]: "io_map_err f m w = (Inr x, w') \<longleftrightarrow> m w = (Inr x, w')"
  by (cases "m w") (auto simp: result_simps)

lemma io_map_err_Err [io_simps]:
  "io_map_err f m w = (Inl e, w') \<longleftrightarrow> (\<exists>e'. m w = (Inl e', w') \<and> e = f e')"
  by (cases "m w"; cases "fst (m w)") auto

declare io_then.simps [simp del] io_map_err.simps [simp del]

text \<open>The two ways through a sequence of operations.\<close>

lemma io_then_out:
  assumes "io_then m k w = (r, w')"
  obtains (first) e where "m w = (Inl e, w')" "r = Inl e"
    | (both) x w1 where "m w = (Inr x, w1)" "k x w1 = (r, w')"
  using assms by (cases "m w"; cases "fst (m w)") (auto simp: io_then.simps)

lemma io_map_err_out:
  assumes "io_map_err f m w = (r, w')"
  obtains r' where "m w = (r', w')" "map_err f r' = r"
  using assms by (cases "m w") (auto simp: io_map_err.simps)

text \<open>What each operation can do: beyond its own effect, only the faults are used up.\<close>

named_theorems io_outs

lemma take_fault_out: "take_fault w = (f, w') \<Longrightarrow> \<exists>fs. w' = w\<lparr>w_faults := fs\<rparr>"
  unfolding take_fault_def by (cases "w_faults w") (auto intro: exI [of _ "w_faults w"])

lemma io_op_cases:
  assumes "io_op m w = (r, w')"
  obtains (fault) fs e where "r = Err e" "w' = w\<lparr>w_faults := fs\<rparr>"
    | (runs) fs where "m (w\<lparr>w_faults := fs\<rparr>) = (r, w')"
  using assms unfolding io_op_def
  by (cases "take_fault w"; cases "fst (take_fault w)") (auto dest: take_fault_out)

lemma fs_effectless_out [io_outs]:
  "fs_effectless w = (r, w') \<Longrightarrow> \<exists>fs. w' = w\<lparr>w_faults := fs\<rparr>"
  unfolding fs_effectless_def by (elim io_op_cases) auto

lemma fs_open_dir_out [io_outs]:
  "fs_open_dir d w = (r, w') \<Longrightarrow> \<exists>fs. w' = w\<lparr>w_faults := fs\<rparr> \<and> (r = Ok () \<longrightarrow> d \<noteq> [])"
  unfolding fs_open_dir_def by (elim io_op_cases) (auto split: if_splits)

lemma fs_read_out [io_outs]:
  "fs_read p w = (r, w') \<Longrightarrow>
     \<exists>fs. w' = w\<lparr>w_faults := fs\<rparr> \<and> (\<forall>b. r = Ok b \<longrightarrow> w_files w p = Some b)"
  unfolding fs_read_def by (elim io_op_cases) (auto split: option.splits)

lemma fs_write_all_out [io_outs]:
  assumes "fs_write_all p b w = (r, w')"
  shows "\<exists>fs c. w' = append_to p c (w\<lparr>w_faults := fs\<rparr>) \<and> (r = Ok () \<longrightarrow> c = b)"
proof -
  obtain f w0 where t: "take_fault w = (f, w0)" by fastforce
  obtain fs where "w0 = w\<lparr>w_faults := fs\<rparr>" using take_fault_out [OF t] by blast
  with assms t show ?thesis
    unfolding fs_write_all_def by (cases f) (auto intro: exI [of _ fs])
qed

lemma fs_rename_out [io_outs]:
  "fs_rename p q w = (r, w') \<Longrightarrow>
     (\<exists>fs. (\<exists>e. r = Err e) \<and> w' = w\<lparr>w_faults := fs\<rparr>) \<or>
     (\<exists>fs b. r = Ok () \<and> w_files w p = Some b \<and>
        w' = w\<lparr>w_faults := fs, w_files := (w_files w)(p := None, q \<mapsto> b)\<rparr>)"
  unfolding fs_rename_def by (elim io_op_cases) (auto split: option.splits)

lemma fs_remove_out [io_outs]:
  "fs_remove p w = (r, w') \<Longrightarrow>
     (\<exists>fs. (\<exists>e. r = Err e) \<and> w' = w\<lparr>w_faults := fs\<rparr>) \<or>
     (\<exists>fs. r = Ok () \<and> w_files w p \<noteq> None \<and>
        w' = w\<lparr>w_faults := fs, w_files := (w_files w)(p := None)\<rparr>)"
  unfolding fs_remove_def by (elim io_op_cases) (auto split: if_splits)

lemma fs_create_new_out [io_outs]:
  "fs_create_new p w = (r, w') \<Longrightarrow>
     (\<exists>fs. (\<exists>e. r = Err e) \<and> w' = w\<lparr>w_faults := fs\<rparr>) \<or>
     (\<exists>fs. r = Ok () \<and> w_files w p = None \<and>
        w' = w\<lparr>w_faults := fs, w_files := (w_files w)(p \<mapsto> [])\<rparr>)"
  unfolding fs_create_new_def by (elim io_op_cases) (auto split: if_splits)

lemma fs_open_create_out [io_outs]:
  "fs_open_create p w = (r, w') \<Longrightarrow>
     \<exists>fs. w' = w\<lparr>w_faults := fs\<rparr> \<or>
       w_files w p = None \<and> w' = w\<lparr>w_faults := fs, w_files := (w_files w)(p \<mapsto> [])\<rparr>"
  unfolding fs_open_create_def by (elim io_op_cases) (auto split: if_splits)

lemma parent_of_join [simp]: "path_parent (path_join p n) = Some p"
  by (simp add: path_parent_def path_join_def)

section \<open>Frames\<close>

text \<open>\<open>touches A w w'\<close>: only files of \<open>A\<close> may differ, and nothing but files and faults.\<close>

definition touches :: "path set \<Rightarrow> 'z world_scheme \<Rightarrow> 'z world_scheme \<Rightarrow> bool" where
  "touches A w w' \<longleftrightarrow>
     (\<forall>q. q \<notin> A \<longrightarrow> w_files w' q = w_files w q) \<and> w_stat_fails w' = w_stat_fails w \<and>
     world.more w' = world.more w"

named_theorems frames

lemma touches_trans [trans]: "touches A w w1 \<Longrightarrow> touches A w1 w2 \<Longrightarrow> touches A w w2"
  by (simp add: touches_def)

lemma touches_mono: "touches A w w' \<Longrightarrow> A \<subseteq> B \<Longrightarrow> touches B w w'"
  by (auto simp: touches_def)

lemma touches_same [simp]: "touches A w w"
  by (simp add: touches_def)

lemma effectless_touches [frames]: "fs_effectless w = (r, w') \<Longrightarrow> touches A w w'"
  by (auto dest!: io_outs simp: touches_def)

lemma open_dir_touches [frames]: "fs_open_dir d w = (r, w') \<Longrightarrow> touches A w w'"
  by (auto dest!: io_outs simp: touches_def)

lemma read_touches [frames]: "fs_read p w = (r, w') \<Longrightarrow> touches A w w'"
  by (auto dest!: io_outs simp: touches_def)

lemma write_touches [frames]: "fs_write_all p b w = (r, w') \<Longrightarrow> p \<in> A \<Longrightarrow> touches A w w'"
  by (auto dest!: io_outs simp: touches_def append_to_def)

lemma rename_touches [frames]:
  "fs_rename p q w = (r, w') \<Longrightarrow> p \<in> A \<Longrightarrow> q \<in> A \<Longrightarrow> touches A w w'"
  by (auto dest!: io_outs simp: touches_def)

lemma remove_touches [frames]: "fs_remove p w = (r, w') \<Longrightarrow> p \<in> A \<Longrightarrow> touches A w w'"
  by (auto dest!: io_outs simp: touches_def)

lemma create_new_touches [frames]:
  "fs_create_new p w = (r, w') \<Longrightarrow> p \<in> A \<Longrightarrow> touches A w w'"
  by (auto dest!: io_outs simp: touches_def)

lemma open_create_touches [frames]:
  "fs_open_create p w = (r, w') \<Longrightarrow> p \<in> A \<Longrightarrow> touches A w w'"
  by (auto dest!: io_outs simp: touches_def)

lemma io_then_touches [frames]:
  assumes "io_then m k w = (r, w')" and "\<And>r w'. m w = (r, w') \<Longrightarrow> touches A w w'"
    and "\<And>x w1 r w'. k x w1 = (r, w') \<Longrightarrow> touches A w1 w'"
  shows "touches A w w'"
  using assms(1) by (rule io_then_out) (use assms(2,3) in \<open>blast intro: touches_trans\<close>)+

lemma io_map_err_touches [frames]:
  "io_map_err f m w = (r, w') \<Longrightarrow> (\<And>r w'. m w = (r, w') \<Longrightarrow> touches A w w') \<Longrightarrow> touches A w w'"
  by (erule io_map_err_out)

lemma io_lift_touches [frames]: "io_lift x w = (r, w') \<Longrightarrow> touches A w w'"
  by simp

end
