(* ===== verification/Replay_Store.thy ===== *)
theory Replay_Store
  imports Os_Model Verifier_Results
begin

text \<open>
  \<open>crates/verifier-service/src/main.rs\<close>, lines 556 to 655: the replay state on disk, its
  JSON form, the atomic replacement of the state file, and the rollback of the verifier
  when the state could not be saved.
\<close>

section \<open>State of a service process\<close>

text \<open>
  A process sees the files, its verifier and its counter of temporary files.  The JSON
  crate and the iteration order of \<open>HashMap\<close> are parameters.
\<close>

record service = world +
  sv_verifier :: verifier
  sv_counter :: u64

record json_lib =
  json_decode_map :: "bytes \<Rightarrow> (ext_error, (str \<times> u64) list) result"
  json_encode_map :: "(str \<times> u64) list \<Rightarrow> (ext_error, bytes) result"
  hash_map_iter :: "replay_state \<Rightarrow> (bytes \<times> u64) list"

text \<open>
  Documented behaviour: \<open>serde_json\<close> reads back the map it wrote, and iterating a
  \<open>HashMap\<close> (which is finite) visits each entry once.
\<close>

definition json_roundtrips :: "json_lib \<Rightarrow> bool" where
  "json_roundtrips J \<longleftrightarrow>
     (\<forall>kvs b. distinct (map fst kvs) \<longrightarrow> json_encode_map J kvs = Ok b \<longrightarrow>
        (\<exists>kvs'. json_decode_map J b = Ok kvs' \<and> distinct (map fst kvs') \<and> set kvs' = set kvs)) \<and>
     (\<forall>m. finite (dom m) \<longrightarrow> distinct (map fst (hash_map_iter J m)) \<and>
        map_of (hash_map_iter J m) = m)"

section \<open>Loading\<close>

definition decode_hex_32 :: "lib \<Rightarrow> str \<Rightarrow> (str, bytes) result" where
  "decode_hex_32 L s =
     and_then (map_err (\<lambda>e. ''Hex decode failed: '' @ err_debug e) (hex_decode L s)) (\<lambda>bytes.
       if length bytes \<noteq> 32 then Err (''Expected 32 bytes, got '' @ show_nat (length bytes))
       else Ok bytes)"

fun decode_entries ::
  "lib \<Rightarrow> (str \<times> u64) list \<Rightarrow> replay_state \<Rightarrow> (str, replay_state) result" where
  "decode_entries L [] m = Ok m"
| "decode_entries L ((fingerprint, sequence) # saved) m =
     and_then (map_err (\<lambda>e. ''invalid identity fingerprint: '' @ e) (decode_hex_32 L fingerprint))
       (\<lambda>fp. decode_entries L saved (m(fp \<mapsto> sequence)))"

definition decode_state :: "lib \<Rightarrow> json_lib \<Rightarrow> bytes \<Rightarrow> (str, replay_state) result" where
  "decode_state L J bytes =
     and_then (map_err (\<lambda>e. ''invalid state JSON: '' @ err_display e) (json_decode_map J bytes))
       (\<lambda>saved. decode_entries L saved Map.empty)"

definition load_replay_state ::
  "lib \<Rightarrow> json_lib \<Rightarrow> path \<Rightarrow> ('z world_scheme, str, replay_state) io" where
  "load_replay_state L J path =
     io_then (io_map_err (\<lambda>e. ''failed to read state file: '' @ io_text e) (fs_read path)) (\<lambda>bytes.
       io_lift (decode_state L J bytes))"

section \<open>Saving\<close>

definition next_temp :: "service \<Rightarrow> u64 \<times> service" where
  "next_temp s = (sv_counter s, s\<lparr>sv_counter := sv_counter s + 1\<rparr>)"

definition temporary_path :: "path \<Rightarrow> str \<Rightarrow> nat \<Rightarrow> u64 \<Rightarrow> path" where
  "temporary_path path file_name pid counter =
     path_join (parent_or_here path)
       (''.'' @ file_name @ ''.'' @ show_nat pid @ ''.'' @ show_u64 counter @ ''.tmp'')"

text \<open>Opening a directory and syncing it.\<close>

definition sync_dir :: "path \<Rightarrow> ('z world_scheme, io_error, unit) io" where
  "sync_dir directory = io_then (fs_open_dir directory) (\<lambda>_. fs_effectless)"

text \<open>The block whose result is \<open>write_result\<close>.\<close>

definition write_and_replace :: "path \<Rightarrow> path \<Rightarrow> bytes \<Rightarrow> ('z world_scheme, str, unit) io" where
  "write_and_replace tmp path bytes =
     io_then (io_map_err (\<lambda>e. ''failed to set replay state permissions: '' @ io_text e)
                fs_effectless) (\<lambda>_.
     io_then (io_map_err (\<lambda>e. ''failed to write replay state: '' @ io_text e)
                (fs_write_all tmp bytes)) (\<lambda>_.
     io_then (io_map_err (\<lambda>e. ''failed to sync replay state: '' @ io_text e) fs_effectless) (\<lambda>_.
     io_then (io_map_err (\<lambda>e. ''failed to replace replay state: '' @ io_text e)
                (fs_rename tmp path)) (\<lambda>_.
       io_map_err (\<lambda>e. ''failed to sync replay state directory: '' @ io_text e)
         (sync_dir (parent_or_here path))))))"

definition encoded_state :: "lib \<Rightarrow> json_lib \<Rightarrow> replay_state \<Rightarrow> (str, bytes) result" where
  "encoded_state L J state =
     map_err (\<lambda>e. ''failed to encode replay state: '' @ err_display e)
       (json_encode_map J
          (map (\<lambda>(fingerprint, sequence). (hex_encode L fingerprint, sequence))
             (hash_map_iter J state)))"

definition persist_replay_state ::
  "lib \<Rightarrow> json_lib \<Rightarrow> nat \<Rightarrow> path \<Rightarrow> (service, str, unit) io" where
  "persist_replay_state L J pid path s =
     (case and_then (map_err show_verify_error (get_state (sv_verifier s)))
              (ok_or ''stateful verification is disabled'') of
        Inl e \<Rightarrow> (Err e, s)
      | Inr state \<Rightarrow>
          (case encoded_state L J state of
             Inl e \<Rightarrow> (Err e, s)
           | Inr bytes \<Rightarrow>
               (case file_name_str path of
                  None \<Rightarrow> (Err ''state file path must end in a file name'', s)
                | Some file_name \<Rightarrow>
                    (let (counter, s) = next_temp s;
                         tmp = temporary_path path file_name pid counter
                     in case io_map_err (\<lambda>e. ''failed to create replay state temporary file: '' @
                                 io_text e) (fs_create_new tmp) s of
                          (Inl e, s) \<Rightarrow> (Err e, s)
                        | (Inr _, s) \<Rightarrow>
                            (let (write_result, s) = write_and_replace tmp path bytes s
                             in (write_result,
                                 if is_ok write_result then s else snd (fs_remove tmp s)))))))"

definition persist_replay_state_or_rollback ::
  "lib \<Rightarrow> json_lib \<Rightarrow> nat \<Rightarrow> path \<Rightarrow> replay_state \<Rightarrow> (service, str, unit) io" where
  "persist_replay_state_or_rollback L J pid path previous_state s =
     (case persist_replay_state L J pid path s of
        (Inr _, s) \<Rightarrow> (Ok (), s)
      | (Inl persist_error, s) \<Rightarrow>
          (case set_state previous_state (sv_verifier s) of
             (Inl rollback_error, v) \<Rightarrow>
               (Err (persist_error @ ''; replay state rollback also failed: '' @
                     show_verify_error rollback_error), s\<lparr>sv_verifier := v\<rparr>)
           | (Inr _, v) \<Rightarrow> (Err persist_error, s\<lparr>sv_verifier := v\<rparr>)))"

section \<open>The JSON form\<close>

definition fingerprints_ok :: "replay_state \<Rightarrow> bool" where
  "fingerprints_ok m \<longleftrightarrow> finite (dom m) \<and> (\<forall>fp \<in> dom m. length fp = 32)"

lemma fingerprints_ok_upd [wf_intros]:
  "fingerprints_ok m \<Longrightarrow> length fp = 32 \<Longrightarrow> fingerprints_ok (m(fp \<mapsto> n))"
  by (auto simp: fingerprints_ok_def)

lemma fingerprints_ok_empty [wf_intros]: "fingerprints_ok Map.empty"
  by (simp add: fingerprints_ok_def)

lemma decode_entries_ok:
  "decode_entries L kvs m = Ok m' \<Longrightarrow> fingerprints_ok m \<Longrightarrow> fingerprints_ok m'"
  by (induction kvs arbitrary: m)
    (auto simp: result_simps decode_hex_32_def fingerprints_ok_upd split: if_splits)

lemma decode_state_ok: "decode_state L J b = Ok m \<Longrightarrow> fingerprints_ok m"
  by (auto simp: decode_state_def result_simps intro: decode_entries_ok fingerprints_ok_empty)

lemma decode_entries_encoded:
  assumes "hex_roundtrips L" and "\<forall>(s, n) \<in> set kvs. \<exists>fp. s = hex_encode L fp \<and> length fp = 32"
    and "distinct (map fst kvs)"
  shows "\<exists>m'. decode_entries L kvs m = Ok m' \<and>
    (\<forall>fp n. length fp = 32 \<longrightarrow> (hex_encode L fp, n) \<in> set kvs \<longrightarrow> m' fp = Some n) \<and>
    (\<forall>fp. hex_encode L fp \<notin> fst ` set kvs \<longrightarrow> m' fp = m fp)"
  using assms(2,3)
proof (induction kvs arbitrary: m)
  case (Cons kv kvs)
  obtain fp n where kv: "kv = (hex_encode L fp, n)" "length fp = 32"
    using Cons.prems(1) by (cases kv) auto
  have rest: "\<forall>(s, n) \<in> set kvs. \<exists>fp. s = hex_encode L fp \<and> length fp = 32"
    "distinct (map fst kvs)"
    using Cons.prems by auto
  obtain m' where m': "decode_entries L kvs (m(fp \<mapsto> n)) = Ok m'"
    "\<forall>fp n. length fp = 32 \<longrightarrow> (hex_encode L fp, n) \<in> set kvs \<longrightarrow> m' fp = Some n"
    "\<forall>fp'. hex_encode L fp' \<notin> fst ` set kvs \<longrightarrow> m' fp' = (m(fp \<mapsto> n)) fp'"
    using Cons.IH [OF rest, of "m(fp \<mapsto> n)"] by blast
  have inj: "hex_encode L fp' = hex_encode L fp \<longleftrightarrow> fp' = fp" for fp'
    using assms(1) unfolding hex_roundtrips_def by (metis sum.inject(2))
  have "hex_encode L fp \<notin> fst ` set kvs"
    using Cons.prems(2) kv by auto
  moreover have "decode_entries L (kv # kvs) m = Ok m'"
    using assms(1) kv m'(1) by (simp add: decode_hex_32_def hex_roundtrips_def)
  ultimately show ?case
    using m'(2,3) kv inj by (intro exI [of _ m']) auto
qed simp

lemma state_round_trip:
  assumes "hex_roundtrips L" and "json_roundtrips J" and "fingerprints_ok m"
    and "encoded_state L J m = Ok b"
  shows "decode_state L J b = Ok m"
proof -
  let ?es = "hash_map_iter J m"
  let ?kvs = "map (\<lambda>(fp, n). (hex_encode L fp, n)) ?es"
  have iter: "distinct (map fst ?es)" "map_of ?es = m"
    using assms(2,3) by (auto simp: json_roundtrips_def fingerprints_ok_def)
  have dom: "fp \<in> fst ` set ?es \<longleftrightarrow> m fp \<noteq> None" for fp
    by (metis iter(2) map_of_eq_None_iff)
  have inj: "inj (hex_encode L)"
    using assms(1) unfolding hex_roundtrips_def by (metis injI sum.inject(2))
  have "map fst ?kvs = map (hex_encode L) (map fst ?es)"
    by (auto simp: case_prod_beta)
  then have "distinct (map fst ?kvs)"
    using iter(1) inj by (metis distinct_map inj_on_subset top_greatest)
  then obtain kvs' where d: "json_decode_map J b = Ok kvs'" "distinct (map fst kvs')"
    "set kvs' = set ?kvs"
    using assms(2,4) unfolding json_roundtrips_def encoded_state_def result_simps by blast
  have "\<forall>(s, n) \<in> set kvs'. \<exists>fp. s = hex_encode L fp \<and> length fp = 32"
    using d(3) dom assms(3) by (force simp: fingerprints_ok_def dom_def)
  then obtain m' where m': "decode_entries L kvs' Map.empty = Ok m'"
    "\<forall>fp n. length fp = 32 \<longrightarrow> (hex_encode L fp, n) \<in> set kvs' \<longrightarrow> m' fp = Some n"
    "\<forall>fp. hex_encode L fp \<notin> fst ` set kvs' \<longrightarrow> m' fp = None"
    using decode_entries_encoded [OF assms(1) _ d(2), of Map.empty] by auto
  have "m' fp = m fp" for fp
  proof (cases "m fp")
    case None
    then have "hex_encode L fp \<notin> fst ` set kvs'"
      using d(3) dom [of fp] inj by (force simp: inj_eq)
    with m'(3) None show ?thesis by simp
  next
    case (Some n)
    then have "(fp, n) \<in> set ?es" using iter by (metis map_of_SomeD)
    then have "(hex_encode L fp, n) \<in> set kvs'" using d(3) by force
    moreover have "length fp = 32" using Some assms(3) by (auto simp: fingerprints_ok_def)
    ultimately show ?thesis using m'(2) Some by simp
  qed
  then have "m' = m" by blast
  with m'(1) d(1) show ?thesis by (simp add: decode_state_def)
qed

section \<open>What saving does\<close>

lemma sync_dir_out:
  "sync_dir d w = (r, w') \<Longrightarrow> \<exists>fs. w' = w\<lparr>w_faults := fs\<rparr> \<and> (r = Ok () \<longrightarrow> d \<noteq> [])"
  unfolding sync_dir_def by (erule io_then_out) (auto dest!: fs_effectless_out fs_open_dir_out)

lemma sync_dir_touches [frames]: "sync_dir d w = (r, w') \<Longrightarrow> touches A w w'"
  by (auto dest!: sync_dir_out simp: touches_def)

lemma write_and_replace_touches [frames]:
  "write_and_replace tmp path bytes w = (r, w') \<Longrightarrow> touches {tmp, path} w w'"
  unfolding write_and_replace_def by (erule frames | simp)+

text \<open>The state file is replaced as a whole or not at all.\<close>

lemma write_and_replace_file:
  assumes "write_and_replace tmp path bytes w = (r, w')" and "w_files w tmp = Some []"
    and "tmp \<noteq> path"
  shows "w_files w' path = Some bytes \<and> w_files w' tmp = None \<or>
    w_files w' path = w_files w path \<and> (\<exists>e. r = Err e)"
  using assms unfolding write_and_replace_def
  by (auto elim!: io_then_out io_map_err_out dest!: io_outs sync_dir_out
      simp: append_to_def result_simps)

lemma temporary_path_fresh:
  assumes "file_name_str path = Some n"
  shows "temporary_path path n pid c \<noteq> path"
proof
  assume eq: "temporary_path path n pid c = path"
  have "file_name_str (temporary_path path n pid c) =
      Some (''.'' @ n @ ''.'' @ show_nat pid @ ''.'' @ show_u64 c @ ''.tmp'')"
    by (simp add: temporary_path_def path_join_def file_name_str_def)
  with assms eq have "length n = length (''.'' @ n @ ''.'' @ show_nat pid @ ''.'' @ show_u64 c @ ''.tmp'')"
    by simp
  then show False by simp
qed

text \<open>Saving leaves the verifier alone and touches the state file and one temporary file; the
  state file holds its old contents or the encoding of the whole state, and the latter
  when saving succeeds.\<close>

definition is_temporary :: "path \<Rightarrow> nat \<Rightarrow> path \<Rightarrow> bool" where
  "is_temporary path pid q \<longleftrightarrow>
     (\<exists>n c. file_name_str path = Some n \<and> q = temporary_path path n pid c)"

lemma persist_outcome:
  assumes "persist_replay_state L J pid path s = (r, s')"
  shows "sv_verifier s' = sv_verifier s \<and> w_stat_fails s' = w_stat_fails s \<and>
    (\<forall>q. q \<noteq> path \<longrightarrow> \<not> is_temporary path pid q \<longrightarrow> w_files s' q = w_files s q) \<and>
    (w_files s' path = w_files s path \<and> (\<exists>e. r = Err e) \<or>
     (\<exists>m b. get_state (sv_verifier s) = Ok (Some m) \<and> encoded_state L J m = Ok b \<and>
        w_files s' path = Some b))"
proof -
  consider (early) "s' = s" "\<exists>e. r = Err e"
    | (late) m b n where "get_state (sv_verifier s) = Ok (Some m)" "encoded_state L J m = Ok b"
        "file_name_str path = Some n"
    using assms
    by (auto simp: persist_replay_state_def result_simps split: sum.splits option.splits)
  then show ?thesis
  proof cases
    case early
    then show ?thesis by simp
  next
    case late
    define tmp where "tmp = temporary_path path n pid (sv_counter s)"
    define s0 where "s0 = s\<lparr>sv_counter := sv_counter s + 1\<rparr>"
    note temp = temporary_path_fresh [OF late(3), of pid "sv_counter s", folded tmp_def]
    have it: "is_temporary path pid tmp"
      using late(3) by (auto simp: is_temporary_def tmp_def)
    obtain r1 s1 where c: "fs_create_new tmp s0 = (r1, s1)" by fastforce
    show ?thesis
    proof (cases r1)
      case (Inl e)
      with assms late c have "s' = s1" "\<exists>e. r = Err e"
        by (auto simp: persist_replay_state_def next_temp_def Let_def tmp_def s0_def io_map_err.simps)
      with c Inl show ?thesis by (auto dest!: io_outs simp: s0_def)
    next
      case (Inr u)
      then have s1: "\<exists>fs. s1 = s0\<lparr>w_faults := fs, w_files := (w_files s0)(tmp \<mapsto> [])\<rparr>"
        using c by (auto dest!: io_outs)
      obtain r2 s2 where w: "write_and_replace tmp path b s1 = (r2, s2)" by fastforce
      have s': "r = r2" "s' = (if is_ok r2 then s2 else snd (fs_remove tmp s2))"
        using assms late c w Inr
        by (auto simp: persist_replay_state_def next_temp_def Let_def tmp_def s0_def io_map_err.simps)
      have t2: "touches {tmp, path} s1 s2" using w by (rule write_and_replace_touches)
      have t3: "touches {tmp} s2 s'"
        using s'(2) by (cases "fs_remove tmp s2") (auto intro: remove_touches)
      have f2: "w_files s2 path = Some b \<or> w_files s2 path = w_files s path \<and> (\<exists>e. r = Err e)"
        using write_and_replace_file [OF w _ temp] s1 temp s'(1) by (auto simp: s0_def)
      have "world.more s' = world.more s1"
        using t2 t3 by (simp add: touches_def)
      then have "sv_verifier s' = sv_verifier s1"
        by (cases s'; cases s1) simp
      then have v: "sv_verifier s' = sv_verifier s" "w_stat_fails s' = w_stat_fails s"
        using s1 t2 t3 by (auto simp: s0_def touches_def)
      have "w_files s' q = w_files s q" if "q \<noteq> path" "\<not> is_temporary path pid q" for q
      proof -
        have "q \<noteq> tmp" using that it by blast
        with that t2 t3 s1 show ?thesis by (auto simp: touches_def s0_def)
      qed
      moreover have "w_files s' path = w_files s2 path"
        using t3 temp by (auto simp: touches_def)
      ultimately show ?thesis using v f2 late by auto
    qed
  qed
qed

text \<open>Saving or rolling back: the verifier keeps its state when it is saved and gets the
  previous one back when it is not.\<close>

lemma rollback_outcome:
  assumes "persist_replay_state_or_rollback L J pid path previous s = (r, s')"
    and "vf_state (sv_verifier s) = Some (Healthy m)"
  shows "w_stat_fails s' = w_stat_fails s \<and>
    (\<forall>q. q \<noteq> path \<longrightarrow> \<not> is_temporary path pid q \<longrightarrow> w_files s' q = w_files s q) \<and>
    (r = Ok () \<and> sv_verifier s' = sv_verifier s \<and>
       (\<exists>b. encoded_state L J m = Ok b \<and> w_files s' path = Some b) \<or>
     (\<exists>e. r = Err e) \<and> sv_verifier s' = (sv_verifier s)\<lparr>vf_state := Some (Healthy previous)\<rparr> \<and>
       (w_files s' path = w_files s path \<or>
        (\<exists>b. encoded_state L J m = Ok b \<and> w_files s' path = Some b)))"
proof -
  obtain r1 s1 where p: "persist_replay_state L J pid path s = (r1, s1)" by fastforce
  note out = persist_outcome [OF p]
  have st: "get_state (sv_verifier s) = Ok (Some m)" "vf_state (sv_verifier s1) = Some (Healthy m)"
    using out assms(2) by (simp_all add: get_state_def)
  show ?thesis
  proof (cases r1)
    case (Inl e)
    then have "r = Err e"
      and s': "s' = s1\<lparr>sv_verifier := (sv_verifier s1)\<lparr>vf_state := Some (Healthy previous)\<rparr>\<rparr>"
      using assms(1) p st(2) by (auto simp: persist_replay_state_or_rollback_def set_state_def)
    with out st(1) show ?thesis by auto
  next
    case (Inr u)
    then have "r = Ok ()" "s' = s1"
      using assms(1) p by (auto simp: persist_replay_state_or_rollback_def)
    with out st(1) Inr show ?thesis by auto
  qed
qed

end
