(* ===== verification/Challenges.thy ===== *)
theory Challenges
  imports Replay_Store
begin

text \<open>
  The issued challenges of \<open>verifier-service/src/main.rs\<close>: a challenge is a file named by
  its nonce that holds the expiry time; verification reserves it by renaming, and restores
  or consumes the reservation.
\<close>

section \<open>Answers\<close>

datatype http_status = BadRequest | TooManyRequests | InternalServerError

record error_response =
  er_code :: str
  er_error :: str

type_synonym api_error = "http_status \<times> error_response"

definition api_replay_error :: "str \<Rightarrow> api_error" where
  "api_replay_error message =
     (InternalServerError, \<lparr>er_code = ''replay_state_error'', er_error = message\<rparr>)"

definition replay_state_http_error :: api_error where
  "replay_state_http_error = api_replay_error ''Replay state is unavailable''"

section \<open>Paths and time\<close>

definition CHALLENGE_TTL_SECONDS :: u64 where
  "CHALLENGE_TTL_SECONDS = 300"

definition sibling :: "path \<Rightarrow> str \<Rightarrow> (api_error, path) result" where
  "sibling path ending =
     and_then (ok_or (api_replay_error ''state file path must end in a file name'')
                 (file_name_str path))
       (\<lambda>name. Ok (path_join (parent_or_here path) (''.'' @ name @ ending)))"

definition replay_lock_path :: "path \<Rightarrow> (api_error, path) result" where
  "replay_lock_path path = sibling path ''.lock''"

definition challenge_directory :: "path \<Rightarrow> (api_error, path) result" where
  "challenge_directory state_path = sibling state_path ''.challenges''"

definition unix_seconds :: "system_time \<Rightarrow> (str, u64) result" where
  "unix_seconds t =
     map_err (\<lambda>e. ''system clock error: '' @ e)
       (and_then (since_epoch t) (\<lambda>duration. Ok (as_secs duration)))"

definition sync_directory :: "path \<Rightarrow> ('z world_scheme, str, unit) io" where
  "sync_directory directory =
     io_map_err (\<lambda>e. ''failed to sync challenge directory: '' @ io_text e) (sync_dir directory)"

section \<open>Issuing\<close>

text \<open>Up to eight drawn nonces are tried; \<open>nonces\<close> are the draws of the loop.\<close>

fun allocate_challenge ::
  "lib \<Rightarrow> path \<Rightarrow> u64 \<Rightarrow> bytes list \<Rightarrow> ('z world_scheme, api_error, str \<times> u64) io" where
  "allocate_challenge L directory expires_at [] w =
     (Err (api_replay_error ''failed to allocate a unique challenge''), w)"
| "allocate_challenge L directory expires_at (nonce # nonces) w =
     (let path = path_join directory (hex_encode L nonce) in
      case fs_create_new path w of
        (Inr _, w) \<Rightarrow>
          io_map_err (\<lambda>_. replay_state_http_error)
            (io_then (io_map_err io_text fs_effectless) (\<lambda>_.
             io_then (io_map_err io_text
                        (fs_write_all path (as_bytes (show_u64 expires_at @ [CHR 0x0A])))) (\<lambda>_.
             io_then (io_map_err io_text fs_effectless) (\<lambda>_.
             io_then (sync_directory directory) (\<lambda>_.
               io_lift (Ok (hex_encode L nonce, expires_at))))))) w
      | (Inl error, w) \<Rightarrow>
          if io_exists error then allocate_challenge L directory expires_at nonces w
          else (Err replay_state_http_error, w))"

definition challenge_handler ::
  "lib \<Rightarrow> path option \<Rightarrow> system_time \<Rightarrow> (nat \<Rightarrow> bytes) \<Rightarrow>
   ('z world_scheme, api_error, str \<times> u64) io" where
  "challenge_handler L replay_state_path now draws =
     io_then (io_lift (ok_or (api_replay_error ''STATE_FILE_PATH is required for issued challenges'')
                         replay_state_path)) (\<lambda>state_path.
     io_then (io_lift (map_err (\<lambda>_. replay_state_http_error) (unix_seconds now))) (\<lambda>seconds.
     io_then (io_lift (ok_or (api_replay_error ''challenge expiry overflow'')
                         (checked_add_u64 seconds CHALLENGE_TTL_SECONDS))) (\<lambda>expires_at.
     io_then (io_lift (challenge_directory state_path)) (\<lambda>directory.
     io_then (io_map_err (\<lambda>_. replay_state_http_error) fs_effectless) (\<lambda>_.
     io_then (io_map_err (\<lambda>_. replay_state_http_error) fs_effectless) (\<lambda>_.
       allocate_challenge L directory expires_at (map draws [0..<8])))))))"

section \<open>Reserving\<close>

record reservation =
  available_path :: path
  reserved_path :: path

text \<open>The renaming, under a name that no other process and no other request uses.\<close>

definition claim_challenge :: "lib \<Rightarrow> nat \<Rightarrow> path \<Rightarrow> bytes \<Rightarrow> (service, str, reservation) io" where
  "claim_challenge L pid directory nonce s =
     (let (counter, s) = next_temp s;
          available = path_join directory (hex_encode L nonce);
          reserved = path_join directory
            (''.'' @ hex_encode L nonce @ ''.'' @ show_nat pid @ ''.'' @ show_u64 counter @
             ''.reserved'')
      in io_then (io_map_err (\<lambda>_. ''challenge was concurrently consumed'')
                    (fs_rename available reserved)) (\<lambda>_.
         io_then (sync_directory directory) (\<lambda>_.
           io_lift (Ok \<lparr>available_path = available, reserved_path = reserved\<rparr>))) s)"

definition reserve_challenge ::
  "lib \<Rightarrow> nat \<Rightarrow> system_time \<Rightarrow> path \<Rightarrow> bytes \<Rightarrow> (service, str, reservation) io" where
  "reserve_challenge L pid now state_path nonce =
     io_then (io_lift (map_err (\<lambda>(status, body). er_error body) (challenge_directory state_path)))
       (\<lambda>directory.
     io_then (io_map_err (\<lambda>_. ''challenge was not issued or was already consumed'')
                (fs_read_to_string (path_join directory (hex_encode L nonce)))) (\<lambda>text.
     io_then (io_lift (ok_or ''challenge record is invalid'' (parse_u64 (str_trim text))))
       (\<lambda>expires_at.
     io_then (io_lift (unix_seconds now)) (\<lambda>seconds s.
       if expires_at < seconds then
         (Err ''challenge has expired'',
          snd (fs_remove (path_join directory (hex_encode L nonce)) s))
       else claim_challenge L pid directory nonce s))))"

definition restore :: "reservation \<Rightarrow> ('z world_scheme, str, unit) io" where
  "restore res =
     io_then (io_lift (ok_or ''challenge path has no parent directory''
                         (path_parent (available_path res)))) (\<lambda>directory.
     io_then (io_map_err (\<lambda>e. ''failed to restore challenge: '' @ io_text e)
                (fs_rename (reserved_path res) (available_path res))) (\<lambda>_.
       sync_directory directory))"

definition consume :: "reservation \<Rightarrow> ('z world_scheme, str, unit) io" where
  "consume res =
     io_then (io_lift (ok_or ''challenge path has no parent directory''
                         (path_parent (reserved_path res)))) (\<lambda>directory.
     io_then (io_map_err (\<lambda>e. ''failed to consume challenge: '' @ io_text e)
                (fs_remove (reserved_path res))) (\<lambda>_.
       sync_directory directory))"

section \<open>The record of a challenge\<close>

lemma challenge_directory_Ok:
  "challenge_directory path = Ok d \<longleftrightarrow>
     (\<exists>name. file_name_str path = Some name \<and>
        d = parent_or_here path @ [Normal (''.'' @ name @ ''.challenges'')])"
  by (auto simp: challenge_directory_def sibling_def result_simps path_join_def)

lemma challenge_directory_nonempty: "challenge_directory path = Ok d \<Longrightarrow> d \<noteq> []"
  by (auto simp: challenge_directory_Ok)

lemma sync_directory_out: "sync_directory d w = (r, w') \<Longrightarrow> \<exists>fs. w' = w\<lparr>w_faults := fs\<rparr>"
  unfolding sync_directory_def by (erule io_map_err_out) (blast dest: sync_dir_out)

lemma sync_directory_touches [frames]: "sync_directory d w = (r, w') \<Longrightarrow> touches A w w'"
  by (auto dest!: sync_directory_out simp: touches_def)

definition challenge_record :: "u64 \<Rightarrow> bytes" where
  "challenge_record expires_at = as_bytes (show_u64 expires_at @ [CHR 0x0A])"

lemma allocate_challenge_Ok:
  "allocate_challenge L directory expires_at nonces w = (Ok (name, e), w') \<Longrightarrow>
     e = expires_at \<and> (\<exists>nonce \<in> set nonces. name = hex_encode L nonce \<and>
       w_files w (path_join directory name) = None \<and>
       w_files w' = (w_files w)(path_join directory name \<mapsto> challenge_record expires_at))"
proof (induction nonces arbitrary: w)
  case (Cons nonce nonces)
  let ?p = "path_join directory (hex_encode L nonce)"
  obtain r w1 where c: "fs_create_new ?p w = (r, w1)" by fastforce
  show ?case
  proof (cases r)
    case (Inl error)
    with Cons.prems c have "allocate_challenge L directory expires_at nonces w1 = (Ok (name, e), w')"
      by (simp split: if_splits)
    moreover have "w_files w1 = w_files w"
      using c Inl by (auto dest!: io_outs)
    ultimately show ?thesis using Cons.IH [of w1] by auto
  next
    case (Inr u)
    with Cons.prems c have "w_files w' = (w_files w1)(?p \<mapsto>
          (case w_files w1 ?p of Some b \<Rightarrow> b | None \<Rightarrow> []) @ challenge_record expires_at) \<and>
        name = hex_encode L nonce \<and> e = expires_at"
      by (auto simp: io_simps challenge_record_def append_to_def dest!: io_outs sync_directory_out)
    moreover have "w_files w ?p = None" "w_files w1 = (w_files w)(?p \<mapsto> [])"
      using c Inr by (auto dest!: io_outs)
    ultimately show ?thesis by auto
  qed
qed simp

lemma utf8_challenge_record: "utf8_valid (challenge_record n)"
proof -
  have "(of_char c :: u8) < 0x80" if "is_digit c \<or> c = CHR 0x0A" for c
    using that by (cases c) (auto simp: is_digit_def)
  then have "list_all (\<lambda>b. b < 0x80) (challenge_record n)"
    using show_nat_digits [of "unat n"]
    by (auto simp: challenge_record_def as_bytes_def show_u64_def list_all_iff)
  then show ?thesis by (rule utf8_valid_ascii)
qed

lemma read_challenge_record:
  "parse_u64 (str_trim (str_of_bytes (challenge_record n))) = Some n"
  by (simp only: challenge_record_def str_of_bytes_as_bytes parse_trimmed_record)

end
