(* ===== verification/Verifier_Service.thy ===== *)
theory Verifier_Service
  imports Challenges
begin

text \<open>
  The verification endpoint of \<open>verifier-service/src/main.rs\<close> and its start.  With a state
  file configured the handler holds the in-process lock and the lock file for its whole
  run, so it is one step on the files and the verifier, also among several processes.
\<close>

section \<open>Configuration and requests\<close>

record app_config =
  ac_expected_pcr0 :: bytes
  ac_replay_state_path :: "path option"
  ac_require_issued_challenge :: bool
  ac_pid :: nat

record verify_request =
  vq_receipt :: str
  vq_model_hash :: str
  vq_input_hash :: str
  vq_output_hash :: str
  vq_nonce :: str

text \<open>The clocks a request meets: in \<open>reserve_challenge\<close>, in the provider, in \<open>verify\<close>.\<close>

record request_times =
  tm_challenge :: system_time
  tm_clock :: "nat \<Rightarrow> system_time"
  tm_now :: system_time

text \<open>The derived \<open>Debug\<close> form of an error; \<open>quoted\<close> is that of a string.\<close>

fun debug_verify_error :: "(str \<Rightarrow> str) \<Rightarrow> verify_error \<Rightarrow> str" where
  "debug_verify_error quoted InvalidCoseSignature = ''InvalidCoseSignature''"
| "debug_verify_error quoted (InvalidAttestationDocument m) =
     ''InvalidAttestationDocument('' @ quoted m @ '')''"
| "debug_verify_error quoted AttestationDocTimestampMismatch = ''AttestationDocTimestampMismatch''"
| "debug_verify_error quoted PcrMismatch = ''PcrMismatch''"
| "debug_verify_error quoted PubkeyBindingMismatch = ''PubkeyBindingMismatch''"
| "debug_verify_error quoted ReportDataMismatch = ''ReportDataMismatch''"
| "debug_verify_error quoted TimestampSkewExceeded = ''TimestampSkewExceeded''"
| "debug_verify_error quoted ModelHashMismatch = ''ModelHashMismatch''"
| "debug_verify_error quoted InputHashMismatch = ''InputHashMismatch''"
| "debug_verify_error quoted OutputHashMismatch = ''OutputHashMismatch''"
| "debug_verify_error quoted NonceMismatch = ''NonceMismatch''"
| "debug_verify_error quoted SequenceNumberExhausted = ''SequenceNumberExhausted''"
| "debug_verify_error quoted SequenceNumberOutOfOrder = ''SequenceNumberOutOfOrder''"
| "debug_verify_error quoted EnclaveIdentityChanged = ''EnclaveIdentityChanged''"
| "debug_verify_error quoted MalformedReceipt = ''MalformedReceipt''"
| "debug_verify_error quoted ReceiptTooLarge = ''ReceiptTooLarge''"
| "debug_verify_error quoted ExpiredReceipt = ''ExpiredReceipt''"
| "debug_verify_error quoted UnsupportedAlgorithm = ''UnsupportedAlgorithm''"
| "debug_verify_error quoted UnsupportedAttestationType = ''UnsupportedAttestationType''"
| "debug_verify_error quoted InvalidProtectedHeader = ''InvalidProtectedHeader''"
| "debug_verify_error quoted InvalidContentType = ''InvalidContentType''"
| "debug_verify_error quoted AlgorithmInUnprotectedHeader = ''AlgorithmInUnprotectedHeader''"
| "debug_verify_error quoted InvalidTimestamp = ''InvalidTimestamp''"
| "debug_verify_error quoted InvalidPcrLength = ''InvalidPcrLength''"
| "debug_verify_error quoted ReplayStateUnavailable = ''ReplayStateUnavailable''"
| "debug_verify_error quoted (Attestation m) = ''Attestation('' @ quoted m @ '')''"

section \<open>Decoding a request\<close>

definition decode_receipt_text :: "lib \<Rightarrow> str \<Rightarrow> (api_error, bytes) result" where
  "decode_receipt_text L receipt =
     (case hex_decode L receipt of
        Inr bytes \<Rightarrow> Ok bytes
      | Inl _ \<Rightarrow>
          map_err (\<lambda>e. (BadRequest, \<lparr>er_code = ''invalid_encoding'',
              er_error = ''Invalid receipt encoding (must be hex or base64): '' @ err_debug e\<rparr>))
            (base64_decode L receipt))"

definition decode_field :: "lib \<Rightarrow> str \<Rightarrow> str \<Rightarrow> (api_error, bytes) result" where
  "decode_field L name s =
     map_err (\<lambda>e. (BadRequest, \<lparr>er_code = ''invalid_'' @ name,
         er_error = ''Invalid '' @ name @ '': '' @ e\<rparr>))
       (decode_hex_32 L s)"

definition decode_request ::
  "lib \<Rightarrow> app_config \<Rightarrow> verify_request \<Rightarrow> (api_error, bytes \<times> expectation) result" where
  "decode_request L cfg q =
     and_then (decode_receipt_text L (vq_receipt q)) (\<lambda>receipt_bytes.
     and_then (decode_field L ''model_hash'' (vq_model_hash q)) (\<lambda>model_hash.
     and_then (decode_field L ''input_hash'' (vq_input_hash q)) (\<lambda>input_hash.
     and_then (decode_field L ''output_hash'' (vq_output_hash q)) (\<lambda>output_hash.
     and_then (decode_field L ''nonce'' (vq_nonce q)) (\<lambda>nonce.
       Ok (receipt_bytes,
           \<lparr>ex_model_hash = model_hash, ex_input_hash = input_hash, ex_output_hash = output_hash,
            ex_nonce = nonce, ex_pcr0 = ac_expected_pcr0 cfg\<rparr>))))))"

section \<open>The transaction\<close>

definition acquire_replay_lock :: "path \<Rightarrow> ('z world_scheme, str, unit) io" where
  "acquire_replay_lock path =
     io_then (io_map_err (\<lambda>e. ''failed to open replay lock: '' @ io_text e) (fs_open_create path))
       (\<lambda>_. io_map_err (\<lambda>e. ''failed to acquire replay lock: '' @ io_text e) fs_effectless)"

definition set_replay_state :: "replay_state \<Rightarrow> (service, verify_error, unit) io" where
  "set_replay_state m s =
     (let (r, v) = set_state m (sv_verifier s) in (r, s\<lparr>sv_verifier := v\<rparr>))"

text \<open>Taking the locks and reloading the state another process may have written.\<close>

definition begin_transaction ::
  "lib \<Rightarrow> json_lib \<Rightarrow> app_config \<Rightarrow> (service, api_error, unit) io" where
  "begin_transaction L J cfg =
     (case ac_replay_state_path cfg of
        None \<Rightarrow> io_lift (Ok ())
      | Some path \<Rightarrow>
          io_then (io_lift (replay_lock_path path)) (\<lambda>lock_path.
          io_then (io_map_err (\<lambda>_. replay_state_http_error) (acquire_replay_lock lock_path)) (\<lambda>_ s.
            if fs_exists path s then
              io_then (io_map_err (\<lambda>_. replay_state_http_error) (load_replay_state L J path))
                (\<lambda>state. io_map_err (\<lambda>_. replay_state_http_error) (set_replay_state state)) s
            else (Ok (), s))))"

definition reserve_if_required ::
  "lib \<Rightarrow> app_config \<Rightarrow> system_time \<Rightarrow> bytes \<Rightarrow> (service, api_error, reservation option) io" where
  "reserve_if_required L cfg now nonce =
     (if ac_require_issued_challenge cfg then
        io_then (io_lift (ok_or (api_replay_error
                    ''STATE_FILE_PATH is required in real-hardware mode'')
                    (ac_replay_state_path cfg))) (\<lambda>path.
        io_then (io_map_err (\<lambda>error. (BadRequest,
                     \<lparr>er_code = ''invalid_challenge'', er_error = error\<rparr>))
                   (reserve_challenge L (ac_pid cfg) now path nonce)) (\<lambda>reservation.
          io_lift (Ok (Some reservation))))
      else io_lift (Ok None))"

definition snapshot_state ::
  "app_config \<Rightarrow> (service, api_error, replay_state option) io" where
  "snapshot_state cfg s =
     (if ac_replay_state_path cfg \<noteq> None then
        (map_err (\<lambda>_. api_replay_error ''Replay state is unavailable'')
           (get_state (sv_verifier s)), s)
      else (Ok None, s))"

definition run_verify ::
  "lib \<Rightarrow> (str \<Rightarrow> str) \<Rightarrow> request_times \<Rightarrow> bytes \<Rightarrow> expectation \<Rightarrow>
   (service, api_error, verification_result) io" where
  "run_verify L quoted tms receipt_bytes ex s =
     (let (r, v) = verify L (tm_clock tms) (tm_now tms) receipt_bytes ex (sv_verifier s)
      in (map_err (\<lambda>e. (InternalServerError, \<lparr>er_code = ''verification_error'',
              er_error = ''Infrastructure error: '' @ debug_verify_error quoted e\<rparr>)) r,
          s\<lparr>sv_verifier := v\<rparr>))"

definition restore_if_reserved :: "reservation option \<Rightarrow> ('z world_scheme, api_error, unit) io" where
  "restore_if_reserved reservation =
     (case reservation of
        Some res \<Rightarrow> io_map_err (\<lambda>_. replay_state_http_error) (restore res)
      | None \<Rightarrow> io_lift (Ok ()))"

definition consume_if_reserved :: "reservation option \<Rightarrow> ('z world_scheme, api_error, unit) io" where
  "consume_if_reserved reservation =
     (case reservation of
        Some res \<Rightarrow> io_map_err (\<lambda>_. replay_state_http_error) (consume res)
      | None \<Rightarrow> io_lift (Ok ()))"

definition commit ::
  "lib \<Rightarrow> json_lib \<Rightarrow> app_config \<Rightarrow> replay_state option \<Rightarrow> reservation option \<Rightarrow>
   (service, api_error, unit) io" where
  "commit L J cfg previous_replay_state reservation s =
     (case ac_replay_state_path cfg of
        None \<Rightarrow> consume_if_reserved reservation s
      | Some path \<Rightarrow>
          (case persist_replay_state_or_rollback L J (ac_pid cfg) path
                  (case previous_replay_state of Some m \<Rightarrow> m | None \<Rightarrow> Map.empty) s of
             (Inr _, s) \<Rightarrow> consume_if_reserved reservation s
           | (Inl error, s) \<Rightarrow>
               io_then (restore_if_reserved reservation) (\<lambda>_.
                 io_lift (Err (api_replay_error
                   ''Verification succeeded but replay state could not be persisted''))) s))"

definition verify_handler ::
  "lib \<Rightarrow> json_lib \<Rightarrow> (str \<Rightarrow> str) \<Rightarrow> app_config \<Rightarrow> request_times \<Rightarrow> verify_request \<Rightarrow>
   (service, api_error, verification_result) io" where
  "verify_handler L J quoted cfg tms q =
     io_then (io_lift (decode_request L cfg q)) (\<lambda>(receipt_bytes, ex).
     io_then (begin_transaction L J cfg) (\<lambda>_.
     io_then (reserve_if_required L cfg (tm_challenge tms) (ex_nonce ex)) (\<lambda>reservation.
     io_then (snapshot_state cfg) (\<lambda>previous_replay_state.
     io_then (run_verify L quoted tms receipt_bytes ex) (\<lambda>result.
       if \<not> vr_valid result then
         io_then (restore_if_reserved reservation) (\<lambda>_. io_lift (Ok result))
       else
         io_then (commit L J cfg previous_replay_state reservation) (\<lambda>_. io_lift (Ok result)))))))"

section \<open>Start\<close>

text \<open>The environment variables the start reads; \<open>None\<close> is any error of \<open>std::env::var\<close>.\<close>

type_synonym environment = "str \<Rightarrow> str option"

definition validate_configured_roots :: "bool \<Rightarrow> lib \<Rightarrow> str \<Rightarrow> (str, unit) result" where
  "validate_configured_roots real_hardware L pem =
     (if real_hardware then validate_aws_nitro_root_pem L pem else Ok ())"

definition load_root_file ::
  "bool \<Rightarrow> lib \<Rightarrow> (str \<Rightarrow> path) \<Rightarrow> environment \<Rightarrow> ('z world_scheme, str, str) io" where
  "load_root_file real_hardware L path_of env =
     io_then (io_lift (ok_or ''set TRUSTED_ROOT_CERT_PEM or TRUSTED_ROOT_CERT_PATH''
                         (env ''TRUSTED_ROOT_CERT_PATH''))) (\<lambda>path.
     io_then (io_map_err (\<lambda>e. ''failed to read trusted root: '' @ io_text e)
                (fs_read_to_string (path_of path))) (\<lambda>pem.
       io_lift (and_then (validate_configured_roots real_hardware L pem) (\<lambda>_. Ok pem))))"

definition load_trusted_root ::
  "bool \<Rightarrow> lib \<Rightarrow> (str \<Rightarrow> path) \<Rightarrow> environment \<Rightarrow> ('z world_scheme, str, str) io" where
  "load_trusted_root real_hardware L path_of env =
     (case env ''TRUSTED_ROOT_CERT_PEM'' of
        Some pem \<Rightarrow>
          if sublist ''BEGIN CERTIFICATE'' pem then
            io_lift (and_then (validate_configured_roots real_hardware L pem) (\<lambda>_. Ok pem))
          else load_root_file real_hardware L path_of env
      | None \<Rightarrow> load_root_file real_hardware L path_of env)"

definition load_expected_pcr0 :: "lib \<Rightarrow> environment \<Rightarrow> (str, bytes) result" where
  "load_expected_pcr0 L env =
     and_then (ok_or ''set EXPECTED_PCR0 to the 48-byte PCR0 hex value'' (env ''EXPECTED_PCR0''))
       (\<lambda>value.
     and_then (map_err (\<lambda>e. ''PCR0 is not valid hex: '' @ err_display e) (hex_decode L value))
       (\<lambda>pcr0.
       if length pcr0 \<noteq> 48 then Err (''PCR0 must be 48 bytes, got '' @ show_nat (length pcr0))
       else Ok pcr0))"

definition env_flag :: "environment \<Rightarrow> str \<Rightarrow> bool \<Rightarrow> bool" where
  "env_flag env name otherwise =
     (case env name of
        Some value \<Rightarrow> value = ''1'' \<or> eq_ignore_ascii_case value ''true''
      | None \<Rightarrow> otherwise)"

text \<open>\<open>main\<close> up to the router; a panic is an error.  \<open>state_file\<close> is \<open>STATE_FILE_PATH\<close>, which
  need not be UTF-8, and \<open>pid\<close> the process.\<close>

definition start_service ::
  "bool \<Rightarrow> lib \<Rightarrow> json_lib \<Rightarrow> (str \<Rightarrow> path) \<Rightarrow> environment \<Rightarrow> path option \<Rightarrow> nat \<Rightarrow> provider \<Rightarrow>
   (world, str, app_config \<times> verifier) io" where
  "start_service real_hardware L J path_of env state_file pid configured_provider =
     io_then (io_map_err (\<lambda>e. ''Trusted root configuration is invalid: '' @ e)
                (load_trusted_root real_hardware L path_of env)) (\<lambda>trusted_root_pem.
     io_then (io_lift (map_err (\<lambda>e. ''Expected PCR0 configuration is invalid: '' @ e)
                         (load_expected_pcr0 L env))) (\<lambda>expected_pcr0.
     io_then (io_lift (map_err (\<lambda>e. ''Trusted root configuration is invalid: '' @ e)
                         (from_pem L configured_provider trusted_root_pem
                            (state_file \<noteq> None \<or> env_flag env ''STATEFUL_VERIFICATION'' False))))
       (\<lambda>verifier w.
       let cfg = \<lparr>ac_expected_pcr0 = expected_pcr0, ac_replay_state_path = state_file,
                  ac_require_issued_challenge = real_hardware, ac_pid = pid\<rparr>
       in case state_file of
            None \<Rightarrow> (Ok (cfg, verifier), w)
          | Some path \<Rightarrow>
              if fs_exists path w then
                io_then (io_map_err (\<lambda>e. ''Replay state configuration is invalid: '' @ e)
                           (load_replay_state L J path)) (\<lambda>saved_state.
                  io_lift (case set_state saved_state verifier of
                      (Inl e, _) \<Rightarrow>
                        Err (''Replay state could not be restored: '' @ show_verify_error e)
                    | (Inr _, v) \<Rightarrow> Ok (cfg, v))) w
              else (Ok (cfg, verifier), w))))"

end
