(* ===== verification/Service_Start.thy ===== *)
theory Service_Start
  imports Verifier_Service Trusted_Roots
begin

text \<open>
  The start of the verification service: which configurations it starts with, and the
  verifier it then has.
\<close>

lemma load_root_file_validated:
  "load_root_file real_hardware L path_of env w = (Ok pem, w') \<Longrightarrow>
     validate_configured_roots real_hardware L pem = Ok () \<and> touches {} w w'"
  by (auto simp: load_root_file_def io_simps result_simps fs_read_to_string_def touches_def
      dest!: fs_read_out)

lemma load_trusted_root_validated:
  assumes "load_trusted_root real_hardware L path_of env w = (Ok pem, w')"
  shows "validate_configured_roots real_hardware L pem = Ok () \<and> touches {} w w'"
  using assms load_root_file_validated [of real_hardware L path_of env w pem w']
  by (auto simp: load_trusted_root_def result_simps touches_def split: option.splits if_splits)

lemma load_expected_pcr0_length: "load_expected_pcr0 L env = Ok b \<Longrightarrow> length b = 48"
  by (auto simp: load_expected_pcr0_def result_simps split: if_splits)

lemma from_pem_state:
  "from_pem L P pem stateful = Ok v \<Longrightarrow>
     vf_provider v = P \<and> vf_state v = (if stateful then Some (Healthy Map.empty) else None)"
  by (auto simp: from_pem_def from_pem_with_config_def new_with_config_def result_simps)

lemma set_state_roots: "set_state m v = (r, v') \<Longrightarrow> vf_trusted_roots v' = vf_trusted_roots v"
  by (auto simp: set_state_def split: option.splits sum.splits)

lemma validated_from_pem:
  assumes "validate_root_pem_with_allowlist L pem allowlist = Ok ()"
    and "from_pem L P pem stateful = Ok v"
  shows "vf_trusted_roots v \<noteq> [] \<and> list_all (pinned L allowlist) (vf_trusted_roots v)"
  using validated_pem_loads [OF assms(1), of P stateful default_config] assms(2)
  by (auto simp: from_pem_def)

text \<open>The parts of a successful start.\<close>

lemma start_service_Ok:
  assumes "start_service hw L J path_of env state_file pid P w = (Ok (cfg, v), w')"
  obtains pem v0 w1 where "load_trusted_root hw L path_of env w = (Ok pem, w1)"
    "load_expected_pcr0 L env = Ok (ac_expected_pcr0 cfg)"
    "from_pem L P pem (state_file \<noteq> None \<or> env_flag env ''STATEFUL_VERIFICATION'' False) = Ok v0"
    "ac_replay_state_path cfg = state_file" "ac_require_issued_challenge cfg = hw"
    "state_file = None \<Longrightarrow> v = v0"
    "\<And>p. state_file = Some p \<Longrightarrow> \<not> fs_exists p w1 \<Longrightarrow> v = v0"
    "\<And>p. state_file = Some p \<Longrightarrow> fs_exists p w1 \<Longrightarrow>
       \<exists>m. load_replay_state L J p w1 = (Ok m, w') \<and> set_state m v0 = (Ok (), v)"
proof -
  obtain pem w1 where t: "load_trusted_root hw L path_of env w = (Ok pem, w1)"
    and k: "io_then (io_lift (map_err (\<lambda>e. ''Expected PCR0 configuration is invalid: '' @ e)
                         (load_expected_pcr0 L env))) (\<lambda>expected_pcr0.
     io_then (io_lift (map_err (\<lambda>e. ''Trusted root configuration is invalid: '' @ e)
                         (from_pem L P pem
                            (state_file \<noteq> None \<or> env_flag env ''STATEFUL_VERIFICATION'' False))))
       (\<lambda>verifier w.
       let cfg = \<lparr>ac_expected_pcr0 = expected_pcr0, ac_replay_state_path = state_file,
                  ac_require_issued_challenge = hw, ac_pid = pid\<rparr>
       in case state_file of
            None \<Rightarrow> (Ok (cfg, verifier), w)
          | Some path \<Rightarrow>
              if fs_exists path w then
                io_then (io_map_err (\<lambda>e. ''Replay state configuration is invalid: '' @ e)
                           (load_replay_state L J path)) (\<lambda>saved_state.
                  io_lift (case set_state saved_state verifier of
                      (Inl e, _) \<Rightarrow>
                        Err (''Replay state could not be restored: '' @ show_verify_error e)
                    | (Inr _, v) \<Rightarrow> Ok (cfg, v))) w
              else (Ok (cfg, verifier), w))) w1 = (Ok (cfg, v), w')"
    using assms by (auto simp: start_service_def io_simps)
  obtain b v0 where b: "load_expected_pcr0 L env = Ok b"
    and v0: "from_pem L P pem (state_file \<noteq> None \<or> env_flag env ''STATEFUL_VERIFICATION'' False) = Ok v0"
    using k by (auto simp: io_simps result_simps)
  show ?thesis
  proof (rule that [OF t _ v0])
    show "load_expected_pcr0 L env = Ok (ac_expected_pcr0 cfg)"
      "ac_replay_state_path cfg = state_file" "ac_require_issued_challenge cfg = hw"
      using k b v0
      by (auto simp: io_then.simps io_simps Let_def split: option.splits if_splits sum.splits prod.splits)
    show "v = v0" if "state_file = None" using k b v0 that by (simp add: io_then.simps)
    show "v = v0" if "state_file = Some p" "\<not> fs_exists p w1" for p
      using k b v0 that by (simp add: io_then.simps)
    show "\<exists>m. load_replay_state L J p w1 = (Ok m, w') \<and> set_state m v0 = (Ok (), v)"
      if "state_file = Some p" "fs_exists p w1" for p
      using k b v0 that
      by (auto simp: io_then.simps io_simps io_map_err.simps result_simps split: sum.splits prod.splits)
  qed
qed

text \<open>The replay state a service starts with is the one in the state file.\<close>

lemma start_service_state:
  assumes "start_service hw L J path_of env (Some p) pid P w = (Ok (cfg, v), w')"
    and "\<not> w_stat_fails w"
  shows "vf_state v = Some (Healthy (case w_files w p of None \<Rightarrow> Map.empty
           | Some b \<Rightarrow> (case decode_state L J b of Inr m \<Rightarrow> m | Inl _ \<Rightarrow> Map.empty))) \<and>
    (\<forall>b. w_files w p = Some b \<longrightarrow> (\<exists>m. decode_state L J b = Ok m))"
  using assms(1)
proof (rule start_service_Ok)
  fix pem v0 w1
  assume t: "load_trusted_root hw L path_of env w = (Ok pem, w1)"
    and v0: "from_pem L P pem (Some p \<noteq> None \<or> env_flag env ''STATEFUL_VERIFICATION'' False) = Ok v0"
    and absent: "\<And>q. Some p = Some q \<Longrightarrow> \<not> fs_exists q w1 \<Longrightarrow> v = v0"
    and present: "\<And>q. Some p = Some q \<Longrightarrow> fs_exists q w1 \<Longrightarrow>
       \<exists>m. load_replay_state L J q w1 = (Ok m, w') \<and> set_state m v0 = (Ok (), v)"
  have w1: "w_files w1 = w_files w" "\<not> w_stat_fails w1"
    using load_trusted_root_validated [OF t] assms(2) by (auto simp: touches_def fun_eq_iff)
  have st: "vf_state v0 = Some (Healthy Map.empty)"
    using from_pem_state [OF v0] by simp
  show ?thesis
  proof (cases "w_files w p")
    case None
    with absent [OF refl] w1 st show ?thesis by (simp add: fs_exists_def)
  next
    case (Some b)
    then obtain m where l: "load_replay_state L J p w1 = (Ok m, w')" "set_state m v0 = (Ok (), v)"
      using present [OF refl] w1 by (auto simp: fs_exists_def)
    have "decode_state L J b = Ok m"
      using l(1) Some w1 by (auto simp: load_replay_state_def io_simps dest!: fs_read_out)
    moreover have "vf_state v = Some (Healthy m)"
      using l(2) st by (auto simp: set_state_def)
    ultimately show ?thesis using Some by simp
  qed
qed

end
