(* ===== verification/Service_Facts.thy ===== *)
theory Service_Facts
  imports Verifier_Service
begin

text \<open>
  What one request does to the state file, to the challenge files and to the verifier of
  its process, for every pattern of file system faults.
\<close>

section \<open>Paths of the service\<close>

lemma file_name_parent:
  assumes "file_name_str p = Some n"
  shows "p = parent_or_here p @ [Normal n]"
proof -
  obtain rest where "rev p = Normal n # rest"
    using assms by (auto simp: file_name_str_def split: list.splits path_component.splits)
  then have "p = rev rest @ [Normal n]" by (simp add: rev_eq_Cons_iff)
  then show ?thesis by (simp add: parent_or_here_def path_parent_def)
qed

text \<open>The files of the challenge directory.\<close>

definition challenge_file :: "path \<Rightarrow> path \<Rightarrow> bool" where
  "challenge_file state_path q \<longleftrightarrow>
     (\<exists>d n. challenge_directory state_path = Ok d \<and> q = path_join d n)"

lemma state_not_challenge: "challenge_file p q \<Longrightarrow> q \<noteq> p"
proof
  assume "challenge_file p q" and "q = p"
  then obtain n name where "file_name_str p = Some name"
    and "p = parent_or_here p @ [Normal (''.'' @ name @ ''.challenges''), Normal n]"
    by (auto simp: challenge_file_def challenge_directory_Ok path_join_def)
  then have "parent_or_here p @ [Normal name] =
      parent_or_here p @ [Normal (''.'' @ name @ ''.challenges''), Normal n]"
    using file_name_parent by metis
  then show False by simp
qed

lemma lock_not_state:
  assumes "replay_lock_path p = Ok q"
  shows "q \<noteq> p"
proof
  assume "q = p"
  then obtain name where n: "file_name_str p = Some name"
    and "p = path_join (parent_or_here p) (''.'' @ name @ ''.lock'')"
    using assms by (auto simp: replay_lock_path_def sibling_def result_simps)
  then have "parent_or_here p @ [Normal name] = parent_or_here p @ [Normal (''.'' @ name @ ''.lock'')]"
    using file_name_parent by (metis path_join_def)
  then have "length name = length (''.'' @ name @ ''.lock'')" by simp
  then show False by simp
qed

section \<open>Frames of a process\<close>

text \<open>\<open>spares A s s'\<close>: the verifier and all files outside \<open>A\<close> are as before.\<close>

definition spares :: "path set \<Rightarrow> service \<Rightarrow> service \<Rightarrow> bool" where
  "spares A s s' \<longleftrightarrow>
     sv_verifier s' = sv_verifier s \<and> w_stat_fails s' = w_stat_fails s \<and>
     (\<forall>q. q \<notin> A \<longrightarrow> w_files s' q = w_files s q)"

named_theorems sparing

lemma spares_same [simp]: "spares A s s"
  by (simp add: spares_def)

lemma spares_trans: "spares A s s1 \<Longrightarrow> spares A s1 s2 \<Longrightarrow> spares A s s2"
  by (simp add: spares_def)

lemma spares_mono: "spares A s s' \<Longrightarrow> A \<subseteq> B \<Longrightarrow> spares B s s'"
  by (auto simp: spares_def)

lemma touches_spares: "touches A s s' \<Longrightarrow> spares A s s'"
  by (cases s; cases s') (auto simp: touches_def spares_def)

lemma next_temp_spares: "next_temp s = (c, s') \<Longrightarrow> spares A s s'"
  by (auto simp: next_temp_def spares_def)

lemma io_then_spares [sparing]:
  assumes "io_then m k s = (r, s')" and "\<And>r s'. m s = (r, s') \<Longrightarrow> spares A s s'"
    and "\<And>x s1 r s'. m s = (Inr x, s1) \<Longrightarrow> k x s1 = (r, s') \<Longrightarrow> spares A s1 s'"
  shows "spares A s s'"
  using assms(1) by (rule io_then_out) (use assms(2,3) in \<open>blast intro: spares_trans\<close>)+

lemma io_map_err_spares [sparing]:
  "io_map_err f m s = (r, s') \<Longrightarrow> (\<And>r s'. m s = (r, s') \<Longrightarrow> spares A s s') \<Longrightarrow> spares A s s'"
  by (erule io_map_err_out)

lemma io_lift_spares [sparing]: "io_lift x s = (r, s') \<Longrightarrow> spares A s s'"
  by simp

lemma fs_read_to_string_touches [frames]:
  "fs_read_to_string p w = (r, w') \<Longrightarrow> touches A w w'"
  unfolding fs_read_to_string_def by (erule frames | simp)+

section \<open>Challenges\<close>

lemma remove_spares [sparing]: "p \<in> A \<Longrightarrow> spares A s (snd (fs_remove p s))"
  by (metis prod.collapse remove_touches touches_spares)

lemma claim_spares [sparing]:
  assumes "claim_challenge L pid d nonce s = (r, s')" and "challenge_directory sp = Ok d"
  shows "spares {q. challenge_file sp q} s s'"
proof -
  have inA: "path_join d n \<in> {q. challenge_file sp q}" for n
    using assms(2) by (auto simp: challenge_file_def)
  obtain c s0 where n: "next_temp s = (c, s0)" by fastforce
  have "touches {q. challenge_file sp q} s0 s'"
    using assms(1) n unfolding claim_challenge_def Let_def
    by simp (erule frames | rule inA | simp)+
  then show ?thesis
    using next_temp_spares [OF n] touches_spares spares_trans by blast
qed

lemma reserve_spares [sparing]:
  assumes "reserve_challenge L pid now sp nonce s = (r, s')"
  shows "spares {q. challenge_file sp q} s s'"
  using assms unfolding reserve_challenge_def
proof (rule io_then_spares)
  fix d s1 r1 s2
  let ?A = "{q. challenge_file sp q}" and ?p = "path_join d (hex_encode L nonce)"
  assume "io_lift (map_err (\<lambda>(status, body). er_error body) (challenge_directory sp)) s = (Ok d, s1)"
  then have d: "challenge_directory sp = Ok d" by (simp add: result_simps)
  then have p: "?p \<in> ?A" by (auto simp: challenge_file_def)
  assume "io_then (io_map_err (\<lambda>_. ''challenge was not issued or was already consumed'')
      (fs_read_to_string ?p)) (\<lambda>text.
    io_then (io_lift (ok_or ''challenge record is invalid'' (parse_u64 (str_trim text))))
       (\<lambda>expires_at.
    io_then (io_lift (unix_seconds now)) (\<lambda>seconds s.
       if expires_at < seconds then (Err ''challenge has expired'', snd (fs_remove ?p s))
       else claim_challenge L pid d nonce s))) s1 = (r1, s2)"
  then show "spares ?A s1 s2"
    by (elim io_then_out io_map_err_out)
      (auto dest!: fs_read_to_string_touches [where A = ?A] touches_spares
        claim_spares [OF _ d] simp: remove_spares [OF p] intro: spares_trans split: if_splits)
qed (rule io_lift_spares)

lemma claim_paths:
  assumes "claim_challenge L pid d nonce s = (Ok res, s')" and "challenge_directory sp = Ok d"
  shows "challenge_file sp (available_path res) \<and> challenge_file sp (reserved_path res)"
  using assms by (auto simp: claim_challenge_def Let_def io_simps challenge_file_def split: prod.splits)

lemma reserve_paths:
  assumes "reserve_challenge L pid now sp nonce s = (Ok res, s')"
  shows "challenge_file sp (available_path res) \<and> challenge_file sp (reserved_path res)"
  using assms unfolding reserve_challenge_def io_simps
  by (auto simp: result_simps dest: claim_paths split: if_splits)

lemma restore_touches [frames]:
  "restore res w = (r, w') \<Longrightarrow> available_path res \<in> A \<Longrightarrow> reserved_path res \<in> A \<Longrightarrow> touches A w w'"
  unfolding restore_def by (erule frames | assumption | simp)+

lemma consume_touches [frames]:
  "consume res w = (r, w') \<Longrightarrow> reserved_path res \<in> A \<Longrightarrow> touches A w w'"
  unfolding consume_def by (erule frames | assumption | simp)+

text \<open>The reservation of a request lies in the challenge directory.\<close>

definition reservation_in :: "path \<Rightarrow> reservation option \<Rightarrow> bool" where
  "reservation_in sp res \<longleftrightarrow>
     (\<forall>x. res = Some x \<longrightarrow>
        challenge_file sp (available_path x) \<and> challenge_file sp (reserved_path x))"

lemma reserve_if_required_out:
  assumes "reserve_if_required L cfg now nonce s = (r, s')" and "ac_replay_state_path cfg = Some p"
  shows "spares {q. challenge_file p q} s s' \<and> (\<forall>res. r = Ok res \<longrightarrow> reservation_in p res)"
  using assms
  by (auto simp: reserve_if_required_def reservation_in_def result_simps
      elim!: io_then_out io_map_err_out dest: reserve_spares reserve_paths split: if_splits)

lemma restore_if_reserved_spares [sparing]:
  "restore_if_reserved res s = (r, s') \<Longrightarrow> reservation_in p res \<Longrightarrow>
     spares {q. challenge_file p q} s s'"
  by (cases res) (auto simp: restore_if_reserved_def reservation_in_def
      elim!: io_map_err_out intro!: touches_spares restore_touches)

lemma consume_if_reserved_spares [sparing]:
  "consume_if_reserved res s = (r, s') \<Longrightarrow> reservation_in p res \<Longrightarrow>
     spares {q. challenge_file p q} s s'"
  by (cases res) (auto simp: consume_if_reserved_def reservation_in_def
      elim!: io_map_err_out intro!: touches_spares consume_touches)

section \<open>The steps of a request\<close>

text \<open>The states a process may hold after reloading: what the file says, or its own.\<close>

definition holds_current ::
  "lib \<Rightarrow> json_lib \<Rightarrow> bytes option \<Rightarrow> replay_state \<Rightarrow> replay_state \<Rightarrow> bool" where
  "holds_current L J file own m \<longleftrightarrow>
     (case file of None \<Rightarrow> m = own | Some b \<Rightarrow> decode_state L J b = Ok m)"

lemma acquire_lock_touches [frames]:
  "acquire_replay_lock q w = (r, w') \<Longrightarrow> touches {q} w w'"
  unfolding acquire_replay_lock_def by (erule frames | simp)+

lemma load_out:
  assumes "load_replay_state L J p s = (r, s')"
  shows "touches {} s s' \<and> (\<forall>m. r = Ok m \<longrightarrow> (\<exists>b. w_files s p = Some b \<and> decode_state L J b = Ok m))"
  using assms unfolding load_replay_state_def
  by (auto elim!: io_then_out io_map_err_out simp: result_simps touches_def dest!: fs_read_out)

lemma begin_outcome:
  assumes "begin_transaction L J cfg s = (r, s')" and "ac_replay_state_path cfg = Some p"
    and "\<not> w_stat_fails s" and "vf_state (sv_verifier s) = Some (Healthy own)"
  shows "w_files s' p = w_files s p \<and> \<not> w_stat_fails s' \<and>
    (\<exists>m. sv_verifier s' = with_state (sv_verifier s) m \<and>
       (m = own \<or> holds_current L J (w_files s p) own m) \<and>
       (r = Ok () \<longrightarrow> holds_current L J (w_files s p) own m))"
proof (cases "replay_lock_path p")
  case (Inl e)
  with assms show ?thesis
    by (auto simp: begin_transaction_def io_then.simps intro!: exI [of _ own])
next
  case (Inr q)
  obtain r1 s1 where a: "acquire_replay_lock q s = (r1, s1)" by fastforce
  have sp: "spares {q} s s1"
    using a by (rule acquire_lock_touches [THEN touches_spares])
  have q: "q \<noteq> p" using lock_not_state [OF Inr] .
  have f1: "w_files s1 p = w_files s p" "\<not> w_stat_fails s1" "sv_verifier s1 = sv_verifier s"
    using sp q assms(3) by (auto simp: spares_def)
  show ?thesis
  proof (cases "r1 = Ok () \<and> w_files s p \<noteq> None")
    case False
    then have "s' = s1" "r = Ok () \<longrightarrow> w_files s p = None"
      using assms(1,2) Inr a f1
      by (cases r1; auto simp: begin_transaction_def io_then.simps io_map_err.simps fs_exists_def)+
    with f1 assms(4) show ?thesis by (auto simp: holds_current_def intro!: exI [of _ own])
  next
    case True
    obtain r2 s2 where l: "load_replay_state L J p s1 = (r2, s2)" by fastforce
    have s2: "w_files s2 = w_files s1" "\<not> w_stat_fails s2" "sv_verifier s2 = sv_verifier s1"
      using load_out [OF l] touches_spares [of "{}" s1 s2] f1(2)
      by (auto simp: spares_def fun_eq_iff)
    show ?thesis
    proof (cases r2)
      case (Inl e)
      then have "r \<noteq> Ok ()" "s' = s2"
        using assms(1,2) \<open>replay_lock_path p = Ok q\<close> a l True f1
        by (auto simp: begin_transaction_def io_then.simps io_map_err.simps fs_exists_def)
      with s2 f1 assms(4) show ?thesis by (auto intro!: exI [of _ own])
    next
      case (Inr m)
      then obtain b where "w_files s1 p = Some b" "decode_state L J b = Ok m"
        using load_out [OF l] by blast
      moreover have "r = Ok ()" "s' = s2\<lparr>sv_verifier := with_state (sv_verifier s) m\<rparr>"
        using assms(1,2,4) \<open>replay_lock_path p = Ok q\<close> a l True f1 s2 Inr
        by (auto simp: begin_transaction_def io_then.simps io_map_err.simps fs_exists_def
          set_replay_state_def set_state_def with_state_def)
      ultimately show ?thesis using s2 f1 by (auto simp: holds_current_def)
    qed
  qed
qed

section \<open>The outcome of a request\<close>

text \<open>
  \<open>attempted\<close>: the receipt was accepted against the current state \<open>m\<close>, and then either
  the state file was replaced by the extended state or the request failed.
\<close>

definition attempted ::
  "lib \<Rightarrow> json_lib \<Rightarrow> path \<Rightarrow> bytes \<Rightarrow> replay_state \<Rightarrow> service \<Rightarrow>
   (api_error, verification_result) result \<Rightarrow> service \<Rightarrow> bool" where
  "attempted L J p rb own s r s' \<longleftrightarrow>
     (\<exists>m k n. holds_current L J (w_files s p) own m \<and> receipt_number L rb = Some (k, unat n) \<and>
        (\<forall>last_seq. m k = Some last_seq \<longrightarrow> last_seq < n) \<and>
        ((\<exists>b. encoded_state L J (m(k \<mapsto> n)) = Ok b \<and> w_files s' p = Some b) \<and>
           (sv_verifier s' = with_state (sv_verifier s) (m(k \<mapsto> n)) \<or>
            sv_verifier s' = with_state (sv_verifier s) m \<and> (\<exists>e. r = Err e)) \<or>
         w_files s' p = w_files s p \<and> sv_verifier s' = with_state (sv_verifier s) m \<and>
           (\<exists>e. r = Err e)))"

definition refused ::
  "lib \<Rightarrow> json_lib \<Rightarrow> path \<Rightarrow> replay_state \<Rightarrow> service \<Rightarrow>
   (api_error, verification_result) result \<Rightarrow> service \<Rightarrow> bool" where
  "refused L J p own s r s' \<longleftrightarrow>
     (\<forall>res. r = Ok res \<longrightarrow> \<not> vr_valid res) \<and> w_files s' p = w_files s p \<and>
     (\<exists>m. sv_verifier s' = with_state (sv_verifier s) m \<and>
        (m = own \<or> holds_current L J (w_files s p) own m))"

lemma spares_challenges:
  "spares {q. challenge_file p q} s s' \<Longrightarrow>
     w_files s' p = w_files s p \<and> sv_verifier s' = sv_verifier s \<and> w_stat_fails s' = w_stat_fails s"
  using state_not_challenge by (auto simp: spares_def)

lemma commit_outcome:
  assumes "commit L J cfg prev res s = (r, s')" and "ac_replay_state_path cfg = Some p"
    and "reservation_in p res" and "prev = Some m" and "vf_state (sv_verifier s) = Some (Healthy m')"
  shows "(\<exists>b. encoded_state L J m' = Ok b \<and> w_files s' p = Some b) \<and>
      (sv_verifier s' = sv_verifier s \<or> sv_verifier s' = with_state (sv_verifier s) m \<and> (\<exists>e. r = Err e)) \<or>
    w_files s' p = w_files s p \<and> sv_verifier s' = with_state (sv_verifier s) m \<and> (\<exists>e. r = Err e)"
proof -
  obtain r1 s1 where pr: "persist_replay_state_or_rollback L J (ac_pid cfg) p m s = (r1, s1)"
    by fastforce
  note out = rollback_outcome [OF pr assms(5), folded with_state_def]
  show ?thesis
  proof (cases r1)
    case (Inl e)
    then have "\<exists>r2. restore_if_reserved res s1 = (r2, s')" and r: "\<exists>e. r = Err e"
      using assms(1,2,4) pr by (auto simp: commit_def elim!: io_then_out)
    then have "spares {q. challenge_file p q} s1 s'"
      using restore_if_reserved_spares [OF _ assms(3)] by blast
    from spares_challenges [OF this] out Inl r show ?thesis by auto
  next
    case (Inr u)
    then have "consume_if_reserved res s1 = (r, s')"
      using assms(1,2,4) pr by (simp add: commit_def)
    then have "spares {q. challenge_file p q} s1 s'"
      using consume_if_reserved_spares [OF _ assms(3)] by blast
    from spares_challenges [OF this] out Inr show ?thesis by auto
  qed
qed

lemma run_verify_outcome:
  assumes "run_verify L quoted tms rb ex s = (r, s')" and "vf_state (sv_verifier s) = Some (Healthy m)"
  obtains (accepted) res k n where "r = Ok res" "vr_valid res" "receipt_number L rb = Some (k, unat n)"
      "\<forall>last_seq. m k = Some last_seq \<longrightarrow> last_seq < n"
      "s' = s\<lparr>sv_verifier := with_state (sv_verifier s) (m(k \<mapsto> n))\<rparr>"
    | (refused) "s' = s" "\<forall>res. r = Ok res \<longrightarrow> \<not> vr_valid res"
proof -
  obtain r1 v where v: "verify L (tm_clock tms) (tm_now tms) rb ex (sv_verifier s) = (r1, v)"
    by fastforce
  then have r: "r = map_err (\<lambda>e. (InternalServerError, \<lparr>er_code = ''verification_error'',
              er_error = ''Infrastructure error: '' @ debug_verify_error quoted e\<rparr>)) r1"
    and s': "s' = s\<lparr>sv_verifier := v\<rparr>"
    using assms(1) by (auto simp: run_verify_def Let_def)
  from v assms(2) show ?thesis
  proof (cases rule: verify_cases)
    case (accepted res k n)
    with r s' show ?thesis by (intro that(1)) simp_all
  next
    case refused
    with r s' show ?thesis by (intro that(2)) (auto simp: result_simps)
  qed
qed

text \<open>The part of a request after the transaction has begun.\<close>

lemma transaction_outcome:
  assumes h: "io_then (reserve_if_required L cfg t nonce) (\<lambda>reservation.
      io_then (snapshot_state cfg) (\<lambda>prev.
      io_then (run_verify L quoted tms rb ex) (\<lambda>result.
        if \<not> vr_valid result then
          io_then (restore_if_reserved reservation) (\<lambda>_. io_lift (Ok result))
        else io_then (commit L J cfg prev reservation) (\<lambda>_. io_lift (Ok result))))) s1 = (r, s')"
    and p: "ac_replay_state_path cfg = Some p"
    and s1: "w_files s1 p = w_files s p" "sv_verifier s1 = with_state (sv_verifier s) m"
    and m: "holds_current L J (w_files s p) own m"
  shows "refused L J p own s r s' \<or> attempted L J p rb own s r s'"
  using h
proof (cases rule: io_then_out)
  case (first e)
  then have "spares {q. challenge_file p q} s1 s'"
    using reserve_if_required_out [OF _ p] by blast
  from spares_challenges [OF this] first s1 m show ?thesis by (auto simp: refused_def)
next
  case (both res s2)
  then have sp: "spares {q. challenge_file p q} s1 s2" and res: "reservation_in p res"
    using reserve_if_required_out [OF _ p] by blast+
  note s2 = spares_challenges [OF sp]
  have snap: "snapshot_state cfg s2 = (Ok (Some m), s2)"
    using p s1 s2 by (simp add: snapshot_state_def get_state_def)
  have run: "io_then (run_verify L quoted tms rb ex) (\<lambda>result.
        if \<not> vr_valid result then
          io_then (restore_if_reserved res) (\<lambda>_. io_lift (Ok result))
        else io_then (commit L J cfg (Some m) res) (\<lambda>_. io_lift (Ok result))) s2 = (r, s')"
    using both(2) snap by (simp add: io_then.simps)
  obtain r3 s3 where rv: "run_verify L quoted tms rb ex s2 = (r3, s3)" by fastforce
  have "vf_state (sv_verifier s2) = Some (Healthy m)" using s1 s2 by simp
  with rv show ?thesis
  proof (cases rule: run_verify_outcome)
    case refused
    have "(\<forall>x. r = Ok x \<longrightarrow> \<not> vr_valid x) \<and> spares {q. challenge_file p q} s2 s'"
    proof (cases r3)
      case (Inl e)
      with run rv refused show ?thesis by (simp add: io_then.simps)
    next
      case (Inr x)
      with run rv refused have "io_then (restore_if_reserved res) (\<lambda>_. io_lift (Ok x)) s2 = (r, s')"
        "\<not> vr_valid x"
        by (auto simp: io_then.simps)
      then show ?thesis
        using restore_if_reserved_spares [OF _ res] by (auto elim!: io_then_out)
    qed
    with spares_challenges [of p s2 s'] s1 s2 m show ?thesis by (auto simp: refused_def)
  next
    case (accepted x k n)
    then have c: "io_then (commit L J cfg (Some m) res) (\<lambda>_. io_lift (Ok x)) s3 = (r, s')"
      using run rv by (simp add: io_then.simps)
    obtain r4 s4 where cm: "commit L J cfg (Some m) res s3 = (r4, s4)" by fastforce
    have "s' = s4" "(\<exists>e. r4 = Err e) \<longrightarrow> (\<exists>e. r = Err e)"
      using c cm by (auto simp: io_then.simps split: sum.splits)
    moreover have "vf_state (sv_verifier s3) = Some (Healthy (m(k \<mapsto> n)))"
      using accepted(5) by simp
    ultimately have "attempted L J p rb own s r s'"
      using commit_outcome [OF cm p res refl] accepted(3-5) m s1 s2
      unfolding attempted_def by (intro exI [of _ m] exI [of _ k] exI [of _ n]) auto
    then show ?thesis by blast
  qed
qed

lemma handler_outcome:
  assumes h: "verify_handler L J quoted cfg tms q s = (r, s')"
    and p: "ac_replay_state_path cfg = Some p"
    and s: "\<not> w_stat_fails s" "vf_state (sv_verifier s) = Some (Healthy own)"
  shows "refused L J p own s r s' \<or>
    (\<exists>rb. decode_receipt_text L (vq_receipt q) = Ok rb \<and> attempted L J p rb own s r s')"
proof (cases "decode_request L cfg q")
  case (Inl e)
  then have "r = Err e" "s' = s"
    using h by (simp_all add: verify_handler_def io_then.simps)
  with s show ?thesis by (auto simp: refused_def intro!: exI [of _ own])
next
  case (Inr x)
  obtain rb ex where x: "x = (rb, ex)" by fastforce
  then have rb: "decode_receipt_text L (vq_receipt q) = Ok rb"
    using Inr by (auto simp: decode_request_def result_simps)
  obtain r1 s1 where b: "begin_transaction L J cfg s = (r1, s1)" by fastforce
  obtain m where s1: "w_files s1 p = w_files s p" "sv_verifier s1 = with_state (sv_verifier s) m"
    "m = own \<or> holds_current L J (w_files s p) own m"
    "r1 = Ok () \<longrightarrow> holds_current L J (w_files s p) own m"
    using begin_outcome [OF b p s] by blast
  show ?thesis
  proof (cases r1)
    case (Inl e)
    then have "r = Err e" "s' = s1"
      using h Inr x b by (auto simp: verify_handler_def io_then.simps)
    with s1 show ?thesis by (auto simp: refused_def)
  next
    case Ok: (Inr u)
    then have m: "holds_current L J (w_files s p) own m"
      using s1(4) by simp
    have "refused L J p own s r s' \<or> attempted L J p rb own s r s'"
      by (rule transaction_outcome [OF _ p s1(1,2) m])
        (use h Inr x b Ok in \<open>simp add: verify_handler_def io_then.simps\<close>)
    with rb show ?thesis by blast
  qed
qed

end
