(* ===== verification/Service_Cluster.thy ===== *)
theory Service_Cluster
  imports Service_Facts
begin

text \<open>
  Several verifier processes that share one state file, each with a verifier of its own.
  The lock file makes the requests of all processes one sequence; the state file is then a
  monotone register for all of them together.
\<close>

section \<open>Processes and requests\<close>

record process =
  pr_pid :: nat
  pr_verifier :: verifier
  pr_counter :: u64

record cluster =
  cl_files :: "path \<rightharpoonup> bytes"
  cl_processes :: "process list"

text \<open>A request to one of the processes, with the faults its file operations meet.\<close>

record request =
  rq_process :: nat
  rq_times :: request_times
  rq_body :: verify_request
  rq_faults :: "io_fault option list"

definition service_of :: "cluster \<Rightarrow> process \<Rightarrow> io_fault option list \<Rightarrow> bool \<Rightarrow> service" where
  "service_of c pr faults stat_fails =
     \<lparr>w_files = cl_files c, w_faults = faults, w_stat_fails = stat_fails,
      sv_verifier = pr_verifier pr, sv_counter = pr_counter pr\<rparr>"

definition after_request :: "cluster \<Rightarrow> nat \<Rightarrow> service \<Rightarrow> cluster" where
  "after_request c i s =
     \<lparr>cl_files = w_files s,
      cl_processes = (cl_processes c)[i := (cl_processes c ! i)
        \<lparr>pr_verifier := sv_verifier s, pr_counter := sv_counter s\<rparr>]\<rparr>"

text \<open>One request; \<open>p\<close> is the state file of all processes.  Any file operation of it may fail, but
  the \<open>stat\<close> that looks for the state file works (\<open>False\<close> below): a request for which it
  fails does not keep the ledger.  A process that does not exist does not answer.\<close>

definition handle_request ::
  "lib \<Rightarrow> json_lib \<Rightarrow> (str \<Rightarrow> str) \<Rightarrow> app_config \<Rightarrow> path \<Rightarrow> request \<Rightarrow> cluster \<Rightarrow>
   (api_error, verification_result) result option \<times> cluster" where
  "handle_request L J quoted cfg p q c =
     (if rq_process q < length (cl_processes c) then
        (let pr = cl_processes c ! rq_process q;
             (r, s) = verify_handler L J quoted
               (cfg\<lparr>ac_replay_state_path := Some p, ac_pid := pr_pid pr\<rparr>) (rq_times q) (rq_body q)
               (service_of c pr (rq_faults q) False)
         in (Some r, after_request c (rq_process q) s))
      else (None, c))"

definition answered_valid :: "(api_error, verification_result) result option \<Rightarrow> bool" where
  "answered_valid a = (case a of Some (Inr r) \<Rightarrow> vr_valid r | _ \<Rightarrow> False)"

definition request_number :: "lib \<Rightarrow> request \<Rightarrow> (bytes \<times> nat) option" where
  "request_number L q =
     (case decode_receipt_text L (vq_receipt (rq_body q)) of
        Inr rb \<Rightarrow> receipt_number L rb
      | Inl _ \<Rightarrow> None)"

definition serve ::
  "lib \<Rightarrow> json_lib \<Rightarrow> (str \<Rightarrow> str) \<Rightarrow> app_config \<Rightarrow> path \<Rightarrow> (request, cluster, bytes) register_step"
where
  "serve L J quoted cfg p q c =
     (let (a, c') = handle_request L J quoted cfg p q c
      in (if answered_valid a then request_number L q else None, c'))"

section \<open>The register\<close>

definition disk_mark :: "lib \<Rightarrow> json_lib \<Rightarrow> path \<Rightarrow> cluster \<Rightarrow> bytes \<rightharpoonup> nat" where
  "disk_mark L J p c k =
     (case cl_files c p of
        None \<Rightarrow> None
      | Some b \<Rightarrow>
          (case decode_state L J b of Inr m \<Rightarrow> map_option unat (m k) | Inl _ \<Rightarrow> None))"

text \<open>The libraries behave as documented, every verifier keeps replay state, and as long as
  there is no state file no process has accepted anything.\<close>

definition process_ok :: "bool \<Rightarrow> process \<Rightarrow> bool" where
  "process_ok no_file pr \<longleftrightarrow>
     (\<exists>m. vf_state (pr_verifier pr) = Some (Healthy m) \<and> (no_file \<longrightarrow> m = Map.empty))"

definition cluster_ok :: "lib \<Rightarrow> json_lib \<Rightarrow> path \<Rightarrow> cluster \<Rightarrow> bool" where
  "cluster_ok L J p c \<longleftrightarrow>
     hex_roundtrips L \<and> json_roundtrips J \<and> sha_lengths L \<and>
     list_all (process_ok (cl_files c p = None)) (cl_processes c)"

lemma holds_current_ok:
  "holds_current L J file own m \<Longrightarrow> (file = None \<Longrightarrow> own = Map.empty) \<Longrightarrow> fingerprints_ok m"
  by (auto simp: holds_current_def split: option.splits intro: decode_state_ok fingerprints_ok_empty)

lemma list_all_update: "list_all P xs \<Longrightarrow> P x \<Longrightarrow> list_all P (xs[i := x])"
  by (auto simp: list_all_iff dest: set_update_subset_insert [THEN subsetD])

lemma process_ok_mono: "process_ok nf pr \<Longrightarrow> (nf' \<longrightarrow> nf) \<Longrightarrow> process_ok nf' pr"
  by (auto simp: process_ok_def)

text \<open>The two outcomes of a request, in terms of the register.\<close>

lemma handle_request_cases:
  assumes ok: "cluster_ok L J p c" and h: "handle_request L J quoted cfg p q c = (a, c')"
  obtains (unchanged) "\<not> answered_valid a" "cl_files c' p = cl_files c p" "cluster_ok L J p c'"
    | (committed) k n where "request_number L q = Some (k, n)"
      "\<forall>m. disk_mark L J p c k = Some m \<longrightarrow> m < n"
      "disk_mark L J p c' = (disk_mark L J p c)(k \<mapsto> n)" "cluster_ok L J p c'"
proof (cases "rq_process q < length (cl_processes c)")
  case False
  then have "a = None" "c' = c" using h by (simp_all add: handle_request_def)
  then show ?thesis using unchanged ok by (simp add: answered_valid_def)
next
  case True
  define i where "i = rq_process q"
  define pr where "pr = cl_processes c ! i"
  define s where "s = service_of c pr (rq_faults q) False"
  let ?cfg = "cfg\<lparr>ac_replay_state_path := Some p, ac_pid := pr_pid pr\<rparr>"
  obtain r s' where v: "verify_handler L J quoted ?cfg (rq_times q) (rq_body q) s = (r, s')"
    by fastforce
  have a: "a = Some r" and c': "c' = after_request c i s'"
    using h True v by (auto simp: handle_request_def Let_def i_def pr_def s_def)
  have files: "w_files s p = cl_files c p" "sv_verifier s = pr_verifier pr" "\<not> w_stat_fails s"
    by (simp_all add: s_def service_of_def)
  have laws: "hex_roundtrips L" "json_roundtrips J" "sha_lengths L"
    and procs: "list_all (process_ok (cl_files c p = None)) (cl_processes c)"
    using ok by (auto simp: cluster_ok_def)
  have "process_ok (cl_files c p = None) pr"
    using procs True by (simp add: list_all_length i_def pr_def)
  then obtain own where own: "vf_state (sv_verifier s) = Some (Healthy own)"
    "cl_files c p = None \<Longrightarrow> own = Map.empty"
    using files(2) by (auto simp: process_ok_def)
  have ok': "cluster_ok L J p c'" if "sv_verifier s' = with_state (sv_verifier s) m"
    and "w_files s' p = None \<Longrightarrow> cl_files c p = None \<and> m = Map.empty" for m
  proof -
    have "process_ok (w_files s' p = None)
        ((cl_processes c ! i)\<lparr>pr_verifier := sv_verifier s', pr_counter := sv_counter s'\<rparr>)"
      using that by (auto simp: process_ok_def)
    moreover have "list_all (process_ok (w_files s' p = None)) (cl_processes c)"
      using procs that(2) by (auto simp: list_all_iff intro: process_ok_mono)
    ultimately show ?thesis
      using laws by (simp add: cluster_ok_def c' after_request_def list_all_update)
  qed
  from handler_outcome [OF v _ files(3) own(1), of p]
  consider (refused) "refused L J p own s r s'"
    | (attempted) rb where "decode_receipt_text L (vq_receipt (rq_body q)) = Ok rb"
        "attempted L J p rb own s r s'"
    by auto
  then show ?thesis
  proof cases
    case refused
    then obtain m where m: "sv_verifier s' = with_state (sv_verifier s) m"
      "m = own \<or> holds_current L J (w_files s p) own m" and f: "w_files s' p = w_files s p"
      and nv: "\<not> answered_valid a"
      by (auto simp: refused_def answered_valid_def a split: sum.splits)
    show ?thesis
    proof (rule unchanged)
      show "cluster_ok L J p c'"
        using m own(2) f files(1) by (intro ok' [OF m(1)]) (auto simp: holds_current_def)
    qed (simp_all add: nv c' after_request_def f files(1))
  next
    case attempted
    then obtain m k n where m: "holds_current L J (w_files s p) own m"
      and num: "receipt_number L rb = Some (k, unat n)"
      and fresh: "\<forall>last_seq. m k = Some last_seq \<longrightarrow> last_seq < n"
      and alt: "(\<exists>b. encoded_state L J (m(k \<mapsto> n)) = Ok b \<and> w_files s' p = Some b) \<and>
           (sv_verifier s' = with_state (sv_verifier s) (m(k \<mapsto> n)) \<or>
            sv_verifier s' = with_state (sv_verifier s) m) \<or>
         w_files s' p = w_files s p \<and> sv_verifier s' = with_state (sv_verifier s) m \<and>
           (\<exists>e. r = Err e)"
      unfolding attempted_def by blast
    have mark: "disk_mark L J p c = map_option unat \<circ> m"
      using m own(2) files(1) by (auto simp: disk_mark_def holds_current_def fun_eq_iff
          split: option.splits)
    from alt consider (written) b m' where "encoded_state L J (m(k \<mapsto> n)) = Ok b"
        "w_files s' p = Some b" "sv_verifier s' = with_state (sv_verifier s) m'"
      | (failed) "w_files s' p = w_files s p" "sv_verifier s' = with_state (sv_verifier s) m"
          "\<exists>e. r = Err e"
      by blast
    then show ?thesis
    proof cases
      case failed
      then have "\<not> answered_valid a" by (auto simp: answered_valid_def a)
      moreover have "cluster_ok L J p c'"
        using failed m own(2) files(1) by (intro ok' [OF failed(2)]) (auto simp: holds_current_def)
      ultimately show ?thesis
        using unchanged failed(1) files(1) by (simp add: c' after_request_def)
    next
      case written
      have "fingerprints_ok (m(k \<mapsto> n))"
        using holds_current_ok [OF m] own(2) files(1) receipt_number_length [OF laws(3) num]
        by (auto intro: fingerprints_ok_upd)
      then have "decode_state L J b = Ok (m(k \<mapsto> n))"
        using state_round_trip laws(1,2) written(1) by blast
      then have "disk_mark L J p c' = (disk_mark L J p c)(k \<mapsto> unat n)"
        using written(2) unfolding mark
        by (auto simp: disk_mark_def c' after_request_def fun_eq_iff)
      moreover have "request_number L q = Some (k, unat n)"
        using attempted(1) num by (simp add: request_number_def)
      moreover have "\<forall>x. disk_mark L J p c k = Some x \<longrightarrow> x < unat n"
        using fresh unfolding mark by (auto simp: word_less_nat_alt)
      moreover have "cluster_ok L J p c'"
        using written by (intro ok' [OF written(3)]) auto
      ultimately show ?thesis using committed by blast
    qed
  qed
qed

interpretation replicas:
  monotone_register "serve L J quoted cfg p" "disk_mark L J p" "cluster_ok L J p"
  for L J quoted cfg p
proof unfold_locales
  fix c q k n c'
  assume ok: "cluster_ok L J p c" and s: "serve L J quoted cfg p q c = (Some (k, n), c')"
  obtain a where h: "handle_request L J quoted cfg p q c = (a, c')"
    using s by (cases "handle_request L J quoted cfg p q c") (simp add: serve_def)
  from s h have av: "answered_valid a" and k: "request_number L q = Some (k, n)"
    by (auto simp: serve_def split: if_splits)
  from ok h show "(\<forall>m. disk_mark L J p c k = Some m \<longrightarrow> m < n) \<and> disk_mark L J p c' k = Some n \<and>
      mark_le (disk_mark L J p c) (disk_mark L J p c')"
    by (cases rule: handle_request_cases) (use av k in \<open>auto intro: mark_le_upd less_imp_le\<close>)
next
  fix c q c'
  assume ok: "cluster_ok L J p c" and s: "serve L J quoted cfg p q c = (None, c')"
  obtain a where h: "handle_request L J quoted cfg p q c = (a, c')"
    using s by (cases "handle_request L J quoted cfg p q c") (simp add: serve_def)
  from ok h show "mark_le (disk_mark L J p c) (disk_mark L J p c')"
  proof (cases rule: handle_request_cases)
    case unchanged
    then have "disk_mark L J p c' = disk_mark L J p c" by (simp add: disk_mark_def fun_eq_iff)
    then show ?thesis by simp
  next
    case (committed k n)
    then show ?thesis by (simp add: mark_le_upd less_imp_le)
  qed
next
  fix c q
  assume ok: "cluster_ok L J p c"
  obtain a c' where h: "handle_request L J quoted cfg p q c = (a, c')" by fastforce
  from ok h have "cluster_ok L J p c'" by (cases rule: handle_request_cases)
  with h show "cluster_ok L J p (snd (serve L J quoted cfg p q c))" by (simp add: serve_def)
qed

section \<open>The ledger\<close>

text \<open>
  What the service promises, without processes, files or faults: a ledger holds the highest
  number accepted for each identity, a positive answer records a higher one, and an answer
  that is not positive records nothing, or records the number it did not get to
  acknowledge.
\<close>

type_synonym ledger = "bytes \<rightharpoonup> nat"

inductive ledger_step :: "ledger \<Rightarrow> bool \<Rightarrow> (bytes \<times> nat) option \<Rightarrow> ledger \<Rightarrow> bool" where
  accept: "\<forall>m. M k = Some m \<longrightarrow> m < n \<Longrightarrow> ledger_step M True (Some (k, n)) (M(k \<mapsto> n))"
| refuse: "ledger_step M False x M"
| unacknowledged: "\<forall>m. M k = Some m \<longrightarrow> m < n \<Longrightarrow> ledger_step M False (Some (k, n)) (M(k \<mapsto> n))"

inductive_cases ledger_step_True: "ledger_step M True x M'"

lemma request_is_ledger_step:
  assumes "cluster_ok L J p c" and "handle_request L J quoted cfg p q c = (a, c')"
  shows "ledger_step (disk_mark L J p c) (answered_valid a) (request_number L q) (disk_mark L J p c') \<and>
    cluster_ok L J p c'"
  using assms
proof (cases rule: handle_request_cases)
  case unchanged
  then have "disk_mark L J p c' = disk_mark L J p c" by (simp add: disk_mark_def fun_eq_iff)
  with unchanged show ?thesis by (simp add: ledger_step.refuse)
next
  case (committed k n)
  then show ?thesis
    by (cases "answered_valid a") (auto intro: ledger_step.accept ledger_step.unacknowledged)
qed

end
