(* ===== verification/Challenge_Facts.thy ===== *)
theory Challenge_Facts
  imports Service_Cluster
begin

text \<open>
  The life of a challenge: issued with an expiry, reserved by the request that presents
  it, consumed by a valid answer, restored by an invalid one.  What happens to it when
  verification ends in an error is shown as the code has it.
\<close>

section \<open>Reservation\<close>

text \<open>A live challenge: a record that can be read and has not expired.\<close>

definition live_challenge :: "path \<Rightarrow> system_time \<Rightarrow> (path \<rightharpoonup> bytes) \<Rightarrow> bool" where
  "live_challenge q now files \<longleftrightarrow>
     (\<exists>b expires_at seconds. files q = Some b \<and> utf8_valid b \<and>
        parse_u64 (str_trim (str_of_bytes b)) = Some expires_at \<and>
        unix_seconds now = Ok seconds \<and> seconds \<le> expires_at)"

lemma claim_files:
  assumes "claim_challenge L pid d nonce s = (Ok res, s')"
  shows "available_path res = path_join d (hex_encode L nonce) \<and>
    reserved_path res \<noteq> available_path res \<and>
    (\<exists>b. w_files s (available_path res) = Some b \<and>
       w_files s' = (w_files s)(available_path res := None, reserved_path res \<mapsto> b))"
  using assms
  by (auto simp: claim_challenge_def next_temp_def Let_def io_simps path_join_def
      dest!: io_outs sync_directory_out)

lemma reserve_files:
  assumes "reserve_challenge L pid now sp nonce s = (Ok res, s')" and "challenge_directory sp = Ok d"
  shows "available_path res = path_join d (hex_encode L nonce) \<and>
    reserved_path res \<noteq> available_path res \<and> live_challenge (available_path res) now (w_files s) \<and>
    (\<exists>b. w_files s (available_path res) = Some b \<and>
       w_files s' = (w_files s)(available_path res := None, reserved_path res \<mapsto> b))"
proof -
  let ?q = "path_join d (hex_encode L nonce)"
  obtain content expires_at seconds s1 where rd: "fs_read_to_string ?q s = (Ok content, s1)"
    and e: "parse_u64 (str_trim content) = Some expires_at" "unix_seconds now = Ok seconds"
      "\<not> expires_at < seconds"
    and cl: "claim_challenge L pid d nonce s1 = (Ok res, s')"
    using assms by (auto simp: reserve_challenge_def io_simps result_simps split: if_splits)
  obtain b where b: "w_files s ?q = Some b" "utf8_valid b" "content = str_of_bytes b"
    and s1: "w_files s1 = w_files s"
    using rd by (auto simp: fs_read_to_string_def io_simps dest!: fs_read_out split: if_splits)
  show ?thesis
    using claim_files [OF cl] b e s1 by (auto simp: live_challenge_def not_less)
qed

lemma restore_files:
  assumes "restore res w = (Ok (), w')" and "w_files w (reserved_path res) = Some b"
  shows "w_files w' = (w_files w)(reserved_path res := None, available_path res \<mapsto> b)"
  using assms by (auto simp: restore_def io_simps dest!: fs_rename_out sync_directory_out)

lemma consume_files:
  assumes "consume res w = (Ok (), w')"
  shows "w_files w' = (w_files w)(reserved_path res := None)"
  using assms by (auto simp: consume_def io_simps dest!: fs_remove_out sync_directory_out)

section \<open>Paths apart\<close>

lemma challenge_not_temporary: "challenge_file p q \<Longrightarrow> \<not> is_temporary p pid q"
  by (auto simp: challenge_file_def challenge_directory_Ok is_temporary_def temporary_path_def
      path_join_def)

lemma challenge_not_lock: "challenge_file p q \<Longrightarrow> replay_lock_path p = Ok l \<Longrightarrow> q \<noteq> l"
  by (auto simp: challenge_file_def challenge_directory_Ok replay_lock_path_def sibling_def
      result_simps path_join_def)

lemma begin_spares:
  assumes "begin_transaction L J cfg s = (r, s')" and "ac_replay_state_path cfg = Some p"
    and "challenge_file p q"
  shows "w_files s' q = w_files s q"
proof (cases "replay_lock_path p")
  case (Inl e)
  with assms show ?thesis by (auto simp: begin_transaction_def io_then.simps)
next
  case (Inr l)
  have q: "q \<noteq> l" using challenge_not_lock [OF assms(3) Inr] .
  obtain r1 s1 where a: "acquire_replay_lock l s = (r1, s1)" by fastforce
  have f1: "w_files s1 q = w_files s q"
    using acquire_lock_touches [OF a] q by (simp add: touches_def)
  obtain r2 s2 where l: "load_replay_state L J p s1 = (r2, s2)" by fastforce
  have "w_files s2 = w_files s1" using load_out [OF l] by (auto simp: touches_def fun_eq_iff)
  then show ?thesis
    using assms(1,2) Inr a l f1
    by (cases r1; cases r2) (auto simp: begin_transaction_def io_then.simps io_map_err.simps
        set_replay_state_def Let_def split: if_splits prod.splits)
qed

lemma commit_valid_files:
  assumes "commit L J cfg prev (Some res) s = (Ok (), s')" and "ac_replay_state_path cfg = Some p"
    and "challenge_file p (available_path res)" and "reserved_path res \<noteq> available_path res"
  shows "w_files s' (available_path res) = w_files s (available_path res)"
proof -
  obtain r1 s1 where pr: "persist_replay_state_or_rollback L J (ac_pid cfg) p
      (case prev of Some m \<Rightarrow> m | None \<Rightarrow> Map.empty) s = (r1, s1)" by fastforce
  then have "r1 = Ok ()" and c: "consume res s1 = (Ok (), s')"
    using assms(1,2) by (auto simp: commit_def consume_if_reserved_def io_simps split: sum.splits)
  obtain r2 s2 where ps: "persist_replay_state L J (ac_pid cfg) p s = (r2, s2)" by fastforce
  have "w_files s1 = w_files s2"
    using pr ps by (auto simp: persist_replay_state_or_rollback_def split: sum.splits prod.splits)
  moreover have "w_files s2 (available_path res) = w_files s (available_path res)"
    using persist_outcome [OF ps] state_not_challenge [OF assms(3)]
      challenge_not_temporary [OF assms(3)] by simp
  ultimately show ?thesis
    using consume_files [OF c] assms(4) by simp
qed

section \<open>The challenge of a request\<close>

lemma run_verify_files: "run_verify L quoted tms rb ex s = (r, s') \<Longrightarrow> w_files s' = w_files s"
  by (auto simp: run_verify_def Let_def split: prod.splits)

text \<open>An error that comes from \<open>verify\<close> itself, told by its code.\<close>

definition from_verify :: "(api_error, 'a) result \<Rightarrow> bool" where
  "from_verify r \<longleftrightarrow>
     (case r of Inr _ \<Rightarrow> True | Inl (st, body) \<Rightarrow> er_code body = ''verification_error'')"

lemma from_verify_simps [simp]:
  "from_verify (Ok x)"
  "\<not> from_verify (Err (api_replay_error m))"
  "\<not> from_verify (Err replay_state_http_error)"
  by (simp_all add: from_verify_def api_replay_error_def replay_state_http_error_def)

lemma decode_request_code: "decode_request L cfg q = Err e \<Longrightarrow> \<not> from_verify (Err e)"
  by (auto simp: decode_request_def decode_field_def decode_receipt_text_def result_simps
      from_verify_def split: sum.splits)

lemma begin_code:
  assumes "begin_transaction L J cfg s = (Err e, s')"
  shows "\<not> from_verify (Err e)"
proof (cases "ac_replay_state_path cfg")
  case None
  with assms show ?thesis by (simp add: begin_transaction_def)
next
  case (Some p)
  with assms show ?thesis
    by (cases "file_name_str p") (auto simp: begin_transaction_def io_simps replay_lock_path_def
        sibling_def result_simps split: if_splits)
qed

lemma restore_code: "restore_if_reserved rsv s = (Err e, s') \<Longrightarrow> \<not> from_verify (Err e)"
  by (cases rsv) (auto simp: restore_if_reserved_def io_simps)

lemma commit_code:
  assumes "commit L J cfg prev rsv s = (Err e, s')"
  shows "\<not> from_verify (Err e)"
proof -
  have consumed: "\<not> from_verify (Err e)" if "consume_if_reserved rsv s1 = (Err e, s')" for s1 :: service
    using that by (cases rsv) (auto simp: consume_if_reserved_def io_simps)
  have restored: "\<not> from_verify (Err e)" if "restore_if_reserved rsv s1 = (Err e, s')" for s1 :: service
    using that by (rule restore_code)
  show ?thesis
  proof (cases "ac_replay_state_path cfg")
    case None
    with assms consumed show ?thesis by (simp add: commit_def)
  next
    case (Some path)
    let ?prev = "case prev of Some m \<Rightarrow> m | None \<Rightarrow> Map.empty"
    obtain r1 s1 where p: "persist_replay_state_or_rollback L J (ac_pid cfg) path ?prev s = (r1, s1)"
      by fastforce
    obtain r2 s2 where r: "restore_if_reserved rsv s1 = (r2, s2)" by fastforce
    show ?thesis
      using assms Some p r consumed [of s1] restored [of s1]
      by (cases r1; cases r2) (auto simp: commit_def io_then.simps io_lift.simps)
  qed
qed

lemma snapshot_cases:
  "snapshot_state cfg s = (r, s') \<Longrightarrow> s' = s \<and> (\<forall>e. r = Err e \<longrightarrow> \<not> from_verify (Err e))"
  by (auto simp: snapshot_state_def result_simps split: if_splits sum.splits)

lemma handler_reaches:
  assumes h: "verify_handler L J quoted cfg tms q s = (r, s')" and r: "from_verify r"
    and p: "ac_replay_state_path cfg = Some p" "ac_require_issued_challenge cfg"
    and d: "challenge_directory p = Ok d" "decode_field L ''nonce'' (vq_nonce q) = Ok nonce"
  obtains s1 rsv s2 prev r3 s3 rb ex where
    "w_files s1 (path_join d (hex_encode L nonce)) = w_files s (path_join d (hex_encode L nonce))"
    "reserve_challenge L (ac_pid cfg) (tm_challenge tms) p nonce s1 = (Ok rsv, s2)"
    "run_verify L quoted tms rb ex s2 = (r3, s3)"
    "io_then (\<lambda>_. (r3, s3)) (\<lambda>result.
        if \<not> vr_valid result then
          io_then (restore_if_reserved (Some rsv)) (\<lambda>_. io_lift (Ok result))
        else io_then (commit L J cfg prev (Some rsv)) (\<lambda>_. io_lift (Ok result))) s2 = (r, s')"
proof (cases "decode_request L cfg q")
  case (Inl e)
  then have "r = Err e" using h by (simp add: verify_handler_def io_then.simps)
  with r decode_request_code [OF Inl] show ?thesis by blast
next
  case (Inr x)
  obtain rb ex where x: "x = (rb, ex)" by fastforce
  have nonce: "ex_nonce ex = nonce"
    using Inr x d(2) by (auto simp: decode_request_def result_simps)
  obtain r1 s1 where b: "begin_transaction L J cfg s = (r1, s1)" by fastforce
  have "challenge_file p (path_join d (hex_encode L nonce))"
    using d(1) by (auto simp: challenge_file_def)
  note f1 = begin_spares [OF b p(1) this]
  have r1: "r1 = Ok ()"
    using h Inr x b r begin_code [of L J cfg s _ s1]
    by (cases r1) (auto simp: verify_handler_def io_then.simps)
  obtain r2 s2 where rs: "reserve_challenge L (ac_pid cfg) (tm_challenge tms) p nonce s1 = (r2, s2)"
    by fastforce
  have r2: "\<exists>rsv. r2 = Ok rsv"
    using h Inr x b r r1 rs p nonce
    by (cases r2) (auto simp: verify_handler_def reserve_if_required_def io_then.simps
        io_map_err.simps from_verify_def)
  then obtain rsv where rsv: "r2 = Ok rsv" by blast
  obtain r3 s3 where rv: "run_verify L quoted tms rb ex s2 = (r3, s3)" by fastforce
  obtain r4 s4 where sn: "snapshot_state cfg s2 = (r4, s4)" by fastforce
  have s4: "s4 = s2" using snapshot_cases [OF sn] by blast
  have "\<exists>prev. r4 = Ok prev"
    using h Inr x b r r1 rs p nonce rsv sn snapshot_cases [OF sn]
    by (cases r4) (auto simp: verify_handler_def reserve_if_required_def io_then.simps
        io_map_err.simps io_lift.simps)
  then obtain prev where prev: "snapshot_state cfg s2 = (Ok prev, s2)" using sn s4 by blast
  show ?thesis
  proof (rule that [OF f1 rs [unfolded rsv] rv])
    show "io_then (\<lambda>_. (r3, s3)) (\<lambda>result.
        if \<not> vr_valid result then
          io_then (restore_if_reserved (Some rsv)) (\<lambda>_. io_lift (Ok result))
        else io_then (commit L J cfg prev (Some rsv)) (\<lambda>_. io_lift (Ok result))) s2 = (r, s')"
      using h Inr x b r1 rs p nonce rsv prev rv
      by (simp add: verify_handler_def reserve_if_required_def io_then.simps io_map_err.simps)
  qed
qed

text \<open>What has become of the challenge, by the kind of answer.\<close>

lemma handler_challenge:
  assumes h: "verify_handler L J quoted cfg tms q s = (r, s')" and r: "from_verify r"
    and p: "ac_replay_state_path cfg = Some p" "ac_require_issued_challenge cfg"
    and d: "challenge_directory p = Ok d" "decode_field L ''nonce'' (vq_nonce q) = Ok nonce"
    and a: "a = path_join d (hex_encode L nonce)"
  shows "live_challenge a (tm_challenge tms) (w_files s) \<and>
    w_files s' a = (case r of Inr res \<Rightarrow> if vr_valid res then None else w_files s a | Inl _ \<Rightarrow> None)"
proof -
  obtain s1 rsv s2 prev r3 s3 rb ex where
    f1: "w_files s1 a = w_files s a" and
    rs: "reserve_challenge L (ac_pid cfg) (tm_challenge tms) p nonce s1 = (Ok rsv, s2)" and
    rv: "run_verify L quoted tms rb ex s2 = (r3, s3)" and
    k: "io_then (\<lambda>_. (r3, s3)) (\<lambda>result.
        if \<not> vr_valid result then
          io_then (restore_if_reserved (Some rsv)) (\<lambda>_. io_lift (Ok result))
        else io_then (commit L J cfg prev (Some rsv)) (\<lambda>_. io_lift (Ok result))) s2 = (r, s')"
    by (rule handler_reaches [OF h r p d, folded a]) (rule that)
  obtain b where av: "available_path rsv = a" "reserved_path rsv \<noteq> a"
    and live: "live_challenge a (tm_challenge tms) (w_files s1)" "w_files s1 a = Some b"
    and f2: "w_files s2 = (w_files s1)(a := None, reserved_path rsv \<mapsto> b)"
    using reserve_files [OF rs d(1)] a by auto
  have f3: "w_files s3 = w_files s2" using run_verify_files [OF rv] .
  have live': "live_challenge a (tm_challenge tms) (w_files s)"
    using live(1) f1 by (simp add: live_challenge_def)
  show ?thesis
  proof (cases r3)
    case (Inl e)
    with k have "r = Err e" "s' = s3" by (simp_all add: io_then.simps)
    with live' f2 f3 av show ?thesis by simp
  next
    case (Inr result)
    show ?thesis
    proof (cases "vr_valid result")
      case False
      with k Inr have "io_then (restore_if_reserved (Some rsv)) (\<lambda>_. io_lift (Ok result)) s3 = (r, s')"
        by (simp add: io_then.simps)
      then have "restore rsv s3 = (Ok (), s') \<and> r = Ok result"
        using r restore_code [of "Some rsv" s3 _ s']
        by (auto simp: restore_if_reserved_def io_simps elim!: io_then_out)
      then have "restore rsv s3 = (Ok (), s')" "r = Ok result" by auto
      with live' False f1 f2 f3 av live(2) restore_files [of rsv s3 s' b] show ?thesis by simp
    next
      case True
      with k Inr have "io_then (commit L J cfg prev (Some rsv)) (\<lambda>_. io_lift (Ok result)) s3 = (r, s')"
        by (simp add: io_then.simps)
      then have "commit L J cfg prev (Some rsv) s3 = (Ok (), s') \<and> r = Ok result"
        using r commit_code [of L J cfg prev "Some rsv" s3 _ s'] by (auto elim!: io_then_out)
      then have c: "commit L J cfg prev (Some rsv) s3 = (Ok (), s')" "r = Ok result" by auto
      have "challenge_file p (available_path rsv)"
        using reserve_paths [OF rs] by blast
      from commit_valid_files [OF c(1) p(1) this] av True c(2) live' f2 f3 show ?thesis by simp
    qed
  qed
qed

section \<open>Issuing\<close>

lemma challenge_handler_Ok:
  assumes "challenge_handler L (Some p) now draws w = (Ok (name, e), w')"
  obtains d seconds nonce where "challenge_directory p = Ok d" "unix_seconds now = Ok seconds"
    "unat e = unat seconds + 300" "nonce \<in> draws ` {..<8}" "name = hex_encode L nonce"
    "w_files w (path_join d name) = None"
    "w_files w' = (w_files w)(path_join d name \<mapsto> challenge_record e)"
proof -
  obtain seconds e' d fs where u: "unix_seconds now = Ok seconds"
    and a: "checked_add_u64 seconds CHALLENGE_TTL_SECONDS = Some e'"
    and d: "challenge_directory p = Ok d"
    and al: "allocate_challenge L d e' (map draws [0..<8]) (w\<lparr>w_faults := fs\<rparr>) = (Ok (name, e), w')"
    using assms by (auto simp: challenge_handler_def io_simps result_simps dest!: io_outs)
  have e: "unat e' = unat seconds + 300"
    using a by (auto simp: checked_add_u64_def CHALLENGE_TTL_SECONDS_def unat_word_ariths split: if_splits)
  have "set (map draws [0..<8]) = draws ` {..<8}" by auto
  with allocate_challenge_Ok [OF al]
  obtain nonce where n: "nonce \<in> draws ` {..<8}" "name = hex_encode L nonce"
    by metis
  show ?thesis
    using allocate_challenge_Ok [OF al] u d e n by (intro that [of d seconds nonce]) auto
qed

text \<open>Reserving an existing record, without faults.\<close>

lemma reserve_record:
  assumes "challenge_directory p = Ok d" and "w_faults s = []"
    and "w_files s (path_join d (hex_encode L nonce)) = Some (challenge_record e)"
    and "unix_seconds t = Ok seconds"
  shows "seconds \<le> e \<Longrightarrow> \<exists>res s'. reserve_challenge L pid t p nonce s = (Ok res, s')"
    and "e < seconds \<Longrightarrow> \<exists>s'. reserve_challenge L pid t p nonce s = (Err ''challenge has expired'', s') \<and>
      w_files s' (path_join d (hex_encode L nonce)) = None"
proof -
  let ?a = "path_join d (hex_encode L nonce)"
  have rd: "fs_read_to_string ?a s = (Ok (str_of_bytes (challenge_record e)), s)"
    using assms(2,3) by (simp add: fs_read_to_string_def fs_read_def io_op_def take_fault_def
        io_then.simps utf8_challenge_record)
  show "\<exists>res s'. reserve_challenge L pid t p nonce s = (Ok res, s')" if "seconds \<le> e"
    using assms that rd challenge_directory_nonempty [OF assms(1)]
    by (simp add: fs_open_dir_def reserve_challenge_def io_then.simps io_map_err.simps read_challenge_record
        claim_challenge_def next_temp_def fs_rename_def io_op_def take_fault_def sync_directory_def
        sync_dir_def fs_effectless_def not_less Let_def)
  show "\<exists>s'. reserve_challenge L pid t p nonce s = (Err ''challenge has expired'', s') \<and>
      w_files s' ?a = None" if "e < seconds"
    using assms that rd
    by (simp add: reserve_challenge_def io_then.simps io_map_err.simps read_challenge_record
        fs_remove_def io_op_def take_fault_def)
qed

lemma reserve_dead:
  assumes "challenge_directory p = Ok d" and "w_files s (path_join d (hex_encode L nonce)) = None"
  shows "\<exists>e s'. reserve_challenge L pid t p nonce s = (Err e, s')"
  using assms reserve_files [of L pid t p nonce s _ _ d]
  by (cases "reserve_challenge L pid t p nonce s"; cases "fst (reserve_challenge L pid t p nonce s)")
    fastforce+

text \<open>Without faults, the first drawn nonce whose name is free is issued.\<close>

lemma allocate_first:
  assumes "w_faults w = []" and "d \<noteq> []" and "i < length nonces"
    and "w_files w (path_join d (hex_encode L (nonces ! i))) = None"
    and "\<forall>j < i. w_files w (path_join d (hex_encode L (nonces ! j))) \<noteq> None"
  shows "\<exists>w'. allocate_challenge L d e nonces w = (Ok (hex_encode L (nonces ! i), e), w')"
  using assms(3-5)
proof (induction nonces arbitrary: i)
  case (Cons nonce nonces)
  let ?p = "path_join d (hex_encode L nonce)"
  show ?case
  proof (cases i)
    case 0
    with Cons.prems assms(1,2) show ?thesis
      by (simp add: fs_open_dir_def fs_create_new_def io_op_def take_fault_def io_then.simps io_map_err.simps
          fs_effectless_def fs_write_all_def append_to_def sync_directory_def sync_dir_def)
  next
    case (Suc k)
    have "w_files w ?p \<noteq> None" using Cons.prems(3) Suc by fastforce
    then have c: "fs_create_new ?p w = (Err (IoError True ''File exists (os error 17)''), w)"
      using assms(1) by (simp add: fs_create_new_def io_op_def take_fault_def)
    have "\<forall>j < k. w_files w (path_join d (hex_encode L (nonces ! j))) \<noteq> None"
      using Cons.prems(3) Suc by (metis Suc_less_eq nth_Cons_Suc)
    then have "\<exists>w'. allocate_challenge L d e nonces w = (Ok (hex_encode L (nonces ! k), e), w')"
      using Cons.IH [of k] Cons.prems(1,2) Suc by simp
    with Suc c show ?thesis by simp
  qed
qed simp

end
