(* ===== verification/Calm_Runs.thy ===== *)
theory Calm_Runs
  imports Challenge_Facts
begin

text \<open>
  What one request does when no file operation fails, computed to the end: the reload that
  does not happen when the state file is not seen, the replacement of the state file, and
  the answer.  With a bare file name as the state file the last step, syncing its parent,
  cannot succeed.
\<close>

section \<open>Operations that work\<close>

lemmas calm_simps = io_then.simps io_map_err.simps io_op_def take_fault_def fs_rename_def
  fs_remove_def fs_create_new_def fs_open_create_def fs_write_all_def append_to_def
  fs_effectless_def fs_open_dir_def sync_dir_def

lemma persist_calm:
  assumes "w_faults s = []" and "get_state (sv_verifier s) = Ok (Some m)"
    and "encoded_state L J m = Ok b" and "file_name_str p = Some name"
    and "w_files s (temporary_path p name pid (sv_counter s)) = None"
  shows "persist_replay_state L J pid p s =
    (if parent_or_here p = []
     then Err (''failed to sync replay state directory: '' @ io_text not_found) else Ok (),
     s\<lparr>w_files := (w_files s)(p \<mapsto> b), sv_counter := sv_counter s + 1\<rparr>)"
proof -
  define tmp where "tmp = temporary_path p name pid (sv_counter s)"
  have "tmp \<noteq> p" using temporary_path_fresh [OF assms(4)] by (simp add: tmp_def)
  moreover have "(w_files s)(tmp := None, p \<mapsto> b) = (w_files s)(p \<mapsto> b)"
    using assms(5) calculation by (auto simp: tmp_def fun_eq_iff)
  ultimately show ?thesis
    using assms
    by (simp add: persist_replay_state_def next_temp_def tmp_def [symmetric] write_and_replace_def
        calm_simps)
qed

lemma begin_calm:
  assumes "w_faults s = []" and "ac_replay_state_path cfg = Some p"
    and "replay_lock_path p = Ok l" and "\<not> fs_exists p s"
  shows "begin_transaction L J cfg s =
    (Ok (), s\<lparr>w_files := if w_files s l = None then (w_files s)(l \<mapsto> []) else w_files s\<rparr>)"
  using assms lock_not_state [OF assms(3)]
  by (auto simp: begin_transaction_def acquire_replay_lock_def fs_exists_def calm_simps)

section \<open>A request that finds no state file\<close>

lemma temporary_not_lock:
  assumes "file_name_str p = Some name" and "replay_lock_path p = Ok l"
  shows "temporary_path p name pid c \<noteq> l"
proof
  assume "temporary_path p name pid c = l"
  then have "''.'' @ name @ ''.'' @ show_nat pid @ ''.'' @ show_u64 c @ ''.tmp'' = ''.'' @ name @ ''.lock''"
    using assms by (auto simp: replay_lock_path_def sibling_def result_simps temporary_path_def
        path_join_def)
  then have "rev (''.'' @ show_nat pid @ ''.'' @ show_u64 c @ ''.tmp'') = rev ''.lock''" by simp
  then show False by simp
qed

text \<open>
  The verifier's own memory decides: what it accepts replaces the state file, and is answered
  unless the parent directory cannot be opened.
\<close>

lemma handler_calm:
  assumes cfg: "ac_replay_state_path cfg = Some p" "\<not> ac_require_issued_challenge cfg"
      "file_name_str p = Some name"
    and s: "\<not> fs_exists p s" "w_faults s = []" "vf_state (sv_verifier s) = Some (Healthy own)"
      "w_files s (temporary_path p name (ac_pid cfg) (sv_counter s)) = None"
    and q: "decode_request L cfg q = Ok (rb, ex)"
    and v: "verify L (tm_clock tms) (tm_now tms) rb ex (sv_verifier s) = (Ok res, v')" "vr_valid res"
    and b: "get_state v' = Ok (Some m)" "encoded_state L J m = Ok b"
  shows "\<exists>s'. verify_handler L J quoted cfg tms q s =
      (if parent_or_here p = [] then Err (api_replay_error
         ''Verification succeeded but replay state could not be persisted'') else Ok res, s') \<and>
    w_files s' p = Some b \<and>
    sv_verifier s' = (if parent_or_here p = [] then with_state v' own else v')"
proof -
  obtain l where l: "replay_lock_path p = Ok l"
    using cfg(3) by (simp add: replay_lock_path_def sibling_def)
  define s1 where "s1 = s\<lparr>w_files := if w_files s l = None then (w_files s)(l \<mapsto> []) else w_files s\<rparr>"
  have begins: "begin_transaction L J cfg s = (Ok (), s1)"
    unfolding s1_def by (rule begin_calm [OF s(2) cfg(1) l s(1)])
  define s2 where "s2 = s1\<lparr>sv_verifier := v'\<rparr>"
  have s2: "w_faults s2 = []" "sv_verifier s2 = v'" "sv_counter s2 = sv_counter s"
    "w_files s2 (temporary_path p name (ac_pid cfg) (sv_counter s2)) = None"
    using s temporary_not_lock [OF cfg(3) l] by (simp_all add: s2_def s1_def)
  note persists = persist_calm [OF s2(1) _ b(2) cfg(3) s2(4), unfolded s2(2), OF b(1)]
  have healthy: "\<exists>m'. vf_state v' = Some (Healthy m')"
    using b(1) by (cases "vf_state v'"; cases "the (vf_state v')") (auto simp: get_state_def)
  have "verify_handler L J quoted cfg tms q s =
      io_then (commit L J cfg (Some own) None) (\<lambda>_. io_lift (Ok res)) s2"
    using begins q cfg s v
    by (simp add: verify_handler_def reserve_if_required_def snapshot_state_def get_state_def
        run_verify_def calm_simps s1_def s2_def)
  then show ?thesis
    using persists healthy cfg(1)
    by (auto simp: commit_def persist_replay_state_or_rollback_def consume_if_reserved_def
        restore_if_reserved_def set_state_def with_state_def s2(2) io_then.simps)
qed

section \<open>A bare file name\<close>

text \<open>Whatever happens, a request is not answered with a valid result.\<close>

lemma persist_bare:
  assumes "parent_or_here p = []"
  shows "fst (persist_replay_state L J pid p s) \<noteq> Ok ()"
proof
  assume "fst (persist_replay_state L J pid p s) = Ok ()"
  then obtain s' where "persist_replay_state L J pid p s = (Ok (), s')"
    by (cases "persist_replay_state L J pid p s") auto
  then obtain tmp bs s1 s2 where "write_and_replace tmp p bs s1 = (Ok (), s2 :: service)"
    by (auto simp: persist_replay_state_def Let_def split: sum.splits option.splits prod.splits)
  then show False
    using assms by (auto simp: write_and_replace_def io_simps dest!: sync_dir_out)
qed

lemma commit_bare:
  assumes "parent_or_here p = []" and "ac_replay_state_path cfg = Some p"
  shows "\<exists>e. fst (commit L J cfg prev rsv s) = Err e"
proof -
  obtain r1 s1 where "persist_replay_state_or_rollback L J (ac_pid cfg) p
      (case prev of Some m \<Rightarrow> m | None \<Rightarrow> Map.empty) s = (r1, s1)" by fastforce
  moreover from this have "\<exists>e. r1 = Err e"
    using persist_bare [OF assms(1), of L J "ac_pid cfg" s]
    by (auto simp: persist_replay_state_or_rollback_def split: sum.splits prod.splits)
  ultimately show ?thesis
    using assms(2) by (auto simp: commit_def io_then.simps split: sum.splits prod.splits)
qed

lemma handler_bare:
  assumes "verify_handler L J quoted cfg tms q s = (Ok res, s')"
    and "ac_replay_state_path cfg = Some p" and "parent_or_here p = []"
  shows "\<not> vr_valid res"
proof
  assume valid: "vr_valid res"
  with assms(1) obtain prev rsv s1 u s2 where "commit L J cfg prev rsv s1 = (Ok u, s2)"
    by (auto simp: verify_handler_def io_simps split: prod.splits if_splits)
  with commit_bare [OF assms(3,2), of L J prev rsv s1] show False by auto
qed

end
