(* ===== verification/Sample_Service.thy ===== *)
theory Sample_Service
  imports Sample_Instance Service_Start Calm_Runs "HOL-Library.List_Lexorder"
begin

text \<open>
  A concrete service on the sample instance: a JSON crate that knows two documents, a
  state file in a directory, one process and one issued challenge.  The
  witnesses run the handlers on it.
\<close>

section \<open>Values\<close>

definition sample_entry :: "(str \<times> u64) list" where
  "sample_entry = [(str_of_bytes (replicate 32 1), 0)]"

text \<open>Iteration in the order of the keys.\<close>

definition sample_iter :: "replay_state \<Rightarrow> (bytes \<times> u64) list" where
  "sample_iter m = map (\<lambda>b. (map word_of_nat b, the (m (map word_of_nat b))))
     (sorted_list_of_set (map unat ` dom m))"

definition sample_json :: json_lib where
  "sample_json =
     \<lparr>json_decode_map = (\<lambda>b. if b = [91] then Ok [] else if b = [92] then Ok sample_entry
        else Err sample_error),
      json_encode_map = (\<lambda>kvs. if kvs = [] then Ok [91] else if kvs = sample_entry then Ok [92]
        else Err sample_error),
      hash_map_iter = sample_iter\<rparr>"

definition sample_state_path :: path where
  "sample_state_path = [Normal ''srv'', Normal ''state'']"

definition sample_config :: app_config where
  "sample_config = \<lparr>ac_expected_pcr0 = replicate 48 0,
     ac_replay_state_path = Some sample_state_path, ac_require_issued_challenge = True, ac_pid = 1\<rparr>"

definition sample_challenge_path :: path where
  "sample_challenge_path = [Normal ''srv'', Normal ''.state.challenges'', Normal (str_of_bytes sample_nonce)]"

definition sample_files :: "path \<rightharpoonup> bytes" where
  "sample_files = [sample_challenge_path \<mapsto> challenge_record 1300]"

definition sample_service :: service where
  "sample_service = \<lparr>w_files = sample_files, w_faults = [], w_stat_fails = False,
     sv_verifier = sample_verifier True, sv_counter = 0\<rparr>"

definition sample_times :: request_times where
  "sample_times = \<lparr>tm_challenge = sample_time, tm_clock = (\<lambda>_. sample_time), tm_now = sample_time\<rparr>"

definition sample_request :: "bytes \<Rightarrow> verify_request" where
  "sample_request receipt = \<lparr>vq_receipt = str_of_bytes receipt,
     vq_model_hash = str_of_bytes (replicate 32 1), vq_input_hash = str_of_bytes (replicate 32 1),
     vq_output_hash = str_of_bytes (replicate 32 1), vq_nonce = str_of_bytes sample_nonce\<rparr>"

definition sample_process :: process where
  "sample_process = \<lparr>pr_pid = 1, pr_verifier = sample_verifier True, pr_counter = 0\<rparr>"

definition sample_cluster :: cluster where
  "sample_cluster = \<lparr>cl_files = sample_files, cl_processes = [sample_process, sample_process]\<rparr>"

section \<open>Laws\<close>

lemma sample_iter_entries:
  assumes "finite (dom m)"
  shows "distinct (map fst (sample_iter m)) \<and> map_of (sample_iter m) = m"
proof -
  let ?f = "map word_of_nat :: nat list \<Rightarrow> bytes"
  let ?ks = "sorted_list_of_set (map unat ` dom m)"
  have inv: "?f (map unat b) = b" for b :: bytes
    by (induction b) simp_all
  then have inv': "map (word_of_nat \<circ> unat) b = b" for b :: bytes
    by simp
  have ks: "set ?ks = map unat ` dom m" "distinct ?ks" using assms by simp_all
  have "inj_on ?f (set ?ks)"
    by (rule inj_on_inverseI [where g = "map unat"]) (auto simp: ks inv)
  moreover have "map fst (sample_iter m) = map ?f ?ks"
    by (simp add: sample_iter_def)
  ultimately have d: "distinct (map fst (sample_iter m))"
    using ks(2) by (simp add: distinct_map)
  have "set (sample_iter m) = (\<lambda>k. (k, the (m k))) ` dom m"
    by (simp add: sample_iter_def ks(1) image_image inv')
  then have "map_of (sample_iter m) k = Some n \<longleftrightarrow> m k = Some n" for k n
    unfolding map_of_eq_Some_iff [OF d] by (auto simp: image_iff)
  then have "map_of (sample_iter m) k = m k" for k
    by (metis not_Some_eq)
  with d show ?thesis by blast
qed

lemma sample_json_laws: "json_roundtrips sample_json"
proof -
  have iter: "distinct (map fst (sample_iter m)) \<and> map_of (sample_iter m) = m"
    if "finite (dom m)" for m
    using that by (rule sample_iter_entries)
  have codec: "json_decode_map sample_json b = Ok kvs"
    if "json_encode_map sample_json kvs = Ok b" for kvs b
    using that by (auto simp: sample_json_def split: if_splits)
  have "hash_map_iter sample_json = sample_iter"
    by (simp add: sample_json_def)
  with iter codec show ?thesis
    by (auto simp: json_roundtrips_def)
qed

lemma sample_cluster_ok: "cluster_ok sample_lib sample_json sample_state_path sample_cluster"
  using sample_laws sample_json_laws
  by (simp add: cluster_ok_def sample_cluster_def process_ok_def sample_process_def)

lemma sample_challenge_directory:
  "challenge_directory sample_state_path = Ok [Normal ''srv'', Normal ''.state.challenges'']"
  by (simp add: challenge_directory_def sibling_def sample_state_path_def file_name_str_def
      parent_or_here_def path_parent_def path_join_def)

section \<open>Runs\<close>

lemma sample_hex [simp]:
  "hex_encode sample_lib b = str_of_bytes b" "hex_decode sample_lib (str_of_bytes b) = Ok b"
  by (simp_all add: sample_lib_def)

lemma sample_decode [simp]:
  "decode_request sample_lib cfg (sample_request rb) =
     Ok (rb, sample_expectation\<lparr>ex_pcr0 := ac_expected_pcr0 cfg\<rparr>)"
  "decode_field sample_lib name (str_of_bytes sample_nonce) = Ok sample_nonce"
  "decode_receipt_text sample_lib (str_of_bytes rb) = Ok rb"
  by (simp_all add: decode_request_def decode_receipt_text_def decode_field_def decode_hex_32_def
      sample_request_def sample_nonce_def sample_expectation_def mock_expectation_def)

lemma sample_verify:
  "\<exists>res m. vr_valid res \<and> m = [replicate 32 1 \<mapsto> 0] \<and>
    verify sample_lib (\<lambda>_. sample_time) sample_time [1]
      (sample_expectation\<lparr>ex_pcr0 := ac_expected_pcr0 sample_config\<rparr>) (sample_verifier True) =
    (Ok res, (sample_verifier True)\<lparr>vf_state := Some (Healthy m)\<rparr>)"
proof -
  obtain doc where acc: "receipt_acceptable sample_lib (sample_verifier True) (\<lambda>_. sample_time)
      sample_time [1] sample_expectation sample_claims doc"
    using sample_acceptable by blast
  have adm: "admits sample_lib (sample_verifier True) sample_claims doc"
    by (simp add: admits_def)
  have ex: "sample_expectation\<lparr>ex_pcr0 := ac_expected_pcr0 sample_config\<rparr> = sample_expectation"
    by (simp add: sample_expectation_def mock_expectation_def sample_config_def)
  have rec: "recorded sample_lib (sample_verifier True) sample_claims doc =
      (sample_verifier True)\<lparr>vf_state := Some (Healthy [replicate 32 1 \<mapsto> 0])\<rparr>"
    by (simp add: recorded_def compute_identity_fingerprint_def sample_claims_def)
      (simp add: sample_lib_def)
  show ?thesis
    using verify_complete [OF sample_representable acc adm]
    by (simp add: ex rec accept_result_def)
qed

lemma sample_accepts:
  assumes "sv_verifier s = sample_verifier True"
  shows "\<exists>res m. vr_valid res \<and> m = [replicate 32 1 \<mapsto> 0] \<and>
    run_verify sample_lib quoted sample_times [1]
      (sample_expectation\<lparr>ex_pcr0 := ac_expected_pcr0 sample_config\<rparr>) s =
    (Ok res, s\<lparr>sv_verifier := (sample_verifier True)\<lparr>vf_state := Some (Healthy m)\<rparr>\<rparr>)"
  using sample_verify assms by (auto simp: run_verify_def sample_times_def)

lemmas io_run = io_then.simps io_map_err.simps io_op_def take_fault_def fs_read_def fs_exists_def
  fs_rename_def fs_remove_def fs_create_new_def fs_open_create_def fs_write_all_def append_to_def
  fs_effectless_def fs_open_dir_def sync_dir_def sync_directory_def

lemma sample_service_simps [simp]:
  "w_files sample_service = sample_files" "w_faults sample_service = []"
  "\<not> w_stat_fails sample_service" "sv_verifier sample_service = sample_verifier True"
  "sv_counter sample_service = 0"
  "ac_replay_state_path sample_config = Some sample_state_path"
  "ac_require_issued_challenge sample_config" "ac_pid sample_config = 1"
  by (simp_all add: sample_service_def sample_config_def)

lemma sample_persist:
  "\<exists>s'. persist_replay_state sample_lib sample_json 1 sample_state_path sample_service = (Ok (), s') \<and>
     w_files s' sample_state_path = Some [91]"
  by (simp add: persist_replay_state_def get_state_def encoded_state_def sample_json_def
      sample_iter_def file_name_str_def next_temp_def temporary_path_def path_join_def
      parent_or_here_def path_parent_def write_and_replace_def io_run sample_state_path_def
      sample_files_def sample_challenge_path_def)

lemma sample_reserve:
  "\<exists>s1 rsv s2. begin_transaction sample_lib sample_json sample_config sample_service = (Ok (), s1) \<and>
     reserve_challenge sample_lib 1 sample_time sample_state_path sample_nonce s1 = (Ok rsv, s2) \<and>
     sv_verifier s2 = sample_verifier True \<and> w_faults s2 = []"
proof -
  let ?s1 = "sample_service\<lparr>w_files := sample_files([Normal ''srv'', Normal ''.state.lock''] \<mapsto> [])\<rparr>"
  have "begin_transaction sample_lib sample_json sample_config sample_service = (Ok (), ?s1)"
    by (simp add: begin_transaction_def replay_lock_path_def sibling_def sample_state_path_def
        file_name_str_def parent_or_here_def path_parent_def path_join_def acquire_replay_lock_def
        io_run sample_files_def sample_challenge_path_def)
  moreover have "\<exists>rsv s2. reserve_challenge sample_lib 1 sample_time sample_state_path sample_nonce ?s1 =
      (Ok rsv, s2) \<and> sv_verifier s2 = sample_verifier True \<and> w_faults s2 = []"
    by (simp add: reserve_challenge_def sample_challenge_directory io_run fs_read_to_string_def
        path_join_def sample_files_def sample_challenge_path_def utf8_challenge_record
        read_challenge_record unix_seconds_def since_epoch_def as_secs_def sample_time_def
        claim_challenge_def next_temp_def Let_def)
  ultimately show ?thesis by blast
qed

text \<open>A request with bytes that are no receipt, and one with a receipt that is too large.\<close>

definition sample_no_receipt :: bytes where "sample_no_receipt = [9]"
definition sample_large_receipt :: bytes where "sample_large_receipt = replicate 70000 1"

lemma sample_invalid:
  assumes "sv_verifier s = sample_verifier True"
  shows "\<exists>res. run_verify sample_lib quoted sample_times sample_no_receipt
      (sample_expectation\<lparr>ex_pcr0 := ac_expected_pcr0 sample_config\<rparr>) s = (Ok res, s) \<and> \<not> vr_valid res"
proof -
  have "cose_from_slice sample_lib sample_no_receipt = Err sample_error"
    by (simp add: sample_lib_def sample_no_receipt_def)
  moreover have "length sample_no_receipt = 1"
    by (simp add: sample_no_receipt_def)
  ultimately show ?thesis
    using assms
    by (simp add: run_verify_def verify_def verify_checks_def check_limits_def parse_receipt_def
        sample_config_def default_config_def fail_result_def stop_with_def)
qed

lemma sample_error_run:
  assumes "sv_verifier s = sample_verifier True"
  shows "\<exists>status body. run_verify sample_lib quoted sample_times sample_large_receipt
      (sample_expectation\<lparr>ex_pcr0 := ac_expected_pcr0 sample_config\<rparr>) s = (Err (status, body), s) \<and>
      er_code body = ''verification_error''"
  using assms
  by (simp add: run_verify_def verify_def verify_checks_def check_limits_def
      sample_large_receipt_def sample_config_def default_config_def)

lemma sample_handler_run:
  assumes b: "begin_transaction sample_lib sample_json sample_config sample_service = (Ok (), s1)"
    and r: "reserve_challenge sample_lib 1 sample_time sample_state_path sample_nonce s1 = (Ok rsv, s2)"
    and v: "sv_verifier s2 = sample_verifier True"
  shows "verify_handler sample_lib sample_json quoted sample_config sample_times (sample_request rb)
       sample_service =
     io_then (run_verify sample_lib quoted sample_times rb
         (sample_expectation\<lparr>ex_pcr0 := ac_expected_pcr0 sample_config\<rparr>))
       (\<lambda>result. if \<not> vr_valid result then
           io_then (restore_if_reserved (Some rsv)) (\<lambda>_. io_lift (Ok result))
         else io_then (commit sample_lib sample_json sample_config (Some Map.empty) (Some rsv))
           (\<lambda>_. io_lift (Ok result))) s2"
proof -
  have n: "ex_nonce sample_expectation = sample_nonce" "tm_challenge sample_times = sample_time"
    by (simp_all add: sample_expectation_def mock_expectation_def sample_times_def)
  show ?thesis
    using b r v n
    by (simp add: verify_handler_def io_then.simps io_map_err.simps reserve_if_required_def
        snapshot_state_def get_state_def)
qed

lemma sample_refused:
  "\<exists>res s'. verify_handler sample_lib sample_json quoted sample_config sample_times
     (sample_request sample_no_receipt) sample_service = (Ok res, s') \<and> \<not> vr_valid res"
proof -
  obtain s1 rsv s2 where b: "begin_transaction sample_lib sample_json sample_config sample_service = (Ok (), s1)"
    and r: "reserve_challenge sample_lib 1 sample_time sample_state_path sample_nonce s1 = (Ok rsv, s2)"
    and v: "sv_verifier s2 = sample_verifier True" "w_faults s2 = []"
    using sample_reserve by blast
  obtain res where run: "run_verify sample_lib quoted sample_times sample_no_receipt
      (sample_expectation\<lparr>ex_pcr0 := ac_expected_pcr0 sample_config\<rparr>) s2 = (Ok res, s2)" "\<not> vr_valid res"
    using sample_invalid [OF v(1)] by blast
  have d: "\<exists>d. path_parent (available_path rsv) = Some d \<and> d \<noteq> []" "w_files s2 (reserved_path rsv) \<noteq> None"
    using reserve_files [OF r sample_challenge_directory]
    by (auto simp: path_join_def path_parent_def)
  have "\<exists>s'. restore_if_reserved (Some rsv) s2 = (Ok (), s')"
    using d v(2) by (auto simp: restore_if_reserved_def restore_def io_run)
  then show ?thesis
    using sample_handler_run [OF b r v(1), of quoted sample_no_receipt] run
    by (auto simp: io_then.simps)
qed

lemma sample_error_answer:
  "\<exists>status body s'. verify_handler sample_lib sample_json quoted sample_config sample_times
     (sample_request sample_large_receipt) sample_service = (Err (status, body), s') \<and>
     er_code body = ''verification_error''"
proof -
  obtain s1 rsv s2 where b: "begin_transaction sample_lib sample_json sample_config sample_service = (Ok (), s1)"
    and r: "reserve_challenge sample_lib 1 sample_time sample_state_path sample_nonce s1 = (Ok rsv, s2)"
    and v: "sv_verifier s2 = sample_verifier True" "w_faults s2 = []"
    using sample_reserve by blast
  show ?thesis
    using sample_handler_run [OF b r v(1), of quoted sample_large_receipt]
      sample_error_run [OF v(1), of quoted]
    by (auto simp: io_then.simps)
qed

text \<open>Issuing the challenge.\<close>

lemma sample_challenge:
  "\<exists>w'. challenge_handler sample_lib (Some sample_state_path) sample_time (\<lambda>_. sample_nonce)
     \<lparr>w_files = Map.empty, w_faults = [], w_stat_fails = False\<rparr> =
     (Ok (str_of_bytes sample_nonce, 1300), w')"
proof -
  have "map (\<lambda>_. sample_nonce) [0..<8] = sample_nonce # map (\<lambda>_. sample_nonce) [1..<8]"
    by (simp add: upt_rec)
  then show ?thesis
    by (simp add: challenge_handler_def sample_challenge_directory io_run unix_seconds_def
        since_epoch_def as_secs_def sample_time_def checked_add_u64_def CHALLENGE_TTL_SECONDS_def
        Let_def del: map_eq_conv)
qed

section \<open>Processes without the shared memory\<close>

text \<open>A process that has accepted nothing and requires no issued challenges, over a given state
  file with given contents, and a \<open>stat\<close> that fails.\<close>

definition sample_open_config :: "path \<Rightarrow> app_config" where
  "sample_open_config p =
     sample_config\<lparr>ac_require_issued_challenge := False, ac_replay_state_path := Some p\<rparr>"

definition sample_blind_service :: "(path \<rightharpoonup> bytes) \<Rightarrow> service" where
  "sample_blind_service files = \<lparr>w_files = files, w_faults = [],
     w_stat_fails = True, sv_verifier = sample_verifier True, sv_counter = 0\<rparr>"

definition sample_bare_path :: path where
  "sample_bare_path = [Normal ''state'']"

lemma sample_number: "receipt_number sample_lib [1] = Some (replicate 32 1, 0)"
proof -
  let ?ex = "sample_expectation\<lparr>ex_pcr0 := ac_expected_pcr0 sample_config\<rparr>"
  obtain res m where res: "vr_valid res" "m = [replicate 32 1 \<mapsto> 0 :: u64]"
    and run: "run_verify sample_lib id sample_times [1] ?ex sample_service =
      (Ok res, sample_service\<lparr>sv_verifier := (sample_verifier True)\<lparr>vf_state := Some (Healthy m)\<rparr>\<rparr>)"
    using sample_accepts [of sample_service id] by auto
  have "vf_state (sv_verifier sample_service) = Some (Healthy Map.empty)" by simp
  with run show ?thesis
  proof (cases rule: run_verify_outcome)
    case (accepted res' k n)
    have "m = [k \<mapsto> n]"
      using arg_cong [OF accepted(5), of "\<lambda>s. vf_state (sv_verifier s)"] by simp
    then have "m k = Some n" by simp
    then have "k = replicate 32 1 \<and> n = 0"
      unfolding res(2) by (simp only: fun_upd_apply option.inject split: if_splits) simp
    with accepted(3) show ?thesis by simp
  qed (use res in simp)
qed

lemma sample_replay_codec:
  "decode_state sample_lib sample_json [92] = Ok [replicate 32 1 \<mapsto> 0]"
  "encoded_state sample_lib sample_json [replicate 32 1 \<mapsto> 0] = Ok [92]"
  by (simp_all add: decode_state_def encoded_state_def sample_json_def sample_iter_def
      sample_entry_def decode_hex_32_def)

section \<open>A start on hardware\<close>

definition pinned_lib :: lib where
  "pinned_lib = sample_lib\<lparr>sha256 := \<lambda>_. hd AWS_NITRO_ROOT_FINGERPRINTS\<rparr>"

definition pinned_env :: environment where
  "pinned_env = [''TRUSTED_ROOT_CERT_PEM'' \<mapsto> sample_pem, ''EXPECTED_PCR0'' \<mapsto> replicate 48 (CHR 0x41)]"

lemma pinned_start:
  "\<exists>cfg v w'. start_service True pinned_lib sample_json (\<lambda>_. []) pinned_env (Some sample_state_path) 1
     (offline_provider pinned_lib) \<lparr>w_files = Map.empty, w_faults = [], w_stat_fails = False\<rparr> =
     (Ok (cfg, v), w')"
proof -
  have pem: "validate_root_pem_with_allowlist pinned_lib sample_pem AWS_NITRO_ROOT_FINGERPRINTS = Ok ()"
    using sample_pem_lines
    by (simp add: validate_root_pem_with_allowlist_def pinned_lib_def sample_lib_def
        AWS_NITRO_ROOT_FINGERPRINTS_def)
  have sub: "sublist ''BEGIN CERTIFICATE'' sample_pem"
    unfolding sublist_def
    by (intro exI [of _ "''-----''"] exI [of _ "''-----'' @ [CHR 0x0A] @ ''AA'' @ [CHR 0x0A] @ END_CERTIFICATE"])
      (simp add: sample_pem_def)
  have root: "load_trusted_root True pinned_lib (\<lambda>_. []) pinned_env w = (Ok sample_pem, w)" for w :: world
    using pem sub
    by (simp add: load_trusted_root_def pinned_env_def validate_configured_roots_def
        validate_aws_nitro_root_pem_def)
  have pcr0: "load_expected_pcr0 pinned_lib pinned_env = Ok (replicate 48 0x41)"
    by (simp add: load_expected_pcr0_def pinned_env_def pinned_lib_def sample_lib_def as_bytes_def)
  obtain v where "from_pem pinned_lib (offline_provider pinned_lib) sample_pem True = Ok v"
    using validated_pem_loads [OF pem, of "offline_provider pinned_lib" True default_config]
    by (auto simp: from_pem_def)
  with root pcr0 show ?thesis
    by (simp add: start_service_def io_then.simps io_map_err.simps fs_exists_def)
qed

end
