(* ===== verification/Wasm_Verifier.thy ===== *)
theory Wasm_Verifier
  imports Trusted_Roots Verifier_Results
begin

text \<open>
  The stateless verifier of \<open>crates/veriai-wasm/src/lib.rs\<close>: a request with encoded
  fields is decoded, a verifier is built from the PEM roots it names, and one call of
  \<open>verify\<close> answers it.  The JavaScript values of the binding are a type parameter, and
  their conversions are parameters.
\<close>

section \<open>The code\<close>

record wasm_request =
  wq_receipt :: str
  wq_model_hash :: str
  wq_input_hash :: str
  wq_output_hash :: str
  wq_nonce :: str
  wq_expected_pcr0 :: str
  wq_trusted_root_pem :: str

definition wasm_decode_receipt :: "lib \<Rightarrow> str \<Rightarrow> (str, bytes) result" where
  "wasm_decode_receipt L value =
     (case hex_decode L value of
        Inr bytes \<Rightarrow> Ok bytes
      | Inl _ \<Rightarrow> map_err (\<lambda>_. ''receipt must be hex or base64'') (base64_decode L value))"

definition wasm_decode_hex_32 :: "lib \<Rightarrow> str \<Rightarrow> str \<Rightarrow> (str, bytes) result" where
  "wasm_decode_hex_32 L name value =
     and_then (map_err (\<lambda>error. name @ '' is not valid hex: '' @ err_display error)
                 (hex_decode L value)) (\<lambda>bytes.
       if length bytes = 32 then Ok bytes
       else Err (name @ '' must be 32 bytes, got '' @ show_nat (length bytes)))"

definition wasm_decode_pcr0 :: "lib \<Rightarrow> str \<Rightarrow> (str, bytes) result" where
  "wasm_decode_pcr0 L value =
     and_then (map_err (\<lambda>error. ''expected_pcr0 is not valid hex: '' @ err_display error)
                 (hex_decode L value)) (\<lambda>expected_pcr0.
       if length expected_pcr0 \<noteq> 48 then
         Err (''expected_pcr0 must be 48 bytes, got '' @ show_nat (length expected_pcr0))
       else Ok expected_pcr0)"

definition wasm_verify ::
  "lib \<Rightarrow> (nat \<Rightarrow> system_time) \<Rightarrow> system_time \<Rightarrow> wasm_request \<Rightarrow> (str, verification_result) result"
where
  "wasm_verify L clock now request =
     and_then (wasm_decode_receipt L (wq_receipt request)) (\<lambda>receipt.
     and_then (wasm_decode_hex_32 L ''model_hash'' (wq_model_hash request)) (\<lambda>model_hash.
     and_then (wasm_decode_hex_32 L ''input_hash'' (wq_input_hash request)) (\<lambda>input_hash.
     and_then (wasm_decode_hex_32 L ''output_hash'' (wq_output_hash request)) (\<lambda>output_hash.
     and_then (wasm_decode_hex_32 L ''nonce'' (wq_nonce request)) (\<lambda>nonce.
     and_then (wasm_decode_pcr0 L (wq_expected_pcr0 request)) (\<lambda>expected_pcr0.
     and_then (from_pem L (offline_provider L) (wq_trusted_root_pem request) False) (\<lambda>verifier.
       map_err show_verify_error
         (fst (verify L clock now receipt
            \<lparr>ex_model_hash = model_hash, ex_input_hash = input_hash, ex_output_hash = output_hash,
             ex_nonce = nonce, ex_pcr0 = expected_pcr0\<rparr> verifier)))))))))"

definition verify_receipt ::
  "('js \<Rightarrow> (str, wasm_request) result) \<Rightarrow> (verification_result \<Rightarrow> (str, 'js) result) \<Rightarrow> (str \<Rightarrow> 'js) \<Rightarrow>
   lib \<Rightarrow> (nat \<Rightarrow> system_time) \<Rightarrow> system_time \<Rightarrow> 'js \<Rightarrow> ('js, 'js) result" where
  "verify_receipt from_value to_value from_str L clock now request =
     and_then (map_err from_str (from_value request)) (\<lambda>request.
     and_then (map_err from_str (wasm_verify L clock now request)) (\<lambda>result.
       map_err from_str (to_value result)))"

section \<open>What the fields decode to\<close>

definition wasm_decodes :: "lib \<Rightarrow> wasm_request \<Rightarrow> bytes \<Rightarrow> expectation \<Rightarrow> bool" where
  "wasm_decodes L q receipt ex \<longleftrightarrow>
     wasm_decode_receipt L (wq_receipt q) = Ok receipt \<and>
     hex_decode L (wq_model_hash q) = Ok (ex_model_hash ex) \<and> length (ex_model_hash ex) = 32 \<and>
     hex_decode L (wq_input_hash q) = Ok (ex_input_hash ex) \<and> length (ex_input_hash ex) = 32 \<and>
     hex_decode L (wq_output_hash q) = Ok (ex_output_hash ex) \<and> length (ex_output_hash ex) = 32 \<and>
     hex_decode L (wq_nonce q) = Ok (ex_nonce ex) \<and> length (ex_nonce ex) = 32 \<and>
     hex_decode L (wq_expected_pcr0 q) = Ok (ex_pcr0 ex) \<and> length (ex_pcr0 ex) = 48"

lemma wasm_decode_hex_32_Ok:
  "wasm_decode_hex_32 L name value = Ok b \<longleftrightarrow> hex_decode L value = Ok b \<and> length b = 32"
  by (auto simp: wasm_decode_hex_32_def result_simps)

lemma wasm_decode_pcr0_Ok:
  "wasm_decode_pcr0 L value = Ok b \<longleftrightarrow> hex_decode L value = Ok b \<and> length b = 48"
  by (auto simp: wasm_decode_pcr0_def result_simps)

text \<open>A call succeeds exactly when the fields decode, the roots load and \<open>verify\<close> returns.\<close>

lemma wasm_verify_Ok:
  "wasm_verify L clock now q = Ok r \<longleftrightarrow>
     (\<exists>receipt ex v. wasm_decodes L q receipt ex \<and>
        from_pem L (offline_provider L) (wq_trusted_root_pem q) False = Ok v \<and>
        fst (verify L clock now receipt ex v) = Ok r)"
  (is "?l \<longleftrightarrow> ?r")
proof
  assume ?l
  then show ?r
    unfolding wasm_verify_def result_simps wasm_decode_hex_32_Ok wasm_decode_pcr0_Ok
    by (auto simp: wasm_decodes_def) (metis expectation.select_convs)
next
  assume ?r
  then obtain receipt ex v where "wasm_decodes L q receipt ex"
    "from_pem L (offline_provider L) (wq_trusted_root_pem q) False = Ok v"
    "fst (verify L clock now receipt ex v) = Ok r" by blast
  then show ?l
    unfolding wasm_verify_def result_simps wasm_decode_hex_32_Ok wasm_decode_pcr0_Ok wasm_decodes_def
    by (cases ex) auto
qed

section \<open>Agreement with a stateful verifier\<close>

text \<open>Acceptability depends on the provider's verdicts, the roots and the limits only.\<close>

lemma receipt_acceptable_cong:
  assumes "\<And>t b root. p_verify (vf_provider v) t b root = p_verify (vf_provider w) t b root"
    and "vf_trusted_roots v = vf_trusted_roots w" and "vf_config v = vf_config w"
  shows "receipt_acceptable L v clock now rb ex claims doc \<longleftrightarrow>
    receipt_acceptable L w clock now rb ex claims doc"
  using assms by (simp add: receipt_acceptable_def chain_accepted_def)

lemma from_pem_fields:
  "from_pem L P pem stateful = Ok v \<Longrightarrow> from_pem L P' pem stateful' = Ok w \<Longrightarrow>
     vf_trusted_roots v = vf_trusted_roots w \<and> vf_config v = vf_config w \<and>
     vf_provider v = P \<and> vf_state v = (if stateful then Some (Healthy Map.empty) else None)"
  by (auto simp: from_pem_def from_pem_with_config_def new_with_config_def result_simps)

lemma from_pem_other:
  "from_pem L P pem stateful = Ok v \<Longrightarrow> \<exists>w. from_pem L P' pem stateful' = Ok w"
  by (auto simp: from_pem_def from_pem_with_config_def result_simps)

end
