(* ===== verification/Sample_Wasm.thy ===== *)
theory Sample_Wasm
  imports Sample_Instance Wasm_Verifier
begin

text \<open>The stateless request for the sample receipt, and what its fields decode to.\<close>

definition sample_wasm_request :: wasm_request where
  "sample_wasm_request = \<lparr>wq_receipt = str_of_bytes [1],
     wq_model_hash = str_of_bytes (replicate 32 1), wq_input_hash = str_of_bytes (replicate 32 1),
     wq_output_hash = str_of_bytes (replicate 32 1), wq_nonce = str_of_bytes sample_nonce,
     wq_expected_pcr0 = str_of_bytes (replicate 48 0), wq_trusted_root_pem = sample_pem\<rparr>"

lemma sample_wasm_decodes: "wasm_decodes sample_lib sample_wasm_request [1] sample_expectation"
proof -
  have "hex_decode sample_lib (str_of_bytes b) = Ok b" for b
    by (simp add: sample_lib_def)
  then show ?thesis
    by (simp add: wasm_decodes_def sample_wasm_request_def wasm_decode_receipt_def
        sample_expectation_def mock_expectation_def sample_nonce_def)
qed

lemma sample_pem_loads:
  "from_pem sample_lib P sample_pem stateful = Ok (verifier_new P [[32]] stateful)"
proof -
  have "collect_roots sample_lib (str_lines sample_pem) [] False [] = Ok [[32]]"
  proof -
    have "map str_trim (str_lines sample_pem) = [BEGIN_CERTIFICATE, ''AA'', END_CERTIFICATE]"
      by code_simp
    then obtain a b c where "str_lines sample_pem = [a, b, c]" "str_trim a = BEGIN_CERTIFICATE"
      "str_trim b = ''AA''" "str_trim c = END_CERTIFICATE"
      by (auto simp: map_eq_Cons_conv)
    then show ?thesis by (simp add: sample_lib_def)
  qed
  then show ?thesis
    by (simp add: from_pem_def from_pem_with_config_def verifier_new_def reject_if_def)
qed

lemma call_valid_verify:
  "call_valid L c v \<longleftrightarrow> (\<exists>r v'. verify L (vk_clock c) (vk_now c) (vk_receipt c) (vk_expected c) v = (Ok r, v') \<and> vr_valid r)"
  by (cases "verify L (vk_clock c) (vk_now c) (vk_receipt c) (vk_expected c) v")
    (auto simp: call_valid_def call_verifier_def split: sum.splits)

end
