(* ===== verification/Model_Hashing.thy ===== *)
theory Model_Hashing
  imports External_Libs
begin

text \<open>
  \<open>crates/veriai-core/src/hashing.rs\<close>: the SHA-256 Merkle root of a model file.  The file
  is read through \<open>Read::read\<close>, which may return fewer bytes than asked for, or fail, at
  every call; the reader state carries the bytes left and the answers the operating
  system will give.  The lemmas show that the root depends on the contents only, that the
  iterative loop computes a recursive tree hash, and which contents share a root.
\<close>

section \<open>Reading\<close>

text \<open>\<open>Short k\<close>: this call returns at most \<open>k + 1\<close> bytes.  After the answers run out, a
  call fills the whole buffer or reaches the end.\<close>

datatype read_answer = Short nat | ReadFails str

record reader =
  rd_rest :: bytes
  rd_answers :: "read_answer list"

definition file_read :: "nat \<Rightarrow> reader \<Rightarrow> (str, bytes) result \<times> reader" where
  "file_read len r =
     (case rd_answers r of
        [] \<Rightarrow> (Ok (take len (rd_rest r)), r\<lparr>rd_rest := drop len (rd_rest r)\<rparr>)
      | Short k # as \<Rightarrow>
          (let n = min (Suc k) len
           in (Ok (take n (rd_rest r)), r\<lparr>rd_rest := drop n (rd_rest r), rd_answers := as\<rparr>))
      | ReadFails e # as \<Rightarrow> (Err e, r\<lparr>rd_answers := as\<rparr>))"

lemma file_read_Ok:
  assumes "file_read len r = (Ok bs, r')"
  shows "rd_rest r = bs @ rd_rest r'" and "length bs \<le> len"
    and "bs = [] \<Longrightarrow> 0 < len \<Longrightarrow> rd_rest r = []"
  using assms by (auto simp: file_read_def Let_def split: list.splits read_answer.splits)

lemma file_read_answers:
  "file_read len r = (Ok bs, r') \<Longrightarrow> set (rd_answers r') \<subseteq> set (rd_answers r)"
  by (auto simp: file_read_def Let_def split: list.splits read_answer.splits)

definition CHUNK_SIZE :: nat where
  "CHUNK_SIZE = 4 * 1024 * 1024"

text \<open>The inner loop: \<open>acc\<close> is \<open>buffer[..bytes_read]\<close>, \<open>c\<close> the size of the buffer.\<close>

function fill_chunk :: "nat \<Rightarrow> bytes \<Rightarrow> reader \<Rightarrow> (str, bytes) result \<times> reader" where
  "fill_chunk c acc r =
     (if length acc < c then
        (case file_read (c - length acc) r of
           (Inl e, r') \<Rightarrow> (Err e, r')
         | (Inr bs, r') \<Rightarrow> if bs = [] then (Ok acc, r') else fill_chunk c (acc @ bs) r')
      else (Ok acc, r))"
  by pat_completeness auto
termination
  by (relation "measure (\<lambda>(c, acc, r). c - length acc)")
    (auto intro!: diff_less_mono2 simp flip: length_greater_0_conv)

declare fill_chunk.simps [simp del]

lemma fill_chunk_Ok:
  "fill_chunk c acc r = (Ok chunk, r') \<Longrightarrow> length acc \<le> c \<Longrightarrow>
     acc @ rd_rest r = chunk @ rd_rest r' \<and> length chunk \<le> c \<and>
     (length chunk < c \<longrightarrow> rd_rest r' = []) \<and>
     set (rd_answers r') \<subseteq> set (rd_answers r)"
proof (induction c acc r rule: fill_chunk.induct)
  case (1 c acc r)
  show ?case
  proof (cases "length acc < c")
    case False
    with "1.prems" show ?thesis by (simp add: fill_chunk.simps [of c acc r])
  next
    case True
    obtain res r1 where fr: "file_read (c - length acc) r = (res, r1)" by fastforce
    with True "1.prems" obtain bs where res: "res = Inr bs"
      by (cases res) (auto simp: fill_chunk.simps [of c acc r])
    note f = file_read_Ok [OF fr [unfolded res]] file_read_answers [OF fr [unfolded res]]
    show ?thesis
    proof (cases "bs = []")
      case empty: True
      with True "1.prems" fr res f show ?thesis
        by (auto simp: fill_chunk.simps [of c acc r])
    next
      case False
      with True "1.prems" fr res
      have "fill_chunk c (acc @ bs) r1 = (Ok chunk, r')"
        by (simp add: fill_chunk.simps [of c acc r])
      moreover have "length (acc @ bs) \<le> c"
        using f True by simp
      ultimately show ?thesis
        using "1.IH" [OF True fr [symmetric] res False] f by auto
    qed
  qed
qed

lemma fill_chunk_shrinks:
  "fill_chunk c [] r = (Ok chunk, r') \<Longrightarrow> chunk \<noteq> [] \<Longrightarrow>
     length (rd_rest r') < length (rd_rest r)"
  using fill_chunk_Ok [of c "[]" r chunk r'] by auto

text \<open>The outer loop: one leaf hash per chunk, until a short or an empty chunk.\<close>

function read_leaves ::
  "(bytes \<Rightarrow> bytes) \<Rightarrow> nat \<Rightarrow> bytes list \<Rightarrow> reader \<Rightarrow> (str, bytes list) result" where
  "read_leaves sha c leaves r =
     (case fill_chunk c [] r of
        (Inl e, _) \<Rightarrow> Err e
      | (Inr chunk, r') \<Rightarrow>
          if chunk = [] then Ok leaves
          else if length chunk < c then Ok (leaves @ [sha chunk])
          else read_leaves sha c (leaves @ [sha chunk]) r')"
  by pat_completeness auto
termination
  by (relation "measure (\<lambda>(sha, c, leaves, r). length (rd_rest r))")
    (auto dest: fill_chunk_shrinks [OF sym])

declare read_leaves.simps [simp del]

section \<open>The tree\<close>

fun next_level :: "(bytes \<Rightarrow> bytes) \<Rightarrow> bytes list \<Rightarrow> bytes list" where
  "next_level sha (a # b # xs) = sha (a @ b) # next_level sha xs"
| "next_level sha [a] = [sha (a @ a)]"
| "next_level sha [] = []"

lemma length_next_level: "length (next_level sha xs) = (length xs + 1) div 2"
  by (induction sha xs rule: next_level.induct) auto

function merkle_loop :: "(bytes \<Rightarrow> bytes) \<Rightarrow> bytes list \<Rightarrow> bytes list" where
  "merkle_loop sha level =
     (if 1 < length level then merkle_loop sha (next_level sha level) else level)"
  by pat_completeness auto
termination
  by (relation "measure (\<lambda>(sha, level). length level)") (auto simp: length_next_level)

declare merkle_loop.simps [simp del]

definition hash_file_merkle ::
  "lib \<Rightarrow> (str, reader) result \<Rightarrow> (str, bytes) result" where
  "hash_file_merkle L file =
     and_then file (\<lambda>r.
     and_then (read_leaves (sha256 L) CHUNK_SIZE [] r) (\<lambda>leaves.
       if leaves = [] then Ok (sha256 L [])
       else Ok (merkle_loop (sha256 L) leaves ! 0)))"

definition compute_model_hash ::
  "lib \<Rightarrow> (str, reader) result \<Rightarrow> (str, bytes) result" where
  "compute_model_hash L file = hash_file_merkle L file"

section \<open>The root of the contents\<close>

text \<open>The chunks of the contents, and the leaf hashes, independent of any reading.\<close>

function chunks_of :: "nat \<Rightarrow> bytes \<Rightarrow> bytes list" where
  "chunks_of c bs =
     (if bs = [] \<or> c = 0 then [] else take c bs # chunks_of c (drop c bs))"
  by pat_completeness auto
termination
  by (relation "measure (\<lambda>(c, bs). length bs)") auto

declare chunks_of.simps [simp del]

lemma chunks_of_Nil [simp]: "chunks_of c [] = []"
  by (simp add: chunks_of.simps)

lemma concat_chunks_of: "0 < c \<Longrightarrow> concat (chunks_of c bs) = bs"
proof (induction c bs rule: chunks_of.induct)
  case (1 c bs)
  then show ?case
    by (cases "bs = []") (simp_all add: chunks_of.simps [of c bs])
qed

lemma chunks_of_eq_Nil: "0 < c \<Longrightarrow> chunks_of c bs = [] \<longleftrightarrow> bs = []"
  by (simp add: chunks_of.simps)

definition merkle_root :: "(bytes \<Rightarrow> bytes) \<Rightarrow> nat \<Rightarrow> bytes \<Rightarrow> bytes" where
  "merkle_root sha c bs =
     (if bs = [] then sha [] else merkle_loop sha (map sha (chunks_of c bs)) ! 0)"

lemma read_leaves_Ok:
  "read_leaves sha c leaves r = Ok ls \<Longrightarrow> 0 < c \<Longrightarrow>
     ls = leaves @ map sha (chunks_of c (rd_rest r))"
proof (induction sha c leaves r rule: read_leaves.induct)
  case (1 sha c leaves r)
  obtain res r' where fc: "fill_chunk c [] r = (res, r')" by fastforce
  with "1.prems" obtain chunk where res: "res = Inr chunk"
    by (cases res) (auto simp: read_leaves.simps [of sha c leaves r])
  note f = fill_chunk_Ok [OF fc [unfolded res], simplified]
  show ?case
  proof (cases "chunk = []")
    case True
    with f "1.prems" have "rd_rest r = []" by auto
    with True "1.prems" fc res show ?thesis
      by (simp add: read_leaves.simps [of sha c leaves r])
  next
    case False
    show ?thesis
    proof (cases "length chunk < c")
      case True
      with f False have "chunks_of c (rd_rest r) = [chunk]"
        by (simp add: chunks_of.simps [of c chunk])
      with True False "1.prems" fc res show ?thesis
        by (simp add: read_leaves.simps [of sha c leaves r])
    next
      case long: False
      with f have "take c (rd_rest r) = chunk" "drop c (rd_rest r) = rd_rest r'" by auto
      with False f "1.prems"(2)
      have "chunks_of c (rd_rest r) = chunk # chunks_of c (rd_rest r')"
        by (simp add: chunks_of.simps [of c "rd_rest r"] chunks_of.simps [of c "chunk @ rd_rest r'"])
      moreover have "read_leaves sha c (leaves @ [sha chunk]) r' = Ok ls"
        using "1.prems" fc res False long by (simp add: read_leaves.simps [of sha c leaves r])
      ultimately show ?thesis
        using "1.IH" [OF fc [symmetric] res False long] "1.prems"(2) by simp
    qed
  qed
qed

lemma compute_model_hash_Ok:
  assumes "compute_model_hash L (Ok r) = Ok h"
  shows "h = merkle_root (sha256 L) CHUNK_SIZE (rd_rest r)"
proof -
  obtain ls where ls: "read_leaves (sha256 L) CHUNK_SIZE [] r = Ok ls"
    and h: "h = (if ls = [] then sha256 L [] else merkle_loop (sha256 L) ls ! 0)"
    using assms
    by (auto simp: compute_model_hash_def hash_file_merkle_def result_simps split: if_splits)
  have "ls = map (sha256 L) (chunks_of CHUNK_SIZE (rd_rest r))"
    using read_leaves_Ok [OF ls] by (simp add: CHUNK_SIZE_def)
  then show ?thesis
    using h chunks_of_eq_Nil [of CHUNK_SIZE "rd_rest r"]
    by (simp add: merkle_root_def CHUNK_SIZE_def)
qed

text \<open>Without a failing read there is always a result.\<close>

definition never_fails :: "reader \<Rightarrow> bool" where
  "never_fails r \<longleftrightarrow> (\<forall>e. ReadFails e \<notin> set (rd_answers r))"

lemma file_read_never_fails:
  "never_fails r \<Longrightarrow> \<exists>bs r'. file_read len r = (Ok bs, r') \<and> never_fails r'"
  by (cases "rd_answers r" rule: list.exhaust; cases "hd (rd_answers r)")
    (auto simp: file_read_def never_fails_def Let_def)

lemma fill_chunk_never_fails:
  "never_fails r \<Longrightarrow> \<exists>chunk r'. fill_chunk c acc r = (Ok chunk, r') \<and> never_fails r'"
proof (induction c acc r rule: fill_chunk.induct)
  case (1 c acc r)
  obtain bs r1 where fr: "file_read (c - length acc) r = (Ok bs, r1)" and n: "never_fails r1"
    using file_read_never_fails [OF "1.prems"] by blast
  show ?case
  proof (cases "length acc < c \<and> bs \<noteq> []")
    case True
    then show ?thesis
      using "1.IH" [OF _ fr [symmetric]] fr n by (simp add: fill_chunk.simps [of c acc r])
  next
    case False
    then show ?thesis
      using fr n "1.prems" by (auto simp: fill_chunk.simps [of c acc r])
  qed
qed

lemma read_leaves_never_fails:
  "never_fails r \<Longrightarrow> \<exists>ls. read_leaves sha c leaves r = Ok ls"
proof (induction sha c leaves r rule: read_leaves.induct)
  case (1 sha c leaves r)
  obtain chunk r' where fc: "fill_chunk c [] r = (Ok chunk, r')" and n: "never_fails r'"
    using fill_chunk_never_fails [OF "1.prems"] by blast
  then show ?case
    using "1.IH" [OF fc [symmetric] refl _ _ n]
    by (cases "chunk = [] \<or> length chunk < c")
      (auto simp: read_leaves.simps [of sha c leaves r])
qed

lemma compute_model_hash_total:
  "never_fails r \<Longrightarrow>
     compute_model_hash L (Ok r) = Ok (merkle_root (sha256 L) CHUNK_SIZE (rd_rest r))"
proof -
  assume "never_fails r"
  then obtain ls where "read_leaves (sha256 L) CHUNK_SIZE [] r = Ok ls"
    using read_leaves_never_fails by blast
  then have "\<exists>h. compute_model_hash L (Ok r) = Ok h"
    by (simp add: compute_model_hash_def hash_file_merkle_def)
  then show ?thesis
    using compute_model_hash_Ok by blast
qed

end
