(* ===== verification/Cli.thy ===== *)
theory Cli
  imports Replay_Store Trusted_Roots Receipt_Exchange Model_Hashing
begin

text \<open>
  The command line tool, \<open>crates/veriai-cli/src/main.rs\<close>: \<open>inspect\<close>, \<open>generate\<close> and
  \<open>verify\<close> as programs on the files, the standard input and the lines printed so far.  A
  command ends, fails with the error that \<open>main\<close> returns, or exits with a status.
\<close>

section \<open>World\<close>

record cli_world = world +
  cw_stdin :: bytes
  cw_out :: "str list"

datatype cli_stop = MainError str | ProcessExit nat

type_synonym 'a cli = "(cli_world, cli_stop, 'a) io"

definition println :: "str \<Rightarrow> unit cli" where
  "println l w = (Ok (), w\<lparr>cw_out := cw_out w @ [l]\<rparr>)"

text \<open>The conversion that \<open>?\<close> makes of an error of the operating system.\<close>

abbreviation or_fail :: "('z world_scheme, io_error, 'a) io \<Rightarrow> ('z world_scheme, cli_stop, 'a) io" where
  "or_fail \<equiv> io_map_err (\<lambda>e. MainError (io_text e))"

definition or_stop :: "(str, 'a) result \<Rightarrow> ('s, cli_stop, 'a) io" where
  "or_stop r = io_lift (map_err MainError r)"

definition read_stdin :: "(cli_world, io_error, bytes) io" where
  "read_stdin = io_op (\<lambda>w. (Ok (cw_stdin w), w\<lparr>cw_stdin := []\<rparr>))"

text \<open>\<open>File::create\<close> empties a file that is there; \<open>fs::write\<close> creates and writes.\<close>

definition fs_create :: "path \<Rightarrow> ('z world_scheme, io_error, unit) io" where
  "fs_create p = io_op (\<lambda>w. (Ok (), w\<lparr>w_files := (w_files w)(p \<mapsto> [])\<rparr>))"

definition fs_write :: "path \<Rightarrow> bytes \<Rightarrow> ('z world_scheme, io_error, unit) io" where
  "fs_write p b = io_then (fs_create p) (\<lambda>_. fs_write_all p b)"

section \<open>Arguments\<close>

definition read_bytes_or_stdin :: "path option \<Rightarrow> (cli_world, io_error, bytes) io" where
  "read_bytes_or_stdin p = (case p of Some p \<Rightarrow> fs_read p | None \<Rightarrow> read_stdin)"

definition parse_hex_any :: "lib \<Rightarrow> str \<Rightarrow> (str, bytes) result" where
  "parse_hex_any L s = map_err (\<lambda>e. ''Invalid hex: '' @ err_display e) (hex_decode L s)"

definition parse_hex_32 :: "lib \<Rightarrow> str \<Rightarrow> (str, bytes) result" where
  "parse_hex_32 L s =
     and_then (map_err (\<lambda>e. ''Invalid hex: '' @ err_display e) (hex_decode L s)) (\<lambda>bytes.
       if length bytes \<noteq> 32 then Err (''Expected 32 bytes, got '' @ show_nat (length bytes))
       else Ok bytes)"

text \<open>\<open>compute_model_hash(&model)?\<close>; \<open>answers\<close> are those of the reads of the file.\<close>

definition hash_model_file :: "lib \<Rightarrow> read_answer list \<Rightarrow> path \<Rightarrow> bytes cli" where
  "hash_model_file L answers model =
     io_then (or_fail (fs_read model)) (\<lambda>contents.
       or_stop (compute_model_hash L (Ok \<lparr>rd_rest = contents, rd_answers = answers\<rparr>)))"

section \<open>Inspect\<close>

definition inspect :: "lib \<Rightarrow> path \<Rightarrow> unit cli" where
  "inspect L receipt =
     io_then (or_fail (fs_read receipt)) (\<lambda>receipt_bytes.
     io_then (or_stop (map_err (\<lambda>e. ''Cose parse error: '' @ err_debug e)
                         (cose_from_slice L receipt_bytes))) (\<lambda>cose_receipt.
     io_then (or_stop (ok_or ''Receipt contains no payload'' (cs_payload cose_receipt))) (\<lambda>payload.
     io_then (or_stop (map_err (\<lambda>e. ''Claims parse error: '' @ debug_de_error L e)
                         (claims_from_binary L payload))) (\<lambda>claims.
     io_then (println ''VeriAI Receipt Inspection'') (\<lambda>_.
     io_then (println ''-------------------------'') (\<lambda>_.
     io_then (println (''SDK Version:       '' @ vc_sdk_version claims)) (\<lambda>_.
     io_then (println (''Model Merkle Root: '' @ hex_encode L (vc_model_hash claims))) (\<lambda>_.
     io_then (println (''Input Hash:        '' @ hex_encode L (vc_input_hash claims))) (\<lambda>_.
     io_then (println (''Output Hash:       '' @ hex_encode L (vc_output_hash claims))) (\<lambda>_.
     io_then (println (''Client Nonce:      '' @ hex_encode L (vc_client_nonce claims))) (\<lambda>_.
     io_then (println (''Sequence Number:   '' @ show_u64 (vc_sequence_num claims))) (\<lambda>_.
     io_then (println (''Timestamp:         '' @ show_i64 (vc_attestation_timestamp claims))) (\<lambda>_.
       println (''Enclave Public Key:'' @ hex_encode L (vc_enclave_pubkey claims)))))))))))))))"

section \<open>Generate\<close>

record generate_args =
  ga_model :: path
  ga_input_file :: "path option"
  ga_output_file :: "path option"
  ga_nonce :: "str option"
  ga_receipt_out :: path

text \<open>What a run meets besides the files: the reads of the model, the key and the nonce that are
  drawn, the clock in the provider and in the generator, and how a path is printed.\<close>

record generate_env =
  ge_answers :: "read_answer list"
  ge_key :: bytes
  ge_nonce :: bytes
  ge_clock_provider :: system_time
  ge_now :: system_time
  ge_debug_path :: "path \<Rightarrow> str"

definition generate :: "lib \<Rightarrow> provider \<Rightarrow> generate_env \<Rightarrow> generate_args \<Rightarrow> unit cli" where
  "generate L P env args =
     io_then (println ''Computing model Merkle root...'') (\<lambda>_.
     io_then (hash_model_file L (ge_answers env) (ga_model args)) (\<lambda>model_hash.
     io_then (println (''Model Merkle root: '' @ hex_encode L model_hash)) (\<lambda>_.
     io_then (or_fail (read_bytes_or_stdin (ga_input_file args))) (\<lambda>input_bytes.
     io_then (or_fail (read_bytes_or_stdin (ga_output_file args))) (\<lambda>output_bytes.
     io_then (or_stop (case ga_nonce args of
                         Some hex_str \<Rightarrow> parse_hex_32 L hex_str
                       | None \<Rightarrow> Ok (ge_nonce env))) (\<lambda>nonce_bytes.
     io_then (or_stop (map_err show_verify_error
                         (fst (generate_receipt L (ge_clock_provider env) (ge_now env) model_hash
                            (sha256 L input_bytes) (sha256 L output_bytes) nonce_bytes
                            (generator_new P (ge_key env)))))) (\<lambda>receipt.
     io_then (or_fail (fs_write (ga_receipt_out args) receipt)) (\<lambda>_.
       println (''Receipt generated successfully and saved to '' @
         ge_debug_path env (ga_receipt_out args))))))))))"

section \<open>Verify\<close>

record verify_args =
  va_receipt :: path
  va_model :: path
  va_input_file :: "path option"
  va_output_file :: "path option"
  va_nonce :: str
  va_expected_pcr0 :: str
  va_root_cert :: path
  va_stateful :: "path option"

record verify_env =
  ve_answers :: "read_answer list"
  ve_clock :: "nat \<Rightarrow> system_time"
  ve_now :: system_time

text \<open>A key that is not 32 bytes long is dropped.\<close>

fun decode_session ::
  "lib \<Rightarrow> (str \<times> u64) list \<Rightarrow> replay_state \<Rightarrow> (str, replay_state) result" where
  "decode_session L [] decoded_state = Ok decoded_state"
| "decode_session L ((k, v) # saved_state) decoded_state =
     and_then (map_err err_display (hex_decode L k)) (\<lambda>bytes.
       decode_session L saved_state
         (if length bytes = 32 then decoded_state(bytes \<mapsto> v) else decoded_state))"

definition read_session :: "lib \<Rightarrow> json_lib \<Rightarrow> bytes \<Rightarrow> (str, replay_state) result" where
  "read_session L J bytes =
     and_then (map_err err_display (json_decode_map J bytes)) (\<lambda>saved_state.
       decode_session L saved_state Map.empty)"

definition load_session :: "lib \<Rightarrow> json_lib \<Rightarrow> path option \<Rightarrow> verifier \<Rightarrow> verifier cli" where
  "load_session L J stateful verifier w =
     (case stateful of
        Some session_path \<Rightarrow>
          if fs_exists session_path w then
            io_then (or_fail (fs_read session_path)) (\<lambda>bytes.
            io_then (or_stop (read_session L J bytes)) (\<lambda>decoded_state.
              (case set_state decoded_state verifier of
                 (Inl e, _) \<Rightarrow> or_stop (Err (show_verify_error e))
               | (Inr _, v) \<Rightarrow> io_lift (Ok v)))) w
          else (Ok verifier, w)
      | None \<Rightarrow> (Ok verifier, w))"

text \<open>The file is emptied before the state is written to it.\<close>

definition save_session :: "lib \<Rightarrow> json_lib \<Rightarrow> path \<Rightarrow> replay_state \<Rightarrow> unit cli" where
  "save_session L J session_path state_map =
     io_then (or_fail (fs_create session_path)) (\<lambda>_.
     io_then (or_stop (map_err err_display (json_encode_map J
                (map (\<lambda>(k, v). (hex_encode L k, v)) (hash_map_iter J state_map))))) (\<lambda>bytes.
       or_fail (fs_write_all session_path bytes)))"

definition check_line :: "verification_check \<Rightarrow> str" where
  "check_line check =
     (let status_symbol =
          (if ck_status check = ''passed'' then [CHR 0xE2, CHR 0x9C, CHR 0x93]
           else [CHR 0xE2, CHR 0x9C, CHR 0x97])
      in case ck_details check of
           Some details \<Rightarrow> status_symbol @ '' '' @ ck_name check @ '' ('' @ details @ '')''
         | None \<Rightarrow> status_symbol @ '' '' @ ck_name check)"

fun print_lines :: "str list \<Rightarrow> unit cli" where
  "print_lines [] w = (Ok (), w)"
| "print_lines (l # ls) w = io_then (println l) (\<lambda>_. print_lines ls) w"

definition report_result :: "verification_result \<Rightarrow> unit cli" where
  "report_result result =
     io_then (print_lines (map check_line (vr_checks result))) (\<lambda>_.
     io_then (println (CHR 0x0A # ''Result: '' @
                (if vr_valid result then ''VERIFIED'' else ''FAILED''))) (\<lambda>_.
       if \<not> vr_valid result then
         io_then (case vr_error result of Some err \<Rightarrow> println (''Reason: '' @ err)
                  | None \<Rightarrow> io_lift (Ok ())) (\<lambda>_. io_lift (Err (ProcessExit 1)))
       else io_lift (Ok ())))"

definition save_if_stateful ::
  "lib \<Rightarrow> json_lib \<Rightarrow> path option \<Rightarrow> verifier \<Rightarrow> unit cli" where
  "save_if_stateful L J stateful verifier =
     io_then (or_stop (map_err show_verify_error (get_state verifier))) (\<lambda>state.
       (case (stateful, state) of
          (Some session_path, Some state_map) \<Rightarrow> save_session L J session_path state_map
        | _ \<Rightarrow> io_lift (Ok ())))"

definition check_receipt ::
  "lib \<Rightarrow> verify_env \<Rightarrow> bytes \<Rightarrow> expectation \<Rightarrow> verifier \<Rightarrow> (verification_result \<times> verifier) cli" where
  "check_receipt L env receipt_bytes ex verifier =
     (let (r, v) = verify L (ve_clock env) (ve_now env) receipt_bytes ex verifier
      in or_stop (map_err show_verify_error (and_then r (\<lambda>result. Ok (result, v)))))"

text \<open>\<open>verify\<close> up to the verifier, its verdict, and the whole command.\<close>

definition verify_inputs ::
  "lib \<Rightarrow> provider \<Rightarrow> verify_env \<Rightarrow> verify_args \<Rightarrow> (bytes \<times> expectation \<times> verifier) cli" where
  "verify_inputs L P env args =
     io_then (or_fail (fs_read (va_receipt args))) (\<lambda>receipt_bytes.
     io_then (println ''Recomputing model Merkle root...'') (\<lambda>_.
     io_then (hash_model_file L (ve_answers env) (va_model args)) (\<lambda>model_hash.
     io_then (or_fail (read_bytes_or_stdin (va_input_file args))) (\<lambda>input_bytes.
     io_then (or_fail (read_bytes_or_stdin (va_output_file args))) (\<lambda>output_bytes.
     io_then (or_stop (parse_hex_32 L (va_nonce args))) (\<lambda>nonce_bytes.
     io_then (or_stop (parse_hex_any L (va_expected_pcr0 args))) (\<lambda>pcr0_bytes.
     io_then (or_fail (fs_read_to_string (va_root_cert args))) (\<lambda>root_pem.
     io_then (or_stop (from_pem L P root_pem (va_stateful args \<noteq> None))) (\<lambda>verifier.
       io_lift (Ok (receipt_bytes,
         \<lparr>ex_model_hash = model_hash, ex_input_hash = sha256 L input_bytes,
          ex_output_hash = sha256 L output_bytes, ex_nonce = nonce_bytes, ex_pcr0 = pcr0_bytes\<rparr>,
         verifier)))))))))))"

definition judge_receipt ::
  "lib \<Rightarrow> json_lib \<Rightarrow> verify_env \<Rightarrow> path option \<Rightarrow> bytes \<Rightarrow> expectation \<Rightarrow> verifier \<Rightarrow>
   verifier cli" where
  "judge_receipt L J env stateful receipt_bytes ex verifier =
     io_then (load_session L J stateful verifier) (\<lambda>verifier.
     io_then (println (CHR 0x0A # ''VeriAI Receipt Verification'')) (\<lambda>_.
     io_then (println ''---------------------------'') (\<lambda>_.
     io_then (check_receipt L env receipt_bytes ex verifier) (\<lambda>(result, verifier).
     io_then (report_result result) (\<lambda>_.
       io_lift (Ok verifier))))))"

definition cli_verify ::
  "lib \<Rightarrow> json_lib \<Rightarrow> provider \<Rightarrow> verify_env \<Rightarrow> verify_args \<Rightarrow> unit cli" where
  "cli_verify L J P env args =
     io_then (verify_inputs L P env args) (\<lambda>(receipt_bytes, ex, verifier).
     io_then (judge_receipt L J env (va_stateful args) receipt_bytes ex verifier) (\<lambda>verifier.
       save_if_stateful L J (va_stateful args) verifier))"

end
