(* ===== verification/Merkle_Facts.thy ===== *)
theory Merkle_Facts
  imports Model_Hashing
begin

text \<open>
  What the model hash identifies.  The iterative loop is equal to a recursive tree hash of
  explicit height; two files of the same size with the same hash are equal unless two
  different strings hashed on the way collide under SHA-256; the duplication of odd nodes
  and the missing separation of leaves from inner nodes give files of different sizes
  with the same hash.
\<close>

section \<open>The recursive tree\<close>

fun merkle_tree :: "(bytes \<Rightarrow> bytes) \<Rightarrow> nat \<Rightarrow> bytes list \<Rightarrow> bytes" where
  "merkle_tree sha 0 xs = xs ! 0"
| "merkle_tree sha (Suc d) xs =
     (if length xs \<le> 2 ^ d
      then sha (merkle_tree sha d xs @ merkle_tree sha d xs)
      else sha (merkle_tree sha d (take (2 ^ d) xs) @ merkle_tree sha d (drop (2 ^ d) xs)))"

text \<open>The height: the least power of two with room for \<open>n\<close> leaves.\<close>

fun tree_height :: "nat \<Rightarrow> nat" where
  "tree_height n = (if n \<le> 1 then 0 else Suc (tree_height ((n + 1) div 2)))"

declare tree_height.simps [simp del]

lemma tree_height_bound: "n \<le> 2 ^ tree_height n"
proof (induction n rule: tree_height.induct)
  case (1 n)
  then show ?case
    by (cases "n \<le> 1") (simp_all add: tree_height.simps [of n])
qed

lemma next_level_append:
  "even (length xs) \<Longrightarrow> next_level sha (xs @ ys) = next_level sha xs @ next_level sha ys"
  by (induction sha xs rule: next_level.induct) auto

lemma next_level_take_drop:
  assumes "2 * k \<le> length xs"
  shows "next_level sha (take (2 * k) xs) = take k (next_level sha xs)"
    and "next_level sha (drop (2 * k) xs) = drop k (next_level sha xs)"
proof -
  have "next_level sha xs =
      next_level sha (take (2 * k) xs) @ next_level sha (drop (2 * k) xs)"
    using next_level_append [of "take (2 * k) xs" sha "drop (2 * k) xs"] assms by simp
  moreover have "length (next_level sha (take (2 * k) xs)) = k"
    using assms by (simp add: length_next_level)
  ultimately show "next_level sha (take (2 * k) xs) = take k (next_level sha xs)"
    "next_level sha (drop (2 * k) xs) = drop k (next_level sha xs)" by simp_all
qed

lemma merkle_tree_next_level:
  "xs \<noteq> [] \<Longrightarrow> length xs \<le> 2 ^ Suc d \<Longrightarrow>
     merkle_tree sha (Suc d) xs = merkle_tree sha d (next_level sha xs)"
proof (induction d arbitrary: xs)
  case 0
  then consider a where "xs = [a]" | a b where "xs = [a, b]"
    by (cases xs; cases "tl xs") auto
  then show ?case by cases simp_all
next
  case (Suc d)
  show ?case
  proof (cases "length xs \<le> 2 ^ Suc d")
    case True
    then have "length (next_level sha xs) \<le> 2 ^ d"
      by (simp add: length_next_level)
    then have "merkle_tree sha (Suc d) (next_level sha xs) =
        sha (merkle_tree sha d (next_level sha xs) @ merkle_tree sha d (next_level sha xs))"
      by (simp only: merkle_tree.simps(2) if_True)
    moreover have "merkle_tree sha (Suc (Suc d)) xs =
        sha (merkle_tree sha (Suc d) xs @ merkle_tree sha (Suc d) xs)"
      using True by (simp only: merkle_tree.simps(2) [of sha "Suc d"] if_True)
    ultimately show ?thesis
      using Suc.IH [OF Suc.prems(1) True] by simp
  next
    case False
    then have "\<not> length (next_level sha xs) \<le> 2 ^ d" and "2 * 2 ^ d \<le> length xs"
      by (auto simp: length_next_level)
    moreover have "take (2 ^ Suc d) xs \<noteq> []" "drop (2 ^ Suc d) xs \<noteq> []"
      "length (drop (2 ^ Suc d) xs) \<le> 2 ^ Suc d"
      using False Suc.prems by auto
    ultimately show ?thesis
      using Suc.IH [of "take (2 ^ Suc d) xs"] Suc.IH [of "drop (2 ^ Suc d) xs"] False
        next_level_take_drop [of "2 ^ d" xs sha]
      by (simp only: merkle_tree.simps(2) [of sha "Suc d"] if_False)
        (simp add: merkle_tree.simps(2) [of sha d "next_level sha xs"] del: merkle_tree.simps)
  qed
qed

lemma next_level_eq_Nil [simp]: "next_level sha xs = [] \<longleftrightarrow> xs = []"
  by (cases "(sha, xs)" rule: next_level.cases) auto

lemma merkle_loop_tree:
  "xs \<noteq> [] \<Longrightarrow> merkle_loop sha xs ! 0 = merkle_tree sha (tree_height (length xs)) xs"
proof (induction sha xs rule: merkle_loop.induct)
  case (1 sha xs)
  show ?case
  proof (cases "1 < length xs")
    case False
    then show ?thesis
      by (simp add: merkle_loop.simps [of sha xs] tree_height.simps [of "length xs"])
  next
    case True
    have h: "tree_height (length xs) = Suc (tree_height (length (next_level sha xs)))"
      using True by (simp add: tree_height.simps [of "length xs"] length_next_level)
    have "length xs \<le> 2 ^ Suc (tree_height (length (next_level sha xs)))"
      using tree_height_bound [of "length xs"] by (simp only: h)
    with "1.prems" have "merkle_tree sha (tree_height (length xs)) xs =
        merkle_tree sha (tree_height (length (next_level sha xs))) (next_level sha xs)"
      unfolding h by (rule merkle_tree_next_level)
    with "1.IH" [OF True] "1.prems" True show ?thesis
      by (simp add: merkle_loop.simps [of sha xs])
  qed
qed

section \<open>Equal sizes: a collision or equal contents\<close>

text \<open>The strings hashed for one level, for all levels, and for a whole file.\<close>

fun level_inputs :: "bytes list \<Rightarrow> bytes list" where
  "level_inputs (a # b # xs) = (a @ b) # level_inputs xs"
| "level_inputs [a] = [a @ a]"
| "level_inputs [] = []"

lemma next_level_inputs: "next_level sha xs = map sha (level_inputs xs)"
  by (induction xs rule: level_inputs.induct) auto

lemma length_level_inputs: "length (level_inputs xs) = (length xs + 1) div 2"
  by (induction xs rule: level_inputs.induct) auto

function merkle_inputs :: "(bytes \<Rightarrow> bytes) \<Rightarrow> bytes list \<Rightarrow> bytes list" where
  "merkle_inputs sha xs =
     (if 1 < length xs then level_inputs xs @ merkle_inputs sha (next_level sha xs) else [])"
  by pat_completeness auto
termination
  by (relation "measure (\<lambda>(sha, xs). length xs)") (auto simp: length_next_level)

declare merkle_inputs.simps [simp del]

definition hashed_inputs :: "(bytes \<Rightarrow> bytes) \<Rightarrow> nat \<Rightarrow> bytes \<Rightarrow> bytes set" where
  "hashed_inputs sha c bs =
     set (chunks_of c bs) \<union> set (merkle_inputs sha (map sha (chunks_of c bs)))"

definition collide_in :: "(bytes \<Rightarrow> bytes) \<Rightarrow> bytes set \<Rightarrow> bytes set \<Rightarrow> bool" where
  "collide_in sha A B \<longleftrightarrow> (\<exists>u \<in> A. \<exists>v \<in> B. u \<noteq> v \<and> sha u = sha v)"

lemma collide_in_Un:
  "collide_in sha A B \<Longrightarrow> collide_in sha (A \<union> A') (B \<union> B')"
  "collide_in sha A' B' \<Longrightarrow> collide_in sha (A \<union> A') (B \<union> B')"
  by (auto simp: collide_in_def)

lemma map_eq_or_collide:
  "map sha us = map sha vs \<Longrightarrow> us = vs \<or> collide_in sha (set us) (set vs)"
proof (induction us arbitrary: vs)
  case (Cons u us)
  then obtain v ws where "vs = v # ws" "sha u = sha v" "map sha us = map sha ws" by auto
  with Cons.IH [of ws] show ?case
    by (auto simp: collide_in_def)
qed simp

lemma level_inputs_inject:
  assumes "length xs = length ys" and "\<forall>x \<in> set xs \<union> set ys. length x = n"
    and "level_inputs xs = level_inputs ys"
  shows "xs = ys"
  using assms
proof (induction xs arbitrary: ys rule: level_inputs.induct)
  case (1 a b xs)
  then obtain c d zs where "ys = c # d # zs"
    by (cases ys rule: level_inputs.cases) auto
  with 1 show ?case by auto
next
  case (2 a)
  then obtain c where "ys = [c]"
    by (cases ys rule: level_inputs.cases) auto
  with 2 show ?case by auto
qed simp

lemma merkle_loop_eq_or_collide:
  assumes "length xs = length ys" and "\<forall>x \<in> set xs \<union> set ys. length x = n"
    and "\<And>b. length (sha b) = n" and "merkle_loop sha xs = merkle_loop sha ys"
  shows "xs = ys \<or> collide_in sha (set (merkle_inputs sha xs)) (set (merkle_inputs sha ys))"
  using assms(1,2,4)
proof (induction "length xs" arbitrary: xs ys rule: less_induct)
  case less
  show ?case
  proof (cases "1 < length xs")
    case False
    with less.prems show ?thesis
      by (simp add: merkle_loop.simps [of sha xs] merkle_loop.simps [of sha ys])
  next
    case True
    let ?xs = "next_level sha xs" and ?ys = "next_level sha ys"
    have inputs: "merkle_inputs sha zs = level_inputs zs @ merkle_inputs sha (next_level sha zs)"
      if "length zs = length xs" for zs
      using True that by (simp add: merkle_inputs.simps [of sha zs])
    have "length ?xs < length xs" and "length ?xs = length ?ys"
      using less.prems(1) True by (auto simp: length_next_level)
    moreover have "merkle_loop sha ?xs = merkle_loop sha ?ys"
      using less.prems(1,3) True by (simp add: merkle_loop.simps [of sha xs] merkle_loop.simps [of sha ys])
    moreover have "\<forall>x \<in> set ?xs \<union> set ?ys. length x = n"
      using assms(3) by (auto simp: next_level_inputs)
    ultimately consider "?xs = ?ys"
      | "collide_in sha (set (merkle_inputs sha ?xs)) (set (merkle_inputs sha ?ys))"
      using less.hyps [of ?xs ?ys] by blast
    then show ?thesis
    proof cases
      case 1
      then consider "level_inputs xs = level_inputs ys"
        | "collide_in sha (set (level_inputs xs)) (set (level_inputs ys))"
        using map_eq_or_collide by (auto simp: next_level_inputs)
      then show ?thesis
      proof cases
        case 1
        with less.prems show ?thesis by (blast intro: level_inputs_inject)
      next
        case 2
        then show ?thesis using less.prems(1) by (simp add: inputs collide_in_Un)
      qed
    next
      case 2
      then show ?thesis using less.prems(1) by (simp add: inputs collide_in_Un)
    qed
  qed
qed

lemma length_merkle_loop: "xs \<noteq> [] \<Longrightarrow> length (merkle_loop sha xs) = 1"
proof (induction sha xs rule: merkle_loop.induct)
  case (1 sha xs)
  show ?case
  proof (cases "1 < length xs")
    case True
    with 1 show ?thesis by (simp add: merkle_loop.simps [of sha xs])
  next
    case False
    with "1.prems" have "length xs = 1" by (cases xs) auto
    then show ?thesis by (simp add: merkle_loop.simps [of sha xs])
  qed
qed

lemma length_chunks_of:
  "length (chunks_of c bs) = (if c = 0 then 0 else (length bs + c - 1) div c)"
proof (induction c bs rule: chunks_of.induct)
  case (1 c bs)
  show ?case
  proof (cases "bs = [] \<or> c = 0")
    case True
    then show ?thesis by (auto simp: chunks_of.simps [of c bs])
  next
    case False
    have "length bs + c - 1 = (length bs - 1) + c" "0 < c" "0 < length bs"
      using False by (cases bs; simp)+
    then have "(length bs + c - 1) div c = Suc ((length bs - 1) div c)"
      by (simp only: div_add_self2)
    moreover have "(length bs - 1) div c = (length bs - c + c - 1) div c"
    proof (cases "c \<le> length bs")
      case less: False
      with False have "length bs - 1 < c" "length bs - c + c - 1 < c" by auto
      then show ?thesis by simp
    qed simp
    ultimately have "(length bs + c - 1) div c = Suc ((length (drop c bs) + c - 1) div c)"
      by simp
    with 1 False show ?thesis by (simp add: chunks_of.simps [of c bs])
  qed
qed

lemma merkle_root_eq_or_collide:
  assumes "\<And>b. length (sha b) = n" and "0 < c" and "length bs = length cs"
    and "merkle_root sha c bs = merkle_root sha c cs"
  shows "bs = cs \<or> collide_in sha (hashed_inputs sha c bs) (hashed_inputs sha c cs)"
proof (cases "bs = []")
  case True
  with assms(3) show ?thesis by simp
next
  case False
  let ?B = "chunks_of c bs" and ?C = "chunks_of c cs"
  have ne: "?B \<noteq> []" "?C \<noteq> []" "cs \<noteq> []"
    using False assms(2,3) by (auto simp: chunks_of_eq_Nil)
  have loop: "merkle_loop sha (map sha ?B) = merkle_loop sha (map sha ?C)"
  proof (rule nth_equalityI)
    fix i
    assume "i < length (merkle_loop sha (map sha ?B))"
    then show "merkle_loop sha (map sha ?B) ! i = merkle_loop sha (map sha ?C) ! i"
      using assms(4) False ne by (simp add: length_merkle_loop merkle_root_def)
  qed (simp add: length_merkle_loop ne)
  have len: "length (map sha ?B) = length (map sha ?C)"
    using assms(3) by (simp add: length_chunks_of)
  have all: "\<forall>x \<in> set (map sha ?B) \<union> set (map sha ?C). length x = n"
    using assms(1) by auto
  from merkle_loop_eq_or_collide [OF len all assms(1) loop]
  consider "map sha ?B = map sha ?C"
    | "collide_in sha (set (merkle_inputs sha (map sha ?B))) (set (merkle_inputs sha (map sha ?C)))"
    by blast
  then show ?thesis
  proof cases
    case 1
    then consider "?B = ?C" | "collide_in sha (set ?B) (set ?C)"
      using map_eq_or_collide by blast
    then show ?thesis
      using concat_chunks_of [OF assms(2)]
      by cases (metis, simp add: hashed_inputs_def collide_in_Un)
  next
    case 2
    then show ?thesis by (simp add: hashed_inputs_def collide_in_Un)
  qed
qed

section \<open>Different sizes, same hash\<close>

text \<open>Duplicating the last node of an odd level is invisible.\<close>

lemma next_level_duplicate:
  "odd (length xs) \<Longrightarrow> next_level sha (xs @ [last xs]) = next_level sha xs"
  by (induction sha xs rule: next_level.induct) auto

lemma chunks_of_append:
  "0 < c \<Longrightarrow> length bs = k * c \<Longrightarrow> chunks_of c (bs @ cs) = chunks_of c bs @ chunks_of c cs"
proof (induction k arbitrary: bs)
  case (Suc k)
  then have "bs \<noteq> []" "length (drop c bs) = k * c" "c \<le> length bs" by auto
  with Suc show ?case
    by (simp add: chunks_of.simps [of c "bs @ cs"] chunks_of.simps [of c bs])
qed simp

lemma chunks_of_single: "bs \<noteq> [] \<Longrightarrow> length bs \<le> c \<Longrightarrow> chunks_of c bs = [bs]"
  by (cases "c = 0") (simp_all add: chunks_of.simps [of c bs])

lemma merkle_root_duplicate:
  assumes "0 < c" and "odd k" and "1 < k" and "length bs = k * c"
  shows "merkle_root sha c (bs @ drop ((k - 1) * c) bs) = merkle_root sha c bs"
proof -
  let ?l = "drop ((k - 1) * c) bs" and ?p = "take ((k - 1) * c) bs"
  have len: "length ?p = (k - 1) * c" "length ?l = c"
    using assms by (auto simp: diff_mult_distrib)
  then have l: "chunks_of c ?l = [?l]"
    using assms(1) by (intro chunks_of_single) auto
  have "chunks_of c bs = chunks_of c ?p @ [?l]"
    using chunks_of_append [OF assms(1) len(1), of ?l] l by simp
  moreover have "chunks_of c (bs @ ?l) = chunks_of c bs @ [?l]"
    using chunks_of_append [OF assms(1,4), of ?l] l by simp
  ultimately have dup: "map sha (chunks_of c (bs @ ?l)) =
      map sha (chunks_of c bs) @ [last (map sha (chunks_of c bs))]"
    by simp
  have "length (map sha (chunks_of c bs)) = (k * c + c - 1) div c"
    using assms by (simp add: length_chunks_of)
  also have "\<dots> = k"
    using assms(1) by (intro div_nat_eqI) (simp_all add: mult.commute [of c k])
  finally have n: "length (map sha (chunks_of c bs)) = k" .
  have "merkle_loop sha (map sha (chunks_of c (bs @ ?l))) =
      merkle_loop sha (map sha (chunks_of c bs))"
    using next_level_duplicate [of "map sha (chunks_of c bs)" sha] n assms(2,3)
    unfolding dup by (simp add: merkle_loop.simps)
  moreover have "bs \<noteq> []" using assms by auto
  ultimately show ?thesis by (simp add: merkle_root_def)
qed

text \<open>Above one chunk the root is the hash of two inner nodes, hence also of the file
  that consists of these two nodes.\<close>

lemma merkle_loop_two_nodes:
  "1 < length xs \<Longrightarrow> \<forall>x \<in> set xs. x \<in> range sha \<Longrightarrow>
     \<exists>a b. merkle_loop sha xs ! 0 = sha (sha a @ sha b)"
proof (induction sha xs rule: merkle_loop.induct)
  case (1 sha xs)
  show ?case
  proof (cases "length xs = 2")
    case True
    then obtain a b where "xs = [sha a, sha b]"
      using "1.prems"(2) by (auto simp: numeral_2_eq_2 length_Suc_conv)
    moreover have "merkle_loop sha [sha a, sha b] ! 0 = sha (sha a @ sha b)"
      by (simp add: merkle_loop.simps [of sha "[sha a, sha b]"]
          merkle_loop.simps [of sha "[sha (sha a @ sha b)]"])
    ultimately show ?thesis by blast
  next
    case False
    with "1.prems"(1) have "1 < length (next_level sha xs)"
      by (simp add: length_next_level)
    moreover have "\<forall>x \<in> set (next_level sha xs). x \<in> range sha"
      by (auto simp: next_level_inputs)
    ultimately show ?thesis
      using "1.IH" "1.prems"(1) by (simp add: merkle_loop.simps [of sha xs])
  qed
qed

lemma merkle_root_two_nodes:
  assumes "\<And>b. length (sha b) = 32" and "64 \<le> c" and "c < length bs"
  shows "\<exists>m. length m = 64 \<and> merkle_root sha c m = merkle_root sha c bs"
proof -
  have "2 * c \<le> length bs + c - 1" using assms(3) by simp
  then have "2 \<le> length (chunks_of c bs)"
    using assms(2) div_le_mono [of "2 * c" "length bs + c - 1" c] by (simp add: length_chunks_of)
  then obtain a b where ab: "merkle_loop sha (map sha (chunks_of c bs)) ! 0 = sha (sha a @ sha b)"
    using merkle_loop_two_nodes [of "map sha (chunks_of c bs)" sha] by auto
  let ?m = "sha a @ sha b"
  have m: "length ?m = 64" using assms(1) by simp
  then have "?m \<noteq> []" by (metis list.size(3) zero_neq_numeral)
  moreover from this m assms(2) have "chunks_of c ?m = [?m]"
    by (intro chunks_of_single) simp_all
  ultimately have "merkle_root sha c ?m = sha ?m"
    by (simp add: merkle_root_def merkle_loop.simps del: append_is_Nil_conv)
  moreover have "bs \<noteq> []" using assms(3) by auto
  ultimately have "merkle_root sha c ?m = merkle_root sha c bs"
    using ab by (simp add: merkle_root_def)
  with m show ?thesis by blast
qed

section \<open>The length of a model hash\<close>

text \<open>A model hash has the length of a SHA-256 value.\<close>

lemma next_level_lengths:
  "sha_lengths L \<Longrightarrow> list_all (\<lambda>h. length h = 32) xs \<Longrightarrow>
     list_all (\<lambda>h. length h = 32) (next_level (sha256 L) xs)"
  by (induction "sha256 L" xs rule: next_level.induct) (auto simp: sha_lengths_def)

lemma merkle_loop_lengths:
  "sha_lengths L \<Longrightarrow> list_all (\<lambda>h. length h = 32) xs \<Longrightarrow>
     list_all (\<lambda>h. length h = 32) (merkle_loop (sha256 L) xs)"
proof (induction "sha256 L" xs rule: merkle_loop.induct)
  case (1 xs)
  then show ?case by (subst merkle_loop.simps) (simp add: next_level_lengths)
qed

lemma model_hash_length:
  assumes "sha_lengths L" and "compute_model_hash L (Ok r) = Ok h"
  shows "length h = 32"
proof -
  let ?ls = "map (sha256 L) (chunks_of CHUNK_SIZE (rd_rest r))"
  have h: "h = merkle_root (sha256 L) CHUNK_SIZE (rd_rest r)"
    using assms(2) by (rule compute_model_hash_Ok)
  have "list_all (\<lambda>h. length h = 32) (merkle_loop (sha256 L) ?ls)"
    using assms(1) by (intro merkle_loop_lengths) (auto simp: list_all_iff sha_lengths_def)
  moreover have "length (merkle_loop (sha256 L) ?ls) = 1" if "?ls \<noteq> []"
    using that by (rule length_merkle_loop)
  moreover have "chunks_of CHUNK_SIZE (rd_rest r) = [] \<longleftrightarrow> rd_rest r = []"
    by (rule chunks_of_eq_Nil) (simp add: CHUNK_SIZE_def)
  ultimately show ?thesis
    using assms(1) by (auto simp: h merkle_root_def list_all_length sha_lengths_def)
qed

end
