(* ===== verification/Cli_Facts.thy ===== *)
theory Cli_Facts
  imports Cli Merkle_Facts
begin

text \<open>
  What the commands leave behind: everything but the last write of a command leaves the
  files alone, a session is loaded as it was saved, and a session file is a monotone
  register of the numbers that \<open>verify\<close> accepted.
\<close>

section \<open>Frames\<close>

definition keeps :: "cli_world \<Rightarrow> cli_world \<Rightarrow> bool" where
  "keeps w w' \<longleftrightarrow> w_files w' = w_files w \<and> w_stat_fails w' = w_stat_fails w \<and>
     (w_faults w = [] \<longrightarrow> w_faults w' = [])"

named_theorems keeping

lemma keeps_trans: "keeps w w1 \<Longrightarrow> keeps w1 w2 \<Longrightarrow> keeps w w2"
  by (simp add: keeps_def)

lemma keeps_same [simp]: "keeps w w"
  by (simp add: keeps_def)

lemma println_keeps [keeping]: "println l w = (r, w') \<Longrightarrow> keeps w w'"
  by (auto simp: println_def keeps_def)

lemma fs_read_keeps [keeping]: "fs_read p w = (r, w') \<Longrightarrow> keeps w w'"
  by (auto simp: fs_read_def io_op_def take_fault_def keeps_def split: list.splits option.splits)

lemma read_stdin_keeps [keeping]: "read_stdin w = (r, w') \<Longrightarrow> keeps w w'"
  by (auto simp: read_stdin_def io_op_def take_fault_def keeps_def split: list.splits option.splits)

lemma io_then_keeps [keeping]:
  assumes "io_then m k w = (r, w')" and "\<And>r w'. m w = (r, w') \<Longrightarrow> keeps w w'"
    and "\<And>x w1 r w'. k x w1 = (r, w') \<Longrightarrow> keeps w1 w'"
  shows "keeps w w'"
  using assms(1) by (rule io_then_out) (use assms(2,3) in \<open>blast intro: keeps_trans\<close>)+

lemma io_map_err_keeps [keeping]:
  "io_map_err f m w = (r, w') \<Longrightarrow> (\<And>r w'. m w = (r, w') \<Longrightarrow> keeps w w') \<Longrightarrow> keeps w w'"
  by (erule io_map_err_out)

lemma io_lift_keeps [keeping]: "io_lift x w = (r, w') \<Longrightarrow> keeps w w'"
  by simp

lemma or_stop_keeps [keeping]: "or_stop x w = (r, w') \<Longrightarrow> keeps w w'"
  by (simp add: or_stop_def)

lemma read_to_string_keeps [keeping]: "fs_read_to_string p w = (r, w') \<Longrightarrow> keeps w w'"
  unfolding fs_read_to_string_def by (erule keeping | simp)+

lemma read_bytes_keeps [keeping]: "read_bytes_or_stdin p w = (r, w') \<Longrightarrow> keeps w w'"
  by (cases p) (auto simp: read_bytes_or_stdin_def intro: keeping)

lemma hash_model_keeps [keeping]: "hash_model_file L answers p w = (r, w') \<Longrightarrow> keeps w w'"
  unfolding hash_model_file_def by (erule keeping | simp)+

lemma inspect_keeps: "inspect L p w = (r, w') \<Longrightarrow> keeps w w'"
  unfolding inspect_def by (erule keeping | simp)+

lemma print_lines_keeps [keeping]: "print_lines ls w = (r, w') \<Longrightarrow> keeps w w'"
proof (induction ls arbitrary: w r w')
  case (Cons l ls)
  from Cons.prems have "io_then (println l) (\<lambda>_. print_lines ls) w = (r, w')" by simp
  then show ?case using Cons.IH by (elim io_then_keeps println_keeps) blast
qed simp

lemma report_keeps [keeping]: "report_result res w = (r, w') \<Longrightarrow> keeps w w'"
  unfolding report_result_def
  by (erule keeping | simp split: if_splits option.splits)+

lemma verify_inputs_keeps [keeping]: "verify_inputs L P env args w = (r, w') \<Longrightarrow> keeps w w'"
  unfolding verify_inputs_def by (erule keeping | simp)+

lemma load_session_keeps [keeping]:
  assumes "load_session L J st v w = (r, w')"
  shows "keeps w w'"
proof (cases st)
  case (Some p)
  show ?thesis
  proof (cases "fs_exists p w")
    case True
    have "keeps w1 w'" if "(case set_state m v of (Inl e, _) \<Rightarrow> or_stop (Err (show_verify_error e))
        | (Inr _, v) \<Rightarrow> io_lift (Ok v)) w1 = (r, w')" for m w1 r and w' :: cli_world
      using that by (auto simp: or_stop_def split: sum.splits prod.splits)
    with assms Some True show ?thesis
      unfolding load_session_def by (simp; elim keeping) blast+
  qed (use assms Some in \<open>simp add: load_session_def\<close>)
qed (use assms in \<open>simp add: load_session_def\<close>)

lemma check_receipt_keeps [keeping]: "check_receipt L env rb ex v w = (r, w') \<Longrightarrow> keeps w w'"
  by (auto simp: check_receipt_def or_stop_def split: prod.splits)

lemma judge_keeps [keeping]: "judge_receipt L J env st rb ex v w = (r, w') \<Longrightarrow> keeps w w'"
  unfolding judge_receipt_def by (erule keeping | simp split: prod.splits)+

section \<open>The session\<close>

text \<open>The state that a session file stands for.\<close>

definition session_of :: "lib \<Rightarrow> json_lib \<Rightarrow> bytes option \<Rightarrow> replay_state option" where
  "session_of L J file =
     (case file of
        None \<Rightarrow> Some Map.empty
      | Some b \<Rightarrow> (case read_session L J b of Inr m \<Rightarrow> Some m | Inl _ \<Rightarrow> None))"

lemma decode_session_entries:
  "decode_entries L kvs m = Ok m' \<Longrightarrow> decode_session L kvs m = Ok m'"
proof (induction kvs arbitrary: m)
  case (Cons kv kvs)
  obtain k n where kv: "kv = (k, n)" by fastforce
  obtain b where "hex_decode L k = Ok b" "length b = 32" "decode_entries L kvs (m(b \<mapsto> n)) = Ok m'"
    using Cons.prems by (auto simp: kv decode_hex_32_def result_simps split: if_splits)
  with Cons.IH show ?case by (simp add: kv)
qed simp

lemma decode_session_ok:
  "decode_session L kvs m = Ok m' \<Longrightarrow> fingerprints_ok m \<Longrightarrow> fingerprints_ok m'"
  by (induction kvs arbitrary: m)
    (auto simp: result_simps fingerprints_ok_upd split: if_splits)

lemma session_of_ok: "session_of L J file = Some m \<Longrightarrow> fingerprints_ok m"
  by (auto simp: session_of_def read_session_def result_simps fingerprints_ok_empty
      intro: decode_session_ok split: option.splits sum.splits)

lemma encoded_session:
  "encoded_state L J m = Ok b \<longleftrightarrow>
     json_encode_map J (map (\<lambda>(k, v). (hex_encode L k, v)) (hash_map_iter J m)) = Ok b"
  by (simp add: encoded_state_def result_simps)

lemma session_round_trip:
  assumes "hex_roundtrips L" and "json_roundtrips J" and "fingerprints_ok m"
    and "encoded_state L J m = Ok b"
  shows "session_of L J (Some b) = Some m"
proof -
  have "decode_state L J b = Ok m"
    using assms by (rule state_round_trip)
  then show ?thesis
    by (auto simp: decode_state_def read_session_def session_of_def result_simps
        dest!: decode_session_entries)
qed

lemma load_session_Ok:
  assumes "load_session L J (Some p) v w = (Ok v1, w1)" and "\<not> w_stat_fails w"
    and "vf_state v = Some (Healthy Map.empty)"
  shows "\<exists>m. session_of L J (w_files w p) = Some m \<and> v1 = with_state v m"
proof (cases "w_files w p")
  case None
  with assms show ?thesis by (simp add: load_session_def fs_exists_def session_of_def)
next
  case (Some b)
  have "io_then (or_fail (fs_read p)) (\<lambda>bytes.
            io_then (or_stop (read_session L J bytes)) (\<lambda>decoded_state.
              (case set_state decoded_state v of
                 (Inl e, _) \<Rightarrow> or_stop (Err (show_verify_error e))
               | (Inr _, v) \<Rightarrow> io_lift (Ok v)))) w = (Ok v1, w1)"
    using assms(1,2) Some by (simp add: load_session_def fs_exists_def)
  then obtain b' w2 m where "fs_read p w = (Ok b', w2)" "read_session L J b' = Ok m"
    "(case set_state m v of (Inl e, _) \<Rightarrow> or_stop (Err (show_verify_error e))
        | (Inr _, v) \<Rightarrow> io_lift (Ok v)) w2 = (Ok v1, w1)"
    by (auto simp: io_simps or_stop_def result_simps)
  then show ?thesis
    using Some assms(3)
    by (auto simp: session_of_def set_state_def with_state_def dest!: fs_read_out)
qed

lemma check_receipt_Ok:
  "check_receipt L env rb ex v w = (Ok (res, v'), w') \<longleftrightarrow>
     verify L (ve_clock env) (ve_now env) rb ex v = (Ok res, v') \<and> w' = w"
  by (auto simp: check_receipt_def or_stop_def result_simps split: prod.splits)

lemma judge_receipt_Ok:
  assumes "judge_receipt L J env st rb ex v w = (Ok v', w')"
  obtains v1 w1 res where "load_session L J st v w = (Ok v1, w1)"
    "verify L (ve_clock env) (ve_now env) rb ex v1 = (Ok res, v')" "vr_valid res"
proof -
  have valid: "vr_valid res" if "report_result res w1 = (Ok (), w2)" for res w1 w2
    using that by (auto simp: report_result_def io_simps split: if_splits)
  obtain v1 w1 w2 res v2 w3 where "load_session L J st v w = (Ok v1, w1)"
    "check_receipt L env rb ex v1 w2 = (Ok (res, v2), w3)" "v2 = v'" "vr_valid res"
    using assms unfolding judge_receipt_def
    by (auto simp: io_simps println_def dest!: valid)
  then show ?thesis
    using that unfolding check_receipt_Ok by blast
qed

lemma verify_inputs_Ok:
  assumes "verify_inputs L P env args w = (Ok (rb, ex, v), w')"
  shows "w_files w (va_receipt args) = Some rb \<and>
    vf_state v = (if va_stateful args = None then None else Some (Healthy Map.empty)) \<and> vf_provider v = P"
  using assms unfolding verify_inputs_def io_simps
  by (auto simp: or_stop_def result_simps from_pem_def from_pem_with_config_def new_with_config_def
      dest!: fs_read_out)

text \<open>Saving, without faults.\<close>

lemma save_session_calm:
  assumes "w_faults w = []" and "encoded_state L J m = Ok b"
  shows "save_session L J p m w = (Ok (), w\<lparr>w_files := (w_files w)(p \<mapsto> b)\<rparr>)"
  using assms(1) assms(2) [unfolded encoded_session]
  by (simp add: save_session_def io_then.simps io_map_err.simps fs_create_def io_op_def take_fault_def
      or_stop_def fs_write_all_def append_to_def)

section \<open>One run\<close>

text \<open>Nothing fails in the file system, and the JSON crate encodes every map.\<close>

definition calm :: "'z world_scheme \<Rightarrow> bool" where
  "calm w \<longleftrightarrow> w_faults w = [] \<and> \<not> w_stat_fails w"

definition json_encodes :: "json_lib \<Rightarrow> bool" where
  "json_encodes J \<longleftrightarrow> (\<forall>kvs. \<exists>b. json_encode_map J kvs = Ok b)"

lemma keeps_calm: "keeps w w' \<Longrightarrow> calm w \<Longrightarrow> calm w'"
  by (simp add: keeps_def calm_def)

lemma cli_verify_outcome:
  assumes run: "cli_verify L J P env args w = (r, w')" and p: "va_stateful args = Some p"
    and c: "calm w" and enc: "json_encodes J"
  shows "calm w' \<and>
    (r \<noteq> Ok () \<and> w_files w' = w_files w \<or>
     (\<exists>rb m k n b. r = Ok () \<and> w_files w (va_receipt args) = Some rb \<and>
        receipt_number L rb = Some (k, unat n) \<and> session_of L J (w_files w p) = Some m \<and>
        (\<forall>last_seq. m k = Some last_seq \<longrightarrow> last_seq < n) \<and>
        encoded_state L J (m(k \<mapsto> n)) = Ok b \<and> w_files w' = (w_files w)(p \<mapsto> b)))"
  using run unfolding cli_verify_def
proof (cases rule: io_then_out)
  case (first e)
  then have "keeps w w'" using verify_inputs_keeps by blast
  with first c show ?thesis by (simp add: keeps_calm) (simp add: keeps_def)
next
  case (both x w1)
  obtain rb ex v where x: "x = (rb, ex, v)" by (cases x) auto
  have k1: "keeps w w1" using both(1) verify_inputs_keeps by blast
  have rb: "w_files w (va_receipt args) = Some rb" "vf_state v = Some (Healthy Map.empty)"
    using verify_inputs_Ok [OF both(1) [unfolded x]] p by simp_all
  have rest: "io_then (judge_receipt L J env (Some p) rb ex v) (save_if_stateful L J (Some p)) w1 = (r, w')"
    using both(2) p by (simp add: x)
  then show ?thesis
  proof (cases rule: io_then_out)
    case (first e)
    then have "keeps w1 w'" using judge_keeps by blast
    with k1 have "keeps w w'" by (rule keeps_trans)
    with first c show ?thesis by (simp add: keeps_calm) (simp add: keeps_def)
  next
    case (both v' w2)
    have k2: "keeps w1 w2" using both(1) judge_keeps by blast
    obtain v1 w3 res where ld: "load_session L J (Some p) v w1 = (Ok v1, w3)"
      and vr: "verify L (ve_clock env) (ve_now env) rb ex v1 = (Ok res, v')" "vr_valid res"
      using both(1) by (rule judge_receipt_Ok)
    have c1: "calm w1" "calm w2" using c k1 k2 keeps_calm by blast+
    obtain m where m: "session_of L J (w_files w1 p) = Some m" "v1 = with_state v m"
      using load_session_Ok [OF ld _ rb(2)] c1(1) by (auto simp: calm_def)
    have "vf_state v1 = Some (Healthy m)" using m(2) by simp
    with vr(1) obtain k n where kn: "receipt_number L rb = Some (k, unat n)"
      "\<forall>last_seq. m k = Some last_seq \<longrightarrow> last_seq < n" "v' = with_state v1 (m(k \<mapsto> n))"
      by (cases rule: verify_cases) (use vr(2) in auto)
    obtain b where b: "encoded_state L J (m(k \<mapsto> n)) = Ok b"
      using enc unfolding json_encodes_def encoded_session by blast
    have "save_session L J p (m(k \<mapsto> n)) w2 = (r, w')"
      using both(2) kn(3) by (simp add: save_if_stateful_def io_then.simps or_stop_def get_state_def)
    then have "r = Ok ()" "w' = w2\<lparr>w_files := (w_files w2)(p \<mapsto> b)\<rparr>"
      using save_session_calm [of w2 L J "m(k \<mapsto> n)" b p] b c1(2) by (auto simp: calm_def)
    moreover have "w_files w2 = w_files w" "w_files w1 = w_files w"
      using k1 k2 by (simp_all add: keeps_def)
    moreover have "calm (w2\<lparr>w_files := (w_files w2)(p \<mapsto> b)\<rparr>)" using c1(2) by (simp add: calm_def)
    ultimately show ?thesis using rb kn b m(1) by auto
  qed
qed

section \<open>Many runs on one session\<close>

text \<open>Between runs, all files but the session may change, and the standard input is new.\<close>

record cli_call =
  cc_env :: verify_env
  cc_args :: verify_args
  cc_files :: "path \<rightharpoonup> bytes"
  cc_stdin :: bytes

definition prepared :: "path \<Rightarrow> cli_call \<Rightarrow> cli_world \<Rightarrow> cli_world" where
  "prepared p c w = w\<lparr>w_files := (cc_files c)(p := w_files w p), cw_stdin := cc_stdin c\<rparr>"

definition session_step ::
  "lib \<Rightarrow> json_lib \<Rightarrow> provider \<Rightarrow> path \<Rightarrow> (cli_call, cli_world, bytes) register_step" where
  "session_step L J P p c w =
     (let args = (cc_args c)\<lparr>va_stateful := Some p\<rparr>;
          (r, w') = cli_verify L J P (cc_env c) args (prepared p c w)
      in (case r of
            Inr _ \<Rightarrow> Option.bind (w_files (prepared p c w) (va_receipt args)) (receipt_number L)
          | Inl _ \<Rightarrow> None, w'))"

definition session_mark :: "lib \<Rightarrow> json_lib \<Rightarrow> path \<Rightarrow> cli_world \<Rightarrow> bytes \<rightharpoonup> nat" where
  "session_mark L J p w k =
     (case session_of L J (w_files w p) of Some m \<Rightarrow> map_option unat (m k) | None \<Rightarrow> None)"

definition session_ok :: "lib \<Rightarrow> json_lib \<Rightarrow> cli_world \<Rightarrow> bool" where
  "session_ok L J w \<longleftrightarrow> calm w \<and> hex_roundtrips L \<and> json_roundtrips J \<and> json_encodes J \<and> sha_lengths L"

lemma session_step_cases:
  assumes ok: "session_ok L J w" and st: "session_step L J P p c w = (e, w')"
  obtains (unchanged) "e = None" "session_mark L J p w' = session_mark L J p w" "session_ok L J w'"
    | (recorded) k n where "e = Some (k, n)" "\<forall>m. session_mark L J p w k = Some m \<longrightarrow> m < n"
        "session_mark L J p w' = (session_mark L J p w)(k \<mapsto> n)" "session_ok L J w'"
proof -
  let ?args = "(cc_args c)\<lparr>va_stateful := Some p\<rparr>" and ?w = "prepared p c w"
  obtain r w1 where run: "cli_verify L J P (cc_env c) ?args ?w = (r, w1)" by fastforce
  have laws: "calm ?w" "hex_roundtrips L" "json_roundtrips J" "json_encodes J" "sha_lengths L"
    using ok by (auto simp: session_ok_def prepared_def calm_def)
  have same: "w_files ?w p = w_files w p" by (simp add: prepared_def)
  have w1: "w1 = w'" using st run by (simp add: session_step_def Let_def)
  from cli_verify_outcome [OF run _ laws(1,4), of p]
  consider (no) "calm w1" "r \<noteq> Ok ()" "w_files w1 = w_files ?w"
    | (yes) rb m k n b where "calm w1" "r = Ok ()" "w_files ?w (va_receipt ?args) = Some rb"
        "receipt_number L rb = Some (k, unat n)" "session_of L J (w_files ?w p) = Some m"
        "\<forall>last_seq. m k = Some last_seq \<longrightarrow> last_seq < n"
        "encoded_state L J (m(k \<mapsto> n)) = Ok b" "w_files w1 = (w_files ?w)(p \<mapsto> b)"
    by auto
  then show ?thesis
  proof cases
    case no
    then have "e = None" using st run by (cases r) (auto simp: session_step_def Let_def)
    moreover have "session_mark L J p w' = session_mark L J p w"
      using no(3) same w1 by (simp add: session_mark_def fun_eq_iff)
    ultimately show ?thesis using unchanged no(1) w1 laws by (simp add: session_ok_def)
  next
    case yes
    have "fingerprints_ok (m(k \<mapsto> n))"
      using session_of_ok [OF yes(5)] receipt_number_length [OF laws(5) yes(4)]
      by (rule fingerprints_ok_upd)
    then have "session_of L J (Some b) = Some (m(k \<mapsto> n))"
      using session_round_trip laws(2,3) yes(7) by blast
    then have "session_mark L J p w' = (session_mark L J p w)(k \<mapsto> unat n)"
      using yes(5,8) same w1 by (auto simp: session_mark_def fun_eq_iff)
    moreover have "e = Some (k, unat n)"
      using st run yes(2,3,4) by (simp add: session_step_def Let_def)
    moreover have "\<forall>x. session_mark L J p w k = Some x \<longrightarrow> x < unat n"
      using yes(5,6) same by (auto simp: session_mark_def word_less_nat_alt)
    ultimately show ?thesis using recorded yes(1) w1 laws by (simp add: session_ok_def)
  qed
qed

interpretation sessions:
  monotone_register "session_step L J P p" "session_mark L J p" "session_ok L J"
  for L J P p
proof unfold_locales
  fix w c k n w'
  assume "session_ok L J w" "session_step L J P p c w = (Some (k, n), w')"
  then show "(\<forall>m. session_mark L J p w k = Some m \<longrightarrow> m < n) \<and> session_mark L J p w' k = Some n \<and>
      mark_le (session_mark L J p w) (session_mark L J p w')"
    by (cases rule: session_step_cases) (auto intro: mark_le_upd less_imp_le)
next
  fix w c w'
  assume "session_ok L J w" "session_step L J P p c w = (None, w')"
  then show "mark_le (session_mark L J p w) (session_mark L J p w')"
    by (cases rule: session_step_cases) auto
next
  fix w c
  assume ok: "session_ok L J w"
  obtain e w' where st: "session_step L J P p c w = (e, w')" by fastforce
  with ok have "session_ok L J w'" by (cases rule: session_step_cases)
  with st show "session_ok L J (snd (session_step L J P p c w))" by simp
qed

section \<open>Generate, then verify\<close>

lemma fs_read_calm: "calm w \<Longrightarrow> w_files w p = Some b \<Longrightarrow> fs_read p w = (Ok b, w)"
  by (simp add: calm_def fs_read_def io_op_def take_fault_def)

lemma calm_out [simp]: "calm (w\<lparr>cw_out := ls\<rparr>) = calm w"
  by (simp add: calm_def)

lemma print_lines_run: "print_lines ls w = (Ok (), w\<lparr>cw_out := cw_out w @ ls\<rparr>)"
  by (induction ls arbitrary: w) (simp_all add: println_def io_then.simps)

lemma fs_create_Ok: "fs_create p w = (Ok (), w') \<Longrightarrow> w_files w' = (w_files w)(p \<mapsto> [])"
  unfolding fs_create_def by (elim io_op_cases) auto

lemma fs_write_Ok: "fs_write p b w = (Ok (), w') \<Longrightarrow> w_files w' = (w_files w)(p \<mapsto> b)"
  by (auto simp: fs_write_def io_simps append_to_def dest!: fs_create_Ok fs_write_all_out)

lemma hash_model_file_Ok:
  "hash_model_file L answers p w = (Ok mh, w') \<Longrightarrow>
     w_files w' = w_files w \<and> (\<exists>m. w_files w p = Some m \<and>
       compute_model_hash L (Ok \<lparr>rd_rest = m, rd_answers = answers\<rparr>) = Ok mh)"
  by (auto simp: hash_model_file_def io_simps or_stop_def result_simps dest!: fs_read_out)

lemma read_file_Ok:
  "read_bytes_or_stdin (Some p) w = (Ok b, w') \<Longrightarrow> w_files w' = w_files w \<and> w_files w p = Some b"
  by (auto simp: read_bytes_or_stdin_def dest!: fs_read_out)

lemma generate_Ok:
  assumes "generate L P env args w = (Ok (), w')"
    and "ga_input_file args = Some pi" "ga_output_file args = Some po" "ga_nonce args = Some hex"
  obtains m ib ob mh nn rb g' where "w_files w (ga_model args) = Some m" "w_files w pi = Some ib"
    "w_files w po = Some ob" "parse_hex_32 L hex = Ok nn"
    "compute_model_hash L (Ok \<lparr>rd_rest = m, rd_answers = ge_answers env\<rparr>) = Ok mh"
    "generate_receipt L (ge_clock_provider env) (ge_now env) mh (sha256 L ib) (sha256 L ob) nn
       (generator_new P (ge_key env)) = (Ok rb, g')"
    "w_files w' = (w_files w)(ga_receipt_out args \<mapsto> rb)"
proof -
  obtain mh ib ob nn rb w1 w2 w3 w4 w5 where
    steps: "hash_model_file L (ge_answers env) (ga_model args) w1 = (Ok mh, w2)"
      "read_bytes_or_stdin (Some pi) (w2\<lparr>cw_out := cw_out w2 @ [''Model Merkle root: '' @ hex_encode L mh]\<rparr>) = (Ok ib, w3)"
      "read_bytes_or_stdin (Some po) w3 = (Ok ob, w4)" "parse_hex_32 L hex = Ok nn"
      "fs_write (ga_receipt_out args) rb w4 = (Ok (), w5)" "w_files w5 = w_files w'"
    and w1: "w_files w1 = w_files w"
    and gen: "fst (generate_receipt L (ge_clock_provider env) (ge_now env) mh (sha256 L ib)
       (sha256 L ob) nn (generator_new P (ge_key env))) = Ok rb"
    using assms(1) unfolding generate_def assms(2-4)
    by (auto simp: io_simps println_def or_stop_def result_simps)
  obtain m where m: "w_files w2 = w_files w" "w_files w (ga_model args) = Some m"
    "compute_model_hash L (Ok \<lparr>rd_rest = m, rd_answers = ge_answers env\<rparr>) = Ok mh"
    using hash_model_file_Ok [OF steps(1)] w1 by auto
  have files: "w_files w pi = Some ib" "w_files w po = Some ob" "w_files w4 = w_files w"
    using read_file_Ok [OF steps(2)] read_file_Ok [OF steps(3)] m(1) by simp_all
  show ?thesis
  proof (rule that [OF m(2) files(1,2) steps(4) m(3)])
    show "generate_receipt L (ge_clock_provider env) (ge_now env) mh (sha256 L ib) (sha256 L ob) nn
       (generator_new P (ge_key env)) = (Ok rb, snd (generate_receipt L (ge_clock_provider env)
         (ge_now env) mh (sha256 L ib) (sha256 L ob) nn (generator_new P (ge_key env))))"
      using gen by (metis prod.collapse)
    show "w_files w' = (w_files w)(ga_receipt_out args \<mapsto> rb)"
      using fs_write_Ok [OF steps(5)] steps(6) files(3) by simp
  qed
qed

text \<open>\<open>verify\<close> on files that are there, without faults and without a session.\<close>

lemma hash_model_file_run:
  assumes "calm w" and "w_files w p = Some m"
    and "compute_model_hash L (Ok \<lparr>rd_rest = m, rd_answers = answers\<rparr>) = Ok mh"
  shows "hash_model_file L answers p w = (Ok mh, w)"
  using assms by (simp add: hash_model_file_def io_then.simps io_map_err.simps fs_read_calm or_stop_def)

lemma verify_inputs_run:
  assumes "calm w" and "w_files w (va_receipt args) = Some rb" "w_files w (va_model args) = Some m"
    "w_files w pi = Some ib" "w_files w po = Some ob" "w_files w (va_root_cert args) = Some pem"
    and "va_input_file args = Some pi" "va_output_file args = Some po"
    and "compute_model_hash L (Ok \<lparr>rd_rest = m, rd_answers = ve_answers env\<rparr>) = Ok mh"
    and "parse_hex_32 L (va_nonce args) = Ok nn" "parse_hex_any L (va_expected_pcr0 args) = Ok pcr0"
    and "utf8_valid pem" "from_pem L P (str_of_bytes pem) (va_stateful args \<noteq> None) = Ok v"
  shows "verify_inputs L P env args w =
    (Ok (rb, \<lparr>ex_model_hash = mh, ex_input_hash = sha256 L ib, ex_output_hash = sha256 L ob,
       ex_nonce = nn, ex_pcr0 = pcr0\<rparr>, v),
     w\<lparr>cw_out := cw_out w @ [''Recomputing model Merkle root...'']\<rparr>)"
  using assms
  by (simp add: verify_inputs_def io_then.simps io_map_err.simps println_def fs_read_calm
      hash_model_file_run read_bytes_or_stdin_def fs_read_to_string_def or_stop_def)

lemma judge_run:
  assumes "verify L (ve_clock env) (ve_now env) rb ex v = (Ok res, v')" and "vr_valid res"
  shows "\<exists>w'. judge_receipt L J env None rb ex v w = (Ok v', w') \<and>
    (CHR 0x0A # ''Result: VERIFIED'') \<in> set (cw_out w')"
  using assms
  by (simp add: judge_receipt_def load_session_def io_then.simps println_def check_receipt_def
      or_stop_def report_result_def print_lines_run)

lemma verify_stateless:
  "verify L clock now rb ex v = (r, v') \<Longrightarrow> vf_state v = None \<Longrightarrow> vf_state v' = None"
  by (auto simp: verify_def check_sequence_def split: stage.splits prod.splits)

end
