(* ===== verification/Cli_Faults.thy ===== *)
theory Cli_Faults
  imports Cli_Facts
begin

text \<open>
  A run of the command line tool that meets a fault late.  \<open>steady\<close> programs, run without
  faults, take a fixed number of file operations, and behave the same when a fault comes
  only after these; so a fault can be aimed at the last write of any run that ends well.
\<close>

definition with_faults :: "io_fault option list \<Rightarrow> cli_world \<Rightarrow> cli_world" where
  "with_faults fs w = w\<lparr>w_faults := fs\<rparr>"

lemma with_faults_simps [simp]:
  "w_files (with_faults fs w) = w_files w" "w_faults (with_faults fs w) = fs"
  "w_stat_fails (with_faults fs w) = w_stat_fails w" "cw_out (with_faults fs w) = cw_out w"
  "cw_stdin (with_faults fs w) = cw_stdin w"
  "with_faults fs (with_faults fs' w) = with_faults fs w"
  "fs_exists p (with_faults fs w) = fs_exists p w"
  by (simp_all add: with_faults_def fs_exists_def)

definition steady :: "(cli_world, 'e, 'a) io \<Rightarrow> bool" where
  "steady m \<longleftrightarrow> (\<forall>w r w'. w_faults w = [] \<longrightarrow> m w = (r, w') \<longrightarrow> w_faults w' = [] \<and>
     (\<exists>k. \<forall>fs. m (with_faults (replicate k None @ fs) w) = (r, with_faults fs w')))"

lemma steadyI:
  assumes "\<And>w r w'. w_faults w = [] \<Longrightarrow> m w = (r, w') \<Longrightarrow>
     w_faults w' = [] \<and> (\<exists>k. \<forall>fs. m (with_faults (replicate k None @ fs) w) = (r, with_faults fs w'))"
  shows "steady m"
  unfolding steady_def by (intro allI impI) (rule assms)

lemma steadyE:
  assumes "steady m" "w_faults w = []" "m w = (r, w')"
  obtains k where "w_faults w' = []"
    "\<And>fs. m (with_faults (replicate k None @ fs) w) = (r, with_faults fs w')"
proof -
  have "w_faults w' = [] \<and> (\<exists>k. \<forall>fs. m (with_faults (replicate k None @ fs) w) = (r, with_faults fs w'))"
    by (rule assms(1) [unfolded steady_def, rule_format, OF assms(2,3)])
  then show thesis using that by iprover
qed

named_theorems steadies

lemma io_then_steady [steadies]:
  assumes "steady m" and "\<And>x. steady (k x)"
  shows "steady (io_then m k)"
proof (rule steadyI)
  fix w r w'
  assume w: "w_faults w = []" and run: "io_then m k w = (r, w')"
  show "w_faults w' = [] \<and>
      (\<exists>n. \<forall>fs. io_then m k (with_faults (replicate n None @ fs) w) = (r, with_faults fs w'))"
    using run
  proof (cases rule: io_then_out)
    case (first e)
    from steadyE [OF assms(1) w first(1)] obtain n where "w_faults w' = []"
      "\<And>fs. m (with_faults (replicate n None @ fs) w) = (Inl e, with_faults fs w')" by blast
    with first(2) show ?thesis by (auto simp: io_then.simps intro!: exI [of _ n])
  next
    case (both x w1)
    from steadyE [OF assms(1) w both(1)] obtain n1 where w1: "w_faults w1 = []"
      and m: "\<And>fs. m (with_faults (replicate n1 None @ fs) w) = (Inr x, with_faults fs w1)" by blast
    from steadyE [OF assms(2) w1 both(2)] obtain n2 where "w_faults w' = []"
      and kx: "\<And>fs. k x (with_faults (replicate n2 None @ fs) w1) = (r, with_faults fs w')" by blast
    moreover have "io_then m k (with_faults (replicate (n1 + n2) None @ fs) w) = (r, with_faults fs w')" for fs
      using m [of "replicate n2 None @ fs"] kx by (simp add: io_then.simps replicate_add)
    ultimately show ?thesis by blast
  qed
qed

lemma io_map_err_steady [steadies]: "steady m \<Longrightarrow> steady (io_map_err f m)"
proof (rule steadyI)
  fix w r w'
  assume m: "steady m" and w: "w_faults w = []" and run: "io_map_err f m w = (r, w')"
  obtain r0 where r0: "m w = (r0, w')" "r = map_err f r0"
    using run by (auto elim: io_map_err_out)
  from steadyE [OF m w r0(1)] obtain n where "w_faults w' = []"
    "\<And>fs. m (with_faults (replicate n None @ fs) w) = (r0, with_faults fs w')" by blast
  with r0(2) show "w_faults w' = [] \<and>
      (\<exists>k. \<forall>fs. io_map_err f m (with_faults (replicate k None @ fs) w) = (r, with_faults fs w'))"
    by (auto simp: io_map_err.simps intro!: exI [of _ n])
qed

lemma effect_steady:
  assumes "\<And>w fs. m (with_faults fs w) = (fst (m w), with_faults fs (snd (m w)))"
    and "\<And>w. w_faults (snd (m w)) = w_faults w"
  shows "steady m"
proof (rule steadyI)
  fix w r w'
  assume w: "w_faults w = []" "m w = (r, w')"
  then have "w_faults w' = []" "\<forall>fs. m (with_faults (replicate 0 None @ fs) w) = (r, with_faults fs w')"
    using assms(1) [of _ w] assms(2) [of w] by simp_all
  then show "w_faults w' = [] \<and>
      (\<exists>k. \<forall>fs. m (with_faults (replicate k None @ fs) w) = (r, with_faults fs w'))" by blast
qed

lemma io_lift_steady [steadies]: "steady (io_lift x)"
  by (rule effect_steady) simp_all

lemma or_stop_steady [steadies]: "steady (or_stop x)"
  by (simp add: or_stop_def io_lift_steady)

lemma println_steady [steadies]: "steady (println l)"
  by (rule effect_steady) (simp_all add: println_def with_faults_def)

text \<open>An operation takes one entry of the list of faults.\<close>

lemma io_op_steady:
  assumes "\<And>w fs. m (with_faults fs w) = (fst (m w), with_faults fs (snd (m w)))"
    and "\<And>w. w_faults (snd (m w)) = w_faults w"
  shows "steady (io_op m)"
proof (rule steadyI)
  fix w r w'
  assume w: "w_faults w = []" "io_op m w = (r, w')"
  then have m: "m w = (r, w')" by (simp add: io_op_def take_fault_def)
  have "io_op m (with_faults (replicate 1 None @ fs) w) = (r, with_faults fs w')" for fs
    using assms(1) [of fs w] m by (simp add: io_op_def take_fault_def) (simp add: with_faults_def)
  moreover have "w_faults w' = []" using assms(2) [of w] m w(1) by simp
  ultimately show "w_faults w' = [] \<and>
      (\<exists>k. \<forall>fs. io_op m (with_faults (replicate k None @ fs) w) = (r, with_faults fs w'))" by blast
qed

lemma fs_read_steady [steadies]: "steady (fs_read p)"
  unfolding fs_read_def by (rule io_op_steady) simp_all

lemma read_stdin_steady [steadies]: "steady read_stdin"
  unfolding read_stdin_def by (rule io_op_steady) (simp_all add: with_faults_def)

lemma fs_create_steady [steadies]: "steady (fs_create p)"
  unfolding fs_create_def by (rule io_op_steady) (simp_all add: with_faults_def)

lemma read_to_string_steady [steadies]: "steady (fs_read_to_string p)"
  unfolding fs_read_to_string_def by (intro steadies)

lemma read_bytes_steady [steadies]: "steady (read_bytes_or_stdin p)"
  by (cases p) (simp_all add: read_bytes_or_stdin_def steadies)

lemma hash_model_steady [steadies]: "steady (hash_model_file L answers p)"
  unfolding hash_model_file_def by (intro steadies)

lemma verify_inputs_steady [steadies]: "steady (verify_inputs L P env args)"
  unfolding verify_inputs_def by (intro steadies)

lemma print_lines_steady [steadies]: "steady (print_lines ls)"
proof (induction ls)
  case Nil
  show ?case by (rule effect_steady) simp_all
next
  case (Cons l ls)
  have "print_lines (l # ls) = io_then (println l) (\<lambda>_. print_lines ls)"
    by (rule ext) simp
  with Cons show ?case by (simp add: steadies)
qed

lemma report_steady [steadies]: "steady (report_result res)"
  unfolding report_result_def
  by (intro steadies) (auto split: option.splits intro!: steadies)

lemma set_session_steady [steadies]:
  "steady (case set_state m v of (Inl e, _) \<Rightarrow> or_stop (Err (show_verify_error e))
     | (Inr _, v) \<Rightarrow> io_lift (Ok v))"
  by (auto split: prod.splits sum.splits intro: steadies)

lemma load_session_steady [steadies]: "steady (load_session L J st v)"
proof (rule steadyI)
  fix w r w'
  assume w: "w_faults w = []" "load_session L J st v w = (r, w')"
  let ?goal = "w_faults w' = [] \<and> (\<exists>k. \<forall>fs. load_session L J st v
      (with_faults (replicate k None @ fs) w) = (r, with_faults fs w'))"
  show ?goal
  proof (cases "\<exists>p. st = Some p \<and> fs_exists p w")
    case True
    then obtain p where p: "st = Some p" "fs_exists p w" by blast
    let ?m = "io_then (or_fail (fs_read p)) (\<lambda>bytes.
            io_then (or_stop (read_session L J bytes)) (\<lambda>decoded_state.
              (case set_state decoded_state v of
                 (Inl e, _) \<Rightarrow> or_stop (Err (show_verify_error e))
               | (Inr _, v) \<Rightarrow> io_lift (Ok v))))"
    have "steady ?m" by (intro steadies)
    moreover have "?m w = (r, w')" using w(2) p by (simp add: load_session_def)
    ultimately show ?thesis using w(1) p by (elim steadyE) (auto simp: load_session_def)
  next
    case False
    then have "load_session L J st v w2 = (Ok v, w2)"
      if "fs_exists = fs_exists" "\<And>p. fs_exists p w2 = fs_exists p w" for w2
      using that by (cases st) (auto simp: load_session_def)
    then have "r = Ok v" "w' = w" "\<And>fs. load_session L J st v (with_faults fs w) = (Ok v, with_faults fs w)"
      using w(2) by auto
    with w(1) show ?thesis by (auto intro!: exI [of _ 0])
  qed
qed

lemma check_receipt_steady [steadies]: "steady (check_receipt L env rb ex v)"
  by (auto simp: check_receipt_def split: prod.splits intro: steadies)

lemma judge_steady [steadies]: "steady (judge_receipt L J env st rb ex v)"
  unfolding judge_receipt_def
  by (intro steadies, simp split: prod.splits) (intro allI impI steadies)

section \<open>The last write\<close>

text \<open>A run that ends well has printed its verdict, and then saved.\<close>

lemma report_prints:
  assumes "report_result res w = (Ok (), w')"
  shows "(CHR 0x0A # ''Result: VERIFIED'') \<in> set (cw_out w')"
  using assms by (auto simp: report_result_def io_simps println_def split: if_splits)

lemma save_interrupted:
  assumes "save_session L J p m w = (Ok (), w1)" and "w_faults w = []"
  shows "\<exists>b. w_files w1 p = Some b \<and> cw_out w1 = cw_out w \<and>
    (\<forall>reason n. save_session L J p m (with_faults [None, Some (IoFault reason n)] w) =
       (Err (MainError reason), w1\<lparr>w_files := (w_files w1)(p \<mapsto> take n b)\<rparr>))"
proof -
  obtain b where b: "json_encode_map J (map (\<lambda>(k, v). (hex_encode L k, v)) (hash_map_iter J m)) = Ok b"
    using assms(1) by (auto simp: save_session_def io_simps or_stop_def result_simps)
  then have w1: "w1 = w\<lparr>w_files := (w_files w)(p \<mapsto> b)\<rparr>"
    using assms save_session_calm [OF assms(2), of L J m b p] by (simp add: encoded_session)
  have "save_session L J p m (with_faults [None, Some (IoFault reason n)] w) =
      (Err (MainError reason), w1\<lparr>w_files := (w_files w1)(p \<mapsto> take n b)\<rparr>)" for reason n
    using b assms(2)
    by (cases w) (simp add: save_session_def io_then.simps io_map_err.simps fs_create_def io_op_def
        take_fault_def or_stop_def fs_write_all_def append_to_def w1 with_faults_def)
  then show ?thesis by (simp add: w1)
qed

lemma verify_interrupted:
  assumes run: "cli_verify L J P ve va w = (Ok (), w1)" and w: "w_faults w = []"
    and st: "va_stateful va = Some p"
  shows "\<exists>k b. w_files w1 p = Some b \<and> (CHR 0x0A # ''Result: VERIFIED'') \<in> set (cw_out w1) \<and>
    (\<forall>reason n. cli_verify L J P ve va
         (w\<lparr>w_faults := replicate k None @ [Some (IoFault reason n)]\<rparr>) =
       (Err (MainError reason), w1\<lparr>w_files := (w_files w1)(p \<mapsto> take n b)\<rparr>))"
proof -
  let ?judge = "io_then (verify_inputs L P ve va) (\<lambda>(rb, ex, v). judge_receipt L J ve (Some p) rb ex v)"
  have split: "cli_verify L J P ve va w = io_then ?judge (save_if_stateful L J (Some p)) w" for w
    unfolding cli_verify_def st io_then.simps by (auto split: prod.splits sum.splits)
  obtain v w2 where j: "?judge w = (Ok v, w2)" and s: "save_if_stateful L J (Some p) v w2 = (Ok (), w1)"
    using run unfolding split by (auto simp: io_simps)
  obtain rb ex v0 wi where i: "verify_inputs L P ve va w = (Ok (rb, ex, v0), wi)"
    and jr: "judge_receipt L J ve (Some p) rb ex v0 wi = (Ok v, w2)"
    using j by (auto simp: io_simps)
  have "steady ?judge" by (intro steadies, simp split: prod.splits) (intro allI impI steadies)
  from steadyE [OF this w j] obtain k where w2: "w_faults w2 = []"
    and late: "\<And>fs. ?judge (with_faults (replicate k None @ fs) w) = (Ok v, with_faults fs w2)" by blast
  have out: "(CHR 0x0A # ''Result: VERIFIED'') \<in> set (cw_out w2)"
    using jr by (auto simp: judge_receipt_def io_simps dest: report_prints)
  have "vf_state v0 = Some (Healthy Map.empty)" using verify_inputs_Ok [OF i] st by simp
  moreover obtain v1 w3 res where ld: "load_session L J (Some p) v0 wi = (Ok v1, w3)"
    and vr: "verify L (ve_clock ve) (ve_now ve) rb ex v1 = (Ok res, v)"
    using jr by (rule judge_receipt_Ok)
  moreover have "vf_state v1 \<noteq> None" if "vf_state v0 = Some (Healthy Map.empty)"
    using ld that by (auto simp: load_session_def io_simps or_stop_def set_state_def
        split: if_splits sum.splits prod.splits option.splits)
  moreover have "vf_state v = None \<longleftrightarrow> vf_state v1 = None"
    using call_state_kept [of L "\<lparr>vk_clock = ve_clock ve, vk_now = ve_now ve, vk_receipt = rb,
        vk_expected = ex\<rparr>" v1] vr by (simp add: call_verifier_def)
  ultimately have "vf_state v \<noteq> None" by simp
  moreover obtain g where g: "get_state v = Ok g"
    using s by (auto simp: save_if_stateful_def io_simps or_stop_def result_simps)
  ultimately obtain m where m: "get_state v = Ok (Some m)"
    by (auto simp: get_state_def result_simps)
  have save: "save_if_stateful L J (Some p) v = save_session L J p m"
    by (rule ext) (simp add: save_if_stateful_def m io_then.simps or_stop_def)
  from save_interrupted [OF s [unfolded save] w2] obtain b where b: "w_files w1 p = Some b"
    "cw_out w1 = cw_out w2" "\<And>reason n. save_session L J p m
        (with_faults [None, Some (IoFault reason n)] w2) =
      (Err (MainError reason), w1\<lparr>w_files := (w_files w1)(p \<mapsto> take n b)\<rparr>)" by blast
  have "cli_verify L J P ve va (w\<lparr>w_faults := replicate (k + 1) None @ [Some (IoFault reason n)]\<rparr>) =
      (Err (MainError reason), w1\<lparr>w_files := (w_files w1)(p \<mapsto> take n b)\<rparr>)" for reason n
  proof -
    have "replicate (k + 1) None @ [Some (IoFault reason n)] =
        replicate k None @ [None, Some (IoFault reason n)]"
      by (simp add: replicate_app_Cons_same)
    then show ?thesis
      using late [of "[None, Some (IoFault reason n)]"] b(3) [of reason n]
      unfolding split io_then.simps [of ?judge] with_faults_def by (simp add: save)
  qed
  with b(1,2) out show ?thesis by (intro exI [of _ "k + 1"] exI [of _ b]) simp
qed

end
