(* ===== verification/Sample_Cli.thy ===== *)
theory Sample_Cli
  imports Sample_Service Sample_Wasm Cli_Faults
begin

text \<open>
  A command line world on the sample instance: the files that \<open>generate\<close> and \<open>verify\<close>
  read, and a JSON crate that encodes every map.
\<close>

section \<open>A total encoding of maps\<close>

definition bits_of :: "u64 \<Rightarrow> bytes" where
  "bits_of n = map (\<lambda>i. if bit n i then 1 else 0) [0..<64]"

definition of_bits :: "bytes \<Rightarrow> u64" where
  "of_bits bs = horner_sum of_bool 2 (map (\<lambda>b. b = 1) bs)"

lemma of_bits_bits [simp]: "of_bits (bits_of n) = n"
proof -
  have "map (\<lambda>b. b = 1) (bits_of n) = map (bit n) [0..<64]"
    by (simp add: bits_of_def)
  then show ?thesis
    by (simp only: of_bits_def horner_sum_bit_eq_take_bit) (simp add: take_bit_word_eq_self)
qed

lemma length_bits [simp]: "length (bits_of n) = 64"
  by (simp add: bits_of_def)

fun put_key :: "str \<Rightarrow> bytes" where
  "put_key [] = [0]"
| "put_key (c # s) = 1 # of_char c # put_key s"

fun get_key :: "bytes \<Rightarrow> str \<times> bytes" where
  "get_key (b # c # bs) =
     (if b = 1 then (let (s, rest) = get_key bs in (str_of_bytes [c] @ s, rest)) else ([], c # bs))"
| "get_key bs = ([], tl bs)"

lemma str_of_char [simp]: "str_of_bytes [of_char c] = [c]"
  using str_of_bytes_as_bytes [of "[c]"] by (simp add: as_bytes_def)

lemma get_put_key [simp]: "get_key (put_key s @ bs) = (s, bs)"
  by (induction s; cases bs) auto

fun put_map :: "(str \<times> u64) list \<Rightarrow> bytes" where
  "put_map [] = []"
| "put_map ((s, n) # kvs) = put_key s @ bits_of n @ put_map kvs"

primrec get_map :: "nat \<Rightarrow> bytes \<Rightarrow> (str \<times> u64) list" where
  "get_map 0 bs = []"
| "get_map (Suc fuel) bs =
     (if bs = [] then []
      else (let (s, rest) = get_key bs
            in (s, of_bits (take 64 rest)) # get_map fuel (drop 64 rest)))"

lemma put_key_not_Nil [simp]: "put_key s \<noteq> []"
  by (cases s) simp_all

lemma length_put_map: "length kvs \<le> length (put_map kvs)"
  by (induction kvs rule: put_map.induct) auto

lemma get_put_map: "length kvs \<le> fuel \<Longrightarrow> get_map fuel (put_map kvs) = kvs"
proof (induction kvs arbitrary: fuel rule: put_map.induct)
  case 1
  show ?case by (cases fuel) simp_all
next
  case (2 s n kvs)
  then obtain f where "fuel = Suc f" by (cases fuel) auto
  with 2 show ?case by simp
qed

definition total_json :: json_lib where
  "total_json =
     \<lparr>json_decode_map = (\<lambda>b. if b = [] then Err sample_error else Ok (get_map (length b) (tl b))),
      json_encode_map = (\<lambda>kvs. Ok (91 # put_map kvs)), hash_map_iter = sample_iter\<rparr>"

lemma total_json_laws: "json_roundtrips total_json" "json_encodes total_json"
proof -
  have "get_map (length (91 # put_map kvs)) (put_map kvs) = kvs" for kvs
    using length_put_map [of kvs] by (intro get_put_map) simp
  then have "json_decode_map total_json b = Ok kvs" if "json_encode_map total_json kvs = Ok b" for kvs b
    using that by (auto simp: total_json_def)
  moreover have "hash_map_iter total_json = sample_iter" by (simp add: total_json_def)
  ultimately show "json_roundtrips total_json"
    using sample_iter_entries by (auto simp: json_roundtrips_def)
  show "json_encodes total_json" by (simp add: json_encodes_def total_json_def)
qed

section \<open>The world\<close>

definition file_at :: "str \<Rightarrow> path" where
  "file_at n = [Normal n]"

definition sample_world :: cli_world where
  "sample_world = \<lparr>w_files = [file_at ''model'' \<mapsto> [], file_at ''in'' \<mapsto> [], file_at ''out'' \<mapsto> [],
       file_at ''root'' \<mapsto> as_bytes sample_pem],
     w_faults = [], w_stat_fails = False, cw_stdin = [], cw_out = []\<rparr>"

definition sample_generate_args :: generate_args where
  "sample_generate_args = \<lparr>ga_model = file_at ''model'', ga_input_file = Some (file_at ''in''),
     ga_output_file = Some (file_at ''out''), ga_nonce = Some (str_of_bytes sample_nonce),
     ga_receipt_out = file_at ''receipt''\<rparr>"

definition sample_generate_env :: generate_env where
  "sample_generate_env = \<lparr>ge_answers = [], ge_key = [7], ge_nonce = sample_nonce,
     ge_clock_provider = sample_time, ge_now = sample_time, ge_debug_path = (\<lambda>_. [])\<rparr>"

definition sample_verify_env :: verify_env where
  "sample_verify_env = \<lparr>ve_answers = [], ve_clock = (\<lambda>_. sample_time), ve_now = sample_time\<rparr>"

definition sample_verify_args :: verify_args where
  "sample_verify_args = \<lparr>va_receipt = file_at ''receipt'', va_model = file_at ''model'',
     va_input_file = Some (file_at ''in''), va_output_file = Some (file_at ''out''),
     va_nonce = str_of_bytes sample_nonce, va_expected_pcr0 = str_of_bytes (replicate 48 0),
     va_root_cert = file_at ''root'', va_stateful = None\<rparr>"

lemma sample_session_ok: "session_ok sample_lib total_json sample_world"
  using sample_laws total_json_laws by (simp add: session_ok_def calm_def sample_world_def)

lemma sample_model_hash:
  "compute_model_hash sample_lib (Ok \<lparr>rd_rest = [], rd_answers = []\<rparr>) = Ok (replicate 32 1)"
  using compute_model_hash_total [of "\<lparr>rd_rest = [], rd_answers = []\<rparr>" sample_lib]
  by (simp add: never_fails_def merkle_root_def sample_lib_def)

lemma sample_generate:
  "\<exists>w'. generate sample_lib (mock_provider sample_lib sample_pki) sample_generate_env
     sample_generate_args sample_world = (Ok (), w')"
proof -
  have "generator_new (mock_provider sample_lib sample_pki) [7] = sample_generator"
    by (simp add: sample_generator_def generator_with_key_def generator_new_def)
  moreover have "sha256 sample_lib b = replicate 32 1" for b by (simp add: sample_lib_def)
  moreover have "parse_hex_32 sample_lib (str_of_bytes sample_nonce) = Ok sample_nonce"
    by (simp add: parse_hex_32_def sample_nonce_def)
  ultimately show ?thesis
    using sample_receipt
    by (simp add: generate_def io_then.simps io_map_err.simps println_def hash_model_file_run
        sample_generate_args_def sample_generate_env_def read_bytes_or_stdin_def fs_read_calm
        sample_world_def calm_def sample_model_hash file_at_def or_stop_def fs_write_def
        fs_create_def io_op_def take_fault_def fs_write_all_def)
qed

lemma sample_generate_file:
  assumes "generate sample_lib (mock_provider sample_lib sample_pki) sample_generate_env
     sample_generate_args sample_world = (Ok (), w1)"
  shows "w_files w1 (file_at ''receipt'') = Some [1]"
proof -
  have args: "ga_input_file sample_generate_args = Some (file_at ''in'')"
    "ga_output_file sample_generate_args = Some (file_at ''out'')"
    "ga_nonce sample_generate_args = Some (str_of_bytes sample_nonce)"
    by (simp_all add: sample_generate_args_def)
  obtain m ib ob mh nn rb g' where out: "w_files sample_world (ga_model sample_generate_args) = Some m"
    "w_files sample_world (file_at ''in'') = Some ib" "w_files sample_world (file_at ''out'') = Some ob"
    "parse_hex_32 sample_lib (str_of_bytes sample_nonce) = Ok nn"
    "compute_model_hash sample_lib (Ok \<lparr>rd_rest = m, rd_answers = ge_answers sample_generate_env\<rparr>) = Ok mh"
    "generate_receipt sample_lib (ge_clock_provider sample_generate_env) (ge_now sample_generate_env) mh
       (sha256 sample_lib ib) (sha256 sample_lib ob) nn
       (generator_new (mock_provider sample_lib sample_pki) (ge_key sample_generate_env)) = (Ok rb, g')"
    "w_files w1 = (w_files sample_world)(ga_receipt_out sample_generate_args \<mapsto> rb)"
    by (rule generate_Ok [OF assms args])
  have "generator_new (mock_provider sample_lib sample_pki) [7] = sample_generator"
    by (simp add: sample_generator_def generator_with_key_def generator_new_def)
  moreover have "sha256 sample_lib b = replicate 32 1" for b by (simp add: sample_lib_def)
  moreover have "parse_hex_32 sample_lib (str_of_bytes sample_nonce) = Ok sample_nonce"
    by (simp add: parse_hex_32_def sample_nonce_def)
  ultimately show ?thesis
    using sample_receipt sample_model_hash out
    by (simp add: sample_generate_args_def sample_generate_env_def sample_world_def file_at_def)
qed

lemmas sample_cli_defs = sample_generate_args_def sample_generate_env_def sample_verify_args_def
  sample_verify_env_def sample_world_def calm_def file_at_def

lemma sample_pem_utf8: "utf8_valid (as_bytes sample_pem)"
  by code_simp

section \<open>A run with a session\<close>

text \<open>The world after \<open>generate\<close>, and a first run of \<open>verify\<close> with \<open>--stateful\<close>.\<close>

definition sample_saved_world :: cli_world where
  "sample_saved_world =
     sample_world\<lparr>w_files := (w_files sample_world)(file_at ''receipt'' \<mapsto> [1])\<rparr>"

definition sample_stateful_args :: verify_args where
  "sample_stateful_args = sample_verify_args\<lparr>va_stateful := Some (file_at ''session'')\<rparr>"

lemma sample_verify_inputs:
  "\<exists>w. verify_inputs sample_lib (mock_provider sample_lib sample_pki) sample_verify_env
       sample_stateful_args sample_saved_world =
     (Ok ([1], sample_expectation, sample_verifier True), w) \<and> keeps sample_saved_world w"
proof -
  have "from_pem sample_lib (mock_provider sample_lib sample_pki) sample_pem True =
      Ok (sample_verifier True)"
    using sample_pem_loads by (simp add: sample_verifier_def)
  then have "verify_inputs sample_lib (mock_provider sample_lib sample_pki) sample_verify_env
       sample_stateful_args sample_saved_world =
     (Ok ([1], sample_expectation, sample_verifier True), sample_saved_world\<lparr>cw_out :=
        cw_out sample_saved_world @ [''Recomputing model Merkle root...'']\<rparr>)"
    using sample_model_hash sample_pem_utf8
    by (subst verify_inputs_run [where rb = "[1]" and m = "[]" and pi = "file_at ''in''"
          and po = "file_at ''out''" and mh = "replicate 32 1" and nn = sample_nonce
          and ?pcr0.0 = "replicate 48 0" and pem = "as_bytes sample_pem"])
      (simp_all add: sample_saved_world_def sample_stateful_args_def sample_cli_defs parse_hex_32_def
        parse_hex_any_def sample_nonce_def sample_expectation_def mock_expectation_def sample_lib_def)
  then show ?thesis by (simp add: keeps_def)
qed

lemma sample_stateful_run:
  "\<exists>w. cli_verify sample_lib total_json (mock_provider sample_lib sample_pki) sample_verify_env
     sample_stateful_args sample_saved_world = (Ok (), w)"
proof -
  obtain wi where i: "verify_inputs sample_lib (mock_provider sample_lib sample_pki) sample_verify_env
       sample_stateful_args sample_saved_world = (Ok ([1], sample_expectation, sample_verifier True), wi)"
    and k: "keeps sample_saved_world wi"
    using sample_verify_inputs by blast
  have none: "\<not> fs_exists (file_at ''session'') wi" "calm wi"
    using k by (simp_all add: keeps_def fs_exists_def sample_saved_world_def sample_cli_defs)
  obtain res m where v: "vr_valid res" "verify sample_lib (\<lambda>_. sample_time) sample_time [1]
      sample_expectation (sample_verifier True) =
      (Ok res, (sample_verifier True)\<lparr>vf_state := Some (Healthy m)\<rparr>)"
    using sample_verify by (auto simp: sample_expectation_def mock_expectation_def sample_config_def)
  then obtain wj where j: "judge_receipt sample_lib total_json sample_verify_env
      (Some (file_at ''session'')) [1] sample_expectation (sample_verifier True) wi =
      (Ok ((sample_verifier True)\<lparr>vf_state := Some (Healthy m)\<rparr>), wj)"
    using none(1) by (simp add: judge_receipt_def load_session_def io_then.simps println_def
        check_receipt_def or_stop_def report_result_def print_lines_run sample_verify_env_def)
  then have "calm wj" using judge_keeps none(2) keeps_calm by blast
  moreover obtain b where "encoded_state sample_lib total_json m = Ok b"
    using total_json_laws(2) unfolding json_encodes_def encoded_session by blast
  ultimately show ?thesis
    using save_session_calm [of wj sample_lib total_json m b "file_at ''session''"] i j
    by (simp add: cli_verify_def io_then.simps sample_stateful_args_def save_if_stateful_def
        or_stop_def get_state_def calm_def)
qed

end
