(* ===== verification/Inference.thy ===== *)
theory Inference
  imports Os_Model
begin

text \<open>
  The data of \<open>crates/veriai-types/src/openai.rs\<close>, and \<open>crates/veriai-runtime\<close>: the
  errors, the trait \<open>InferenceRuntime\<close> as a record with its contract as a locale, the mock
  runtime, and the llama.cpp runtime, which builds a prompt, runs a process and takes the
  completion out of its output.
\<close>

section \<open>Data\<close>

text \<open>An \<open>f32\<close> is its bit pattern; \<open>f32_key\<close> orders the patterns that are not NaN.\<close>

type_synonym u32 = "32 word"
type_synonym f32 = "32 word"

record message =
  ms_role :: str
  ms_content :: str

record inference_request =
  ir_model :: str
  ir_messages :: "message list"
  ir_temperature :: "f32 option"

record inference_result =
  is_content :: str
  is_tokens_generated :: u32

record runtime_metadata =
  rm_model :: str
  rm_runtime :: str
  rm_version :: str
  rm_quantization :: "str option"

datatype runtime_error =
    ModelLoadFailed str
  | InferenceFailed str
  | OutOfMemory
  | InvalidContext str
  | NotImplemented str
  | ProcessFailed str

fun show_runtime_error :: "runtime_error \<Rightarrow> str" where
  "show_runtime_error (ModelLoadFailed m) = ''Failed to load model weights: '' @ m"
| "show_runtime_error (InferenceFailed m) = ''Inference execution failed: '' @ m"
| "show_runtime_error OutOfMemory = ''Out of memory on the device''"
| "show_runtime_error (InvalidContext m) = ''Invalid request or prompt structure: '' @ m"
| "show_runtime_error (NotImplemented m) = ''Feature not implemented: '' @ m"
| "show_runtime_error (ProcessFailed m) = ''Inference process failed: '' @ m"

section \<open>The trait\<close>

record runtime =
  rt_generate :: "inference_request \<Rightarrow> (runtime_error, inference_result) result"
  rt_metadata :: runtime_metadata
  rt_id :: str

text \<open>What a client may count on: a completion is never empty.\<close>

locale inference_runtime =
  fixes R :: runtime
  assumes completion_not_empty: "rt_generate R q = Ok res \<Longrightarrow> is_content res \<noteq> []"
begin

lemma empty_is_error: "is_content res = [] \<Longrightarrow> rt_generate R q \<noteq> Ok res"
  using completion_not_empty by blast

end

section \<open>The mock runtime\<close>

definition mock_runtime_generate ::
  "inference_request \<Rightarrow> (runtime_error, inference_result) result" where
  "mock_runtime_generate request =
     (let prompt = (if ir_messages request = [] then ''hello''
                    else ms_content (last (ir_messages request)))
      in Ok \<lparr>is_content = ''VeriAI response: '' @ prompt, is_tokens_generated = 15\<rparr>)"

definition mock_runtime :: runtime where
  "mock_runtime =
     \<lparr>rt_generate = mock_runtime_generate,
      rt_metadata = \<lparr>rm_model = ''llama-3-8b-mock'', rm_runtime = ''mock-runtime'',
        rm_version = ''0.1.0'', rm_quantization = Some ''Q4_K_M''\<rparr>,
      rt_id = ''mock_runtime''\<rparr>"

interpretation mock_rt: inference_runtime mock_runtime
  by unfold_locales (auto simp: mock_runtime_def mock_runtime_generate_def Let_def)

section \<open>The llama.cpp runtime\<close>

record llama_config =
  lc_binary_path :: path
  lc_model_path :: path
  lc_max_tokens :: u32
  lc_context_size :: u32

definition llama_new :: "path \<Rightarrow> llama_config" where
  "llama_new model_path =
     \<lparr>lc_binary_path = [Normal ''llama-cli''], lc_model_path = model_path, lc_max_tokens = 256,
      lc_context_size = 4096\<rparr>"

definition llama_with_binary :: "path \<Rightarrow> path \<Rightarrow> llama_config" where
  "llama_with_binary model_path binary_path = (llama_new model_path)\<lparr>lc_binary_path := binary_path\<rparr>"

subsection \<open>The prompt\<close>

fun push_messages :: "message list \<Rightarrow> str \<Rightarrow> (runtime_error, str) result" where
  "push_messages [] prompt = Ok (prompt @ ''<|im_start|>assistant'' @ [CHR 0x0A])"
| "push_messages (message # messages) prompt =
     (if str_trim (ms_role message) = [] then Err (InvalidContext ''message roles must not be empty'')
      else push_messages messages
        (prompt @ ''<|im_start|>'' @ ms_role message @ [CHR 0x0A] @ ms_content message @
         ''<|im_end|>'' @ [CHR 0x0A]))"

definition llama_prompt :: "inference_request \<Rightarrow> (runtime_error, str) result" where
  "llama_prompt request =
     (if ir_messages request = [] then Err (InvalidContext ''at least one message is required'')
      else push_messages (ir_messages request) [])"

subsection \<open>The temperature\<close>

definition f32_is_nan :: "f32 \<Rightarrow> bool" where
  "f32_is_nan x \<longleftrightarrow> 0x7F800000 < unat x mod 2 ^ 31"

definition f32_key :: "f32 \<Rightarrow> int" where
  "f32_key x = (if unat x < 2 ^ 31 then int (unat x) else - int (unat x mod 2 ^ 31))"

definition f32_less :: "f32 \<Rightarrow> f32 \<Rightarrow> bool" where
  "f32_less x y \<longleftrightarrow> \<not> f32_is_nan x \<and> \<not> f32_is_nan y \<and> f32_key x < f32_key y"

definition f32_clamp :: "f32 \<Rightarrow> f32 \<Rightarrow> f32 \<Rightarrow> f32" where
  "f32_clamp lo hi x =
     (let x = (if f32_less x lo then lo else x) in if f32_less hi x then hi else x)"

text \<open>The literals \<open>0.7\<close>, \<open>0.0\<close> and \<open>2.0\<close>.\<close>

definition llama_temperature :: "inference_request \<Rightarrow> f32" where
  "llama_temperature request =
     f32_clamp 0 0x40000000
       (case ir_temperature request of Some t \<Rightarrow> t | None \<Rightarrow> 0x3F333333)"

subsection \<open>The completion\<close>

definition extract_completion :: "str \<Rightarrow> str" where
  "extract_completion raw_output =
     (let output = raw_output;
          output = (case str_rfind (CHR 0x0A # ''> '') output of
              Some prompt_start \<Rightarrow>
                (let output = drop (prompt_start + 3) output
                 in case str_find [CHR 0x0A, CHR 0x0A] output of
                      Some completion_start \<Rightarrow> drop (completion_start + 2) output
                    | None \<Rightarrow> output)
            | None \<Rightarrow> output);
          output = (case str_find (CHR 0x0A # CHR 0x0A # ''[ Prompt:'') output of
              Some timing_start \<Rightarrow> take timing_start output
            | None \<Rightarrow> output);
          output = (case str_find (CHR 0x0A # CHR 0x0A # ''Exiting...'') output of
              Some exit_start \<Rightarrow> take exit_start output
            | None \<Rightarrow> output)
      in str_trim output)"

subsection \<open>Running the process\<close>

text \<open>What a call meets: whether a path is a file, what the process answers to its arguments
  (a failed start as its text), and texts the standard library makes of paths, numbers and
  bytes.\<close>

record process_output =
  po_success :: bool
  po_status :: str
  po_stdout :: bytes
  po_stderr :: bytes

record llama_env =
  le_is_file :: "path \<Rightarrow> bool"
  le_run :: "path \<Rightarrow> str list \<Rightarrow> (str, process_output) result"
  le_path_arg :: "path \<Rightarrow> str"
  le_path_display :: "path \<Rightarrow> str"
  le_show_f32 :: "f32 \<Rightarrow> str"
  le_utf8_lossy :: "bytes \<Rightarrow> str"
  le_utf8_error :: "bytes \<Rightarrow> str"

definition llama_args :: "llama_env \<Rightarrow> llama_config \<Rightarrow> str \<Rightarrow> f32 \<Rightarrow> str list" where
  "llama_args env c prompt temperature =
     [''-m'', le_path_arg env (lc_model_path c), ''-p'', prompt,
      ''-n'', show_nat (unat (lc_max_tokens c)), ''--ctx-size'', show_nat (unat (lc_context_size c)),
      ''--temp'', le_show_f32 env temperature, ''--no-conversation'', ''--single-turn'',
      ''--simple-io'', ''--no-display-prompt'', ''--no-show-timings'']"

definition llama_generate ::
  "llama_env \<Rightarrow> llama_config \<Rightarrow> inference_request \<Rightarrow> (runtime_error, inference_result) result" where
  "llama_generate env c request =
     (if \<not> le_is_file env (lc_model_path c) then
        Err (ModelLoadFailed (''model file does not exist: '' @
          le_path_display env (lc_model_path c)))
      else
        and_then (llama_prompt request) (\<lambda>prompt.
        and_then (map_err (\<lambda>e. ProcessFailed (''failed to start llama-cli: '' @ e))
                    (le_run env (lc_binary_path c)
                       (llama_args env c prompt (llama_temperature request)))) (\<lambda>output.
          if \<not> po_success output then
            Err (InferenceFailed (''llama-cli exited with '' @ po_status output @ '': '' @
              str_trim (le_utf8_lossy env (po_stderr output))))
          else if \<not> utf8_valid (po_stdout output) then
            Err (InferenceFailed (''llama-cli returned invalid UTF-8: '' @
              le_utf8_error env (po_stdout output)))
          else
            (let content = extract_completion (str_of_bytes (po_stdout output))
             in if content = [] then
                  Err (InferenceFailed ''llama-cli returned an empty completion'')
                else Ok \<lparr>is_content = content,
                         is_tokens_generated = of_nat (ws_words False content)\<rparr>))))"

definition llama_runtime :: "llama_env \<Rightarrow> llama_config \<Rightarrow> runtime" where
  "llama_runtime env c =
     \<lparr>rt_generate = llama_generate env c,
      rt_metadata = \<lparr>rm_model = ''llama-3-8b-gguf'', rm_runtime = ''llama.cpp'',
        rm_version = ''0.1.0'', rm_quantization = Some ''Q4_K_M''\<rparr>,
      rt_id = ''llama_cpp''\<rparr>"

lemma llama_generate_Ok:
  "llama_generate env c q = Ok res \<longleftrightarrow>
     le_is_file env (lc_model_path c) \<and>
     (\<exists>prompt output. llama_prompt q = Ok prompt \<and>
        le_run env (lc_binary_path c) (llama_args env c prompt (llama_temperature q)) = Ok output \<and>
        po_success output \<and> utf8_valid (po_stdout output) \<and>
        extract_completion (str_of_bytes (po_stdout output)) \<noteq> [] \<and>
        res = \<lparr>is_content = extract_completion (str_of_bytes (po_stdout output)),
               is_tokens_generated =
                 of_nat (ws_words False (extract_completion (str_of_bytes (po_stdout output))))\<rparr>)"
  by (auto simp: llama_generate_def result_simps Let_def split: if_splits)

interpretation llama_rt: inference_runtime "llama_runtime env c" for env c
  by unfold_locales (auto simp: llama_runtime_def llama_generate_Ok)

end
