(* ===== verification/Chat_Demo.thy ===== *)
theory Chat_Demo
  imports Verifier_Service Inference Receipt_Generator Model_Hashing
begin

text \<open>
  The attested chat endpoint, \<open>examples/01-chat-demo/src/lib.rs\<close>: its configuration, the
  handler as a sequence of phases on the state that requests share (the free inference
  slots, the receipt generator, the inline verifier), and the interleaving of the phases of
  concurrent requests as a step relation.
\<close>

section \<open>Requests and answers\<close>

record chat_completion_request =
  cq_model :: str
  cq_messages :: "message list"
  cq_temperature :: "f32 option"

record choice =
  co_index :: u32
  co_message :: message
  co_finish_reason :: str

record usage =
  us_prompt_tokens :: u32
  us_completion_tokens :: u32
  us_total_tokens :: u32

record chat_completion_response =
  cr_id :: str
  cr_object :: str
  cr_created :: u64
  cr_model :: str
  cr_choices :: "choice list"
  cr_usage :: usage
  cr_receipt :: "str option"
  cr_verification :: "verification_result option"

type_synonym chat_error = "http_status \<times> error_response"

definition api_error :: "http_status \<Rightarrow> str \<Rightarrow> str \<Rightarrow> chat_error" where
  "api_error status code message = (status, \<lparr>er_code = code, er_error = message\<rparr>)"

section \<open>The nonce of a request\<close>

text \<open>\<open>header\<close> is the value of \<open>x-veriai-nonce\<close> after \<open>to_str\<close>, if the header is there;
  \<open>drawn\<close> are the bytes \<open>OsRng\<close> gives.\<close>

definition invalid_nonce :: chat_error where
  "invalid_nonce =
     api_error BadRequest ''invalid_nonce'' ''X-VeriAI-Nonce must contain 64 hexadecimal characters''"

definition request_nonce_with_policy ::
  "lib \<Rightarrow> (unit, str) result option \<Rightarrow> bytes \<Rightarrow> bool \<Rightarrow> (chat_error, bytes) result" where
  "request_nonce_with_policy L header drawn require_client_nonce =
     (case header of
        None \<Rightarrow>
          if require_client_nonce then
            Err (api_error BadRequest ''missing_nonce''
                   ''X-VeriAI-Nonce is required in real-hardware mode'')
          else Ok drawn
      | Some value \<Rightarrow>
          and_then (map_err (\<lambda>_. invalid_nonce) value) (\<lambda>value.
          and_then (map_err (\<lambda>_. invalid_nonce) (hex_decode L value)) (\<lambda>bytes.
            if length bytes = 32 then Ok bytes else Err invalid_nonce)))"

definition request_nonce ::
  "lib \<Rightarrow> bool \<Rightarrow> (unit, str) result option \<Rightarrow> bytes \<Rightarrow> (chat_error, bytes) result" where
  "request_nonce L real_hardware header drawn =
     request_nonce_with_policy L header drawn real_hardware"

section \<open>Configuration\<close>

text \<open>The part of \<open>AppState\<close> that never changes.\<close>

record chat_config =
  dm_runtime :: runtime
  dm_model_hash :: bytes
  dm_model_id :: str
  dm_expected_pcr0 :: "bytes option"
  dm_real_hardware :: bool

text \<open>The part that requests share.\<close>

record chat_server =
  cd_slots :: nat
  cd_generator :: generator
  cd_verifier :: "verifier option"

text \<open>\<open>file_stem\<close>: the name up to its last dot, unless that dot is its first character.\<close>

definition stem_of :: "str \<Rightarrow> str" where
  "stem_of n =
     (if CHR ''.'' \<in> set n then
        (let before = rev (tl (dropWhile (\<lambda>c. c \<noteq> CHR ''.'') (rev n)))
         in if before = [] then n else before)
      else n)"

text \<open>\<open>parse::<usize>\<close> on a 64-bit target, with the texts of its errors.\<close>

fun parse_digits :: "nat \<Rightarrow> str \<Rightarrow> (str, nat) result" where
  "parse_digits acc [] = Ok acc"
| "parse_digits acc (c # cs) =
     (if \<not> is_digit c then Err ''invalid digit found in string''
      else if 2 ^ 64 \<le> 10 * acc + digit_value c then
        Err ''number too large to fit in target type''
      else parse_digits (10 * acc + digit_value c) cs)"

definition parse_usize :: "str \<Rightarrow> (str, nat) result" where
  "parse_usize s =
     (if s = [] then Err ''cannot parse integer from empty string''
      else if s = ''+'' then Err ''invalid digit found in string''
      else parse_digits 0 (if hd s = CHR ''+'' then tl s else s))"

text \<open>\<open>model_file\<close> opens and reads a path; \<open>path_of\<close> is \<open>PathBuf::from\<close>.\<close>

definition configured_runtime ::
  "bool \<Rightarrow> lib \<Rightarrow> (str \<Rightarrow> path) \<Rightarrow> llama_env \<Rightarrow> (path \<Rightarrow> (str, reader) result) \<Rightarrow> environment \<Rightarrow>
   (str, runtime \<times> bytes \<times> str) result" where
  "configured_runtime real_hardware L path_of lenv model_file env =
     (let runtime_name = (case env ''VERIAI_RUNTIME'' of
            Some n \<Rightarrow> n
          | None \<Rightarrow> if real_hardware then ''llama_cpp'' else ''mock'')
      in if runtime_name = ''mock'' then
           Ok (mock_runtime, replicate 32 0x55,
               case env ''VERIAI_MODEL_ID'' of Some n \<Rightarrow> n | None \<Rightarrow> ''veriai-mock'')
         else if runtime_name \<noteq> ''llama_cpp'' then
           Err (''unsupported VERIAI_RUNTIME: '' @ runtime_name)
         else
           and_then (ok_or ''VERIAI_MODEL_PATH is required for llama_cpp runtime''
                       (env ''VERIAI_MODEL_PATH'')) (\<lambda>p.
           let model_path = path_of p in
           and_then (map_err (\<lambda>e. ''failed to hash model: '' @ e)
                       (compute_model_hash L (model_file model_path))) (\<lambda>model_hash.
           let binary = (case env ''LLAMA_CLI_PATH'' of
                 Some b \<Rightarrow> path_of b
               | None \<Rightarrow> [Normal ''llama-cli'']);
               model_id = (case env ''VERIAI_MODEL_ID'' of
                 Some n \<Rightarrow> n
               | None \<Rightarrow> (case file_name_str model_path of
                     Some n \<Rightarrow> stem_of n
                   | None \<Rightarrow> ''local-model''))
           in Ok (llama_runtime lenv (llama_with_binary model_path binary), model_hash, model_id))))"

definition configured_root_pem ::
  "bool \<Rightarrow> lib \<Rightarrow> (str \<Rightarrow> path) \<Rightarrow> str \<Rightarrow> environment \<Rightarrow> ('z world_scheme, str, str) io" where
  "configured_root_pem real_hardware L path_of mock_root_pem env =
     (if real_hardware then
        io_then (case env ''TRUSTED_ROOT_CERT_PEM'' of
                   Some pem \<Rightarrow> io_lift (Ok pem)
                 | None \<Rightarrow>
                     io_then (io_lift (ok_or
                         ''TRUSTED_ROOT_CERT_PATH or TRUSTED_ROOT_CERT_PEM is required''
                         (env ''TRUSTED_ROOT_CERT_PATH''))) (\<lambda>path.
                       io_map_err (\<lambda>error. ''failed to read trusted root certificate: '' @
                           io_text error) (fs_read_to_string (path_of path)))) (\<lambda>pem.
          io_lift (and_then (validate_aws_nitro_root_pem L pem) (\<lambda>_. Ok pem)))
      else io_lift (Ok mock_root_pem))"

definition configured_pcr0 :: "bool \<Rightarrow> lib \<Rightarrow> environment \<Rightarrow> (str, bytes) result" where
  "configured_pcr0 real_hardware L env =
     (if real_hardware then
        and_then (ok_or ''EXPECTED_PCR0 is required for real hardware'' (env ''EXPECTED_PCR0''))
          (\<lambda>value.
        and_then (map_err (\<lambda>error. ''invalid EXPECTED_PCR0: '' @ err_display error)
                    (hex_decode L value)) (\<lambda>pcr0.
          if length pcr0 \<noteq> 48 then
            Err (''EXPECTED_PCR0 must be 48 bytes, got '' @ show_nat (length pcr0))
          else Ok pcr0))
      else Ok (replicate 48 0))"

text \<open>\<open>key\<close> is the drawn signing key; \<open>max_permits\<close> is the largest number of permits with
  which \<open>Semaphore::new\<close> does not panic.\<close>

definition build_state ::
  "bool \<Rightarrow> lib \<Rightarrow> (str \<Rightarrow> path) \<Rightarrow> llama_env \<Rightarrow> (path \<Rightarrow> (str, reader) result) \<Rightarrow> str \<Rightarrow> nat \<Rightarrow>
   provider \<Rightarrow> bytes \<Rightarrow> environment \<Rightarrow> ('z world_scheme, str, chat_config \<times> chat_server) io" where
  "build_state real_hardware L path_of lenv model_file mock_root_pem max_permits provider key env =
     io_then (io_lift (configured_runtime real_hardware L path_of lenv model_file env))
       (\<lambda>(runtime, model_hash, model_id).
     let stateful = env_flag env ''STATEFUL_VERIFICATION'' False in
     io_then (io_lift (map_err (\<lambda>error. ''invalid VERIAI_MAX_CONCURRENT_INFERENCES: '' @ error)
                (parse_usize (case env ''VERIAI_MAX_CONCURRENT_INFERENCES'' of
                    Some n \<Rightarrow> n | None \<Rightarrow> ''1'')))) (\<lambda>max_concurrent_inferences.
     io_then (io_lift (reject_if (max_concurrent_inferences = 0)
                ''VERIAI_MAX_CONCURRENT_INFERENCES must be greater than zero'')) (\<lambda>_.
     let generator = generator_new provider key;
         inline_verify = env_flag env ''VERIAI_INLINE_VERIFY'' (\<not> real_hardware)
     in io_then (if inline_verify then
                   io_then (configured_root_pem real_hardware L path_of mock_root_pem env)
                     (\<lambda>root_pem.
                   io_then (io_lift (configured_pcr0 real_hardware L env)) (\<lambda>expected_pcr0.
                     io_lift (map_err (\<lambda>error. ''invalid trusted root: '' @ error)
                       (and_then (from_pem L provider root_pem stateful) (\<lambda>verifier.
                          Ok (Some verifier, Some expected_pcr0))))))
                 else io_lift (Ok (None, None))) (\<lambda>(verifier, expected_pcr0).
        io_then (io_lift (reject_if (max_permits < max_concurrent_inferences)
                   ''panic: too many permits'')) (\<lambda>_.
        io_lift (Ok (\<lparr>dm_runtime = runtime, dm_model_hash = model_hash, dm_model_id = model_id,
                      dm_expected_pcr0 = expected_pcr0, dm_real_hardware = real_hardware\<rparr>,
                     \<lparr>cd_slots = max_concurrent_inferences, cd_generator = generator,
                      cd_verifier = verifier\<rparr>)))))))"

end
