(* ===== verification/Chat_Handler.thy ===== *)
theory Chat_Handler
  imports Chat_Demo Receipt_Exchange
begin

text \<open>
  \<open>chat_completions_handler\<close> of the chat demo: its phases, the handler as their sequence,
  and the step relation in which the phases of concurrent requests interleave.  The phases
  are the stretches between the points where the code takes a slot, calls the runtime,
  generates the receipt and verifies it; each is atomic on the shared state, the last two
  because generator and verifier hold a lock.
\<close>

section \<open>Phases\<close>

record chat_work =
  wk_input :: bytes
  wk_nonce :: bytes

definition accept_request ::
  "lib \<Rightarrow> (inference_request \<Rightarrow> (ext_error, bytes) result) \<Rightarrow> bool \<Rightarrow>
   (str, chat_completion_request) result \<Rightarrow> (unit, str) result option \<Rightarrow> bytes \<Rightarrow>
   (chat_error, inference_request \<times> chat_work) result" where
  "accept_request L canonical_bytes real_hardware payload header drawn =
     and_then (map_err (api_error BadRequest ''invalid_json'') payload) (\<lambda>payload.
     if str_trim (cq_model payload) = [] \<or> cq_messages payload = [] then
       Err (api_error BadRequest ''invalid_request'' ''model and at least one message are required'')
     else
       (let inference_req = \<lparr>ir_model = cq_model payload, ir_messages = cq_messages payload,
              ir_temperature = cq_temperature payload\<rparr>
        in and_then (map_err (\<lambda>error. api_error InternalServerError ''serialization_error''
                        (err_display error)) (canonical_bytes inference_req)) (\<lambda>canonical_input.
           and_then (request_nonce L real_hardware header drawn) (\<lambda>client_nonce.
             Ok (inference_req, \<lparr>wk_input = canonical_input, wk_nonce = client_nonce\<rparr>)))))"

definition acquire_slot :: "(chat_server, chat_error, unit) io" where
  "acquire_slot s =
     (if 0 < cd_slots s then (Ok (), s\<lparr>cd_slots := cd_slots s - 1\<rparr>)
      else (Err (api_error TooManyRequests ''inference_busy''
                   ''the configured inference capacity is busy''), s))"

text \<open>The permit is given back when the call is over, also when it failed.\<close>

definition run_inference ::
  "chat_config \<Rightarrow> inference_request \<Rightarrow> (chat_server, chat_error, inference_result) io" where
  "run_inference cfg request s =
     (map_err (\<lambda>error. api_error InternalServerError ''inference_error'' (show_runtime_error error))
        (rt_generate (dm_runtime cfg) request),
      s\<lparr>cd_slots := cd_slots s + 1\<rparr>)"

record chat_times =
  ct_provider :: system_time
  ct_receipt :: system_time
  ct_clock :: "nat \<Rightarrow> system_time"
  ct_verify :: system_time
  ct_created :: system_time

definition issue_receipt ::
  "lib \<Rightarrow> chat_config \<Rightarrow> chat_times \<Rightarrow> chat_work \<Rightarrow> str \<Rightarrow> (chat_server, chat_error, bytes) io" where
  "issue_receipt L cfg tms work content s =
     (let (r, g) = generate_receipt L (ct_provider tms) (ct_receipt tms) (dm_model_hash cfg)
            (sha256 L (wk_input work)) (sha256 L (as_bytes content)) (wk_nonce work)
            (cd_generator s)
      in (map_err (\<lambda>error. api_error InternalServerError ''receipt_generation_error''
             (show_verify_error error)) r,
          s\<lparr>cd_generator := g\<rparr>))"

definition check_inline ::
  "lib \<Rightarrow> chat_config \<Rightarrow> chat_times \<Rightarrow> chat_work \<Rightarrow> str \<Rightarrow> bytes \<Rightarrow>
   (chat_server, chat_error, verification_result option) io" where
  "check_inline L cfg tms work content receipt_bytes s =
     (case (cd_verifier s, dm_expected_pcr0 cfg) of
        (Some verifier, Some expected_pcr0) \<Rightarrow>
          (let (r, v) = verify L (ct_clock tms) (ct_verify tms) receipt_bytes
                 \<lparr>ex_model_hash = dm_model_hash cfg, ex_input_hash = sha256 L (wk_input work),
                  ex_output_hash = sha256 L (as_bytes content), ex_nonce = wk_nonce work,
                  ex_pcr0 = expected_pcr0\<rparr> verifier
           in (and_then (map_err (\<lambda>error. api_error InternalServerError ''verification_error''
                  (show_verify_error error)) r) (\<lambda>result. Ok (Some result)),
               s\<lparr>cd_verifier := Some v\<rparr>))
      | _ \<Rightarrow> (Ok None, s))"

definition chat_response ::
  "lib \<Rightarrow> chat_config \<Rightarrow> chat_times \<Rightarrow> chat_work \<Rightarrow> inference_result \<Rightarrow> bytes \<Rightarrow>
   verification_result option \<Rightarrow> chat_completion_response" where
  "chat_response L cfg tms work inference receipt_bytes verify_result =
     (let created = (case since_epoch (ct_created tms) of Inr d \<Rightarrow> as_secs d | Inl _ \<Rightarrow> 0);
          prompt_tokens = of_nat ((length (wk_input work) + 3) div 4);
          completion_tokens = is_tokens_generated inference
      in \<lparr>cr_id = ''chatcmpl-veriai-'' @ show_u64 created, cr_object = ''chat.completion'',
          cr_created = created, cr_model = dm_model_id cfg,
          cr_choices = [\<lparr>co_index = 0,
            co_message = \<lparr>ms_role = ''assistant'', ms_content = is_content inference\<rparr>,
            co_finish_reason = ''stop''\<rparr>],
          cr_usage = \<lparr>us_prompt_tokens = prompt_tokens, us_completion_tokens = completion_tokens,
            us_total_tokens = prompt_tokens + completion_tokens\<rparr>,
          cr_receipt = Some (base64_encode L receipt_bytes), cr_verification = verify_result\<rparr>)"

section \<open>The handler, alone\<close>

definition chat_completions_handler ::
  "lib \<Rightarrow> (inference_request \<Rightarrow> (ext_error, bytes) result) \<Rightarrow> chat_config \<Rightarrow> chat_times \<Rightarrow>
   (str, chat_completion_request) result \<Rightarrow> (unit, str) result option \<Rightarrow> bytes \<Rightarrow>
   (chat_server, chat_error, chat_completion_response) io" where
  "chat_completions_handler L canonical_bytes cfg tms payload header drawn =
     io_then (io_lift (accept_request L canonical_bytes (dm_real_hardware cfg) payload header drawn))
       (\<lambda>(request, work).
     io_then acquire_slot (\<lambda>_.
     io_then (run_inference cfg request) (\<lambda>inference.
     io_then (issue_receipt L cfg tms work (is_content inference)) (\<lambda>receipt_bytes.
     io_then (check_inline L cfg tms work (is_content inference) receipt_bytes) (\<lambda>verify_result.
       io_lift (Ok (chat_response L cfg tms work inference receipt_bytes verify_result)))))))"

section \<open>Many requests\<close>

datatype chat_task =
    Inferring inference_request chat_work
  | Completed inference_result chat_work
  | Receipted bytes inference_result chat_work
  | Answered "(chat_error, chat_completion_response) result"

record chat_system =
  sy_server :: chat_server
  sy_tasks :: "chat_task list"

definition finish :: "(chat_error, 'a) result \<Rightarrow> ('a \<Rightarrow> chat_task) \<Rightarrow> chat_task" where
  "finish r k = (case r of Inl e \<Rightarrow> Answered (Err e) | Inr x \<Rightarrow> k x)"

inductive chat_step ::
  "lib \<Rightarrow> (inference_request \<Rightarrow> (ext_error, bytes) result) \<Rightarrow> chat_config \<Rightarrow>
   chat_system \<Rightarrow> chat_system \<Rightarrow> bool"
  for L canonical_bytes cfg where
  arrive: "io_then (io_lift (accept_request L canonical_bytes (dm_real_hardware cfg) payload header drawn))
       (\<lambda>x. io_then acquire_slot (\<lambda>_. io_lift (Ok x))) (sy_server y) = (r, s) \<Longrightarrow>
     chat_step L canonical_bytes cfg y
       \<lparr>sy_server = s, sy_tasks = sy_tasks y @ [finish r (\<lambda>(q, w). Inferring q w)]\<rparr>"
| infer: "i < length (sy_tasks y) \<Longrightarrow> sy_tasks y ! i = Inferring q w \<Longrightarrow>
     run_inference cfg q (sy_server y) = (r, s) \<Longrightarrow>
     chat_step L canonical_bytes cfg y
       \<lparr>sy_server = s, sy_tasks = (sy_tasks y)[i := finish r (\<lambda>x. Completed x w)]\<rparr>"
| issue: "i < length (sy_tasks y) \<Longrightarrow> sy_tasks y ! i = Completed x w \<Longrightarrow>
     issue_receipt L cfg tms w (is_content x) (sy_server y) = (r, s) \<Longrightarrow>
     chat_step L canonical_bytes cfg y
       \<lparr>sy_server = s, sy_tasks = (sy_tasks y)[i := finish r (\<lambda>b. Receipted b x w)]\<rparr>"
| answer: "i < length (sy_tasks y) \<Longrightarrow> sy_tasks y ! i = Receipted b x w \<Longrightarrow>
     check_inline L cfg tms w (is_content x) b (sy_server y) = (r, s) \<Longrightarrow>
     chat_step L canonical_bytes cfg y
       \<lparr>sy_server = s, sy_tasks = (sy_tasks y)[i := finish r (\<lambda>v.
          Answered (Ok (chat_response L cfg tms w x b v)))]\<rparr>"

inductive_cases chat_stepE: "chat_step L canonical_bytes cfg y y'"

inductive chat_reachable ::
  "lib \<Rightarrow> (inference_request \<Rightarrow> (ext_error, bytes) result) \<Rightarrow> chat_config \<Rightarrow>
   chat_server \<Rightarrow> chat_system \<Rightarrow> bool"
  for L canonical_bytes cfg s0 where
  start: "chat_reachable L canonical_bytes cfg s0 \<lparr>sy_server = s0, sy_tasks = []\<rparr>"
| step: "chat_reachable L canonical_bytes cfg s0 y \<Longrightarrow> chat_step L canonical_bytes cfg y y' \<Longrightarrow>
     chat_reachable L canonical_bytes cfg s0 y'"

section \<open>Capacity\<close>

definition is_inferring :: "chat_task \<Rightarrow> bool" where
  "is_inferring t = (case t of Inferring _ _ \<Rightarrow> True | _ \<Rightarrow> False)"

definition inferring :: "chat_system \<Rightarrow> nat" where
  "inferring y = length (filter is_inferring (sy_tasks y))"

lemma is_inferring_simps [simp]:
  "is_inferring (Inferring q w)" "\<not> is_inferring (Completed x w)"
  "\<not> is_inferring (Receipted b x w)" "\<not> is_inferring (Answered a)"
  by (simp_all add: is_inferring_def)

lemma is_inferring_finish [simp]:
  "(\<And>x. \<not> is_inferring (k x)) \<Longrightarrow> \<not> is_inferring (finish r k)"
  by (simp add: finish_def split: sum.splits)

lemma filter_update_same:
  "i < length ts \<Longrightarrow> P (ts ! i) = P t \<Longrightarrow> length (filter P (ts[i := t])) = length (filter P ts)"
proof (induction ts arbitrary: i)
  case (Cons u ts)
  then show ?case by (cases i) auto
qed simp

lemma filter_update_leave:
  "i < length ts \<Longrightarrow> P (ts ! i) \<Longrightarrow> \<not> P t \<Longrightarrow>
     Suc (length (filter P (ts[i := t]))) = length (filter P ts)"
proof (induction ts arbitrary: i)
  case (Cons u ts)
  then show ?case by (cases i) auto
qed simp

lemma chat_step_capacity:
  assumes "chat_step L canonical_bytes cfg y y'"
  shows "cd_slots (sy_server y') + inferring y' = cd_slots (sy_server y) + inferring y"
  using assms
proof cases
  case (arrive payload header drawn r s)
  then show ?thesis
    by (cases r) (auto simp: io_simps acquire_slot_def inferring_def finish_def split: if_splits)
next
  case (infer i q w r s)
  then have "Suc (length (filter is_inferring (sy_tasks y'))) = length (filter is_inferring (sy_tasks y))"
    using filter_update_leave [of i "sy_tasks y" is_inferring "finish r (\<lambda>x. Completed x w)"] by simp
  with infer show ?thesis by (auto simp: run_inference_def inferring_def)
next
  case (issue i x w tms r s)
  then have "length (filter is_inferring (sy_tasks y')) = length (filter is_inferring (sy_tasks y))"
    using filter_update_same [of i "sy_tasks y" is_inferring "finish r (\<lambda>b. Receipted b x w)"] by simp
  with issue show ?thesis
    by (auto simp: issue_receipt_def inferring_def Let_def split: prod.splits)
next
  case (answer i b x w tms r s)
  then have "length (filter is_inferring (sy_tasks y')) = length (filter is_inferring (sy_tasks y))"
    using filter_update_same [of i "sy_tasks y" is_inferring "finish r (\<lambda>v.
          Answered (Ok (chat_response L cfg tms w x b v)))"] by simp
  with answer show ?thesis
    by (auto simp: check_inline_def inferring_def Let_def split: prod.splits option.splits)
qed

lemma chat_capacity:
  "chat_reachable L canonical_bytes cfg s0 y \<Longrightarrow> cd_slots (sy_server y) + inferring y = cd_slots s0"
  by (induction rule: chat_reachable.induct) (simp_all add: chat_step_capacity, simp add: inferring_def)

end
