(* ===== verification/Inference_Facts.thy ===== *)
theory Inference_Facts
  imports Inference
begin

text \<open>
  The prompt that is built, the temperature that is passed, and the completion that is
  taken out of the output of the process.
\<close>

section \<open>The prompt\<close>

definition chat_turn :: "message \<Rightarrow> str" where
  "chat_turn m = ''<|im_start|>'' @ ms_role m @ [CHR 0x0A] @ ms_content m @ ''<|im_end|>'' @ [CHR 0x0A]"

definition chat_prompt :: "message list \<Rightarrow> str" where
  "chat_prompt ms = concat (map chat_turn ms) @ ''<|im_start|>assistant'' @ [CHR 0x0A]"

definition has_role :: "message \<Rightarrow> bool" where
  "has_role m \<longleftrightarrow> str_trim (ms_role m) \<noteq> []"

lemma push_messages_Ok:
  "push_messages ms acc = Ok p \<longleftrightarrow> list_all has_role ms \<and> p = acc @ chat_prompt ms"
proof (induction ms arbitrary: acc)
  case Nil
  show ?case by (auto simp: chat_prompt_def)
next
  case (Cons m ms)
  then show ?case by (auto simp: has_role_def chat_prompt_def chat_turn_def)
qed

lemma llama_prompt_Ok:
  "llama_prompt q = Ok p \<longleftrightarrow>
     ir_messages q \<noteq> [] \<and> list_all has_role (ir_messages q) \<and> p = chat_prompt (ir_messages q)"
  by (auto simp: llama_prompt_def push_messages_Ok)

text \<open>Which conversations a prompt stands for.  A message is plain when its role is one line and
  its content does not contain the closing marker.\<close>

definition end_mark :: str where "end_mark = ''<|im_end|>''"

definition plain_message :: "message \<Rightarrow> bool" where
  "plain_message m \<longleftrightarrow> CHR 0x0A \<notin> set (ms_role m) \<and> \<not> sublist end_mark (ms_content m)"

lemma first_mark_unique:
  assumes "u @ x # xs @ r = v @ x # xs @ r'" and "x \<notin> set xs"
    and "\<not> sublist (x # xs) u" and "\<not> sublist (x # xs) v"
  shows "u = v \<and> r = r'"
proof -
  have shorter: "z = []"
    if eq: "x # xs @ r1 = z @ x # xs @ r2" and no: "\<not> sublist (x # xs) z" for z r1 r2
  proof (rule ccontr)
    assume "z \<noteq> []"
    then obtain z' where z: "z = x # z'" using eq by (cases z) auto
    then have "xs @ r1 = z' @ x # xs @ r2" using eq by simp
    then consider y where "xs @ y = z'" | y where "xs = z' @ y" "y @ r1 = x # xs @ r2"
      by (auto simp: append_eq_append_conv2)
    then show False
    proof cases
      case 1
      then have "z = [] @ (x # xs) @ y" using z by simp
      with no show False by (metis sublist_appendI)
    next
      case 2
      then show False using assms(2) no z by (cases y) auto
    qed
  qed
  from assms(1) consider z where "u @ z = v" "x # xs @ r = z @ x # xs @ r'"
    | z where "u = v @ z" "z @ x # xs @ r = x # xs @ r'"
    by (auto simp: append_eq_append_conv2)
  then show ?thesis
  proof cases
    case 1
    then have "\<not> sublist (x # xs) z"
      using assms(4) 1(1) by (auto simp: sublist_append)
    with shorter [OF 1(2)] 1 show ?thesis by simp
  next
    case 2
    then have "\<not> sublist (x # xs) z"
      using assms(3) 2(1) by (auto simp: sublist_append)
    with shorter [OF 2(2) [symmetric]] 2 show ?thesis by simp
  qed
qed

lemma chat_prompt_Cons:
  "chat_prompt (m # ms) =
     ''<|im_start|>'' @ ms_role m @ CHR 0x0A # [] @ ms_content m @ CHR ''<'' # ''|im_end|>'' @
       CHR 0x0A # chat_prompt ms"
  by (simp add: chat_prompt_def chat_turn_def)

lemma chat_prompt_Nil: "chat_prompt [] = ''<|im_start|>'' @ ''assistant'' @ CHR 0x0A # [] @ []"
  by (simp add: chat_prompt_def)

lemma role_unique:
  assumes "''<|im_start|>'' @ r @ CHR 0x0A # [] @ s = ''<|im_start|>'' @ r' @ CHR 0x0A # [] @ s'"
    and "CHR 0x0A \<notin> set r" and "CHR 0x0A \<notin> set r'"
  shows "r = r' \<and> s = s'"
proof (rule first_mark_unique [of r "CHR 0x0A" "[]"])
  have "\<not> sublist [CHR 0x0A] t" if "CHR 0x0A \<notin> set t" for t :: str
    using that set_mono_sublist by fastforce
  with assms(2,3) show "\<not> sublist [CHR 0x0A] r" "\<not> sublist [CHR 0x0A] r'" by blast+
qed (use assms(1) in simp_all)

lemma plain_prompt_unique:
  "list_all plain_message ms \<Longrightarrow> list_all plain_message ms' \<Longrightarrow> chat_prompt ms = chat_prompt ms' \<Longrightarrow>
     ms = ms'"
proof (induction ms arbitrary: ms')
  case Nil
  show ?case
  proof (cases ms')
    case (Cons m ms'')
    have "''assistant'' = ms_role m \<and> [] = ms_content m @ CHR ''<'' # ''|im_end|>'' @ CHR 0x0A # chat_prompt ms''"
      by (rule role_unique [OF Nil(3) [unfolded Cons chat_prompt_Cons chat_prompt_Nil]])
        (use Nil(2) in \<open>simp_all add: Cons plain_message_def\<close>)
    then show ?thesis by simp
  qed simp
next
  case (Cons m ms)
  show ?case
  proof (cases ms')
    case Nil
    have "ms_role m = ''assistant'' \<and> ms_content m @ CHR ''<'' # ''|im_end|>'' @ CHR 0x0A # chat_prompt ms = []"
      by (rule role_unique [OF Cons.prems(3) [unfolded Nil chat_prompt_Cons chat_prompt_Nil]])
        (use Cons.prems(1) in \<open>simp_all add: plain_message_def\<close>)
    then show ?thesis by simp
  next
    case c: (Cons m' ms'')
    have role: "ms_role m = ms_role m' \<and>
        ms_content m @ CHR ''<'' # ''|im_end|>'' @ CHR 0x0A # chat_prompt ms =
        ms_content m' @ CHR ''<'' # ''|im_end|>'' @ CHR 0x0A # chat_prompt ms''"
      by (rule role_unique [OF Cons.prems(3) [unfolded c chat_prompt_Cons]])
        (use Cons.prems(1,2) in \<open>simp_all add: c plain_message_def\<close>)
    have "ms_content m = ms_content m' \<and> CHR 0x0A # chat_prompt ms = CHR 0x0A # chat_prompt ms''"
      by (rule first_mark_unique [OF conjunct2 [OF role]])
        (use Cons.prems(1,2) in \<open>simp_all add: c plain_message_def end_mark_def\<close>)
    then show ?thesis
      using role Cons.IH [of ms''] Cons.prems(1,2) by (simp add: c message.equality)
  qed
qed

text \<open>One user message that is pasted to the prompt of a whole conversation.\<close>

definition forged :: "str \<Rightarrow> message list \<Rightarrow> str" where
  "forged c ms = c @ concat (map (\<lambda>m. end_mark @ [CHR 0x0A] @ ''<|im_start|>'' @ ms_role m @
     [CHR 0x0A] @ ms_content m) ms)"

lemma forged_prompt:
  "chat_prompt [\<lparr>ms_role = r, ms_content = forged c ms\<rparr>] =
     chat_prompt (\<lparr>ms_role = r, ms_content = c\<rparr> # ms)"
proof -
  have "concat (map (\<lambda>m. end_mark @ [CHR 0x0A] @ ''<|im_start|>'' @ ms_role m @
      [CHR 0x0A] @ ms_content m) ms) @ end_mark @ [CHR 0x0A] =
    end_mark @ [CHR 0x0A] @ concat (map chat_turn ms)"
    by (induction ms) (simp_all add: chat_turn_def end_mark_def)
  then show ?thesis
    by (simp add: chat_prompt_def chat_turn_def forged_def end_mark_def)
qed

section \<open>The temperature\<close>

lemma f32_clamp_between:
  assumes "\<not> f32_is_nan lo" "\<not> f32_is_nan hi" "f32_key lo \<le> f32_key hi"
  shows "f32_is_nan (f32_clamp lo hi x) \<longleftrightarrow> f32_is_nan x"
    and "\<not> f32_is_nan x \<Longrightarrow>
      f32_key lo \<le> f32_key (f32_clamp lo hi x) \<and> f32_key (f32_clamp lo hi x) \<le> f32_key hi"
  using assms by (auto simp: f32_clamp_def f32_less_def Let_def)

lemma f32_clamp_inside:
  "f32_key lo \<le> f32_key x \<Longrightarrow> f32_key x \<le> f32_key hi \<Longrightarrow> f32_clamp lo hi x = x"
  by (simp add: f32_clamp_def f32_less_def)

section \<open>Trimming\<close>

lemma strip_ws_end: "w (strip_ws w s) = 0 \<or> strip_ws w s = []"
proof (induction w s rule: strip_ws.induct)
  case (1 w s)
  then show ?case by (cases "w s = 0 \<or> s = []") (auto simp: strip_ws.simps [of w s])
qed

lemma strip_ws_suffix: "suffix (strip_ws w s) s"
proof (induction w s rule: strip_ws.induct)
  case (1 w s)
  show ?case
  proof (cases "w s = 0 \<or> s = []")
    case False
    then have "suffix (strip_ws w (drop (w s) s)) (drop (w s) s)" using 1 by blast
    moreover have "suffix (drop (w s) s) s" by (rule suffix_drop)
    ultimately have "suffix (strip_ws w (drop (w s) s)) s" by (rule suffix_order.trans)
    with False show ?thesis by (simp add: strip_ws.simps [of w s])
  qed (auto simp: strip_ws.simps [of w s])
qed

lemma ws_len_prefix: "prefix p t \<Longrightarrow> ws_len t = 0 \<Longrightarrow> ws_len p = 0"
  by (cases p rule: ws_len.cases; cases t rule: ws_len.cases) (auto split: if_splits)

definition trimmed :: "str \<Rightarrow> bool" where
  "trimmed s \<longleftrightarrow> ws_len s = 0 \<and> ws_len_rev (rev s) = 0"

lemma trimmed_str_trim: "trimmed (str_trim s)"
proof -
  let ?t = "trim_start s"
  let ?u = "strip_ws ws_len_rev (rev ?t)"
  have t: "ws_len ?t = 0"
    using strip_ws_end [of ws_len s] by (auto simp: trim_start_def)
  have "prefix (rev ?u) ?t"
    using strip_ws_suffix [of ws_len_rev "rev ?t"] by (simp add: suffix_to_prefix)
  then have "ws_len (rev ?u) = 0" using t by (rule ws_len_prefix)
  moreover have "ws_len_rev ?u = 0"
    using strip_ws_end [of ws_len_rev "rev ?t"] by auto
  ultimately show ?thesis
    by (simp add: trimmed_def str_trim_def trim_end_def)
qed

lemma trimmed_trim: "trimmed s \<Longrightarrow> str_trim s = s"
  by (simp add: trimmed_def str_trim_def trim_end_def trim_start_def strip_ws_stop)

lemma ws_words_pos: "ws_len s = 0 \<Longrightarrow> s \<noteq> [] \<Longrightarrow> 0 < ws_words False s"
  by (subst ws_words.simps) simp

lemma ws_words_bound: "ws_words b s \<le> length s"
proof (induction b s rule: ws_words.induct)
  case (1 b s)
  show ?case
  proof (cases "s = []")
    case True
    then show ?thesis by (subst ws_words.simps) simp
  next
    case False
    then obtain c t where s: "s = c # t" by (cases s) auto
    show ?thesis
    proof (cases "ws_len s = 0")
      case True
      with 1 False have "ws_words True t \<le> length t" by (simp add: s)
      with True show ?thesis by (simp add: ws_words.simps [of b s]) (simp add: s)
    next
      case ws: False
      with 1 False have "ws_words False (drop (ws_len s) s) \<le> length (drop (ws_len s) s)" by blast
      with ws False show ?thesis by (simp add: ws_words.simps [of b s])
    qed
  qed
qed

section \<open>Searching\<close>

lemma str_find_here: "\<not> sublist p (a @ butlast p) \<Longrightarrow> str_find p (a @ p @ b) = Some (length a)"
proof (induction a)
  case Nil
  have "prefix p (p @ b)" by simp
  then show ?case by (cases "p @ b") (simp_all del: same_prefix_nil prefix_prefix)
next
  case (Cons c a)
  have "\<not> prefix p (c # a @ p @ b)"
  proof
    assume "prefix p (c # a @ p @ b)"
    moreover have "prefix (c # a @ butlast p) (c # a @ p @ b)"
      by (cases p rule: rev_cases) auto
    moreover have "length p \<le> length (c # a @ butlast p)"
      by (cases p rule: rev_cases) auto
    ultimately have "prefix p (c # a @ butlast p)"
      by (rule prefix_length_prefix)
    then show False using Cons.prems by (simp add: prefix_imp_sublist)
  qed
  moreover have "\<not> sublist p (a @ butlast p)"
    using Cons.prems by (auto simp: sublist_Cons_right)
  ultimately show ?case using Cons.IH by simp
qed

lemma str_find_absent: "\<not> sublist p s \<Longrightarrow> str_find p s = None"
  by (induction s) (auto simp: sublist_Cons_right prefix_imp_sublist)

lemma str_rfind_absent: "\<not> sublist p s \<Longrightarrow> str_rfind p s = None"
  by (induction s) (auto simp: sublist_Cons_right prefix_imp_sublist)

lemma str_rfind_here:
  assumes "\<not> sublist p (tl p @ b)" and "p \<noteq> []"
  shows "str_rfind p (a @ p @ b) = Some (length a)"
proof (induction a)
  case Nil
  obtain c q where "p = c # q" using assms(2) by (cases p) auto
  with assms(1) show ?case by (simp add: str_rfind_absent)
qed simp

section \<open>The completion\<close>

definition prompt_mark :: str where "prompt_mark = CHR 0x0A # ''> ''"
definition blank_line :: str where "blank_line = [CHR 0x0A, CHR 0x0A]"
definition timing_mark :: str where "timing_mark = CHR 0x0A # CHR 0x0A # ''[ Prompt:''"
definition exit_mark :: str where "exit_mark = CHR 0x0A # CHR 0x0A # ''Exiting...''"

definition cut_prompt :: "str \<Rightarrow> str" where
  "cut_prompt output =
     (case str_rfind prompt_mark output of
        Some i \<Rightarrow>
          (let output = drop (i + 3) output
           in case str_find blank_line output of Some j \<Rightarrow> drop (j + 2) output | None \<Rightarrow> output)
      | None \<Rightarrow> output)"

definition cut_after :: "str \<Rightarrow> str \<Rightarrow> str" where
  "cut_after mark output =
     (case str_find mark output of Some i \<Rightarrow> take i output | None \<Rightarrow> output)"

lemma extract_completion_cuts:
  "extract_completion raw = str_trim (cut_after exit_mark (cut_after timing_mark (cut_prompt raw)))"
  unfolding extract_completion_def cut_after_def cut_prompt_def prompt_mark_def blank_line_def
    timing_mark_def exit_mark_def Let_def
  by (rule refl)

lemma trimmed_extract: "trimmed (extract_completion raw)"
  by (simp add: extract_completion_cuts trimmed_str_trim)

lemma length_str_trim: "length (str_trim s) \<le> length s"
proof -
  have "length (strip_ws w s) \<le> length s" for w s
    using strip_ws_suffix [of w s] by (rule suffix_length_le)
  then have "length (trim_start s) \<le> length s" "length (trim_end (trim_start s)) \<le> length (trim_start s)"
    using length_rev by (metis trim_start_def, metis trim_end_def length_rev)
  then show ?thesis by (simp add: str_trim_def)
qed

lemma length_extract: "length (extract_completion raw) \<le> length raw"
proof -
  have "length (cut_after m s) \<le> length s" for m s
    by (simp add: cut_after_def split: option.splits)
  moreover have "length (cut_prompt s) \<le> length s" for s
    by (simp add: cut_prompt_def Let_def split: option.splits)
  ultimately show ?thesis
    unfolding extract_completion_cuts by (meson length_str_trim order_trans)
qed

lemma cut_prompt_here:
  assumes "\<not> sublist prompt_mark (tl prompt_mark @ rest)"
  shows "cut_prompt (before @ prompt_mark @ rest) =
    (case str_find blank_line rest of Some j \<Rightarrow> drop (j + 2) rest | None \<Rightarrow> rest)"
proof -
  have "str_rfind prompt_mark (before @ prompt_mark @ rest) = Some (length before)"
    using assms by (rule str_rfind_here) (simp add: prompt_mark_def)
  moreover have "drop (length before + 3) (before @ prompt_mark @ rest) = rest"
    by (simp add: prompt_mark_def)
  ultimately show ?thesis by (simp add: cut_prompt_def)
qed

lemma cut_out_text:
  assumes "\<not> sublist prompt_mark (tl prompt_mark @ rest)"
    and "rest = echo @ blank_line @ text @ timing_mark @ stats"
    and "\<not> sublist blank_line (echo @ butlast blank_line)"
    and "\<not> sublist timing_mark (text @ butlast timing_mark)" and "\<not> sublist exit_mark text"
  shows "extract_completion (before @ prompt_mark @ rest) = str_trim text"
proof -
  have "str_find blank_line rest = Some (length echo)"
    unfolding assms(2) using assms(3) by (rule str_find_here)
  moreover have "drop (length echo + 2) rest = text @ timing_mark @ stats"
    by (simp add: assms(2) blank_line_def)
  ultimately have "cut_prompt (before @ prompt_mark @ rest) = text @ timing_mark @ stats"
    by (simp add: cut_prompt_here [OF assms(1)])
  moreover have "cut_after timing_mark (text @ timing_mark @ stats) = text"
    using str_find_here [OF assms(4)] by (simp add: cut_after_def)
  moreover have "cut_after exit_mark text = text"
    using str_find_absent [OF assms(5)] by (simp add: cut_after_def)
  ultimately show ?thesis by (simp add: extract_completion_cuts)
qed

lemma cut_out_quote:
  assumes "\<not> sublist prompt_mark (tl prompt_mark @ rest)" and "\<not> sublist blank_line rest"
  shows "extract_completion (before @ prompt_mark @ rest) = str_trim rest"
proof -
  have "sublist blank_line timing_mark" "sublist blank_line exit_mark"
    by (simp_all add: blank_line_def timing_mark_def exit_mark_def sublist_Cons_right)
  then have "\<not> sublist timing_mark rest" "\<not> sublist exit_mark rest"
    using assms(2) sublist_order.order_trans by blast+
  then show ?thesis
    using str_find_absent assms(2)
    by (simp add: extract_completion_cuts cut_prompt_here [OF assms(1)] cut_after_def)
qed

text \<open>What comes before the last prompt mark has no influence; with a timing block right after a
  quoted text, the blank line of the block is taken for the end of the prompt.\<close>

lemma cut_out_last:
  assumes "\<not> sublist prompt_mark (tl prompt_mark @ rest)"
  shows "extract_completion (before @ prompt_mark @ rest) = extract_completion (before' @ prompt_mark @ rest)"
  by (simp add: extract_completion_cuts cut_prompt_here [OF assms])

lemma cut_out_timing:
  assumes "\<not> sublist prompt_mark (tl prompt_mark @ rest)"
    and "rest = quoted @ timing_mark @ figures @ exit_mark @ tail"
    and "\<not> sublist blank_line (quoted @ butlast blank_line)"
    and "\<not> sublist timing_mark (''[ Prompt:'' @ figures @ exit_mark @ tail)"
    and "\<not> sublist exit_mark ((''[ Prompt:'' @ figures) @ butlast exit_mark)"
  shows "extract_completion (before @ prompt_mark @ rest) = str_trim (''[ Prompt:'' @ figures)"
proof -
  have rest: "rest = quoted @ blank_line @ ''[ Prompt:'' @ figures @ exit_mark @ tail"
    by (simp add: assms(2) timing_mark_def blank_line_def)
  have "str_find blank_line rest = Some (length quoted)"
    unfolding rest using assms(3) by (rule str_find_here)
  moreover have "drop (length quoted + 2) rest = ''[ Prompt:'' @ figures @ exit_mark @ tail"
    by (simp add: rest blank_line_def)
  ultimately have "cut_prompt (before @ prompt_mark @ rest) = ''[ Prompt:'' @ figures @ exit_mark @ tail"
    by (simp add: cut_prompt_here [OF assms(1)])
  moreover have "cut_after timing_mark (''[ Prompt:'' @ figures @ exit_mark @ tail) =
      ''[ Prompt:'' @ figures @ exit_mark @ tail"
    unfolding cut_after_def str_find_absent [OF assms(4)] by (rule option.case)
  moreover have "cut_after exit_mark ((''[ Prompt:'' @ figures) @ exit_mark @ tail) = ''[ Prompt:'' @ figures"
    unfolding cut_after_def str_find_here [OF assms(5)] by simp
  ultimately show ?thesis by (simp add: extract_completion_cuts)
qed

end
