(* ===== verification/Chat_Facts.thy ===== *)
theory Chat_Facts
  imports Chat_Handler Inference_Facts Merkle_Facts Trusted_Roots
begin

text \<open>
  What the chat endpoint promises: a well-formed configuration, well-formed answers, a valid
  inline verification for every request that runs alone, and what happens when the checks
  of two requests overtake each other.
\<close>

section \<open>Configuration\<close>

definition chat_config_ok :: "provider \<Rightarrow> chat_config \<Rightarrow> chat_server \<Rightarrow> bool" where
  "chat_config_ok P cfg s \<longleftrightarrow>
     length (dm_model_hash cfg) = 32 \<and> 0 < cd_slots s \<and> rg_provider (cd_generator s) = P \<and>
     (case cd_verifier s of
        None \<Rightarrow> dm_expected_pcr0 cfg = None
      | Some v \<Rightarrow> vf_provider v = P \<and> vf_trusted_roots v \<noteq> [] \<and>
          (\<exists>pcr0. dm_expected_pcr0 cfg = Some pcr0 \<and> length pcr0 = 48))"

lemma configured_runtime_hash:
  "sha_lengths L \<Longrightarrow> configured_runtime hw L path_of lenv files env = Ok (R, h, i) \<Longrightarrow> length h = 32"
proof -
  assume L: "sha_lengths L" and c: "configured_runtime hw L path_of lenv files env = Ok (R, h, i)"
  have "h = replicate 32 0x55 \<or> (\<exists>p. compute_model_hash L (files p) = Ok h)"
    using c by (auto simp: configured_runtime_def Let_def result_simps split: if_splits option.splits)
  then show "length h = 32"
  proof
    assume "\<exists>p. compute_model_hash L (files p) = Ok h"
    then obtain p r where "compute_model_hash L (files p) = Ok h" "files p = Ok r"
      by (auto simp: compute_model_hash_def hash_file_merkle_def result_simps)
    then show ?thesis using model_hash_length [OF L] by simp
  qed simp
qed

lemma configured_runtime_kind:
  "configured_runtime hw L path_of lenv files env = Ok (R, h, i) \<Longrightarrow>
     R = mock_runtime \<or> (\<exists>c. R = llama_runtime lenv c)"
  by (auto simp: configured_runtime_def Let_def result_simps split: if_splits option.splits)

lemma configured_pcr0_length: "configured_pcr0 hw L env = Ok b \<Longrightarrow> length b = 48"
  by (auto simp: configured_pcr0_def result_simps split: if_splits)

lemma from_pem_roots:
  "from_pem L P pem stateful = Ok v \<Longrightarrow> vf_provider v = P \<and> vf_trusted_roots v \<noteq> []"
  by (auto simp: from_pem_def from_pem_with_config_def new_with_config_def result_simps)

lemma build_state_Ok:
  assumes "build_state hw L path_of lenv files mock_pem max_permits P key env w = (Ok (cfg, s), w')"
    and "sha_lengths L"
  shows "chat_config_ok P cfg s \<and>
    (dm_runtime cfg = mock_runtime \<or> (\<exists>c. dm_runtime cfg = llama_runtime lenv c)) \<and>
    (hw \<longrightarrow> (\<forall>v. cd_verifier s = Some v \<longrightarrow>
       list_all (\<lambda>der. sha256 L der \<in> set AWS_NITRO_ROOT_FINGERPRINTS) (vf_trusted_roots v)))"
proof -
  obtain R h i n w1 v pcr0 where c: "configured_runtime hw L path_of lenv files env = Ok (R, h, i)"
    and n: "n \<noteq> 0" and v: "(if env_flag env ''VERIAI_INLINE_VERIFY'' (\<not> hw) then
                   io_then (configured_root_pem hw L path_of mock_pem env)
                     (\<lambda>root_pem.
                   io_then (io_lift (configured_pcr0 hw L env)) (\<lambda>expected_pcr0.
                     io_lift (map_err (\<lambda>error. ''invalid trusted root: '' @ error)
                       (and_then (from_pem L P root_pem (env_flag env ''STATEFUL_VERIFICATION'' False)) (\<lambda>verifier.
                          Ok (Some verifier, Some expected_pcr0))))))
                 else io_lift (Ok (None, None))) w = (Ok (v, pcr0), w1)"
    and s: "cfg = \<lparr>dm_runtime = R, dm_model_hash = h, dm_model_id = i,
        dm_expected_pcr0 = pcr0, dm_real_hardware = hw\<rparr>"
      "s = \<lparr>cd_slots = n, cd_generator = generator_new P key, cd_verifier = v\<rparr>"
    using assms(1) unfolding build_state_def
    by (auto simp: io_simps result_simps Let_def split: prod.splits)
  have "length h = 32" using configured_runtime_hash [OF assms(2) c] .
  moreover have "(v = None \<and> pcr0 = None) \<or> (\<exists>u b. v = Some u \<and> pcr0 = Some b \<and> length b = 48 \<and>
      vf_provider u = P \<and> vf_trusted_roots u \<noteq> [] \<and>
      (hw \<longrightarrow> list_all (\<lambda>der. sha256 L der \<in> set AWS_NITRO_ROOT_FINGERPRINTS) (vf_trusted_roots u)))"
  proof (cases "env_flag env ''VERIAI_INLINE_VERIFY'' (\<not> hw)")
    case False
    then show ?thesis using v by simp
  next
    case True
    then obtain pem b u w2 where pem: "configured_root_pem hw L path_of mock_pem env w = (Ok pem, w2)"
      and b: "configured_pcr0 hw L env = Ok b"
      and u: "from_pem L P pem (env_flag env ''STATEFUL_VERIFICATION'' False) = Ok u"
      and eq: "v = Some u" "pcr0 = Some b"
      using v by (auto simp: io_simps result_simps)
    have "list_all (\<lambda>der. sha256 L der \<in> set AWS_NITRO_ROOT_FINGERPRINTS) (vf_trusted_roots u)" if hw
    proof -
      have "validate_aws_nitro_root_pem L pem = Ok ()"
        using pem that by (auto simp: configured_root_pem_def io_simps result_simps)
      then show ?thesis
        using validated_pem_loads [of L pem AWS_NITRO_ROOT_FINGERPRINTS P
            "env_flag env ''STATEFUL_VERIFICATION'' False" default_config] u
        by (auto simp: validate_aws_nitro_root_pem_def from_pem_def pinned_def list_all_iff)
    qed
    then show ?thesis
      using eq configured_pcr0_length [OF b] from_pem_roots [OF u] by blast
  qed
  ultimately show ?thesis
    using s n configured_runtime_kind [OF c] by (auto simp: chat_config_ok_def generator_new_def)
qed

section \<open>Answers\<close>

context inference_runtime
begin

text \<open>An answer over a runtime that keeps the contract has one choice with a text in it.\<close>

lemma answer_has_text:
  assumes "chat_completions_handler L canonical_bytes cfg tms payload header drawn s = (Ok a, s')"
    and "dm_runtime cfg = R"
  shows "\<exists>c. cr_choices a = [c] \<and> ms_content (co_message c) \<noteq> []"
  using assms completion_not_empty unfolding chat_completions_handler_def
  by (auto simp: io_simps run_inference_def chat_response_def result_simps Let_def)

end

lemma accepted_nonce:
  "accept_request L canonical_bytes hw payload header drawn = Ok (q, w) \<Longrightarrow> length drawn = 32 \<Longrightarrow>
     length (wk_nonce w) = 32"
  by (auto simp: accept_request_def request_nonce_def request_nonce_with_policy_def result_simps
      Let_def split: if_splits option.splits)

section \<open>Inline verification\<close>

text \<open>The verifier has recorded only numbers that the generator has already given out.\<close>

definition numbers_behind :: "chat_server \<Rightarrow> bool" where
  "numbers_behind s \<longleftrightarrow>
     (\<forall>v. cd_verifier s = Some v \<longrightarrow> vf_state v = None \<or>
        (\<exists>m. vf_state v = Some (Healthy m) \<and>
           (\<forall>k n. m k = Some n \<longrightarrow> n < rg_sequence_num (cd_generator s))))"

lemma numbers_behind_start:
  "build_state hw L path_of lenv files mock_pem max_permits P key env w = (Ok (cfg, s), w') \<Longrightarrow>
     numbers_behind s"
  by (auto simp: build_state_def numbers_behind_def io_simps result_simps Let_def from_pem_def
      from_pem_with_config_def new_with_config_def split: prod.splits if_splits)

lemma lone_chat_verifies:
  assumes laws: "cose_roundtrips L" "cose_builds L" "cbor_roundtrips L" "ed25519_correct L" "sha_lengths L"
    and acc: "accept_request L canonical_bytes (dm_real_hardware cfg) payload header drawn = Ok (q, work)"
      "length drawn = 32"
    and run: "0 < cd_slots s" "rt_generate (dm_runtime cfg) q = Ok x"
    and gen: "generate_receipt L (ct_provider tms) (ct_receipt tms) (dm_model_hash cfg)
       (sha256 L (wk_input work)) (sha256 L (as_bytes (is_content x))) (wk_nonce work)
       (cd_generator s) = (Ok b, g')"
    and cfg: "length (dm_model_hash cfg) = 32" "dm_expected_pcr0 cfg = Some (replicate 48 0)"
    and provs: "rg_provider (cd_generator s) = mock_provider L pki" "cd_verifier s = Some v"
      "vf_provider v = mock_provider L pki'"
    and root: "i < length (vf_trusted_roots v)"
      "mock_chain L pki (vf_trusted_roots v ! i) (ct_clock tms i)"
    and size: "length b \<le> cfg_max_receipt_size (vf_config v)"
    and time: "in_time (vf_config v) (ct_provider tms) (ct_receipt tms) (ct_verify tms)"
    and behind: "numbers_behind s"
  shows "\<exists>a s' res. chat_completions_handler L canonical_bytes cfg tms payload header drawn s = (Ok a, s') \<and>
    cr_verification a = Some res \<and> vr_valid res \<and> numbers_behind s' \<and> cd_slots s' = cd_slots s"
proof -
  let ?ih = "sha256 L (wk_input work)" and ?oh = "sha256 L (as_bytes (is_content x))"
  have len: "length ?ih = 32" "length ?oh = 32" "length (wk_nonce work) = 32"
    using laws(5) accepted_nonce [OF acc] by (simp_all add: sha_lengths_def)
  obtain claims doc where ac: "receipt_acceptable L v (ct_clock tms) (ct_verify tms) b
      (mock_expectation (dm_model_hash cfg) ?ih ?oh (wk_nonce work)) claims doc"
    and num: "vc_sequence_num claims = rg_sequence_num (cd_generator s)"
    using mock_receipt_acceptable [where clock = "ct_clock tms" and i = i and now = "ct_verify tms",
        OF laws(1-4) cfg(1) len gen provs(1,3) root size time] by blast
  have g': "g' = (cd_generator s)\<lparr>rg_sequence_num := rg_sequence_num (cd_generator s) + 1\<rparr>"
    "unat (rg_sequence_num (cd_generator s)) + 1 < 2 ^ 64"
    using gen unfolding generate_receipt_Ok by auto
  have above: "rg_sequence_num (cd_generator s) < rg_sequence_num g'"
    using g' by (simp add: word_less_nat_alt unat_word_ariths)
  have adm: "admits L v claims doc"
    using behind provs(2) num by (auto simp: admits_def numbers_behind_def split: option.splits)
  have rep: "representable (ct_verify tms)" using time by (simp add: in_time_def)
  let ?res = "accept_result v (receipt_info_of L claims) (map passed (all_names v))"
  let ?s' = "s\<lparr>cd_generator := g', cd_verifier := Some (recorded L v claims doc)\<rparr>"
  have h: "chat_completions_handler L canonical_bytes cfg tms payload header drawn s =
      (Ok (chat_response L cfg tms work x b (Some ?res)), ?s')"
    using acc(1) run gen cfg(2) provs(2) verify_complete [OF rep ac adm]
    by (cases s) (simp add: chat_completions_handler_def io_then.simps acquire_slot_def run_inference_def
        issue_receipt_def check_inline_def mock_expectation_def)
  have "numbers_behind ?s'"
    using behind provs(2) num above
    by (auto simp: numbers_behind_def recorded_def split: if_splits) (metis order.strict_trans)
  with h show ?thesis by (auto simp: chat_response_def Let_def)
qed

text \<open>Two checks in the wrong order.\<close>

lemma overtaken_check:
  assumes c1: "check_inline L cfg tms1 w1 t1 b1 s = (Ok (Some r1), s1)" "vr_valid r1"
    and c0: "check_inline L cfg tms0 w0 t0 b0 s1 = (r, s2)"
    and st: "cd_verifier s = Some v" "vf_state v = Some (Healthy m)"
    and num: "receipt_number L b1 = Some (k, n1)" "receipt_number L b0 = Some (k, n0)" "n0 \<le> n1"
  shows "\<not> (\<exists>r0. r = Ok (Some r0) \<and> vr_valid r0)"
proof
  assume "\<exists>r0. r = Ok (Some r0) \<and> vr_valid r0"
  then obtain r0 where r0: "r = Ok (Some r0)" "vr_valid r0" by blast
  obtain pcr0 v1 where v1: "verify L (ct_clock tms1) (ct_verify tms1) b1
        \<lparr>ex_model_hash = dm_model_hash cfg, ex_input_hash = sha256 L (wk_input w1),
         ex_output_hash = sha256 L (as_bytes t1), ex_nonce = wk_nonce w1, ex_pcr0 = pcr0\<rparr> v = (Ok r1, v1)"
      "cd_verifier s1 = Some v1" "dm_expected_pcr0 cfg = Some pcr0"
    using c1(1) st(1) by (auto simp: check_inline_def Let_def result_simps split: option.splits prod.splits)
  obtain n where n: "unat n = n1" "v1 = with_state v (m(k \<mapsto> n))"
    using v1(1) st(2) by (cases rule: verify_cases) (use c1(2) num(1) in auto)
  obtain v2 where v2: "verify L (ct_clock tms0) (ct_verify tms0) b0
        \<lparr>ex_model_hash = dm_model_hash cfg, ex_input_hash = sha256 L (wk_input w0),
         ex_output_hash = sha256 L (as_bytes t0), ex_nonce = wk_nonce w0, ex_pcr0 = pcr0\<rparr> v1 = (Ok r0, v2)"
    using c0 r0(1) v1(2,3) by (auto simp: check_inline_def Let_def result_simps split: prod.splits)
  have "vf_state v1 = Some (Healthy (m(k \<mapsto> n)))" using n(2) by simp
  with v2 show False
    by (cases rule: verify_cases) (use r0(2) num(2,3) n(1) in \<open>auto simp: word_less_nat_alt\<close>)
qed

text \<open>A check that would succeed is decided in any other replay state by the number.\<close>

lemma check_inline_Ok:
  assumes "cd_verifier s = Some v"
  shows "check_inline L cfg tms w t b s = (Ok (Some r), s') \<longleftrightarrow>
    (\<exists>pcr0 v'. dm_expected_pcr0 cfg = Some pcr0 \<and>
       verify L (ct_clock tms) (ct_verify tms) b
        \<lparr>ex_model_hash = dm_model_hash cfg, ex_input_hash = sha256 L (wk_input w),
         ex_output_hash = sha256 L (as_bytes t), ex_nonce = wk_nonce w, ex_pcr0 = pcr0\<rparr> v = (Ok r, v') \<and>
       s' = s\<lparr>cd_verifier := Some v'\<rparr>)"
  using assms by (auto simp: check_inline_def Let_def result_simps split: option.splits prod.splits)

lemma check_inline_other_state:
  assumes "check_inline L cfg tms w t b s = (Ok (Some r), s')" "vr_valid r"
    and "representable (ct_verify tms)" "cd_verifier s = Some v" "vf_state v = Some (Healthy m0)"
    and "receipt_number L b = Some (k, n)"
  shows "\<exists>r' m'. check_inline L cfg tms w t b (s\<lparr>cd_verifier := Some (with_state v m)\<rparr>) =
      (Ok (Some r'), s\<lparr>cd_verifier := Some (with_state v m')\<rparr>) \<and>
    (vr_valid r' \<longleftrightarrow> (\<forall>last_seq. m k = Some last_seq \<longrightarrow> unat last_seq < n)) \<and>
    (vr_valid r' \<longrightarrow> (\<exists>sq. unat sq = n \<and> m' = m(k \<mapsto> sq)))"
proof -
  obtain pcr0 v' where pcr0: "dm_expected_pcr0 cfg = Some pcr0"
    and v': "verify L (ct_clock tms) (ct_verify tms) b
        \<lparr>ex_model_hash = dm_model_hash cfg, ex_input_hash = sha256 L (wk_input w),
         ex_output_hash = sha256 L (as_bytes t), ex_nonce = wk_nonce w, ex_pcr0 = pcr0\<rparr> v = (Ok r, v')"
    using assms(1) unfolding check_inline_Ok [OF assms(4)] by blast
  from verify_other_state [OF assms(3) v' assms(2,5,6), of m] pcr0 show ?thesis
    by (auto simp: check_inline_Ok)
qed

text \<open>What a task has told its client about its receipt.\<close>

definition verdict :: "chat_task \<Rightarrow> bool option" where
  "verdict t = (case t of Answered (Inr a) \<Rightarrow> map_option vr_valid (cr_verification a) | _ \<Rightarrow> None)"

lemma verdict_answer [simp]:
  "verdict (finish (Ok v) (\<lambda>v. Answered (Ok (chat_response L cfg tms w x b v)))) = map_option vr_valid v"
  by (simp add: verdict_def finish_def chat_response_def Let_def)

lemma answer_step:
  assumes "i < length (sy_tasks y)" "sy_tasks y ! i = Receipted b x w"
    and "check_inline L cfg tms w (is_content x) b (sy_server y) = (Ok v, s)"
  shows "\<exists>y'. chat_step L canonical_bytes cfg y y' \<and> sy_server y' = s \<and>
    length (sy_tasks y') = length (sy_tasks y) \<and> verdict (sy_tasks y' ! i) = map_option vr_valid v \<and>
    (\<forall>j. j \<noteq> i \<longrightarrow> sy_tasks y' ! j = sy_tasks y ! j)"
proof (rule exI, intro conjI)
  show "chat_step L canonical_bytes cfg y \<lparr>sy_server = s, sy_tasks = (sy_tasks y)[i := finish (Ok v)
      (\<lambda>v. Answered (Ok (chat_response L cfg tms w x b v)))]\<rparr>"
    using assms by (rule chat_step.answer)
qed (use assms(1) in simp_all)

text \<open>Two receipts in flight, checked in either order.\<close>

lemma two_checks:
  assumes "i < length (sy_tasks y)" "j < length (sy_tasks y)" "i \<noteq> j"
    and "sy_tasks y ! i = Receipted b0 x0 w0" "sy_tasks y ! j = Receipted b1 x1 w1"
    and "cd_verifier (sy_server y) = Some v" "vf_state v = Some (Healthy m)"
    and "representable (ct_verify tms0)" "representable (ct_verify tms1)"
    and "check_inline L cfg tms0 w0 (is_content x0) b0 (sy_server y) = (Ok (Some r0), s0)" "vr_valid r0"
    and "check_inline L cfg tms1 w1 (is_content x1) b1 (sy_server y) = (Ok (Some r1), s1)" "vr_valid r1"
    and "receipt_number L b0 = Some (k, n0)" "receipt_number L b1 = Some (k, n1)"
  shows "\<exists>y1 y2. chat_step L canonical_bytes cfg y y1 \<and> chat_step L canonical_bytes cfg y1 y2 \<and>
    verdict (sy_tasks y2 ! i) = Some True \<and> verdict (sy_tasks y2 ! j) = Some (n0 < n1)"
proof -
  have same: "(sy_server y)\<lparr>cd_verifier := Some (with_state v m)\<rparr> = sy_server y"
    using assms(6,7) by (cases "sy_server y") simp
  obtain ra m1 where ra: "check_inline L cfg tms0 w0 (is_content x0) b0 (sy_server y) =
      (Ok (Some ra), (sy_server y)\<lparr>cd_verifier := Some (with_state v m1)\<rparr>)" "vr_valid ra"
    "\<exists>sq. unat sq = n0 \<and> m1 = m(k \<mapsto> sq)"
    using check_inline_other_state [OF assms(10,11,8,6,7,14), of m] assms(10,11) same by auto
  obtain y1 where y1: "chat_step L canonical_bytes cfg y y1"
    "sy_server y1 = (sy_server y)\<lparr>cd_verifier := Some (with_state v m1)\<rparr>"
    "length (sy_tasks y1) = length (sy_tasks y)" "verdict (sy_tasks y1 ! i) = Some True"
    "\<And>l. l \<noteq> i \<Longrightarrow> sy_tasks y1 ! l = sy_tasks y ! l"
    using answer_step [OF assms(1,4) ra(1)] ra(2) by auto
  obtain rb m2 where rb: "check_inline L cfg tms1 w1 (is_content x1) b1 (sy_server y1) =
      (Ok (Some rb), (sy_server y)\<lparr>cd_verifier := Some (with_state v m2)\<rparr>)" "vr_valid rb \<longleftrightarrow> n0 < n1"
  proof -
    obtain sq where "unat sq = n0" "m1 k = Some sq" using ra(3) by auto
    then have "(\<forall>last_seq. m1 k = Some last_seq \<longrightarrow> unat last_seq < n1) \<longleftrightarrow> n0 < n1" by simp
    with check_inline_other_state [OF assms(12,13,9,6,7,15), of m1] that show ?thesis
      unfolding y1(2) by blast
  qed
  have j: "j < length (sy_tasks y1)" "sy_tasks y1 ! j = Receipted b1 x1 w1"
    using assms(2,3,5) y1(3,5) by auto
  obtain y2 where "chat_step L canonical_bytes cfg y1 y2" "verdict (sy_tasks y2 ! j) = Some (vr_valid rb)"
    "sy_tasks y2 ! i = sy_tasks y1 ! i"
    using answer_step [OF j rb(1)] assms(3) by auto
  with y1(1,4) rb(2) show ?thesis
    by (intro exI [of _ y1] exI [of _ y2] conjI) simp_all
qed

end
