(* ===== verification/Sample_Chat.thy ===== *)
theory Sample_Chat
  imports Sample_Service Sample_Wasm Chat_Facts
begin

text \<open>A chat server on the sample instance, with the mock runtime and one request.\<close>

definition sample_message :: message where
  "sample_message = \<lparr>ms_role = ''user'', ms_content = ''hi''\<rparr>"

definition sample_payload :: chat_completion_request where
  "sample_payload = \<lparr>cq_model = ''m'', cq_messages = [sample_message], cq_temperature = None\<rparr>"

definition sample_inference :: inference_request where
  "sample_inference = \<lparr>ir_model = ''m'', ir_messages = [sample_message], ir_temperature = None\<rparr>"

definition sample_chat_config :: chat_config where
  "sample_chat_config = \<lparr>dm_runtime = mock_runtime, dm_model_hash = replicate 32 1,
     dm_model_id = ''m'', dm_expected_pcr0 = Some (replicate 48 0), dm_real_hardware = False\<rparr>"

definition sample_chat_server :: chat_server where
  "sample_chat_server = \<lparr>cd_slots = 1, cd_generator = sample_generator,
     cd_verifier = Some (sample_verifier True)\<rparr>"

definition sample_chat_times :: chat_times where
  "sample_chat_times = \<lparr>ct_provider = sample_time, ct_receipt = sample_time,
     ct_clock = (\<lambda>_. sample_time), ct_verify = sample_time, ct_created = sample_time\<rparr>"

definition sample_canonical :: "inference_request \<Rightarrow> (ext_error, bytes) result" where
  "sample_canonical = (\<lambda>_. Ok [1, 2, 3])"

definition sample_work :: chat_work where
  "sample_work = \<lparr>wk_input = [1, 2, 3], wk_nonce = sample_nonce\<rparr>"

lemmas sample_chat_defs = sample_chat_config_def sample_chat_server_def sample_chat_times_def
  sample_canonical_def sample_work_def sample_payload_def sample_inference_def

lemma sample_trim_m: "str_trim ''m'' \<noteq> []"
  by code_simp

lemma sample_accept:
  "accept_request sample_lib sample_canonical False (Ok sample_payload) None sample_nonce =
     Ok (sample_inference, sample_work)"
  using sample_trim_m
  by (simp add: accept_request_def sample_chat_defs request_nonce_def request_nonce_with_policy_def)

lemma sample_sha: "sha256 sample_lib b = replicate 32 1"
  by (simp add: sample_lib_def)

lemma sample_inline_check:
  assumes "\<exists>doc. receipt_acceptable sample_lib (sample_verifier True) (\<lambda>_. sample_time)
      sample_time b sample_expectation claims doc"
    and "cd_verifier s = Some (sample_verifier True)"
  shows "\<exists>r s1. check_inline sample_lib sample_chat_config sample_chat_times sample_work t b s =
     (Ok (Some r), s1) \<and> vr_valid r"
proof -
  obtain doc where acc: "receipt_acceptable sample_lib (sample_verifier True) (\<lambda>_. sample_time)
      sample_time b sample_expectation claims doc"
    using assms(1) by blast
  have adm: "admits sample_lib (sample_verifier True) claims doc"
    by (simp add: admits_def)
  have ex: "\<lparr>ex_model_hash = replicate 32 1, ex_input_hash = replicate 32 1,
      ex_output_hash = replicate 32 1, ex_nonce = sample_nonce, ex_pcr0 = replicate 48 0\<rparr> = sample_expectation"
    by (simp add: sample_expectation_def mock_expectation_def)
  show ?thesis
    using verify_complete [OF sample_representable acc adm] assms(2)
    by (simp add: check_inline_def sample_chat_config_def sample_chat_times_def
        sample_work_def sample_sha ex)
qed

lemma sample_numbers:
  "receipt_number sample_lib [1] = Some (replicate 32 1, 0)"
  "receipt_number sample_lib [3] = Some (replicate 32 1, 1)"
proof -
  have fp: "compute_identity_fingerprint sample_lib doc = replicate 32 1" for doc
    by (simp add: compute_identity_fingerprint_def Let_def) (simp add: sample_lib_def)
  show "receipt_number sample_lib [1] = Some (replicate 32 1, 0)"
    using sample_acceptable [of True] acceptable_number fp by (fastforce simp: sample_claims_def)
  show "receipt_number sample_lib [3] = Some (replicate 32 1, 1)"
    using sample_later_acceptable [of True] acceptable_number fp
    by (fastforce simp: sample_later_claims_def)
qed

text \<open>Two requests one after the other, up to their receipts: a reachable state.\<close>

definition sample_result :: inference_result where
  "sample_result = projr (rt_generate mock_runtime sample_inference)"

definition sample_two_receipts :: chat_system where
  "sample_two_receipts = \<lparr>sy_server = sample_chat_server
       \<lparr>cd_generator := sample_generator\<lparr>rg_sequence_num := 2\<rparr>\<rparr>,
     sy_tasks = [Receipted [1] sample_result sample_work, Receipted [3] sample_result sample_work]\<rparr>"

lemma sample_infers: "rt_generate mock_runtime sample_inference = Ok sample_result"
  by (simp add: sample_result_def mock_runtime_def mock_runtime_generate_def Let_def)

text \<open>One request through the slot, the runtime and the generator.\<close>

lemma sample_request_runs:
  assumes "generate_receipt sample_lib sample_time sample_time (replicate 32 1) (replicate 32 1)
     (replicate 32 1) sample_nonce g = (Ok b, g')"
    and "cd_slots s = 1" "cd_generator s = g"
    and "chat_reachable sample_lib sample_canonical sample_chat_config s0 \<lparr>sy_server = s, sy_tasks = ts\<rparr>"
  shows "chat_reachable sample_lib sample_canonical sample_chat_config s0
    \<lparr>sy_server = s\<lparr>cd_generator := g'\<rparr>, sy_tasks = ts @ [Receipted b sample_result sample_work]\<rparr>"
proof -
  let ?step = "chat_step sample_lib sample_canonical sample_chat_config"
  let ?s1 = "s\<lparr>cd_slots := 0\<rparr>"
  let ?i = "length ts"
  have "?step \<lparr>sy_server = s, sy_tasks = ts\<rparr> \<lparr>sy_server = ?s1, sy_tasks = sy_tasks \<lparr>sy_server = s, sy_tasks = ts\<rparr> @
      [finish (Ok (sample_inference, sample_work)) (\<lambda>(q, w). Inferring q w)]\<rparr>"
    by (rule chat_step.arrive [where payload = "Ok sample_payload" and header = None and drawn = sample_nonce])
      (use assms(2) in \<open>simp add: sample_accept sample_chat_config_def io_then.simps acquire_slot_def\<close>)
  then have "?step \<lparr>sy_server = s, sy_tasks = ts\<rparr>
      \<lparr>sy_server = ?s1, sy_tasks = ts @ [Inferring sample_inference sample_work]\<rparr>"
    by (simp add: finish_def)
  with assms(4) have r1: "chat_reachable sample_lib sample_canonical sample_chat_config s0
      \<lparr>sy_server = ?s1, sy_tasks = ts @ [Inferring sample_inference sample_work]\<rparr>"
    by (rule chat_reachable.step)
  have full: "s\<lparr>cd_slots := Suc 0\<rparr> = s" using assms(2) by (cases s) simp
  have "?step \<lparr>sy_server = ?s1, sy_tasks = ts @ [Inferring sample_inference sample_work]\<rparr>
      \<lparr>sy_server = s, sy_tasks = (sy_tasks \<lparr>sy_server = ?s1, sy_tasks = ts @ [Inferring sample_inference sample_work]\<rparr>)
        [?i := finish (Ok sample_result) (\<lambda>x. Completed x sample_work)]\<rparr>"
    by (rule chat_step.infer [where q = sample_inference])
      (use full in \<open>simp_all add: run_inference_def sample_chat_config_def sample_infers\<close>)
  then have "?step \<lparr>sy_server = ?s1, sy_tasks = ts @ [Inferring sample_inference sample_work]\<rparr>
      \<lparr>sy_server = s, sy_tasks = ts @ [Completed sample_result sample_work]\<rparr>"
    by (simp add: finish_def)
  with r1 have r2: "chat_reachable sample_lib sample_canonical sample_chat_config s0
      \<lparr>sy_server = s, sy_tasks = ts @ [Completed sample_result sample_work]\<rparr>"
    by (rule chat_reachable.step)
  have "?step \<lparr>sy_server = s, sy_tasks = ts @ [Completed sample_result sample_work]\<rparr>
      \<lparr>sy_server = s\<lparr>cd_generator := g'\<rparr>,
       sy_tasks = (sy_tasks \<lparr>sy_server = s, sy_tasks = ts @ [Completed sample_result sample_work]\<rparr>)
         [?i := finish (Ok b) (\<lambda>b. Receipted b sample_result sample_work)]\<rparr>"
    by (rule chat_step.issue [where tms = sample_chat_times])
      (use assms(1,3) in \<open>simp_all add: issue_receipt_def sample_chat_times_def sample_chat_config_def
        sample_work_def sample_sha\<close>)
  then have "?step \<lparr>sy_server = s, sy_tasks = ts @ [Completed sample_result sample_work]\<rparr>
      \<lparr>sy_server = s\<lparr>cd_generator := g'\<rparr>, sy_tasks = ts @ [Receipted b sample_result sample_work]\<rparr>"
    by (simp add: finish_def)
  with r2 show ?thesis by (rule chat_reachable.step)
qed

lemma sample_two_reachable:
  "chat_reachable sample_lib sample_canonical sample_chat_config sample_chat_server sample_two_receipts"
proof -
  have "chat_reachable sample_lib sample_canonical sample_chat_config sample_chat_server
      \<lparr>sy_server = sample_chat_server\<lparr>cd_generator := sample_generator\<lparr>rg_sequence_num := 1\<rparr>\<rparr>,
       sy_tasks = [] @ [Receipted [1] sample_result sample_work]\<rparr>"
    by (rule sample_request_runs [OF sample_receipt _ _ chat_reachable.start])
      (simp_all add: sample_chat_server_def)
  from sample_request_runs [OF sample_later_receipt _ _ this] show ?thesis
    by (simp add: sample_chat_server_def sample_two_receipts_def)
qed

lemma sample_build:
  "\<exists>cfg s w'. build_state False sample_lib (\<lambda>_. []) lenv (\<lambda>_. Err []) sample_pem 8
     (mock_provider sample_lib sample_pki) [7] Map.empty sample_service = (Ok (cfg, s), w')"
proof -
  let ?P = "mock_provider sample_lib sample_pki"
  have one: "parse_usize ''1'' = Ok 1" by (simp add: parse_usize_def is_digit_def digit_value_def)
  have flags: "env_flag Map.empty n d = d" for n d by (simp add: env_flag_def)
  have run: "configured_runtime False sample_lib (\<lambda>_. []) lenv (\<lambda>_. Err []) Map.empty =
      Ok (mock_runtime, replicate 32 0x55, ''veriai-mock'')"
    by (simp add: configured_runtime_def Let_def)
  have pem: "configured_root_pem False sample_lib (\<lambda>_. []) sample_pem Map.empty = io_lift (Ok sample_pem)"
    by (simp add: configured_root_pem_def)
  have pcr0: "configured_pcr0 False sample_lib Map.empty = Ok (replicate 48 0)"
    by (simp add: configured_pcr0_def)
  have roots: "from_pem sample_lib ?P sample_pem False = Ok (verifier_new ?P [[32]] False)"
    by (rule sample_pem_loads)
  show ?thesis
    unfolding build_state_def run flags pem pcr0 Let_def io_then.simps io_lift.simps sum.case prod.case
      option.case one roots by simp
qed

end
