(* ===== verification/Spec2Isabelle.thy ===== *)
theory Spec2Isabelle
  imports Sample_Cli Sample_Chat Merkle_Facts
begin

text \<open>
  VeriAI attests answers of a language model: a receipt generator inside an enclave signs a
  claim set (hashes of the model, the input and the output, the client's nonce, a sequence
  number, an attestation document), and a verifier decides whether a receipt is good.  This
  library models the Rust code of the repository and proves what its parts promise.

  \<^bold>\<open>Parts of the program, and the theories that model them.\<close>
  \<^item> \<open>crates/veriai-types\<close>: \<open>Veri_Types\<close> (records, error enums and their texts) and
    \<open>Claims_Codec\<close> (the hand-written serde serializer and visitor of the claim set).
  \<^item> \<open>crates/veriai-core/src/hashing.rs\<close>: \<open>Model_Hashing\<close> (reading in chunks, leaves, tree
    loop); \<open>Merkle_Facts\<close> has the recursive tree it computes and what the root identifies.
  \<^item> \<open>crates/veriai-attestation\<close>: \<open>Attestation\<close> (pinned roots, certificate rules, the walk
    along the chain) and \<open>Providers\<close> (the provider trait, mock, Nitro and offline).
  \<^item> \<open>crates/veriai-core/src/receipt.rs\<close>: \<open>Receipt_Generator\<close>;
    \<open>Issued_Numbers\<close> reads the numbers back from the issued bytes.
  \<^item> \<open>crates/veriai-core/src/verify.rs\<close>: \<open>Receipt_Verifier\<close> (the code, one definition per
    check), \<open>Verifier_Stages\<close> (the contract of a check), \<open>Verifier_Policy\<close> (what is
    promised, in unbounded integers), \<open>Verifier_Results\<close> (single calls and sequences of
    calls), \<open>Trusted_Roots\<close> (the two parsers of a root bundle), \<open>Receipt_Exchange\<close>
    (generator and verifier together).
  \<^item> \<open>crates/verifier-service\<close>: \<open>Replay_Store\<close> (the state file), \<open>Challenges\<close> (issued
    nonces as files), \<open>Verifier_Service\<close> (the verification handler and the start),
    \<open>Service_Facts\<close>, \<open>Challenge_Facts\<close>, \<open>Calm_Runs\<close> (requests without file faults),
    \<open>Service_Start\<close>, and \<open>Service_Cluster\<close> (several processes over one state file).
  \<^item> \<open>crates/veriai-wasm\<close>: \<open>Wasm_Verifier\<close>.  \<open>crates/veriai-cli\<close>: \<open>Cli\<close>, \<open>Cli_Facts\<close>,
    \<open>Cli_Faults\<close> (a fault aimed at the last write of a run).
  \<^item> \<open>crates/veriai-runtime\<close> and \<open>veriai-types/src/openai.rs\<close>: \<open>Inference\<close>,
    \<open>Inference_Facts\<close>.
  \<^item> \<open>examples/01-chat-demo\<close>: \<open>Chat_Demo\<close> (configuration), \<open>Chat_Handler\<close> (the handler and
    the interleaving of requests), \<open>Chat_Facts\<close>.
  \<^item> Shared: \<open>Veri_Prelude\<close> (results, machine types), \<open>Rust_Strings\<close> (the methods of
    \<open>str\<close>), \<open>External_Libs\<close> (third-party crates), \<open>Os_Model\<close> (files and their faults),
    \<open>Monotone_Register\<close>; the \<open>Sample\<close> theories hold the concrete instances on which the
    witness theorems run the model.

  \<^bold>\<open>How code corresponds to definitions.\<close>  A struct is a record, an enum a datatype, \<open>u64\<close>,
  \<open>i64\<close>, \<open>u32\<close> and \<open>u8\<close> are words with the checked, saturating or wrapping operation the
  source uses; \<open>Result\<close> is a sum whose left side is \<open>Err\<close>, and \<open>?\<close> is \<open>and_then\<close>.  A
  string is the sequence of its UTF-8 bytes.  A call that works on files or shared state is
  a function from a state to a result and a new state (\<open>io\<close>), chained by \<open>io_then\<close>.  The
  crates for hashes, signatures, encodings and certificates are the fields of one record
  \<open>lib\<close>, an argument of every definition that calls them; nothing is assumed of them but
  the named laws in \<open>External_Libs\<close>, where a theorem has them as hypotheses.  JSON is the
  record \<open>json_lib\<close>.  Clocks, drawn keys and nonces, the environment and the answers of
  \<open>read\<close> are arguments.

  \<^bold>\<open>Interfaces.\<close>
  \<^item> \<open>monotone_register\<close>: a call hands out a number above all earlier numbers of its key, or
    none.  It is interpreted on the numbers in the generator's receipts (\<open>numbering\<close>), on the verifier's replay state
    (\<open>replay\<close>), on the state file under any number of service processes (\<open>replicas\<close>) and
    on the session file of the command line tool (\<open>sessions\<close>); C3, C11, C18 and C31 are
    the client's theorem at these four.
  \<^item> \<open>attestation_verifier\<close> and its extension \<open>hardware_verifier\<close>: what the receipt
    verifier relies on in a provider; interpreted on the mock, Nitro and offline providers.
  \<^item> \<open>check_stage\<close> and \<open>check_pipeline\<close>: a stage of \<open>verify\<close> appends its passed checks or
    refuses with one failed check; proved of every stage and of the whole call.
  \<^item> \<open>inference_runtime\<close>: a completed inference has a text; interpreted on both runtimes and
    used by the chat handler.

  \<^bold>\<open>What the properties show.\<close>  C1 to C8: \<open>verify\<close> decides a policy stated without its
  stages, never accepts a receipt twice, a valid result is evidence of an attested key, a
  refusal changes nothing, and the walk along a certificate chain is the existence of a
  trusted path.  C9 to C17: certificate rules, root bundles, generator, claim codec
  and model hash, with the collision the tree admits.  C18 to C28: several replicas
  accept a sequence number once, a request refines an abstract ledger, the state file is
  saved or rolled back under every pattern of file faults, the life of a challenge, the
  requests that strand a challenge, miss a replay or cannot be saved, and the start on
  hardware.  C29 and C30: the stateless verifier accepts whatever a service
  accepts.  C31 to C33: sessions of the command line tool.  C34 to C36: the llama.cpp
  runtime.  C37 to C40: the chat endpoint, its capacity under every interleaving, and the
  verification of its own receipts, alone and in parallel.

  \<^bold>\<open>Loops and bounds.\<close>  Loops are structural recursion on the list they consume: map entries,
  certificates, lines, and the eight attempts of \<open>challenge_handler\<close> (the literal bound of
  the source).  The leaf loop of the model hash stops because every round takes at least
  one byte of the file or ends; the tree loop because a level of more than one node is
  followed by a shorter one.  The operations use no fuel.

  \<^bold>\<open>Steps and concurrency.\<close>  A call of the generator or of the verifier's replay state holds
  a lock and is one step.  A verification request with a state file holds the in-process
  lock and the lock file from the reload to the answer, so it is one step of the files and
  the verifier, and the requests of all processes are a sequence.  The chat handler holds
  nothing between its phases: there the phases interleave freely (\<open>chat_step\<close>).  Every
  file operation of a step may fail, and a failing write may leave a part of its data.

  \<^bold>\<open>What modelling showed.\<close>  A model's tree hash is shared by a 64-byte file (C17); an error of
  \<open>verify\<close> leaves the reserved challenge neither usable nor consumed (C25); a failing
  \<open>stat\<close> of the state file lets a replica accept a receipt again (C26); with a bare file
  name as the state file no receipt is ever accepted, yet its number is spent (C27); an
  interrupted save destroys a session of the command line tool (C33); a completion with a
  block quote is replaced by the timing line (C35); a user message can forge a system
  message (C36); inline checks that overtake
  each other refuse an honest receipt (C40).

  \<^bold>\<open>Not modelled.\<close>  The axum routers with their limits, health and version answers, listening
  sockets and log output; the parsing of the command line (clap) and the derived \<open>Debug\<close>
  text of \<open>inspect\<close>; the conversion between JavaScript and Rust values (wasm-bindgen); the
  web page and the deployment files.  Crashes of a process in the middle of a request, and
  tasks cancelled by a dropped connection, are not steps of the model: its failures are
  those that operations report.  Paths name files one to one, so two names of one file
  (symbolic links) are not represented.  Panicked tasks (\<open>JoinError\<close>) do not occur.
  Starting \<open>llama-cli\<close> and the decimal text of an \<open>f32\<close> are parameters of the runtime.\<close>

section \<open>The receipt verifier\<close>

text \<open>C1: \<open>verify\<close> accepts exactly the receipts of the policy.  On a clock that fits a 64-bit
  count of seconds, a call returns a valid result if and only if some claim set and
  attestation document meet \<open>receipt_acceptable\<close>, stated over unbounded integers, and the
  replay state admits their sequence number; the result then lists every check as
  passed, in order, and the number is recorded.\<close>

theorem verify_decides_policy:
  assumes "representable now"
  shows "verify L clock now rb ex v = (Ok r, v') \<and> vr_valid r \<longleftrightarrow>
     (\<exists>claims doc. receipt_acceptable L v clock now rb ex claims doc \<and> admits L v claims doc \<and>
        r = accept_result v (receipt_info_of L claims) (map passed (all_names v)) \<and>
        v' = recorded L v claims doc)"
  using assms by (rule verify_accept_iff)

theorem verify_decides_policy_witness:
  "\<exists>r v'. verify sample_lib (\<lambda>_. sample_time) sample_time [1] sample_expectation
     (sample_verifier True) = (Ok r, v') \<and> vr_valid r"
proof -
  obtain doc where "receipt_acceptable sample_lib (sample_verifier True) (\<lambda>_. sample_time)
      sample_time [1] sample_expectation sample_claims doc"
    using sample_acceptable by blast
  moreover have "admits sample_lib (sample_verifier True) sample_claims doc"
    by (simp add: admits_def)
  ultimately show ?thesis
    using verify_decides_policy [OF sample_representable] by blast
qed

text \<open>C2: a receipt is accepted at most once.  After a stateful verifier has accepted a
  receipt, no later call with the same bytes is valid, whatever calls with other
  receipts, expectations and clocks come in between.\<close>

theorem no_receipt_twice:
  assumes "call_valid L c v" and "vf_state v \<noteq> None"
    and "w = run_state (admit L) cs (snd (call_verifier L c v))"
    and "vk_receipt d = vk_receipt c"
  shows "\<not> call_valid L d w"
  using assms by (rule accepted_once)

theorem no_receipt_twice_witness:
  "\<not> call_valid sample_lib sample_call
     (snd (call_verifier sample_lib sample_call (sample_verifier True)))"
  by (rule no_receipt_twice [of sample_lib sample_call "sample_verifier True" _ "[]"])
    (simp_all add: sample_call_valid run_state_def)

text \<open>C3: sequence numbers of accepted receipts strictly increase per enclave identity, over
  any sequence of calls of a stateful verifier from any state.\<close>

theorem accepted_numbers_increase: "increasing_log (run_log (admit L) cs v)"
  by (rule replay.log_increasing) simp

text \<open>C4: a valid result is evidence.  With any provider of the repository, it implies that the
  receipt's attestation document is signed by a leaf certificate with a path of
  acceptable issuers to one of the configured roots, and that the document binds the
  measurement, the receipt key and the nonce; \<open>verified_hardware\<close> is never set by the
  mock provider.\<close>

definition repository_provider :: "lib \<Rightarrow> provider \<Rightarrow> bool" where
  "repository_provider L P \<longleftrightarrow>
     (\<exists>pki. P = mock_provider L pki) \<or> (\<exists>dev. P = nitro_provider L dev) \<or>
     P = offline_provider L"

lemma repository_provider_attests: "repository_provider L P \<Longrightarrow> attestation_verifier L P"
  using mock.attestation_verifier_axioms nitro.attestation_verifier_axioms
    offline.attestation_verifier_axioms
  unfolding repository_provider_def by blast

theorem valid_result_is_evidence:
  assumes "representable now" and "repository_provider L (vf_provider v)"
    and "verify L clock now rb ex v = (Ok r, v')" and "vr_valid r"
  shows "(\<exists>claims doc. \<exists>root \<in> set (vf_trusted_roots v). \<exists>t \<in> range clock.
       trusted_document L (vc_attestation_report claims) root t doc \<and>
       document_binds L ex doc claims \<and> claims_match ex claims \<and>
       timely (vf_config v) now doc claims) \<and>
     (vr_verified_hardware r \<longrightarrow> (\<nexists>pki. vf_provider v = mock_provider L pki))"
proof -
  have att: "attestation_verifier L (vf_provider v)"
    using assms(2) by (rule repository_provider_attests)
  have "\<exists>claims doc i. receipt_acceptable L v clock now rb ex claims doc \<and>
      i < length (vf_trusted_roots v) \<and>
      trusted_document L (vc_attestation_report claims) (vf_trusted_roots v ! i) (clock i) doc"
    using attestation_verifier.valid_receipt_is_trusted [OF att assms(1) refl assms(3,4)] .
  then have "\<exists>claims doc. \<exists>root \<in> set (vf_trusted_roots v). \<exists>t \<in> range clock.
       trusted_document L (vc_attestation_report claims) root t doc \<and>
       document_binds L ex doc claims \<and> claims_match ex claims \<and>
       timely (vf_config v) now doc claims"
    unfolding receipt_acceptable_def by (meson nth_mem rangeI)
  moreover have "vr_verified_hardware r \<longrightarrow> (\<nexists>pki. vf_provider v = mock_provider L pki)"
    using verify_coherent [OF assms(3)] by (auto simp: mock_provider_def)
  ultimately show ?thesis by blast
qed

theorem valid_result_is_evidence_witness:
  "\<exists>claims doc. \<exists>root \<in> set (vf_trusted_roots (sample_verifier True)).
     \<exists>t \<in> range (\<lambda>_::nat. sample_time).
     trusted_document sample_lib (vc_attestation_report claims) root t doc \<and>
     document_binds sample_lib sample_expectation doc claims"
proof -
  obtain r v' where "verify sample_lib (\<lambda>_. sample_time) sample_time [1] sample_expectation
      (sample_verifier True) = (Ok r, v')" "vr_valid r"
    using sample_call_valid [of True]
    by (auto simp: call_valid_def call_verifier_def sample_call_def split: sum.splits)
      (metis prod.collapse)
  moreover have "repository_provider sample_lib (vf_provider (sample_verifier True))"
    by (auto simp: repository_provider_def)
  ultimately show ?thesis
    using valid_result_is_evidence [OF sample_representable, of sample_lib "sample_verifier True"
        "\<lambda>_. sample_time" "[1]" sample_expectation r v']
    by blast
qed

text \<open>C5: generator and verifier agree.  A receipt generated over the mock provider, if it
  is within the verifier's size limit, is accepted by a verifier that is stateless or has
  no recorded numbers yet, trusts the fixtures' root, is given the same hashes and nonce,
  and reads a clock in the freshness window; the result never claims hardware.\<close>

theorem generated_receipt_verifies:
  assumes "cose_roundtrips L" "cose_builds L" "cbor_roundtrips L" "ed25519_correct L"
    and "length mh = 32" "length ih = 32" "length oh = 32" "length nn = 32"
    and "generate_receipt L tp t mh ih oh nn g = (Ok b, g')"
    and "rg_provider g = mock_provider L pki" "vf_provider v = mock_provider L pki'"
    and "i < length (vf_trusted_roots v)" "mock_chain L pki (vf_trusted_roots v ! i) (clock i)"
    and "length b \<le> cfg_max_receipt_size (vf_config v)"
    and "in_time (vf_config v) tp t now"
    and "vf_state v = None \<or> vf_state v = Some (Healthy Map.empty)"
  shows "\<exists>r v'. verify L clock now b (mock_expectation mh ih oh nn) v = (Ok r, v') \<and> vr_valid r \<and>
    \<not> vr_verified_hardware r"
  using mock_receipt_verifies
    [of L mh ih oh nn tp t g b g' pki v pki' i clock now, OF assms] .

theorem generated_receipt_verifies_witness:
  "\<exists>r v'. verify sample_lib (\<lambda>_. sample_time) sample_time [1]
      (mock_expectation (replicate 32 1) (replicate 32 1) (replicate 32 1) sample_nonce)
      (sample_verifier False) = (Ok r, v') \<and> vr_valid r \<and> \<not> vr_verified_hardware r"
  by (rule generated_receipt_verifies [OF sample_laws(1,2) sample_cbor sample_laws(4) _ _ _ _
        sample_receipt, of sample_pki _ sample_pki 0])
    (simp_all add: sample_generator_def generator_with_key_def sample_nonce_def sample_chain
      sample_in_time, simp add: default_config_def)

text \<open>C6: a refusal names its reason and changes nothing.  A result that is not valid leaves
  the verifier as it was, carries an error text, and lists checks that passed, in the
  fixed order, followed by one failed check; an \<open>Err\<close> changes nothing either.\<close>

theorem refusal_changes_nothing:
  assumes "verify L clock now rb ex v = (res, v')"
    and "\<And>r. res = Ok r \<Longrightarrow> \<not> vr_valid r"
  shows "v' = v \<and>
    (\<forall>r. res = Ok r \<longrightarrow> refusal v [] (check_names @ [''Sequence Check'']) r)"
proof (cases res)
  case (Inl e)
  with assms(1) verify_errs show ?thesis by blast
next
  case (Inr r)
  with assms verify_refuses show ?thesis by simp
qed

theorem refusal_changes_nothing_witness:
  "refusal (sample_verifier True) [] (check_names @ [''Sequence Check''])
     (fail_result (sample_verifier True) None MalformedReceipt
        [failed ''Receipt Format'' ''error''])"
proof -
  have "verify sample_lib (\<lambda>_. sample_time) sample_time [] sample_expectation
      (sample_verifier True) =
    (Ok (fail_result (sample_verifier True) None MalformedReceipt
        [failed ''Receipt Format'' ''error'']), sample_verifier True)"
    by (simp add: verify_def verify_checks_def check_limits_def parse_receipt_def stop_with_def
        sample_lib_def sample_error_def sample_expectation_def mock_expectation_def
        default_config_def)
  from refusal_changes_nothing [OF this] show ?thesis by (simp add: fail_result_def)
qed

text \<open>C7: \<open>valid\<close>, \<open>error\<close> and \<open>verified_hardware\<close> agree in every result: an error text is
  present exactly when the result is not valid, and hardware is claimed exactly by a
  valid result of a provider that says it is hardware backed.\<close>

theorem result_is_coherent:
  "case fst (verify L clock now rb ex v) of
     Inl e \<Rightarrow> True
   | Inr r \<Rightarrow> (vr_valid r \<longleftrightarrow> vr_error r = None) \<and>
       (vr_verified_hardware r \<longleftrightarrow> vr_valid r \<and> p_hardware (vf_provider v)) \<and>
       vr_attestation_provider r = p_name (vf_provider v)"
  using verify_coherent by (cases "verify L clock now rb ex v") (auto split: sum.split)

section \<open>Attestation documents\<close>

text \<open>C8: \<open>verify_attestation_doc\<close> decides \<open>trusted_document\<close>: it returns a document exactly
  when the bytes are a COSE structure with acceptable headers whose payload is that
  document, signed by an acceptable leaf certificate from which the bundle leads,
  issuer by issuer, to the expected root.\<close>

theorem attestation_verification_decides:
  "verify_attestation_doc L b root now = Ok doc \<longleftrightarrow> trusted_document L b root now doc"
  by (rule verify_attestation_doc_Ok)

text \<open>C9: \<open>validate_cert\<close> decides the certificate rules.  As a leaf: current, no CA, and
  digital signatures allowed where a key usage is given.  As an authority: current, CA,
  the path length respected by the number of authorities below, and certificate signing
  allowed where a key usage is given; no unknown critical extension in either case.\<close>

theorem certificate_rules:
  "validate_cert L cert is_leaf n now = Ok () \<longleftrightarrow>
     (if is_leaf then acceptable_leaf L cert now else acceptable_ca L cert n now)"
  by (simp add: validate_cert_leaf validate_cert_ca)

text \<open>C10: roots that pass the allowlist check are the roots the verifier loads.  When
  \<open>validate_root_pem_with_allowlist\<close> accepts a bundle, \<open>from_pem\<close> succeeds on it, and every
  root it trusts has its fingerprint in the allowlist, although the two parse the bundle
  differently.\<close>

theorem validated_roots_are_loaded:
  assumes "validate_root_pem_with_allowlist L pem allowlist = Ok ()"
  shows "\<exists>v. from_pem L P pem stateful = Ok v \<and> vf_trusted_roots v \<noteq> [] \<and>
    (\<forall>der \<in> set (vf_trusted_roots v). sha256 L der \<in> set allowlist) \<and>
    (vf_state v \<noteq> None \<longleftrightarrow> stateful)"
  using validated_pem_loads [OF assms, of P stateful default_config]
  by (auto simp: from_pem_def list_all_iff pinned_def)

lemma sample_pem_valid:
  "validate_root_pem_with_allowlist sample_lib sample_pem [replicate 32 1] = Ok ()"
  using sample_pem_lines by (simp add: validate_root_pem_with_allowlist_def sample_lib_def)

theorem validated_roots_are_loaded_witness:
  "\<exists>v. from_pem sample_lib (offline_provider sample_lib) sample_pem False = Ok v \<and>
     vf_trusted_roots v \<noteq> []"
  using validated_roots_are_loaded [OF sample_pem_valid, of "offline_provider sample_lib" False]
  by blast

section \<open>The receipt generator\<close>

text \<open>C11: the numbers written into issued receipts strictly increase.  Over any sequence of calls
  of one generator, whichever of them fail, the sequence numbers that a reader finds in the
  bytes of the receipts strictly increase, so none is issued twice; and every receipt that
  is issued can be read, carries the generator's key and the number the counter had.\<close>

theorem issued_numbers_increase:
  assumes "cose_roundtrips L" "cose_builds L" "cbor_roundtrips L" "ed25519_correct L"
  shows "increasing_log (run_log (issue L) cs g) \<and> distinct (run_log (issue L) cs g) \<and>
    (\<forall>c b g'. wf_call c \<and> call_generator L c g = (Ok b, g') \<longrightarrow>
       issued_number L b = Some (public_key_bytes L g, unat (rg_sequence_num g)) \<and>
       issue L c g = (issued_number L b, g'))"
proof -
  have "codecs_ok L" using assms by (simp add: codecs_ok_def)
  then show ?thesis
    using numbering.log_increasing numbering.log_distinct issued_receipt_number
    by (auto simp: issue_def)
qed

theorem issued_numbers_increase_witness:
  "issued_number sample_lib [1] = Some (sample_pubkey, 0) \<and>
   (\<forall>cs. distinct (run_log (issue sample_lib) cs sample_generator))"
proof -
  define c where "c = \<lparr>rc_provider_time = sample_time, rc_now = sample_time,
    rc_model_hash = replicate 32 1, rc_input_hash = replicate 32 1,
    rc_output_hash = replicate 32 1, rc_nonce = sample_nonce\<rparr>"
  have "wf_call c" by (simp add: c_def wf_call_def sample_nonce_def)
  moreover have "call_generator sample_lib c sample_generator =
      (Ok [1], sample_generator\<lparr>rg_sequence_num := 1\<rparr>)"
    using sample_receipt by (simp add: call_generator_def c_def)
  moreover have "public_key_bytes sample_lib sample_generator = sample_pubkey"
    "rg_sequence_num sample_generator = 0"
    by (simp_all add: public_key_bytes_def sample_lib_def sample_generator_def generator_with_key_def)
  ultimately show ?thesis
    using issued_numbers_increase [OF sample_laws(1,2) sample_cbor sample_laws(4), of _ sample_generator]
    by auto
qed

text \<open>C12: what a generated receipt is.  \<open>generate_receipt\<close> succeeds exactly when the provider
  attests the key binding, the counter is not exhausted, the clock is not before the
  epoch and the claims can be encoded; it then signs the caller's hashes and nonce with
  the counter's value and advances the counter by one.\<close>

theorem generated_receipt_contents:
  "generate_receipt L tp now mh ih oh nn g = (Ok b, g') \<longleftrightarrow>
     (\<exists>report. p_generate (rg_provider g) tp (Some (key_binding L (public_key_bytes L g)))
        (Some nn) (Some (public_key_bytes L g)) = Ok report \<and>
      unat (rg_sequence_num g) + 1 < 2 ^ 64 \<and> 0 \<le> now \<and>
      sign_claims L g (issued_claims L now mh ih oh nn report g) = Ok b \<and>
      g' = g\<lparr>rg_sequence_num := rg_sequence_num g + 1\<rparr>)"
  by (simp only: generate_receipt_Ok report_data_is_binding)

section \<open>The claim set\<close>

text \<open>C13: the claim decoder accepts exactly the streams in which every entry is readable at its
  type, no reserved key is used and all ten claims are present; the claims are those of
  the last entry of each key, and all arrays have 32 bytes.\<close>

theorem claim_decoder_accepts:
  "visit_map es = Ok c \<longleftrightarrow>
     (\<exists>kvs. es = map Inr kvs \<and> list_all (\<lambda>(k, v). entry_ok k v) kvs \<and>
        denotes (map_of (rev kvs)) c) \<and> wf_claims c"
  unfolding list_all_iff using visit_map_characterised visit_map_wf by blast

text \<open>C14: claims survive encoding: what \<open>to_binary\<close> writes, \<open>from_binary\<close> reads back, whatever
  the values, given that the CBOR library delivers what it was handed.\<close>

theorem claims_round_trip:
  assumes "cbor_roundtrips L" and "wf_claims c" and "claims_to_binary L c = Ok b"
  shows "claims_from_binary L b = Ok c"
  using assms by (rule claims_roundtrip)

theorem claims_round_trip_witness: "claims_from_binary sample_lib [10] = Ok sample_claims"
  by (rule claims_round_trip [OF sample_cbor])
    (simp_all add: wf_claims_def sample_claims_def sample_nonce_def sample_pubkey_def
      claims_to_binary_def sample_lib_def)

section \<open>Model hashing\<close>

text \<open>C15: the model hash is a tree hash of the file's contents.  However the reads split the
  file, a file whose reads never fail yields a hash, and every hash that is returned is the
  root of the balanced tree over its 4 MiB chunks, defined by recursion on the height,
  that the iterative loop of the code computes level by level.\<close>

theorem model_hash_is_tree_hash:
  "(never_fails r \<longrightarrow> is_ok (compute_model_hash L (Ok r))) \<and>
   (\<forall>h. compute_model_hash L (Ok r) = Ok h \<longrightarrow>
      h = (if rd_rest r = [] then sha256 L []
           else let leaves = map (sha256 L) (chunks_of CHUNK_SIZE (rd_rest r))
                in merkle_tree (sha256 L) (tree_height (length leaves)) leaves))"
proof -
  have "is_ok (compute_model_hash L (Ok r))" if "never_fails r"
    by (simp only: compute_model_hash_total [OF that] is_ok_Ok)
  moreover have "merkle_root (sha256 L) CHUNK_SIZE bs =
      (if bs = [] then sha256 L []
       else let leaves = map (sha256 L) (chunks_of CHUNK_SIZE bs)
            in merkle_tree (sha256 L) (tree_height (length leaves)) leaves)" for bs
    using chunks_of_eq_Nil [of CHUNK_SIZE bs]
    by (simp add: merkle_root_def merkle_loop_tree CHUNK_SIZE_def)
  ultimately show ?thesis using compute_model_hash_Ok by metis
qed

definition sample_file :: "bytes \<Rightarrow> reader" where
  "sample_file bs = \<lparr>rd_rest = bs, rd_answers = [Short 0]\<rparr>"

lemma sample_file_simps [simp]:
  "never_fails (sample_file bs)" "rd_rest (sample_file bs) = bs"
  by (simp_all add: sample_file_def never_fails_def)

theorem model_hash_is_tree_hash_witness:
  "is_ok (compute_model_hash sample_lib (Ok (sample_file [1, 2, 3])))"
  using model_hash_is_tree_hash [of "sample_file [1, 2, 3]" sample_lib] by simp

text \<open>C16: the model hash binds the contents among files of the same size: two such files with
  the same hash are equal, or their trees exhibit a collision of SHA-256.\<close>

theorem model_hash_binds:
  assumes "sha_lengths L" and "length (rd_rest r) = length (rd_rest r')"
    and "compute_model_hash L (Ok r) = Ok h" and "compute_model_hash L (Ok r') = Ok h"
  shows "rd_rest r = rd_rest r' \<or>
    collide_in (sha256 L) (hashed_inputs (sha256 L) CHUNK_SIZE (rd_rest r))
      (hashed_inputs (sha256 L) CHUNK_SIZE (rd_rest r'))"
proof -
  have "merkle_root (sha256 L) CHUNK_SIZE (rd_rest r) =
      merkle_root (sha256 L) CHUNK_SIZE (rd_rest r')"
    using assms(3,4) compute_model_hash_Ok by metis
  with assms(1,2) show ?thesis
    by (intro merkle_root_eq_or_collide [where n = 32]) (simp_all add: sha_lengths_def CHUNK_SIZE_def)
qed

lemma sample_file_hash:
  "bs \<noteq> [] \<Longrightarrow> length bs \<le> CHUNK_SIZE \<Longrightarrow>
     compute_model_hash sample_lib (Ok (sample_file bs)) = Ok (replicate 32 1)"
  by (simp add: compute_model_hash_total merkle_root_def chunks_of_single merkle_loop.simps
      sample_lib_def)

theorem model_hash_binds_witness:
  "collide_in (sha256 sample_lib) (hashed_inputs (sha256 sample_lib) CHUNK_SIZE [1])
     (hashed_inputs (sha256 sample_lib) CHUNK_SIZE [2])"
  using model_hash_binds [OF sample_laws(6), of "sample_file [1]" "sample_file [2]"]
  by (simp add: sample_file_hash CHUNK_SIZE_def)

text \<open>C17: the model hash does not bind the size.  Leaves and inner nodes are hashed alike, so
  every model larger than one chunk has the hash of some 64-byte file.\<close>

theorem model_hash_short_twin:
  assumes "sha_lengths L" and "never_fails r" and "CHUNK_SIZE < length (rd_rest r)"
  shows "\<exists>m. length m = 64 \<and>
    (\<forall>r'. never_fails r' \<longrightarrow> rd_rest r' = m \<longrightarrow>
       compute_model_hash L (Ok r') = compute_model_hash L (Ok r))"
proof -
  have "64 \<le> CHUNK_SIZE" by (simp add: CHUNK_SIZE_def)
  then obtain m where "length m = 64"
    "merkle_root (sha256 L) CHUNK_SIZE m = merkle_root (sha256 L) CHUNK_SIZE (rd_rest r)"
    using merkle_root_two_nodes [of "sha256 L" CHUNK_SIZE "rd_rest r"] assms(1,3)
    by (auto simp: sha_lengths_def)
  then show ?thesis using assms(2) compute_model_hash_total by metis
qed

theorem model_hash_short_twin_witness:
  "\<exists>m. length m = 64 \<and> compute_model_hash sample_lib (Ok (sample_file m)) =
     compute_model_hash sample_lib (Ok (sample_file (replicate (Suc CHUNK_SIZE) 0)))"
  using model_hash_short_twin [OF sample_laws(6), of "sample_file (replicate (Suc CHUNK_SIZE) 0)"]
  by (metis length_replicate lessI sample_file_simps)

section \<open>The verification service\<close>

text \<open>C18: replicas of the service share one ledger.  Whatever processes answer whatever requests,
  in any order and under any faults of the file operations, the numbers of the receipts
  they accept strictly increase for each enclave identity, over all processes together:
  no receipt is accepted twice, also not by two processes.  A request for which the
  \<open>stat\<close> of the state file fails is left out: it does not keep the ledger.\<close>

theorem replicas_numbers_increase:
  assumes "cluster_ok L J p c"
  shows "increasing_log (run_log (serve L J quoted cfg p) qs c)"
  using assms by (rule replicas.log_increasing)

theorem replicas_numbers_increase_witness:
  "\<forall>qs. length (cl_processes sample_cluster) = 2 \<and>
     increasing_log (run_log (serve sample_lib sample_json id sample_config sample_state_path) qs
       sample_cluster)"
  using replicas_numbers_increase [OF sample_cluster_ok]
  by (simp add: sample_cluster_def)

text \<open>C19: a request refines the ledger.  Seen through the state file, every request to any
  process whose \<open>stat\<close> of that file works is a step of the abstract ledger: a
  positive answer records the number of the receipt above the recorded one, and any other
  answer records nothing, or a number that was not acknowledged.\<close>

theorem request_refines_ledger:
  assumes "cluster_ok L J p c" and "handle_request L J quoted cfg p q c = (a, c')"
  shows "ledger_step (disk_mark L J p c) (answered_valid a) (request_number L q) (disk_mark L J p c') \<and>
    cluster_ok L J p c'"
  using assms by (rule request_is_ledger_step)

theorem request_refines_ledger_witness:
  "\<exists>q a c'. rq_process q = 1 \<and> handle_request sample_lib sample_json id sample_config
       sample_state_path q sample_cluster = (a, c') \<and>
     cluster_ok sample_lib sample_json sample_state_path c'"
proof -
  define q where "q = \<lparr>rq_process = 1, rq_times = sample_times, rq_body = sample_request [1], rq_faults = []\<rparr>"
  obtain a c' where h: "handle_request sample_lib sample_json id sample_config sample_state_path q
      sample_cluster = (a, c')" by fastforce
  moreover have "rq_process q = 1" by (simp add: q_def)
  ultimately show ?thesis
    using request_refines_ledger [OF sample_cluster_ok h] by blast
qed

text \<open>C20: a saved state is the state that is loaded.  When \<open>persist_replay_state\<close> succeeds and the
  state file is not written again, \<open>load_replay_state\<close> gives back the same map, by
  whatever process and after whatever restart.\<close>

theorem saved_state_is_loaded:
  assumes "hex_roundtrips L" and "json_roundtrips J" and "fingerprints_ok m"
    and "get_state (sv_verifier s) = Ok (Some m)"
    and "persist_replay_state L J pid p s = (Ok (), s')"
    and "w_files (w::world) p = w_files s' p" and "w_faults w = []"
  shows "load_replay_state L J p w = (Ok m, w)"
proof -
  obtain b where b: "encoded_state L J m = Ok b" "w_files s' p = Some b"
    using persist_outcome [OF assms(5)] assms(4) by auto
  have "decode_state L J b = Ok m"
    using assms(1-3) b(1) by (rule state_round_trip)
  then show ?thesis
    using assms(6,7) b(2)
    by (simp add: load_replay_state_def fs_read_def io_op_def take_fault_def io_then.simps
        io_map_err.simps)
qed

theorem saved_state_is_loaded_witness:
  "\<exists>w :: world. w_files w sample_state_path = Some [91] \<and>
     load_replay_state sample_lib sample_json sample_state_path w = (Ok Map.empty, w)"
proof -
  obtain s' where s': "persist_replay_state sample_lib sample_json 1 sample_state_path sample_service = (Ok (), s')"
    "w_files s' sample_state_path = Some [91]"
    using sample_persist by blast
  define w :: world where "w = \<lparr>w_files = w_files s', w_faults = [], w_stat_fails = False\<rparr>"
  have "load_replay_state sample_lib sample_json sample_state_path w = (Ok Map.empty, w)"
    by (rule saved_state_is_loaded [OF sample_laws(5) sample_json_laws fingerprints_ok_empty _ s'(1)])
      (simp_all add: get_state_def w_def)
  with s'(2) show ?thesis by (intro exI [of _ w]) (simp add: w_def)
qed

text \<open>C21: the state file is replaced as a whole or not at all, and the verifier follows it.  Under
  any faults, saving leaves the file with its old contents or with the encoding of the
  whole new state; it touches nothing but that file and its own temporary files; on
  success the file is new and the verifier keeps its state, and on failure the verifier
  is back at the previous state.\<close>

theorem save_or_roll_back:
  assumes "persist_replay_state_or_rollback L J pid p previous s = (r, s')"
    and "vf_state (sv_verifier s) = Some (Healthy m)"
  shows "(w_files s' p = w_files s p \<or> (\<exists>b. encoded_state L J m = Ok b \<and> w_files s' p = Some b)) \<and>
    {q. w_files s' q \<noteq> w_files s q} \<subseteq> insert p {q. is_temporary p pid q} \<and>
    (case r of
       Inr _ \<Rightarrow> sv_verifier s' = sv_verifier s \<and> (\<exists>b. encoded_state L J m = Ok b \<and> w_files s' p = Some b)
     | Inl _ \<Rightarrow> sv_verifier s' = (sv_verifier s)\<lparr>vf_state := Some (Healthy previous)\<rparr>)"
  using rollback_outcome [OF assms] by (auto split: sum.splits)

theorem save_or_roll_back_witness:
  "\<exists>s' :: service. sv_verifier s' = sample_verifier True \<and>
     {q. w_files s' q \<noteq> w_files sample_service q} \<subseteq>
       insert sample_state_path {q. is_temporary sample_state_path 1 q}"
proof -
  obtain s' where "persist_replay_state_or_rollback sample_lib sample_json 1 sample_state_path
      Map.empty sample_service = (Ok (), s')"
    using sample_persist by (auto simp: persist_replay_state_or_rollback_def)
  from save_or_roll_back [OF this, of Map.empty]
  have "{q. w_files s' q \<noteq> w_files sample_service q} \<subseteq>
      insert sample_state_path {q. is_temporary sample_state_path 1 q}"
    and "sv_verifier s' = sample_verifier True"
    by simp_all
  then show ?thesis by blast
qed

text \<open>C22: an issued challenge can be used until it expires, and once.  Its expiry is 300 seconds
  after the clock; until then, while its record is in place, reserving succeeds and
  removes it, so that no second request, of any process, can reserve it; after that,
  reserving fails and deletes the record.\<close>

theorem issued_challenge_life:
  assumes "challenge_handler L (Some p) now draws w = (Ok (name, e), w')"
    and "i < 8" and "name = hex_encode L (draws i)"
    and "w_files s = w_files (w'::world)" and "w_faults s = []" and "unix_seconds t = Ok seconds"
  shows "(\<exists>issued. unix_seconds now = Ok issued \<and> unat e = unat issued + 300) \<and>
    (if seconds \<le> e
     then (\<exists>res s1. reserve_challenge L pid t p (draws i) s = (Ok res, s1) \<and>
            (\<forall>pid' t' s2. w_files s2 = w_files s1 \<longrightarrow>
               (\<exists>error s3. reserve_challenge L pid' t' p (draws i) s2 = (Err error, s3))))
     else (\<exists>s1. reserve_challenge L pid t p (draws i) s = (Err ''challenge has expired'', s1) \<and>
            (\<forall>d. challenge_directory p = Ok d \<longrightarrow> w_files s1 (path_join d name) = None)))"
  using assms(1)
proof (rule challenge_handler_Ok)
  fix d issued nonce
  assume d: "challenge_directory p = Ok d" and u: "unix_seconds now = Ok issued" "unat e = unat issued + 300"
    and f: "w_files w' = (w_files w)(path_join d name \<mapsto> challenge_record e)"
  have rec: "w_files s (path_join d (hex_encode L (draws i))) = Some (challenge_record e)"
    using f assms(3,4) by simp
  note reserve = reserve_record [OF d assms(5) rec assms(6)]
  show ?thesis
  proof (cases "seconds \<le> e")
    case True
    then obtain res s1 where r: "reserve_challenge L pid t p (draws i) s = (Ok res, s1)"
      using reserve(1) by blast
    then have "w_files s1 (path_join d (hex_encode L (draws i))) = None"
      using reserve_files [OF r d] by auto
    then show ?thesis
      using True r u reserve_dead [OF d] by (auto simp: fun_eq_iff)
  next
    case False
    then show ?thesis using reserve(2) u d assms(3) by (auto simp: not_le)
  qed
qed

theorem issued_challenge_life_witness:
  "\<exists>(w' :: world) s1 res. reserve_challenge sample_lib 1 sample_time sample_state_path sample_nonce
     (sample_service\<lparr>w_files := w_files w'\<rparr>) = (Ok res, s1)"
proof -
  define w where "w = \<lparr>w_files = Map.empty, w_faults = [], w_stat_fails = False\<rparr>"
  obtain w' where w': "challenge_handler sample_lib (Some sample_state_path) sample_time
      (\<lambda>_. sample_nonce) w = (Ok (str_of_bytes sample_nonce, 1300), w')"
    using sample_challenge by (auto simp: w_def)
  from issued_challenge_life [OF w', of 0 "sample_service\<lparr>w_files := w_files w'\<rparr>" sample_time 1000 1]
  show ?thesis
    by (auto simp: unix_seconds_def since_epoch_def as_secs_def sample_time_def)
qed

text \<open>C23: the search for a free challenge ends with the first free nonce.  Without faults, if one
  of the eight drawn nonces is free, the loop stops at the first such nonce and issues it.\<close>

theorem challenge_search_ends:
  assumes "challenge_directory p = Ok d" and "unix_seconds now = Ok seconds"
    and "unat seconds + 300 < 2 ^ 64" and "w_faults w = []" and "i < 8"
    and "w_files (w :: world) (path_join d (hex_encode L (draws i))) = None"
    and "\<forall>j < i. w_files w (path_join d (hex_encode L (draws j))) \<noteq> None"
  shows "\<exists>w'. challenge_handler L (Some p) now draws w =
    (Ok (hex_encode L (draws i), seconds + 300), w')"
proof -
  have "checked_add_u64 seconds CHALLENGE_TTL_SECONDS = Some (seconds + 300)"
    using assms(3) by (simp add: checked_add_u64_def CHALLENGE_TTL_SECONDS_def)
  moreover have "\<exists>w'. allocate_challenge L d (seconds + 300) (map draws [0..<8]) w =
      (Ok (hex_encode L (map draws [0..<8] ! i), seconds + 300), w')"
    using assms(4-7) challenge_directory_nonempty [OF assms(1)] by (intro allocate_first) simp_all
  moreover have "fs_effectless w = (Ok (), w)"
    using assms(4) by (simp add: fs_effectless_def io_op_def take_fault_def)
  ultimately show ?thesis
    using assms(1,2,5) by (simp add: challenge_handler_def io_then.simps io_map_err.simps)
qed

theorem challenge_search_ends_witness:
  "\<exists>w'. challenge_handler sample_lib (Some sample_state_path) sample_time
     (\<lambda>i. if i = 0 then sample_nonce else replicate 32 (of_nat i))
     \<lparr>w_files = sample_files, w_faults = [], w_stat_fails = False\<rparr> =
     (Ok (str_of_bytes (replicate 32 1), 1300), w')"
proof -
  have other: "str_of_bytes sample_nonce \<noteq> str_of_bytes (replicate 32 1)"
  proof
    assume "str_of_bytes sample_nonce = str_of_bytes (replicate 32 1)"
    then have "sample_nonce = replicate 32 1" by (metis as_bytes_str_of_bytes)
    then show False by (simp add: sample_nonce_def)
  qed
  have "unix_seconds sample_time = Ok 1000"
    by (simp add: unix_seconds_def since_epoch_def as_secs_def sample_time_def)
  from challenge_search_ends [OF sample_challenge_directory this, of _ 1 sample_lib
      "\<lambda>i. if i = 0 then sample_nonce else replicate 32 (of_nat i)"] other
  show ?thesis
    by (simp add: path_join_def sample_files_def sample_challenge_path_def)
qed

text \<open>C24: an answered request settles its challenge.  Where issued challenges are required, a
  request that is answered with a result had a live challenge when it came; the challenge
  is gone after a valid result, and back in place after an invalid one.\<close>

theorem answered_request_settles_challenge:
  assumes "verify_handler L J quoted cfg tms q s = (Ok res, s')"
    and "ac_replay_state_path cfg = Some p" "ac_require_issued_challenge cfg"
    and "challenge_directory p = Ok d" "decode_field L ''nonce'' (vq_nonce q) = Ok nonce"
  shows "live_challenge (path_join d (hex_encode L nonce)) (tm_challenge tms) (w_files s) \<and>
    w_files s' (path_join d (hex_encode L nonce)) =
      (if vr_valid res then None else w_files s (path_join d (hex_encode L nonce)))"
  using handler_challenge [OF assms(1) _ assms(2-5) refl] by simp

theorem answered_request_settles_challenge_witness:
  "\<exists>res s'. verify_handler sample_lib sample_json id sample_config sample_times
     (sample_request sample_no_receipt) sample_service = (Ok res, s') \<and> \<not> vr_valid res \<and>
     w_files s' sample_challenge_path = Some (challenge_record 1300)"
proof -
  obtain res s' where h: "verify_handler sample_lib sample_json id sample_config sample_times
      (sample_request sample_no_receipt) sample_service = (Ok res, s')" "\<not> vr_valid res"
    using sample_refused by blast
  from answered_request_settles_challenge [OF h(1) _ _ sample_challenge_directory, of sample_nonce] h
  show ?thesis by (simp add: sample_request_def sample_files_def path_join_def sample_challenge_path_def)
qed

text \<open>C25: an error of \<open>verify\<close> strands its challenge.  Where issued challenges are required, a
  request that has reserved its challenge and for which \<open>verify\<close> returns an error (a
  receipt that is too old or too large, for example) is answered with that error as
  \<open>verification_error\<close>.  Its challenge was live; it is not restored, and it is not consumed
  either: its record stays under the reserved name.  As long as there is no new record under
  the name of the challenge, no later request with this nonce, to any process with this
  state file, at whatever time and in whatever state, is answered with a result.\<close>

theorem verification_error_strands_challenge:
  assumes cfg: "ac_replay_state_path cfg = Some p" "ac_require_issued_challenge cfg"
      "challenge_directory p = Ok d"
    and run: "decode_request L cfg q = Ok (rb, ex)" "begin_transaction L J cfg s = (Ok (), s1)"
      "reserve_challenge L (ac_pid cfg) (tm_challenge tms) p (ex_nonce ex) s1 = (Ok rsv, s2)"
      "get_state (sv_verifier s2) = Ok m"
    and err: "fst (verify L (tm_clock tms) (tm_now tms) rb ex (sv_verifier s2)) = Err e"
  shows "\<exists>s'. verify_handler L J quoted cfg tms q s =
      (Err (InternalServerError, \<lparr>er_code = ''verification_error'',
         er_error = ''Infrastructure error: '' @ debug_verify_error quoted e\<rparr>), s') \<and>
    live_challenge (available_path rsv) (tm_challenge tms) (w_files s) \<and>
    w_files s' (available_path rsv) = None \<and>
    w_files s' (reserved_path rsv) = w_files s (available_path rsv) \<and>
    (\<forall>cfg' tms' q' t. ac_replay_state_path cfg' = Some p \<and> ac_require_issued_challenge cfg' \<and>
       decode_field L ''nonce'' (vq_nonce q') = Ok (ex_nonce ex) \<and>
       w_files t (available_path rsv) = w_files s' (available_path rsv) \<longrightarrow>
       (\<nexists>res t'. verify_handler L J quoted cfg' tms' q' t = (Ok res, t')))"
proof -
  let ?a = "path_join d (hex_encode L (ex_nonce ex))"
  obtain b where av: "available_path rsv = ?a" "reserved_path rsv \<noteq> ?a"
    and live: "live_challenge ?a (tm_challenge tms) (w_files s1)" "w_files s1 ?a = Some b"
    and f2: "w_files s2 = (w_files s1)(?a := None, reserved_path rsv \<mapsto> b)"
    using reserve_files [OF run(3) cfg(3)] by auto
  have "challenge_file p ?a" using cfg(3) by (auto simp: challenge_file_def)
  note f1 = begin_spares [OF run(2) cfg(1) this]
  obtain v' where v': "verify L (tm_clock tms) (tm_now tms) rb ex (sv_verifier s2) = (Err e, v')"
    using err by (cases "verify L (tm_clock tms) (tm_now tms) rb ex (sv_verifier s2)") auto
  have h: "verify_handler L J quoted cfg tms q s =
      (Err (InternalServerError, \<lparr>er_code = ''verification_error'',
         er_error = ''Infrastructure error: '' @ debug_verify_error quoted e\<rparr>),
       s2\<lparr>sv_verifier := v'\<rparr>)"
    using cfg run v' by (simp add: verify_handler_def reserve_if_required_def snapshot_state_def
        run_verify_def io_then.simps io_map_err.simps)
  have "\<nexists>res t'. verify_handler L J quoted cfg' tms' q' t = (Ok res, t')"
    if "ac_replay_state_path cfg' = Some p" "ac_require_issued_challenge cfg'"
      "decode_field L ''nonce'' (vq_nonce q') = Ok (ex_nonce ex)" "w_files t ?a = None"
    for cfg' tms' q' t
    using handler_challenge [OF _ _ that(1,2) cfg(3) that(3) refl] that(4)
    by (fastforce simp: live_challenge_def)
  with h av live f1 f2 show ?thesis by (auto simp: live_challenge_def)
qed

theorem verification_error_strands_challenge_witness:
  "\<exists>status body s'. verify_handler sample_lib sample_json id sample_config sample_times
     (sample_request sample_large_receipt) sample_service = (Err (status, body), s') \<and>
     er_code body = ''verification_error'' \<and> w_files s' sample_challenge_path = None"
proof -
  obtain s1 rsv s2 where run: "begin_transaction sample_lib sample_json sample_config sample_service = (Ok (), s1)"
    "reserve_challenge sample_lib 1 sample_time sample_state_path sample_nonce s1 = (Ok rsv, s2)"
    "sv_verifier s2 = sample_verifier True"
    using sample_reserve by blast
  let ?ex = "sample_expectation\<lparr>ex_pcr0 := ac_expected_pcr0 sample_config\<rparr>"
  have err: "\<exists>e. fst (verify sample_lib (tm_clock sample_times) (tm_now sample_times)
      sample_large_receipt ?ex (sv_verifier s2)) = Err e"
    using run(3) by (simp add: verify_def verify_checks_def check_limits_def
        sample_large_receipt_def sample_config_def default_config_def)
  have n: "ex_nonce ?ex = sample_nonce" "tm_challenge sample_times = sample_time"
    by (simp_all add: sample_expectation_def mock_expectation_def sample_times_def)
  have a: "available_path rsv = sample_challenge_path"
    using reserve_files [OF run(2) sample_challenge_directory]
    by (simp add: sample_challenge_path_def path_join_def)
  obtain e where e: "fst (verify sample_lib (tm_clock sample_times) (tm_now sample_times)
      sample_large_receipt ?ex (sv_verifier s2)) = Err e"
    using err by blast
  show ?thesis
    using verification_error_strands_challenge [OF _ _ sample_challenge_directory sample_decode(1)
        run(1) _ _ e, of rsv "Some Map.empty" id] run(2,3) n a
    by (auto simp: get_state_def)
qed

text \<open>C26: a failing \<open>stat\<close> lets a replay through, and the memory of the other processes is lost.
  The handler reloads the shared state only if \<open>path.exists()\<close>, which is also false when
  the file cannot be examined.  Then, where issued challenges are not required and no other
  operation fails, whatever this process would accept from its own memory it accepts, also
  if the state file records the receipt's number or a later one; and it replaces the file
  by its own memory.  With a working \<open>stat\<close> the same request has no valid answer.\<close>

theorem failed_stat_accepts_replay:
  assumes cfg: "ac_replay_state_path cfg = Some p" "\<not> ac_require_issued_challenge cfg"
      "file_name_str p = Some name" "parent_or_here p \<noteq> []"
    and s: "w_stat_fails s" "w_faults s = []" "vf_state (sv_verifier s) = Some (Healthy own)"
      "w_files s (temporary_path p name (ac_pid cfg) (sv_counter s)) = None"
    and own: "decode_request L cfg q = Ok (rb, ex)"
      "verify L (tm_clock tms) (tm_now tms) rb ex (sv_verifier s) = (Ok res, v')" "vr_valid res"
      "get_state v' = Ok (Some own')" "encoded_state L J own' = Ok b"
    and disk: "w_files s p = Some b0" "decode_state L J b0 = Ok m" "m k = Some previous"
      "receipt_number L rb = Some (k, n)" "n \<le> unat previous"
  shows "(\<exists>s'. verify_handler L J quoted cfg tms q s = (Ok res, s') \<and> w_files s' p = Some b) \<and>
    (\<nexists>res' s'. verify_handler L J quoted cfg tms q (s\<lparr>w_stat_fails := False\<rparr>) = (Ok res', s') \<and>
       vr_valid res')"
proof
  have "\<not> fs_exists p s" using s(1) by (simp add: fs_exists_def)
  from handler_calm [OF cfg(1-3) this s(2-4) own, of quoted] cfg(4)
  show "\<exists>s'. verify_handler L J quoted cfg tms q s = (Ok res, s') \<and> w_files s' p = Some b"
    by auto
next
  have rb: "decode_receipt_text L (vq_receipt q) = Ok rb"
    using own(1) by (auto simp: decode_request_def result_simps)
  have "\<not> attempted L J p rb own (s\<lparr>w_stat_fails := False\<rparr>) r s'" for r s'
    using disk by (auto simp: attempted_def holds_current_def word_less_nat_alt)
  then show "\<nexists>res' s'. verify_handler L J quoted cfg tms q (s\<lparr>w_stat_fails := False\<rparr>) = (Ok res', s') \<and>
       vr_valid res'"
    using handler_outcome [of L J quoted cfg tms q "s\<lparr>w_stat_fails := False\<rparr>", OF _ cfg(1) _ _] s(3) rb
    by (fastforce simp: refused_def)
qed

theorem failed_stat_accepts_replay_witness:
  "\<exists>res s'. verify_handler sample_lib sample_json id (sample_open_config sample_state_path)
     sample_times (sample_request [1]) (sample_blind_service [sample_state_path \<mapsto> [92]]) =
     (Ok res, s') \<and> vr_valid res"
proof -
  let ?cfg = "sample_open_config sample_state_path"
  let ?s = "sample_blind_service [sample_state_path \<mapsto> [92]]"
  obtain res m where v: "vr_valid res" "m = [replicate 32 1 \<mapsto> 0 :: u64]"
    "verify sample_lib (\<lambda>_. sample_time) sample_time [1]
      (sample_expectation\<lparr>ex_pcr0 := ac_expected_pcr0 sample_config\<rparr>) (sample_verifier True) =
     (Ok res, (sample_verifier True)\<lparr>vf_state := Some (Healthy m)\<rparr>)"
    using sample_verify by blast
  have tmp: "temporary_path sample_state_path ''state'' pid c \<noteq> sample_state_path" for pid c
    by (rule temporary_path_fresh) (simp add: file_name_str_def sample_state_path_def)
  have "\<exists>s'. verify_handler sample_lib sample_json id ?cfg sample_times (sample_request [1]) ?s =
      (Ok res, s') \<and> w_files s' sample_state_path = Some [92]"
    by (rule failed_stat_accepts_replay [where name = "''state''" and own = Map.empty
          and own' = m and m = m and k = "replicate 32 1" and n = 0 and previous = 0
          and v' = "(sample_verifier True)\<lparr>vf_state := Some (Healthy m)\<rparr>",
          OF _ _ _ _ _ _ _ _ sample_decode(1), THEN conjunct1])
      (use v sample_replay_codec sample_number tmp in
        \<open>simp_all add: sample_open_config_def sample_blind_service_def sample_times_def get_state_def
          file_name_str_def sample_state_path_def parent_or_here_def path_parent_def\<close>)
  with v(1) show ?thesis by blast
qed



text \<open>C28: the service starts in hardware mode only when it is pinned, and where it left off.  If it
  starts, with or without a state file, every trusted root has a pinned AWS Nitro
  fingerprint, the expected PCR0 has 48 bytes, and issued challenges are required.  With a
  state file that can be examined, the verifier begins with the state in it, which is
  readable, or with the empty state if there is none.\<close>

theorem hardware_start_is_pinned:
  assumes "start_service True L J path_of env state_file pid P w = (Ok (cfg, v), w')"
  shows "vf_trusted_roots v \<noteq> [] \<and>
    list_all (\<lambda>der. sha256 L der \<in> set AWS_NITRO_ROOT_FINGERPRINTS) (vf_trusted_roots v) \<and>
    length (ac_expected_pcr0 cfg) = 48 \<and> ac_require_issued_challenge cfg \<and>
    ac_replay_state_path cfg = state_file \<and>
    (\<forall>p. state_file = Some p \<and> \<not> w_stat_fails w \<longrightarrow>
      (case w_files w p of
         None \<Rightarrow> vf_state v = Some (Healthy Map.empty)
       | Some b \<Rightarrow> (\<exists>m. decode_state L J b = Ok m \<and> vf_state v = Some (Healthy m))))"
proof -
  have state: "case w_files w p of
       None \<Rightarrow> vf_state v = Some (Healthy Map.empty)
     | Some b \<Rightarrow> (\<exists>m. decode_state L J b = Ok m \<and> vf_state v = Some (Healthy m))"
    if "state_file = Some p" "\<not> w_stat_fails w" for p
    using start_service_state [of True L J path_of env p pid P w cfg v w'] assms that
    by (auto split: option.splits)
  from assms show ?thesis
  proof (rule start_service_Ok)
    fix pem v0 w1
    assume t: "load_trusted_root True L path_of env w = (Ok pem, w1)"
      and c: "load_expected_pcr0 L env = Ok (ac_expected_pcr0 cfg)" "ac_require_issued_challenge cfg = True"
        "ac_replay_state_path cfg = state_file"
      and v0: "from_pem L P pem (state_file \<noteq> None \<or> env_flag env ''STATEFUL_VERIFICATION'' False) = Ok v0"
      and none: "state_file = None \<Longrightarrow> v = v0"
      and absent: "\<And>q. state_file = Some q \<Longrightarrow> \<not> fs_exists q w1 \<Longrightarrow> v = v0"
      and present: "\<And>q. state_file = Some q \<Longrightarrow> fs_exists q w1 \<Longrightarrow>
         \<exists>m. load_replay_state L J q w1 = (Ok m, w') \<and> set_state m v0 = (Ok (), v)"
    have "validate_root_pem_with_allowlist L pem AWS_NITRO_ROOT_FINGERPRINTS = Ok ()"
      using load_trusted_root_validated [OF t]
      by (simp add: validate_configured_roots_def validate_aws_nitro_root_pem_def)
    note roots = validated_from_pem [OF this v0]
    have "vf_trusted_roots v = vf_trusted_roots v0"
      using none absent present set_state_roots by (cases state_file) blast+
    with roots load_expected_pcr0_length [OF c(1)] c(2,3) state show ?thesis
      by (auto simp: pinned_def list_all_iff)
  qed
qed

theorem hardware_start_is_pinned_witness:
  "\<exists>v :: verifier. vf_trusted_roots v \<noteq> [] \<and>
     list_all (\<lambda>der. sha256 pinned_lib der \<in> set AWS_NITRO_ROOT_FINGERPRINTS) (vf_trusted_roots v)"
proof -
  obtain cfg v w' where "start_service True pinned_lib sample_json (\<lambda>_. []) pinned_env
      (Some sample_state_path) 1 (offline_provider pinned_lib)
      \<lparr>w_files = Map.empty, w_faults = [], w_stat_fails = False\<rparr> = (Ok (cfg, v), w')"
    using pinned_start by blast
  from hardware_start_is_pinned [OF this] show ?thesis by auto
qed
section \<open>The stateless verifier\<close>

lemma repository_provider_alike:
  "repository_provider L P \<Longrightarrow> p_verify P t b root = p_verify (offline_provider L) t b root"
  unfolding repository_provider_def by (elim disjE exE) (simp_all only: providers_verify_alike)

text \<open>C29: what a service accepts, any stateless client can check.  If a verifier built from a
  PEM bundle over one of the repository's providers, in whatever replay state, finds a
  receipt valid, then \<open>veriai-wasm\<close>, given the same bundle and the same values encoded
  in hex, finds it valid at the same clock: replay state only restricts, and the
  providers do not differ in what they accept.\<close>

theorem acceptance_is_reproducible:
  assumes "representable now" and "repository_provider L P" and "from_pem L P pem True = Ok v0"
    and "verify L clock now rb ex (v0\<lparr>vf_state := st\<rparr>) = (Ok r, v')" and "vr_valid r"
    and "wasm_decodes L q rb ex" and "wq_trusted_root_pem q = pem"
  shows "\<exists>r'. wasm_verify L clock now q = Ok r' \<and> vr_valid r'"
proof -
  let ?v = "v0\<lparr>vf_state := st\<rparr>"
  obtain claims doc where acc: "receipt_acceptable L ?v clock now rb ex claims doc"
    using assms(4,5) verify_accept_iff [OF assms(1)] by blast
  obtain w where w: "from_pem L (offline_provider L) pem False = Ok w"
    using from_pem_other [OF assms(3)] by blast
  have fields: "vf_trusted_roots v0 = vf_trusted_roots w" "vf_config v0 = vf_config w"
    "vf_provider v0 = P" "vf_provider w = offline_provider L" "vf_state w = None"
    using from_pem_fields [OF assms(3) w] from_pem_fields [OF w w] by simp_all
  have "p_verify (vf_provider ?v) t b root = p_verify (vf_provider w) t b root" for t b root
    using repository_provider_alike [OF assms(2)] fields by simp
  from receipt_acceptable_cong [OF this]
  have "receipt_acceptable L w clock now rb ex claims doc"
    using acc fields by simp
  moreover have "admits L w claims doc" using fields by (simp add: admits_def)
  ultimately have "fst (verify L clock now rb ex w) =
      Ok (accept_result w (receipt_info_of L claims) (map passed (all_names w)))"
    using verify_complete [OF assms(1)] by simp
  then show ?thesis
    using assms(6,7) w wasm_verify_Ok accept_result_simps(1) by blast
qed

theorem acceptance_is_reproducible_witness:
  "\<exists>r'. wasm_verify sample_lib (\<lambda>_. sample_time) sample_time sample_wasm_request = Ok r' \<and> vr_valid r'"
proof -
  obtain v0 where v0: "from_pem sample_lib (mock_provider sample_lib sample_pki) sample_pem True = Ok v0"
    "v0\<lparr>vf_state := Some (Healthy Map.empty)\<rparr> = sample_verifier True"
    using sample_pem_loads [of "mock_provider sample_lib sample_pki" True]
    by (auto simp: sample_verifier_def verifier_new_def new_with_config_def)
  obtain r v' where "verify sample_lib (\<lambda>_. sample_time) sample_time [1] sample_expectation
      (sample_verifier True) = (Ok r, v')" "vr_valid r"
    using sample_call_valid [of True] unfolding call_valid_verify by (auto simp: sample_call_def)
  then show ?thesis
    using v0(2) sample_wasm_decodes
    by (intro acceptance_is_reproducible
        [OF sample_representable _ v0(1), where st = "Some (Healthy Map.empty)"])
      (auto simp: repository_provider_def sample_wasm_request_def)
qed

text \<open>C30: a stateless call decides the policy, and says it is about hardware.  It succeeds with a
  valid result exactly when the fields decode, the bundle loads and the receipt is
  acceptable; the result then claims \<open>verified_hardware\<close> and the provider
  \<open>offline-nitro\<close>, whichever provider made the receipt, so that the claim is only as
  good as the roots the caller selected.\<close>

theorem stateless_call_decides_policy:
  assumes "representable now"
  shows "wasm_verify L clock now q = Ok r \<and> vr_valid r \<longleftrightarrow>
    (\<exists>rb ex v claims doc. wasm_decodes L q rb ex \<and>
       from_pem L (offline_provider L) (wq_trusted_root_pem q) False = Ok v \<and>
       receipt_acceptable L v clock now rb ex claims doc \<and>
       r = \<lparr>vr_valid = True, vr_receipt = Some (receipt_info_of L claims),
            vr_checks = map passed check_names, vr_attestation_provider = ''offline-nitro'',
            vr_verified_hardware = True, vr_error = None\<rparr>)"
proof -
  have result: "accept_result v (receipt_info_of L claims) (map passed (all_names v)) =
      \<lparr>vr_valid = True, vr_receipt = Some (receipt_info_of L claims),
       vr_checks = map passed check_names, vr_attestation_provider = ''offline-nitro'',
       vr_verified_hardware = True, vr_error = None\<rparr> \<and> admits L v claims doc"
    if "from_pem L (offline_provider L) (wq_trusted_root_pem q) False = Ok v" for v claims doc
    using from_pem_fields [OF that that]
    by (simp add: accept_result_def all_names_def offline_provider_def admits_def)
  have valid: "fst (verify L clock now rb ex v) = Ok r \<and> vr_valid r \<longleftrightarrow>
      (\<exists>claims doc. receipt_acceptable L v clock now rb ex claims doc \<and> admits L v claims doc \<and>
        r = accept_result v (receipt_info_of L claims) (map passed (all_names v)))" for rb ex v
  proof
    assume "fst (verify L clock now rb ex v) = Ok r \<and> vr_valid r"
    then obtain v1 where "verify L clock now rb ex v = (Ok r, v1) \<and> vr_valid r"
      by (cases "verify L clock now rb ex v") auto
    then show "\<exists>claims doc. receipt_acceptable L v clock now rb ex claims doc \<and>
        admits L v claims doc \<and> r = accept_result v (receipt_info_of L claims) (map passed (all_names v))"
      unfolding verify_accept_iff [OF assms] by blast
  next
    assume "\<exists>claims doc. receipt_acceptable L v clock now rb ex claims doc \<and>
        admits L v claims doc \<and> r = accept_result v (receipt_info_of L claims) (map passed (all_names v))"
    then show "fst (verify L clock now rb ex v) = Ok r \<and> vr_valid r"
      using verify_complete [OF assms] by fastforce
  qed
  show ?thesis
  proof
    assume "wasm_verify L clock now q = Ok r \<and> vr_valid r"
    then obtain rb ex v where v: "wasm_decodes L q rb ex"
      "from_pem L (offline_provider L) (wq_trusted_root_pem q) False = Ok v"
      "fst (verify L clock now rb ex v) = Ok r \<and> vr_valid r"
      unfolding wasm_verify_Ok by blast
    from v(3) obtain claims doc where "receipt_acceptable L v clock now rb ex claims doc"
      "r = accept_result v (receipt_info_of L claims) (map passed (all_names v))"
      unfolding valid by blast
    then show "\<exists>rb ex v claims doc. wasm_decodes L q rb ex \<and>
       from_pem L (offline_provider L) (wq_trusted_root_pem q) False = Ok v \<and>
       receipt_acceptable L v clock now rb ex claims doc \<and>
       r = \<lparr>vr_valid = True, vr_receipt = Some (receipt_info_of L claims),
            vr_checks = map passed check_names, vr_attestation_provider = ''offline-nitro'',
            vr_verified_hardware = True, vr_error = None\<rparr>"
      using v(1,2) result [OF v(2), of claims doc]
      by (intro exI [of _ rb] exI [of _ ex] exI [of _ v] exI [of _ claims] exI [of _ doc]) simp
  next
    assume "\<exists>rb ex v claims doc. wasm_decodes L q rb ex \<and>
       from_pem L (offline_provider L) (wq_trusted_root_pem q) False = Ok v \<and>
       receipt_acceptable L v clock now rb ex claims doc \<and>
       r = \<lparr>vr_valid = True, vr_receipt = Some (receipt_info_of L claims),
            vr_checks = map passed check_names, vr_attestation_provider = ''offline-nitro'',
            vr_verified_hardware = True, vr_error = None\<rparr>"
    then obtain rb ex v claims doc where v: "wasm_decodes L q rb ex"
      "from_pem L (offline_provider L) (wq_trusted_root_pem q) False = Ok v"
      "receipt_acceptable L v clock now rb ex claims doc"
      "r = accept_result v (receipt_info_of L claims) (map passed (all_names v))" "admits L v claims doc"
      using result by (metis (lifting))
    then have "fst (verify L clock now rb ex v) = Ok r \<and> vr_valid r"
      unfolding valid by blast
    with v(1,2) show "wasm_verify L clock now q = Ok r \<and> vr_valid r"
      unfolding wasm_verify_Ok by blast
  qed
qed

theorem stateless_call_decides_policy_witness:
  "\<exists>r. wasm_verify sample_lib (\<lambda>_. sample_time) sample_time sample_wasm_request = Ok r \<and>
     vr_verified_hardware r"
proof -
  obtain v where v: "from_pem sample_lib (offline_provider sample_lib) sample_pem False = Ok v"
    "v = verifier_new (offline_provider sample_lib) [[32]] False"
    using sample_pem_loads [of "offline_provider sample_lib" False] by auto
  obtain doc where "receipt_acceptable sample_lib (sample_verifier True) (\<lambda>_. sample_time)
      sample_time [1] sample_expectation sample_claims doc"
    using sample_acceptable by blast
  moreover have "vf_provider v = offline_provider sample_lib" "vf_trusted_roots v = [[32]]"
    "vf_config v = default_config"
    by (simp_all add: v(2) verifier_new_def new_with_config_def)
  ultimately have acc: "receipt_acceptable sample_lib v (\<lambda>_. sample_time) sample_time [1]
      sample_expectation sample_claims doc"
    using receipt_acceptable_cong [of "sample_verifier True" v] providers_verify_alike(1)
    by (metis sample_verifier_simps(1,2,3))
  have pem: "from_pem sample_lib (offline_provider sample_lib)
      (wq_trusted_root_pem sample_wasm_request) False = Ok v"
    using v(1) by (simp add: sample_wasm_request_def)
  note decides = stateless_call_decides_policy [OF sample_representable, THEN iffD2]
  show ?thesis
    by (rule exI, rule conjI, rule decides [THEN conjunct1],
        intro exI conjI, rule sample_wasm_decodes, rule pem, rule acc, rule refl, simp)
qed
section \<open>The command line tool\<close>

text \<open>C31: a session file keeps the runs of \<open>veriai verify\<close> in order.  Over any sequence of runs
  with one \<open>--stateful\<close> file, in which all other files and the input may change between
  runs and no file operation fails, the numbers of the receipts of the runs that end
  without an error strictly increase for each identity.\<close>

theorem cli_sessions_increase:
  assumes "session_ok L J w"
  shows "increasing_log (run_log (session_step L J P p) calls w)"
  using assms by (rule sessions.log_increasing)

theorem cli_sessions_increase_witness:
  "\<forall>calls. increasing_log (run_log (session_step sample_lib total_json
     (mock_provider sample_lib sample_pki) (file_at ''session'')) calls sample_world)"
  using cli_sessions_increase [OF sample_session_ok] by blast

text \<open>C32: what \<open>veriai generate\<close> writes, \<open>veriai verify\<close> verifies.  Over the mock provider, if
  \<open>generate\<close> ends without an error, a later run of \<open>verify\<close> on the same model, input and
  output files, with the same nonce, a zero PCR0 and a root file that holds the root of
  the fixtures, in time and without \<open>--stateful\<close>, prints \<open>VERIFIED\<close> and ends without an
  error; the reads of the model may be cut up differently in the two runs.  The receipt is
  written to a path of its own and is at most 65536 bytes long, no file changes between
  the runs, and in the second no file operation fails.\<close>

theorem generated_file_verifies:
  assumes laws: "cose_roundtrips L" "cose_builds L" "cbor_roundtrips L" "ed25519_correct L" "sha_lengths L"
    and gen: "generate L (mock_provider L pki) ge ga w = (Ok (), w1)"
    and args: "ga_input_file ga = Some pi" "ga_output_file ga = Some po" "ga_nonce ga = Some (va_nonce va)"
      "va_model va = ga_model ga" "va_input_file va = Some pi" "va_output_file va = Some po"
      "va_receipt va = ga_receipt_out ga" "va_stateful va = None"
    and apart: "ga_receipt_out ga \<notin> {ga_model ga, pi, po, va_root_cert va}"
    and later: "calm w2" "w_files w2 = w_files w1" "never_fails \<lparr>rd_rest = [], rd_answers = ve_answers ve\<rparr>"
    and pcr0: "parse_hex_any L (va_expected_pcr0 va) = Ok (replicate 48 0)"
    and root: "w_files w (va_root_cert va) = Some pem" "utf8_valid pem"
      "from_pem L (mock_provider L pki') (str_of_bytes pem) False = Ok v"
      "i < length (vf_trusted_roots v)" "mock_chain L pki (vf_trusted_roots v ! i) (ve_clock ve i)"
    and size: "\<And>rb. w_files w1 (ga_receipt_out ga) = Some rb \<Longrightarrow> length rb \<le> 65536"
    and time: "in_time default_config (ge_clock_provider ge) (ge_now ge) (ve_now ve)"
  shows "\<exists>w3. cli_verify L J (mock_provider L pki') ve va w2 = (Ok (), w3) \<and>
    (CHR 0x0A # ''Result: VERIFIED'') \<in> set (cw_out w3)"
proof -
  from gen args(1-3) obtain m ib ob mh nn rb g' where f: "w_files w (ga_model ga) = Some m"
      "w_files w pi = Some ib" "w_files w po = Some ob" and nn: "parse_hex_32 L (va_nonce va) = Ok nn"
    and mh: "compute_model_hash L (Ok \<lparr>rd_rest = m, rd_answers = ge_answers ge\<rparr>) = Ok mh"
    and g: "generate_receipt L (ge_clock_provider ge) (ge_now ge) mh (sha256 L ib) (sha256 L ob) nn
       (generator_new (mock_provider L pki) (ge_key ge)) = (Ok rb, g')"
    and w1: "w_files w1 = (w_files w)(ga_receipt_out ga \<mapsto> rb)"
    by (rule generate_Ok)
  have mh': "compute_model_hash L (Ok \<lparr>rd_rest = m, rd_answers = ve_answers ve\<rparr>) = Ok mh"
    using compute_model_hash_Ok [OF mh] compute_model_hash_total
      [of "\<lparr>rd_rest = m, rd_answers = ve_answers ve\<rparr>" L] later(3)
    by (simp add: never_fails_def)
  have files: "w_files w2 (va_receipt va) = Some rb" "w_files w2 (va_model va) = Some m"
    "w_files w2 pi = Some ib" "w_files w2 po = Some ob" "w_files w2 (va_root_cert va) = Some pem"
    using f root(1) apart w1 later(2) args by auto
  note inputs = verify_inputs_run [OF later(1) files args(5,6) mh' nn pcr0 root(2), of "mock_provider L pki'" v,
      unfolded args(8), simplified, OF root(3)]
  have v: "vf_provider v = mock_provider L pki'" "vf_config v = default_config" "vf_state v = None"
    using root(3) by (auto simp: from_pem_def from_pem_with_config_def new_with_config_def result_simps)
  have len: "length mh = 32" "length (sha256 L ib) = 32" "length (sha256 L ob) = 32" "length nn = 32"
    using nn laws(5) model_hash_length [OF laws(5) mh]
    by (auto simp: parse_hex_32_def result_simps sha_lengths_def split: if_splits)
  obtain r v' where r: "verify L (ve_clock ve) (ve_now ve) rb
      (mock_expectation mh (sha256 L ib) (sha256 L ob) nn) v = (Ok r, v')" "vr_valid r"
    using mock_receipt_verifies [where clock = "ve_clock ve" and i = i and now = "ve_now ve",
          OF laws(1-4) len g _ v(1) root(4,5) _ _ disjI1 [OF v(3)]] size w1 v(2) time
    by (auto simp: generator_new_def default_config_def)
  have "vf_state v' = None"
    using verify_stateless [OF r(1) v(3)] .
  moreover obtain w3 where "judge_receipt L J ve None rb (mock_expectation mh (sha256 L ib) (sha256 L ob) nn)
      v (w2\<lparr>cw_out := cw_out w2 @ [''Recomputing model Merkle root...'']\<rparr>) = (Ok v', w3)"
    "(CHR 0x0A # ''Result: VERIFIED'') \<in> set (cw_out w3)"
    using judge_run [OF r] by blast
  ultimately show ?thesis
    using inputs args(8)
    by (simp add: cli_verify_def io_then.simps save_if_stateful_def or_stop_def get_state_def
        mock_expectation_def)
qed

theorem generated_file_verifies_witness:
  "\<exists>w1 w3. generate sample_lib (mock_provider sample_lib sample_pki) sample_generate_env
       sample_generate_args sample_world = (Ok (), w1) \<and>
     cli_verify sample_lib total_json (mock_provider sample_lib sample_pki) sample_verify_env
       sample_verify_args (sample_world\<lparr>w_files := w_files w1\<rparr>) = (Ok (), w3)"
proof -
  obtain w1 where gen: "generate sample_lib (mock_provider sample_lib sample_pki) sample_generate_env
      sample_generate_args sample_world = (Ok (), w1)"
    using sample_generate by blast
  have "\<exists>w3. cli_verify sample_lib total_json (mock_provider sample_lib sample_pki) sample_verify_env
       sample_verify_args (sample_world\<lparr>w_files := w_files w1\<rparr>) = (Ok (), w3) \<and>
    (CHR 0x0A # ''Result: VERIFIED'') \<in> set (cw_out w3)"
    by (rule generated_file_verifies [OF sample_laws(1,2) sample_cbor sample_laws(4,6) gen,
          where pem = "as_bytes sample_pem" and i = 0])
      (use sample_generate_file [OF gen] sample_pem_loads sample_chain sample_in_time sample_pem_utf8 in
        \<open>auto simp: sample_cli_defs parse_hex_any_def never_fails_def verifier_new_def new_with_config_def\<close>)
  with gen show ?thesis by blast
qed

text \<open>C33: an interrupted save destroys the session of a run that printed \<open>VERIFIED\<close>.  \<open>verify\<close>
  empties the session file before it writes the new state.  For every run that ends without
  an error on a session file there is a last file operation such that, had it failed after
  \<open>n\<close> bytes, for whatever reason, the run would have printed the same lines, \<open>VERIFIED\<close>
  included, would have ended with that error, and the file would hold the first \<open>n\<close> bytes of
  the new state and nothing of the old one.\<close>

theorem interrupted_save_destroys_session:
  assumes "cli_verify L J P ve va w = (Ok (), w1)" and "w_faults w = []"
    and "va_stateful va = Some p"
  shows "\<exists>k b. w_files w1 p = Some b \<and> (CHR 0x0A # ''Result: VERIFIED'') \<in> set (cw_out w1) \<and>
    (\<forall>reason n. cli_verify L J P ve va
         (w\<lparr>w_faults := replicate k None @ [Some (IoFault reason n)]\<rparr>) =
       (Err (MainError reason), w1\<lparr>w_files := (w_files w1)(p \<mapsto> take n b)\<rparr>))"
  using assms by (rule verify_interrupted)

theorem interrupted_save_destroys_session_witness:
  "\<exists>faults w2. cli_verify sample_lib total_json (mock_provider sample_lib sample_pki) sample_verify_env
       sample_stateful_args (sample_saved_world\<lparr>w_faults := faults\<rparr>) =
         (Err (MainError ''disk full''), w2) \<and>
     w_files w2 (file_at ''session'') = Some []"
proof -
  obtain w1 where "cli_verify sample_lib total_json (mock_provider sample_lib sample_pki)
      sample_verify_env sample_stateful_args sample_saved_world = (Ok (), w1)"
    using sample_stateful_run by blast
  moreover have "w_faults sample_saved_world = []" "va_stateful sample_stateful_args = Some (file_at ''session'')"
    by (simp_all add: sample_saved_world_def sample_world_def sample_stateful_args_def)
  ultimately obtain k b where "\<And>reason n. cli_verify sample_lib total_json
      (mock_provider sample_lib sample_pki) sample_verify_env sample_stateful_args
      (sample_saved_world\<lparr>w_faults := replicate k None @ [Some (IoFault reason n)]\<rparr>) =
       (Err (MainError reason), w1\<lparr>w_files := (w_files w1)(file_at ''session'' \<mapsto> take n b)\<rparr>)"
    using interrupted_save_destroys_session by blast
  then show ?thesis
    by (intro exI [of _ "replicate k None @ [Some (IoFault ''disk full'' 0)]"]
        exI [of _ "w1\<lparr>w_files := (w_files w1)(file_at ''session'' \<mapsto> [])\<rparr>"]) simp
qed

section \<open>The inference runtimes\<close>

text \<open>C34: what a llama.cpp completion is.  \<open>generate\<close> succeeds exactly when the model file is
  there, there is a message, every message has a role, and the process starts, exits
  successfully and prints UTF-8 text whose completion is not empty.  The process is given
  the ChatML prompt of the messages and a temperature within 0 and 2 (or NaN), the request's
  own when that is in range.  The content is trimmed, and its tokens are its words as a
  32-bit number, which is at least one for a text shorter than \<open>2 ^ 32\<close> bytes.\<close>

theorem llama_completion:
  "(rt_generate (llama_runtime env c) q = Ok res \<longleftrightarrow>
      le_is_file env (lc_model_path c) \<and> ir_messages q \<noteq> [] \<and> list_all has_role (ir_messages q) \<and>
      (\<exists>out. le_run env (lc_binary_path c)
           (llama_args env c (chat_prompt (ir_messages q)) (llama_temperature q)) = Ok out \<and>
         po_success out \<and> utf8_valid (po_stdout out) \<and>
         is_content res = extract_completion (str_of_bytes (po_stdout out))) \<and>
      is_content res \<noteq> [] \<and>
      is_tokens_generated res = of_nat (ws_words False (is_content res))) \<and>
    (rt_generate (llama_runtime env c) q = Ok res \<longrightarrow> trimmed (is_content res) \<and>
      (length (is_content res) < 2 ^ 32 \<longrightarrow> 0 < unat (is_tokens_generated res))) \<and>
    (f32_is_nan (llama_temperature q) \<or>
      0 \<le> f32_key (llama_temperature q) \<and> f32_key (llama_temperature q) \<le> f32_key 0x40000000) \<and>
    (\<forall>t. ir_temperature q = Some t \<and> 0 \<le> f32_key t \<and> f32_key t \<le> f32_key 0x40000000 \<longrightarrow>
      llama_temperature q = t)"
proof -
  have iff: "rt_generate (llama_runtime env c) q = Ok res \<longleftrightarrow>
      le_is_file env (lc_model_path c) \<and> ir_messages q \<noteq> [] \<and> list_all has_role (ir_messages q) \<and>
      (\<exists>out. le_run env (lc_binary_path c)
           (llama_args env c (chat_prompt (ir_messages q)) (llama_temperature q)) = Ok out \<and>
         po_success out \<and> utf8_valid (po_stdout out) \<and>
         is_content res = extract_completion (str_of_bytes (po_stdout out))) \<and>
      is_content res \<noteq> [] \<and>
      is_tokens_generated res = of_nat (ws_words False (is_content res))"
    by (cases res) (auto simp: llama_runtime_def llama_generate_Ok llama_prompt_Ok)
  have words: "0 < unat (of_nat (ws_words False t) :: u32)"
    if "trimmed t" "t \<noteq> []" "length t < 2 ^ 32" for t
  proof -
    have "0 < ws_words False t"
      using that by (intro ws_words_pos) (simp_all add: trimmed_def)
    moreover have "ws_words False t < 2 ^ 32"
      using ws_words_bound [of False t] that(3) by simp
    ultimately show ?thesis by (simp add: unat_of_nat take_bit_nat_eq_self)
  qed
  have keys: "\<not> f32_is_nan 0" "\<not> f32_is_nan 0x40000000" "f32_key 0 = 0" "0 \<le> f32_key 0x40000000"
    by (simp_all add: f32_is_nan_def f32_key_def)
  have trim: "trimmed (is_content res) \<and>
      (length (is_content res) < 2 ^ 32 \<longrightarrow> 0 < unat (is_tokens_generated res))"
    if "rt_generate (llama_runtime env c) q = Ok res"
    using that words unfolding iff by (metis trimmed_extract)
  show ?thesis
    using iff trim f32_clamp_between [OF keys(1,2)] f32_clamp_inside [of 0] keys
    by (intro conjI) (auto simp: llama_temperature_def)
qed

definition sample_llama_env :: llama_env where
  "sample_llama_env = \<lparr>le_is_file = (\<lambda>_. True),
     le_run = (\<lambda>_ _. Ok \<lparr>po_success = True, po_status = ''0'', po_stdout = as_bytes '' hello world'',
       po_stderr = []\<rparr>),
     le_path_arg = (\<lambda>_. []), le_path_display = (\<lambda>_. []), le_show_f32 = (\<lambda>_. []),
     le_utf8_lossy = str_of_bytes, le_utf8_error = (\<lambda>_. [])\<rparr>"

theorem llama_completion_witness:
  "rt_generate (llama_runtime sample_llama_env (llama_new [])) sample_inference =
     Ok \<lparr>is_content = ''hello world'', is_tokens_generated = 2\<rparr>"
proof -
  have cut: "extract_completion '' hello world'' = ''hello world''" by code_simp
  have words: "ws_words False ''hello world'' = 2" by code_simp
  have utf8: "utf8_valid (as_bytes '' hello world'')" by code_simp
  have role: "str_trim ''user'' \<noteq> []" by code_simp
  let ?out = "\<lparr>po_success = True, po_status = ''0'', po_stdout = as_bytes '' hello world'', po_stderr = []\<rparr>"
  have run: "le_run sample_llama_env p args = Ok ?out" "le_is_file sample_llama_env p" for p args
    by (simp_all add: sample_llama_env_def)
  have msgs: "ir_messages sample_inference \<noteq> []" "list_all has_role (ir_messages sample_inference)"
    using role by (simp_all add: sample_inference_def sample_message_def has_role_def)
  show ?thesis
    unfolding llama_completion [THEN conjunct1]
    using run msgs utf8 cut words by (simp add: str_of_bytes_as_bytes)
qed

text \<open>C35: the completion is cut out of the terminal text, and a quotation in it is lost.  Only what
  follows the last line that starts with \<open>> \<close> matters, whatever came before it.  When that
  line is the echoed prompt, followed by a blank line, the text and the timing block, the
  completion is the trimmed text.  When it is a quotation at the end of the generated text,
  the blank line of the timing block is taken for the end of the prompt, and the completion
  is the timing line instead of any generated text; only where no blank line follows is it
  the text after the quote mark.\<close>

theorem completion_is_cut_out:
  assumes "\<not> sublist prompt_mark (tl prompt_mark @ rest)"
  shows "(\<forall>before'. extract_completion (before @ prompt_mark @ rest) =
       extract_completion (before' @ prompt_mark @ rest)) \<and>
    (\<forall>echo body stats. rest = echo @ blank_line @ body @ timing_mark @ stats \<and>
       \<not> sublist blank_line (echo @ butlast blank_line) \<and>
       \<not> sublist timing_mark (body @ butlast timing_mark) \<and> \<not> sublist exit_mark body \<longrightarrow>
       extract_completion (before @ prompt_mark @ rest) = str_trim body) \<and>
    (\<forall>quoted figures tail. rest = quoted @ timing_mark @ figures @ exit_mark @ tail \<and>
       \<not> sublist blank_line (quoted @ butlast blank_line) \<and>
       \<not> sublist timing_mark (''[ Prompt:'' @ figures @ exit_mark @ tail) \<and>
       \<not> sublist exit_mark ((''[ Prompt:'' @ figures) @ butlast exit_mark) \<longrightarrow>
       extract_completion (before @ prompt_mark @ rest) = str_trim (''[ Prompt:'' @ figures)) \<and>
    (\<not> sublist blank_line rest \<longrightarrow> extract_completion (before @ prompt_mark @ rest) = str_trim rest)"
  using cut_out_last [OF assms] cut_out_text [OF assms] cut_out_timing [OF assms]
    cut_out_quote [OF assms] by blast

theorem completion_is_cut_out_witness:
  "extract_completion (''As the saying goes:'' @ prompt_mark @ ''less is more'' @ timing_mark @
     '' 9.0 t/s ]'' @ exit_mark) = ''[ Prompt: 9.0 t/s ]''"
proof -
  let ?rest = "''less is more'' @ timing_mark @ '' 9.0 t/s ]'' @ exit_mark @ []"
  have last_one: "\<not> sublist prompt_mark (tl prompt_mark @ ?rest)" by code_simp
  have "\<not> sublist blank_line (''less is more'' @ butlast blank_line)" by code_simp
  moreover have "\<not> sublist timing_mark (''[ Prompt:'' @ '' 9.0 t/s ]'' @ exit_mark @ [])" by code_simp
  moreover have "\<not> sublist exit_mark ((''[ Prompt:'' @ '' 9.0 t/s ]'') @ butlast exit_mark)" by code_simp
  moreover have "str_trim (''[ Prompt:'' @ '' 9.0 t/s ]'') = ''[ Prompt: 9.0 t/s ]''" by code_simp
  ultimately show ?thesis
    using completion_is_cut_out [OF last_one, THEN conjunct2, THEN conjunct2, THEN conjunct1,
        rule_format, of "''less is more''" "'' 9.0 t/s ]''" "[]" "''As the saying goes:''"] by simp
qed

text \<open>C36: the prompt determines the conversation only if no message contains the markers.  Two
  conversations whose roles are single lines and whose contents do not contain the closing
  marker have different prompts.  But roles and contents are pasted as they are: for every
  conversation that a user opens, with whatever messages follow, system messages included,
  there is one single user message with byte for byte the same prompt.\<close>

theorem prompt_is_ambiguous:
  "(\<forall>ms ms'. list_all plain_message ms \<and> list_all plain_message ms' \<and>
     is_ok (llama_prompt \<lparr>ir_model = model, ir_messages = ms, ir_temperature = t\<rparr>) \<and>
     llama_prompt \<lparr>ir_model = model, ir_messages = ms, ir_temperature = t\<rparr> =
       llama_prompt \<lparr>ir_model = model, ir_messages = ms', ir_temperature = t\<rparr> \<longrightarrow> ms = ms') \<and>
   (\<forall>c ms. list_all has_role ms \<longrightarrow> (\<exists>content.
     llama_prompt \<lparr>ir_model = model, ir_messages = [\<lparr>ms_role = ''user'', ms_content = content\<rparr>],
         ir_temperature = t\<rparr> =
       llama_prompt \<lparr>ir_model = model, ir_messages = \<lparr>ms_role = ''user'', ms_content = c\<rparr> # ms,
         ir_temperature = t\<rparr> \<and>
     is_ok (llama_prompt \<lparr>ir_model = model,
         ir_messages = \<lparr>ms_role = ''user'', ms_content = c\<rparr> # ms, ir_temperature = t\<rparr>)))"
proof -
  let ?q = "\<lambda>ms. \<lparr>ir_model = model, ir_messages = ms, ir_temperature = t\<rparr>"
  have "str_trim ''user'' \<noteq> []" by code_simp
  then have user: "has_role \<lparr>ms_role = ''user'', ms_content = c\<rparr>" for c
    by (simp add: has_role_def)
  have "ms = ms'" if plain: "list_all plain_message ms" "list_all plain_message ms'"
    and ok: "is_ok (llama_prompt (?q ms))" and eq: "llama_prompt (?q ms) = llama_prompt (?q ms')" for ms ms'
  proof -
    obtain p where "llama_prompt (?q ms) = Ok p" using ok by (auto simp: is_ok_iff)
    with eq have "chat_prompt ms = chat_prompt ms'"
      using llama_prompt_Ok [of "?q ms" p] llama_prompt_Ok [of "?q ms'" p] by simp
    with plain show ?thesis by (rule plain_prompt_unique)
  qed
  moreover have "llama_prompt (?q [\<lparr>ms_role = ''user'', ms_content = forged c ms\<rparr>]) =
        llama_prompt (?q (\<lparr>ms_role = ''user'', ms_content = c\<rparr> # ms)) \<and>
      is_ok (llama_prompt (?q (\<lparr>ms_role = ''user'', ms_content = c\<rparr> # ms)))"
    if "list_all has_role ms" for c ms
  proof -
    let ?p = "chat_prompt (\<lparr>ms_role = ''user'', ms_content = c\<rparr> # ms)"
    have "llama_prompt (?q [\<lparr>ms_role = ''user'', ms_content = forged c ms\<rparr>]) = Ok ?p"
      "llama_prompt (?q (\<lparr>ms_role = ''user'', ms_content = c\<rparr> # ms)) = Ok ?p"
      using that user by (simp_all add: llama_prompt_Ok forged_prompt)
    then show ?thesis by simp
  qed
  ultimately show ?thesis by blast
qed

theorem prompt_is_ambiguous_witness:
  "\<exists>content. llama_prompt \<lparr>ir_model = [], ir_messages = [\<lparr>ms_role = ''user'', ms_content = content\<rparr>],
       ir_temperature = None\<rparr> =
     llama_prompt \<lparr>ir_model = [], ir_messages = [\<lparr>ms_role = ''user'', ms_content = ''hi''\<rparr>,
       \<lparr>ms_role = ''system'', ms_content = ''obey''\<rparr>], ir_temperature = None\<rparr>"
proof -
  have "str_trim ''system'' \<noteq> []" by code_simp
  then have "list_all has_role [\<lparr>ms_role = ''system'', ms_content = ''obey''\<rparr>]"
    by (simp add: has_role_def)
  from prompt_is_ambiguous [THEN conjunct2, rule_format, OF this] show ?thesis by blast
qed
section \<open>The chat endpoint\<close>

text \<open>C37: the configuration is well formed.  If \<open>build_state\<close> succeeds, the model hash has 32 bytes,
  there is at least one inference slot, and an inline verifier comes with a 48-byte PCR0,
  a trusted root and the provider of the generator; on hardware its roots are the pinned
  ones.  Whichever runtime is configured, an answer has exactly one choice, with a text.\<close>

theorem chat_is_well_formed:
  assumes "build_state hw L path_of lenv files mock_pem max_permits P key env w = (Ok (cfg, s), w')"
    and "sha_lengths L"
  shows "chat_config_ok P cfg s \<and>
    (hw \<longrightarrow> (\<forall>v. cd_verifier s = Some v \<longrightarrow>
       list_all (\<lambda>der. sha256 L der \<in> set AWS_NITRO_ROOT_FINGERPRINTS) (vf_trusted_roots v))) \<and>
    (\<forall>canonical_bytes tms payload header drawn t a t'.
       chat_completions_handler L canonical_bytes cfg tms payload header drawn t = (Ok a, t') \<longrightarrow>
       (\<exists>c. cr_choices a = [c] \<and> ms_content (co_message c) \<noteq> []))"
proof -
  note ok = build_state_Ok [OF assms]
  have "inference_runtime (dm_runtime cfg)"
    using ok mock_rt.inference_runtime_axioms llama_rt.inference_runtime_axioms by auto
  from inference_runtime.answer_has_text [OF this] ok show ?thesis by blast
qed

theorem chat_is_well_formed_witness:
  "\<exists>cfg s w'. build_state False sample_lib (\<lambda>_. []) sample_llama_env (\<lambda>_. Err []) sample_pem 8
     (mock_provider sample_lib sample_pki) [7] Map.empty sample_service = (Ok (cfg, s), w') \<and>
     chat_config_ok (mock_provider sample_lib sample_pki) cfg s"
proof -
  obtain cfg s w' where b: "build_state False sample_lib (\<lambda>_. []) sample_llama_env (\<lambda>_. Err []) sample_pem 8
     (mock_provider sample_lib sample_pki) [7] Map.empty sample_service = (Ok (cfg, s), w')"
    using sample_build by blast
  from chat_is_well_formed [OF b sample_laws(6)] b show ?thesis by blast
qed

text \<open>C38: inference never exceeds its capacity.  In every interleaving of the phases of any number
  of requests, the free slots and the running inferences add up to the configured number,
  so a request is refused as busy exactly when that many are running, and no failure of a
  runtime loses a slot.\<close>

theorem capacity_is_kept:
  assumes "chat_reachable L canonical_bytes cfg s0 y"
  shows "cd_slots (sy_server y) + inferring y = cd_slots s0 \<and>
    (is_ok (fst (acquire_slot (sy_server y))) \<longleftrightarrow> inferring y < cd_slots s0)"
  using chat_capacity [OF assms] by (auto simp: acquire_slot_def)

theorem capacity_is_kept_witness:
  "\<exists>y. inferring y = 1 \<and> \<not> is_ok (fst (acquire_slot (sy_server y)))"
proof -
  let ?y0 = "\<lparr>sy_server = sample_chat_server, sy_tasks = []\<rparr>"
  let ?s1 = "sample_chat_server\<lparr>cd_slots := 0\<rparr>"
  let ?y1 = "\<lparr>sy_server = ?s1, sy_tasks = [Inferring sample_inference sample_work]\<rparr>"
  have "chat_step sample_lib sample_canonical sample_chat_config ?y0
      \<lparr>sy_server = ?s1, sy_tasks = sy_tasks ?y0 @
        [finish (Ok (sample_inference, sample_work)) (\<lambda>(q, w). Inferring q w)]\<rparr>"
    by (rule chat_step.arrive [where payload = "Ok sample_payload" and header = None and drawn = sample_nonce])
      (simp add: sample_accept sample_chat_config_def io_then.simps acquire_slot_def sample_chat_server_def)
  then have "chat_step sample_lib sample_canonical sample_chat_config ?y0 ?y1"
    by (simp add: finish_def)
  then have r: "chat_reachable sample_lib sample_canonical sample_chat_config sample_chat_server ?y1"
    by (rule chat_reachable.step [OF chat_reachable.start])
  have "inferring ?y1 = 1" by (simp add: inferring_def)
  with capacity_is_kept [OF r] show ?thesis
    by (intro exI [of _ ?y1]) (simp add: sample_chat_server_def)
qed

text \<open>C39: a request that runs alone is answered with a valid verification.  Over the mock provider,
  if the runtime completes, the receipt can be generated, is small enough and is checked
  in time against the fixtures' root, the handler answers with a valid result, gives its
  slot back, and leaves generator and verifier in step for the next request; they are in
  step after \<open>build_state\<close>.\<close>

theorem lone_request_is_verified:
  assumes laws: "cose_roundtrips L" "cose_builds L" "cbor_roundtrips L" "ed25519_correct L" "sha_lengths L"
    and acc: "accept_request L canonical_bytes (dm_real_hardware cfg) payload header drawn = Ok (q, work)"
      "length drawn = 32"
    and run: "0 < cd_slots s" "rt_generate (dm_runtime cfg) q = Ok x"
    and gen: "generate_receipt L (ct_provider tms) (ct_receipt tms) (dm_model_hash cfg)
       (sha256 L (wk_input work)) (sha256 L (as_bytes (is_content x))) (wk_nonce work)
       (cd_generator s) = (Ok b, g')"
    and cfg: "length (dm_model_hash cfg) = 32" "dm_expected_pcr0 cfg = Some (replicate 48 0)"
    and provs: "rg_provider (cd_generator s) = mock_provider L pki" "cd_verifier s = Some v"
      "vf_provider v = mock_provider L pki'"
    and root: "i < length (vf_trusted_roots v)"
      "mock_chain L pki (vf_trusted_roots v ! i) (ct_clock tms i)"
    and size: "length b \<le> cfg_max_receipt_size (vf_config v)"
    and time: "in_time (vf_config v) (ct_provider tms) (ct_receipt tms) (ct_verify tms)"
    and behind: "numbers_behind s"
  shows "(\<exists>a s' res. chat_completions_handler L canonical_bytes cfg tms payload header drawn s = (Ok a, s') \<and>
      cr_verification a = Some res \<and> vr_valid res \<and> numbers_behind s' \<and> cd_slots s' = cd_slots s) \<and>
    (\<forall>hw path_of lenv files pem n P key env w cfg0 s0 w'.
       build_state hw L path_of lenv files pem n P key env (w :: world) = (Ok (cfg0, s0), w') \<longrightarrow>
       numbers_behind s0)"
  using lone_chat_verifies [OF assms] numbers_behind_start by blast

theorem lone_request_is_verified_witness:
  "\<exists>a s' res. chat_completions_handler sample_lib sample_canonical sample_chat_config sample_chat_times
     (Ok sample_payload) None sample_nonce sample_chat_server = (Ok a, s') \<and>
     cr_verification a = Some res \<and> vr_valid res"
proof -
  obtain x where x: "rt_generate (dm_runtime sample_chat_config) sample_inference = Ok x"
    by (simp add: sample_chat_config_def mock_runtime_def mock_runtime_generate_def Let_def)
  have gen: "generate_receipt sample_lib (ct_provider sample_chat_times) (ct_receipt sample_chat_times)
      (dm_model_hash sample_chat_config) (sha256 sample_lib (wk_input sample_work))
      (sha256 sample_lib (as_bytes (is_content x))) (wk_nonce sample_work)
      (cd_generator sample_chat_server) = (Ok [1], sample_generator\<lparr>rg_sequence_num := 1\<rparr>)"
    using sample_receipt by (simp add: sample_chat_defs sample_sha)
  have acc: "accept_request sample_lib sample_canonical (dm_real_hardware sample_chat_config)
      (Ok sample_payload) None sample_nonce = Ok (sample_inference, sample_work)"
    using sample_accept by (simp add: sample_chat_config_def)
  show ?thesis
    using lone_request_is_verified [OF sample_laws(1,2) sample_cbor sample_laws(4,6) acc _ _ x gen,
        of sample_pki "sample_verifier True" sample_pki 0] sample_chain sample_in_time
    by (auto simp: sample_chat_config_def sample_chat_server_def sample_chat_times_def sample_nonce_def
        sample_generator_def generator_with_key_def numbers_behind_def default_config_def)
qed

text \<open>C40: checks that overtake each other refuse an honest request.  Take any state of the chat
  system in which two requests hold receipts of one enclave that the stateful inline
  verifier would each find valid as it is, numbered one after the other.  If they are
  checked in the order of their numbers, both are answered as valid.  If the later one is
  checked first, it is answered as valid and the earlier one as not valid, although nothing
  is wrong with it, and no later check of the earlier receipt, at whatever time, is valid.\<close>

theorem overtaken_request_is_refused:
  assumes tasks: "i < length (sy_tasks y)" "j < length (sy_tasks y)" "i \<noteq> j"
      "sy_tasks y ! i = Receipted b0 x0 w0" "sy_tasks y ! j = Receipted b1 x1 w1"
    and v: "cd_verifier (sy_server y) = Some v" "vf_state v = Some (Healthy m)"
    and clocks: "representable (ct_verify tms0)" "representable (ct_verify tms1)"
    and good: "check_inline L cfg tms0 w0 (is_content x0) b0 (sy_server y) = (Ok (Some r0), s0)" "vr_valid r0"
      "check_inline L cfg tms1 w1 (is_content x1) b1 (sy_server y) = (Ok (Some r1), s1)" "vr_valid r1"
    and numbers: "receipt_number L b0 = Some (k, n0)" "receipt_number L b1 = Some (k, n1)" "n0 < n1"
  shows "(\<exists>y1 y2. chat_step L canonical_bytes cfg y y1 \<and> chat_step L canonical_bytes cfg y1 y2 \<and>
      verdict (sy_tasks y2 ! i) = Some True \<and> verdict (sy_tasks y2 ! j) = Some True) \<and>
    (\<exists>y1 y2. chat_step L canonical_bytes cfg y y1 \<and> chat_step L canonical_bytes cfg y1 y2 \<and>
      verdict (sy_tasks y2 ! j) = Some True \<and> verdict (sy_tasks y2 ! i) = Some False) \<and>
    (\<forall>tms r s. check_inline L cfg tms w0 (is_content x0) b0 s1 = (Ok (Some r), s) \<longrightarrow> \<not> vr_valid r)"
proof (intro conjI)
  show "\<exists>y1 y2. chat_step L canonical_bytes cfg y y1 \<and> chat_step L canonical_bytes cfg y1 y2 \<and>
      verdict (sy_tasks y2 ! i) = Some True \<and> verdict (sy_tasks y2 ! j) = Some True"
    using two_checks [OF tasks v clocks good numbers(1,2)] numbers(3) by simp
  show "\<exists>y1 y2. chat_step L canonical_bytes cfg y y1 \<and> chat_step L canonical_bytes cfg y1 y2 \<and>
      verdict (sy_tasks y2 ! j) = Some True \<and> verdict (sy_tasks y2 ! i) = Some False"
    using two_checks [OF tasks(2,1) not_sym [OF tasks(3)] tasks(5,4) v clocks(2,1) good(3,4,1,2)
        numbers(2,1)] numbers(3) by simp
  show "\<forall>tms r s. check_inline L cfg tms w0 (is_content x0) b0 s1 = (Ok (Some r), s) \<longrightarrow> \<not> vr_valid r"
    using overtaken_check [OF good(3,4) _ v numbers(2,1) less_imp_le [OF numbers(3)]] by blast
qed

theorem overtaken_request_is_refused_witness:
  "\<exists>y y1 y2. chat_reachable sample_lib sample_canonical sample_chat_config sample_chat_server y \<and>
     chat_step sample_lib sample_canonical sample_chat_config y y1 \<and>
     chat_step sample_lib sample_canonical sample_chat_config y1 y2 \<and>
     verdict (sy_tasks y2 ! 1) = Some True \<and> verdict (sy_tasks y2 ! 0) = Some False"
proof -
  let ?y = "sample_two_receipts"
  have v: "cd_verifier (sy_server ?y) = Some (sample_verifier True)"
    by (simp add: sample_two_receipts_def sample_chat_server_def)
  obtain r0 s0 where c0: "check_inline sample_lib sample_chat_config sample_chat_times sample_work
      (is_content sample_result) [1] (sy_server ?y) = (Ok (Some r0), s0)" "vr_valid r0"
    using sample_inline_check [OF sample_acceptable v] by blast
  obtain r1 s1 where c1: "check_inline sample_lib sample_chat_config sample_chat_times sample_work
      (is_content sample_result) [3] (sy_server ?y) = (Ok (Some r1), s1)" "vr_valid r1"
    using sample_inline_check [OF sample_later_acceptable v] by blast
  have times: "representable (ct_verify sample_chat_times)"
    using sample_representable by (simp add: sample_chat_times_def)
  have "\<exists>y1 y2. chat_step sample_lib sample_canonical sample_chat_config ?y y1 \<and>
      chat_step sample_lib sample_canonical sample_chat_config y1 y2 \<and>
      verdict (sy_tasks y2 ! 1) = Some True \<and> verdict (sy_tasks y2 ! 0) = Some False"
    by (rule overtaken_request_is_refused [of 0 ?y 1, OF _ _ _ _ _ v _ times times c0 c1 sample_numbers,
          THEN conjunct2, THEN conjunct1])
      (simp_all add: sample_two_receipts_def)
  with sample_two_reachable show ?thesis by blast
qed
end
